(* ===== verification/Prelude.thy ===== *)
theory Prelude
  imports Main "HOL-Library.Word" "HOL-Library.Sublist"
begin

text \<open>
  Shared vocabulary of the development: Rust's integer widths, the outcome of a dispatchable
  function (return with storage, error return with the storage as it stands at that point, or
  panic), and runs of a pallet: finite sequences of dispatched calls. Two interfaces are stated
  here as locales: \<open>call_machine\<close> (an invariant, indexed by the number of calls, that every call
  keeps) and \<open>call_growth\<close> (a preorder that every call moves up in). Their lemmas lift one-call facts
  to runs once and for all; the pallets interpret them.
\<close>

section \<open>Rust integers and bytes\<close>

type_synonym u8 = "8 word"
type_synonym u16 = "16 word"
type_synonym u32 = "32 word"
type_synonym u64 = "64 word"
type_synonym u128 = "128 word"
type_synonym bytes = "u8 list"

named_theorems pallet_defs "definitions of the dispatchable functions"
named_theorems outcome_simps "projections of call outcomes"

section \<open>Outcomes of dispatchable functions\<close>

text \<open>
  \<open>Ok s\<close>: the function returned \<open>Ok(())\<close> with storage \<open>s\<close>. \<open>Err e s\<close>: it returned an error; \<open>s\<close> is the
  storage as the function left it (FRAME may roll it back afterwards). \<open>Panic\<close>: the runtime aborted.
\<close>

datatype ('s, 'e) outcome = Ok 's | Err 'e 's | Panic

text \<open>\<open>BadOrigin\<close> is what a failed origin check converts to; \<open>Module e\<close> carries a pallet's error.\<close>

datatype 'e dispatch_error = BadOrigin | Module 'e

fun is_ok :: "('s, 'e) outcome \<Rightarrow> bool" where
  "is_ok (Ok s) = True"
| "is_ok (Err e s) = False"
| "is_ok Panic = False"

fun error_of :: "('s, 'e) outcome \<Rightarrow> 'e option" where
  "error_of (Ok s) = None"
| "error_of (Err e s) = Some e"
| "error_of Panic = None"

text \<open>The storage after a call whose failure is rolled back, from storage \<open>s\<close>.\<close>

fun committed :: "'s \<Rightarrow> ('s, 'e) outcome \<Rightarrow> 's" where
  "committed s (Ok t) = t"
| "committed s (Err e t) = s"
| "committed s Panic = s"

lemma is_ok_iff: "is_ok r \<longleftrightarrow> (\<exists>s. r = Ok s)"
  by (cases r) simp_all

section \<open>Runs of calls\<close>

text \<open>
  \<open>runs exec n s t\<close>: \<open>n\<close> calls lead from \<open>s\<close> to \<open>t\<close>. A call that returned an error may keep the
  storage it had written so far (\<open>runs_err\<close>); a call that was rolled back or that panicked changes
  nothing and needs no rule. A property of all runs therefore does not depend on whether FRAME wraps
  dispatchables in a storage transaction.
\<close>

inductive runs :: "('c \<Rightarrow> 's \<Rightarrow> ('s, 'e) outcome) \<Rightarrow> nat \<Rightarrow> 's \<Rightarrow> 's \<Rightarrow> bool" for exec where
  runs_refl: "runs exec 0 s s"
| runs_ok: "runs exec n s t \<Longrightarrow> exec c t = Ok u \<Longrightarrow> runs exec (Suc n) s u"
| runs_err: "runs exec n s t \<Longrightarrow> exec c t = Err e u \<Longrightarrow> runs exec (Suc n) s u"

inductive_cases runs_zeroE: "runs exec 0 s t"
inductive_cases runs_SucE: "runs exec (Suc n) s t"

lemma runs_one_ok: "exec c s = Ok t \<Longrightarrow> runs exec 1 s t"
  using runs_ok [OF runs_refl] by (metis One_nat_def)

lemma runs_trans: "runs exec n t u \<Longrightarrow> runs exec m s t \<Longrightarrow> runs exec (m + n) s u"
  by (induction rule: runs.induct) (auto intro: runs.intros)

locale call_machine =
  fixes exec :: "'c \<Rightarrow> 's \<Rightarrow> ('s, 'e) outcome"
    and inv :: "nat \<Rightarrow> 's \<Rightarrow> bool"
  assumes ok_inv: "inv n s \<Longrightarrow> exec c s = Ok t \<Longrightarrow> inv (Suc n) t"
    and err_inv: "inv n s \<Longrightarrow> exec c s = Err e t \<Longrightarrow> inv (Suc n) t"
begin

lemma runs_inv: "runs exec n s t \<Longrightarrow> inv m s \<Longrightarrow> inv (m + n) t"
proof (induction rule: runs.induct)
  case (runs_refl s)
  then show ?case by simp
next
  case (runs_ok n s t c u)
  then show ?case by (simp add: ok_inv)
next
  case (runs_err n s t c e u)
  then show ?case by (simp add: err_inv)
qed

lemma runs_inv0: "runs exec n s t \<Longrightarrow> inv 0 s \<Longrightarrow> inv n t"
  using runs_inv [of n s t 0] by simp

end

locale call_growth =
  fixes exec :: "'c \<Rightarrow> 's \<Rightarrow> ('s, 'e) outcome"
    and le :: "'s \<Rightarrow> 's \<Rightarrow> bool"
  assumes le_refl: "le s s"
    and le_trans: "le s t \<Longrightarrow> le t u \<Longrightarrow> le s u"
    and ok_le: "exec c s = Ok t \<Longrightarrow> le s t"
    and err_le: "exec c s = Err e t \<Longrightarrow> le s t"
begin

lemma runs_le: "runs exec n s t \<Longrightarrow> le s t"
proof (induction rule: runs.induct)
  case (runs_refl s)
  show ?case by (rule le_refl)
next
  case (runs_ok n s t c u)
  then show ?case using le_trans ok_le by blast
next
  case (runs_err n s t c e u)
  then show ?case using le_trans err_le by blast
qed

end

text \<open>
  A machine \<open>part\<close> that is one component of a larger machine \<open>exec\<close>: every call of the larger one either is a
  call of the component, or leaves the component's state alone. Runs of the whole then project to runs of the part.
\<close>

locale machine_part =
  fixes exec :: "'c \<Rightarrow> 's \<Rightarrow> ('s, 'e) outcome"
    and part :: "'d \<Rightarrow> 't \<Rightarrow> ('t, 'f) outcome"
    and get :: "'s \<Rightarrow> 't"
  assumes ok_part: "exec c s = Ok u \<Longrightarrow> get u = get s \<or> (\<exists>d. part d (get s) = Ok (get u))"
    and err_part: "exec c s = Err e u \<Longrightarrow> get u = get s \<or> (\<exists>d f. part d (get s) = Err f (get u))"
begin

lemma runs_part: "runs exec n s t \<Longrightarrow> \<exists>k \<le> n. runs part k (get s) (get t)"
proof (induction rule: runs.induct)
  case (runs_refl s)
  show ?case by (auto intro: runs.runs_refl)
next
  case (runs_ok n s t c u)
  then obtain k where k: "k \<le> n" "runs part k (get s) (get t)" by blast
  from ok_part [OF runs_ok.hyps(2)] show ?case
  proof
    assume "get u = get t"
    with k show ?thesis by (intro exI [of _ k]) simp
  next
    assume "\<exists>d. part d (get t) = Ok (get u)"
    with k have "runs part (Suc k) (get s) (get u)" by (blast intro: runs.runs_ok)
    with k show ?thesis by (intro exI [of _ "Suc k"]) simp
  qed
next
  case (runs_err n s t c e u)
  then obtain k where k: "k \<le> n" "runs part k (get s) (get t)" by blast
  from err_part [OF runs_err.hyps(2)] show ?case
  proof
    assume "get u = get t"
    with k show ?thesis by (intro exI [of _ k]) simp
  next
    assume "\<exists>d f. part d (get t) = Err f (get u)"
    with k have "runs part (Suc k) (get s) (get u)" by (blast intro: runs.runs_err)
    with k show ?thesis by (intro exI [of _ "Suc k"]) simp
  qed
qed

end

section \<open>Facts on lists, maps and words used by several components\<close>

lemma prefix_snoc_self [simp]: "prefix xs (xs @ [x])"
  by (simp add: prefix_def)

lemma prefix_full_eq: "prefix xs ys \<Longrightarrow> length ys \<le> length xs \<Longrightarrow> ys = xs"
  by (auto simp: prefix_def)

lemma unat_Suc_word: "unat (w + 1 :: 'a::len word) \<le> Suc (unat w)"
  by (simp add: unat_word_ariths)

lemma word_plus_one_gt:
  fixes w :: "'a::len word"
  assumes "Suc (unat w) < 2 ^ LENGTH('a)"
  shows "unat (w + 1) = Suc (unat w)"
  using assms by (simp add: unat_word_ariths)

lemma unat_plus_fits:
  fixes v w :: "'a::len word"
  assumes "unat v + unat w < 2 ^ LENGTH('a)"
  shows "unat (v + w) = unat v + unat w"
  using assms by (simp add: unat_word_ariths)

end
