(* ===== verification/Rust_Std.thy ===== *)
theory Rust_Std
  imports Prelude
begin

text \<open>
  What the source uses of Rust's core and standard libraries. A \<open>String\<close> (and a \<open>&str\<close>) is its byte
  sequence; that the bytes are valid UTF-8 is the predicate \<open>utf8_valid\<close>, which is also what
  \<open>core::str::from_utf8\<close> and \<open>String::from_utf8\<close> test. Here too: \<open>u32::to_string\<close> (decimal), \<open>join\<close> of a
  vector of strings, \<open>u32::checked_next_power_of_two\<close> and \<open>u64::saturating_sub\<close>.
\<close>

section \<open>Strings\<close>

text \<open>A string literal of the source as bytes.\<close>

definition str :: "string \<Rightarrow> bytes" where
  "str s = map of_char s"

lemma str_simps:
  "str [] = []" "str (c # s) = of_char c # str s" "str (s @ t) = str s @ str t"
  by (simp_all add: str_def)

lemma length_str [simp]: "length (str s) = length s"
  by (simp add: str_def)

definition utf8_cont :: "u8 \<Rightarrow> bool" where
  "utf8_cont b \<longleftrightarrow> 128 \<le> b \<and> b \<le> 191"

text \<open>
  The byte classes of \<open>core::str::from_utf8\<close>: one-byte sequences below 128; two-byte sequences led by
  194 to 223; three-byte sequences led by 224 (second byte 160 to 191), 237 (second byte 128 to 159)
  or another byte of 225 to 239; four-byte sequences led by 240 (second byte 144 to 191), 241 to 243,
  or 244 (second byte 128 to 143).
\<close>

fun utf8_step :: "u8 \<Rightarrow> bytes \<Rightarrow> bytes option" where
  "utf8_step b bs =
    (if b < 128 then Some bs
     else if 194 \<le> b \<and> b \<le> 223 then
       (case bs of c1 # r \<Rightarrow> (if utf8_cont c1 then Some r else None) | _ \<Rightarrow> None)
     else if 224 \<le> b \<and> b \<le> 239 then
       (case bs of c1 # c2 # r \<Rightarrow>
          (if utf8_cont c1 \<and> (b = 224 \<longrightarrow> 160 \<le> c1) \<and> (b = 237 \<longrightarrow> c1 \<le> 159) \<and> utf8_cont c2
           then Some r else None)
        | _ \<Rightarrow> None)
     else if 240 \<le> b \<and> b \<le> 244 then
       (case bs of c1 # c2 # c3 # r \<Rightarrow>
          (if utf8_cont c1 \<and> (b = 240 \<longrightarrow> 144 \<le> c1) \<and> (b = 244 \<longrightarrow> c1 \<le> 143) \<and> utf8_cont c2 \<and> utf8_cont c3
           then Some r else None)
        | _ \<Rightarrow> None)
     else None)"

lemma utf8_step_append: "utf8_step b bs = Some r \<Longrightarrow> utf8_step b (bs @ ys) = Some (r @ ys)"
  by (auto split: if_split_asm list.split_asm)

lemma utf8_step_shorter: "utf8_step b bs = Some r \<Longrightarrow> length r \<le> length bs"
  by (auto split: if_split_asm list.split_asm)

declare utf8_step.simps [simp del]

function utf8_valid :: "bytes \<Rightarrow> bool" where
  "utf8_valid [] = True"
| "utf8_valid (b # bs) = (case utf8_step b bs of None \<Rightarrow> False | Some r \<Rightarrow> utf8_valid r)"
  by pat_completeness auto
termination
  by (relation "measure length") (auto dest: utf8_step_shorter)

lemma utf8_step_ascii [simp]: "b < 128 \<Longrightarrow> utf8_step b bs = Some bs"
  by (simp add: utf8_step.simps)

lemma utf8_valid_ascii: "(\<And>b. b \<in> set bs \<Longrightarrow> b < 128) \<Longrightarrow> utf8_valid bs"
  by (induction bs) auto

lemma utf8_valid_append: "utf8_valid xs \<Longrightarrow> utf8_valid ys \<Longrightarrow> utf8_valid (xs @ ys)"
proof (induction xs rule: utf8_valid.induct)
  case 1
  then show ?case by simp
next
  case (2 b bs)
  then show ?case by (auto simp: utf8_step_append split: option.splits)
qed

section \<open>Decimal printing and joining\<close>

text \<open>\<open>u32::to_string\<close> on the number's value; \<open>48\<close> is the byte of the digit zero.\<close>

fun dec :: "nat \<Rightarrow> bytes" where
  "dec n = (if n < 10 then [48 + of_nat n] else dec (n div 10) @ [48 + of_nat (n mod 10)])"

declare dec.simps [simp del]

definition to_string_u32 :: "u32 \<Rightarrow> bytes" where
  "to_string_u32 w = dec (unat w)"

definition digit :: "u8 \<Rightarrow> bool" where
  "digit b \<longleftrightarrow> 48 \<le> b \<and> b \<le> 57"

definition undec :: "bytes \<Rightarrow> nat" where
  "undec bs = foldl (\<lambda>n b. 10 * n + unat (b - 48)) 0 bs"

lemma undec_snoc: "undec (bs @ [b]) = 10 * undec bs + unat (b - 48)"
  by (simp add: undec_def)

lemma unat_digit: "n < 10 \<Longrightarrow> unat (48 + of_nat n - 48 :: u8) = n"
  by (simp add: unat_of_nat)

lemma digit_of_nat: "n < 10 \<Longrightarrow> digit (48 + of_nat n)"
proof -
  assume n: "n < 10"
  then have "unat (48 + of_nat n :: u8) = 48 + n"
    by (simp add: unat_word_ariths unat_of_nat)
  with n show ?thesis
    by (simp add: digit_def word_le_nat_alt)
qed

lemma undec_dec [simp]: "undec (dec n) = n"
proof (induction n rule: dec.induct)
  case (1 n)
  show ?case
  proof (cases "n < 10")
    case True
    then show ?thesis by (simp add: dec.simps [of n] undec_def unat_of_nat)
  next
    case False
    with 1 show ?thesis by (simp add: dec.simps [of n] undec_snoc unat_of_nat)
  qed
qed

lemma dec_digits: "b \<in> set (dec n) \<Longrightarrow> digit b"
proof (induction n rule: dec.induct)
  case (1 n)
  then show ?case
    by (auto simp: dec.simps [of n] digit_of_nat split: if_splits)
qed

lemma dec_not_Nil [simp]: "dec n \<noteq> []"
  by (simp add: dec.simps [of n])

lemma to_string_u32_inject: "to_string_u32 v = to_string_u32 w \<Longrightarrow> v = w"
  by (metis to_string_u32_def undec_dec word_unat_eq_iff)

text \<open>\<open>[String]::join(sep)\<close> with a one-byte separator.\<close>

fun join :: "u8 \<Rightarrow> bytes list \<Rightarrow> bytes" where
  "join sep [] = []"
| "join sep [x] = x"
| "join sep (x # y # ys) = x @ sep # join sep (y # ys)"

text \<open>Cutting at every separator, the reading side of \<open>join\<close>.\<close>

fun cut :: "u8 \<Rightarrow> bytes \<Rightarrow> bytes list" where
  "cut sep [] = [[]]"
| "cut sep (b # bs) =
     (if b = sep then [] # cut sep bs
      else case cut sep bs of [] \<Rightarrow> [[b]] | p # ps \<Rightarrow> (b # p) # ps)"

lemma cut_no_sep: "sep \<notin> set x \<Longrightarrow> cut sep x = [x]"
  by (induction x) auto

lemma cut_append_sep: "sep \<notin> set x \<Longrightarrow> cut sep (x @ sep # ys) = x # cut sep ys"
  by (induction x) auto

text \<open>
  The printed form of a list of numbers. The only law the printing relies on is that the separator
  is not a digit; both separators of the source are instances below.
\<close>

locale number_list =
  fixes sep :: u8
  assumes sep_not_digit: "\<not> digit sep"
begin

lemma sep_notin: "sep \<notin> set (to_string_u32 w)"
  using sep_not_digit dec_digits by (auto simp: to_string_u32_def)

lemma cut_join: "ws \<noteq> [] \<Longrightarrow> cut sep (join sep (map to_string_u32 ws)) = map to_string_u32 ws"
  by (induction ws rule: induct_list012) (simp_all add: cut_append_sep cut_no_sep sep_notin)

lemma join_Nil_iff: "join sep (map to_string_u32 ws) = [] \<longleftrightarrow> ws = []"
  by (cases ws rule: remdups_adj.cases) (simp_all add: to_string_u32_def)

lemma join_inject:
  assumes "join sep (map to_string_u32 vs) = join sep (map to_string_u32 ws)"
  shows "vs = ws"
proof (cases "vs = [] \<or> ws = []")
  case True
  with assms show ?thesis by (metis join_Nil_iff)
next
  case False
  with assms cut_join have "map to_string_u32 vs = map to_string_u32 ws" by metis
  then show ?thesis by (rule map_injective) (auto simp: inj_def dest: to_string_u32_inject)
qed

lemma join_bytes: "b \<in> set (join sep (map to_string_u32 ws)) \<Longrightarrow> digit b \<or> b = sep"
  by (induction ws rule: induct_list012) (auto simp: to_string_u32_def dest: dec_digits)

end

interpretation dotted: number_list 46
  by unfold_locales (simp add: digit_def)

interpretation colon: number_list 58
  by unfold_locales (simp add: digit_def)

section \<open>Indexing\<close>

text \<open>\<open>v[i]\<close> on a vector, \<open>None\<close> where it panics.\<close>

definition index_vec :: "'x list \<Rightarrow> nat \<Rightarrow> 'x option" where
  "index_vec xs i = (if i < length xs then Some (xs ! i) else None)"

section \<open>Integer operations\<close>

text \<open>
  \<open>u32::checked_next_power_of_two\<close>: the least power of two not below the argument, \<open>None\<close> when it does
  not fit.
\<close>

fun next_pow2 :: "nat \<Rightarrow> nat" where
  "next_pow2 n = (if n \<le> 1 then 1 else 2 * next_pow2 ((n + 1) div 2))"

declare next_pow2.simps [simp del]

definition checked_next_power_of_two :: "u32 \<Rightarrow> u32 option" where
  "checked_next_power_of_two w =
     (if next_pow2 (unat w) < 2 ^ 32 then Some (of_nat (next_pow2 (unat w))) else None)"

lemma next_pow2_is_power: "\<exists>k. next_pow2 n = 2 ^ k"
proof (induction n rule: next_pow2.induct)
  case (1 n)
  then show ?case
    by (metis next_pow2.simps power_0 power_Suc)
qed

lemma next_pow2_ge: "n \<le> next_pow2 n"
proof (induction n rule: next_pow2.induct)
  case (1 n)
  then show ?case by (cases "n \<le> 1") (auto simp: next_pow2.simps [of n])
qed


definition saturating_sub_u64 :: "u64 \<Rightarrow> u64 \<Rightarrow> u64" where
  "saturating_sub_u64 a b = (if a < b then 0 else a - b)"

definition saturating_mul_u64 :: "u64 \<Rightarrow> u64 \<Rightarrow> u64" where
  "saturating_mul_u64 a b = (if unat a * unat b < 2 ^ 64 then a * b else - 1)"

end
