(* ===== verification/Frame.thy ===== *)
theory Frame
  imports Rust_Std
begin

text \<open>
  The Substrate interfaces the pallets call. Substrate is not part of the repository, so each of its
  functions is a parameter of the model: a field of a record that the definitions take as an
  argument. What the pallets rely on is stated as the assumptions of a locale per interface, and the
  locale's predicate is the hypothesis of the properties that need it: \<open>bounded_vec\<close> (a vector with a
  type-level bound), \<open>storage_iter\<close> (iterating over a storage map), \<open>scale_codec\<close> (encoding and decoding),
  \<open>origin_checks\<close> (signed and unsigned origins exclude each other). Each is interpreted on a concrete
  instance with the documented behaviour, so the hypotheses can hold together; the witnesses use
  these instances.
\<close>

section \<open>Origins and the block number (frame system)\<close>

text \<open>
  \<open>ensure_signed o\<close> is \<open>Some who\<close> when the origin is signed by \<open>who\<close> and \<open>None\<close> for its \<open>BadOrigin\<close>
  error; \<open>ensure_none o\<close> says whether the origin is the unsigned one; \<open>block_number\<close> is the number of
  the block being executed.
\<close>

record ('o, 'a) frame_system =
  ensure_signed :: "'o \<Rightarrow> 'a option"
  ensure_none :: "'o \<Rightarrow> bool"
  block_number :: u32

locale origin_checks =
  fixes sys :: "('o, 'a) frame_system"
  assumes signed_not_none: "ensure_signed sys orig = Some who \<Longrightarrow> \<not> ensure_none sys orig"
begin

lemma none_not_signed: "ensure_none sys orig \<Longrightarrow> ensure_signed sys orig = None"
  using signed_not_none by (cases "ensure_signed sys orig") auto

end

text \<open>The origins of the runtime: root, a signed account, or none.\<close>

datatype 'a raw_origin = Root | Signed 'a | None_origin

definition raw_system :: "u32 \<Rightarrow> ('a raw_origin, 'a) frame_system" where
  "raw_system now =
     \<lparr>ensure_signed = (\<lambda>orig. case orig of Signed a \<Rightarrow> Some a | _ \<Rightarrow> None),
      ensure_none = (\<lambda>orig. case orig of None_origin \<Rightarrow> True | _ \<Rightarrow> False),
      block_number = now\<rparr>"

lemma raw_system_simps [simp]:
  "ensure_signed (raw_system now) (Signed a) = Some a"
  "ensure_signed (raw_system now) Root = None"
  "ensure_signed (raw_system now) None_origin = None"
  "ensure_none (raw_system now) None_origin"
  "\<not> ensure_none (raw_system now) (Signed a)"
  "\<not> ensure_none (raw_system now) Root"
  "block_number (raw_system now) = now"
  by (simp_all add: raw_system_def)

interpretation raw_origins: origin_checks "raw_system now" for now
  by unfold_locales (auto simp: raw_system_def split: raw_origin.splits)

section \<open>Bounded vectors\<close>

text \<open>
  \<open>try_push n xs x\<close> appends unless the vector already has \<open>n\<close> elements; \<open>try_from_bytes n bs\<close> converts a
  byte vector unless it is longer than \<open>n\<close>.
\<close>

record 'e bounded_ops =
  try_push :: "nat \<Rightarrow> 'e list \<Rightarrow> 'e \<Rightarrow> 'e list option"
  try_from_bytes :: "nat \<Rightarrow> bytes \<Rightarrow> bytes option"

locale bounded_vec =
  fixes bv :: "'e bounded_ops"
  assumes push_room: "length xs < n \<Longrightarrow> try_push bv n xs x = Some (xs @ [x])"
    and push_full: "n \<le> length xs \<Longrightarrow> try_push bv n xs x = None"
    and from_fits: "length bs \<le> n \<Longrightarrow> try_from_bytes bv n bs = Some bs"
    and from_long: "n < length bs \<Longrightarrow> try_from_bytes bv n bs = None"
begin

lemma try_push_eq: "try_push bv n xs x = (if length xs < n then Some (xs @ [x]) else None)"
  by (simp add: push_room push_full)

lemma try_from_eq: "try_from_bytes bv n bs = (if length bs \<le> n then Some bs else None)"
  by (simp add: from_fits from_long)

lemmas bounded_simps = try_push_eq try_from_eq

end

definition vec_ops :: "'e bounded_ops" where
  "vec_ops =
     \<lparr>try_push = (\<lambda>n xs x. if length xs < n then Some (xs @ [x]) else None),
      try_from_bytes = (\<lambda>n bs. if length bs \<le> n then Some bs else None)\<rparr>"

interpretation vec: bounded_vec vec_ops
  by unfold_locales (simp_all add: vec_ops_def)

section \<open>Iterating over a storage map\<close>

text \<open>
  \<open>StorageMap::iter\<close> yields every entry once, in an order that depends on the hashed keys. Storage
  holds finitely many entries, so the law is stated for finite maps.
\<close>

locale storage_iter =
  fixes it :: "('k \<rightharpoonup> 'v) \<Rightarrow> ('k \<times> 'v) list"
  assumes iter_entries: "finite (dom m) \<Longrightarrow> (k, v) \<in> set (it m) \<longleftrightarrow> m k = Some v"
    and iter_distinct: "finite (dom m) \<Longrightarrow> distinct (map fst (it m))"
begin

lemma iter_Nil_iff: "finite (dom m) \<Longrightarrow> it m = [] \<longleftrightarrow> m = Map.empty"
proof
  assume fin: "finite (dom m)" and "it m = []"
  then have "m k = None" for k using iter_entries [of m k] by (cases "m k") auto
  then show "m = Map.empty" by auto
next
  assume fin: "finite (dom m)" and "m = Map.empty"
  then show "it m = []" using iter_entries [of m] by (cases "it m") auto
qed

lemma iter_nth: "finite (dom m) \<Longrightarrow> i < length (it m) \<Longrightarrow> m (fst (it m ! i)) = Some (snd (it m ! i))"
  using iter_entries [of m "fst (it m ! i)" "snd (it m ! i)"] nth_mem by fastforce

end

definition sorted_iter :: "('k::linorder \<rightharpoonup> 'v) \<Rightarrow> ('k \<times> 'v) list" where
  "sorted_iter m = map (\<lambda>k. (k, the (m k))) (sorted_list_of_set (dom m))"

interpretation sorted: storage_iter sorted_iter
  by unfold_locales (auto simp: sorted_iter_def comp_def intro: rev_image_eqI)

section \<open>Encoding\<close>

locale scale_codec =
  fixes encode :: "'x \<Rightarrow> bytes" and decode :: "bytes \<Rightarrow> 'x option"
  assumes decode_encode: "decode (encode x) = Some x"
begin

lemma encode_inject: "encode x = encode y \<Longrightarrow> x = y"
  by (metis decode_encode option.inject)

end

text \<open>Fixed-width integers are encoded little-endian; a byte vector here carries its length implicitly
  as the rest of the input.\<close>

fun le_bytes :: "nat \<Rightarrow> nat \<Rightarrow> bytes" where
  "le_bytes 0 x = []"
| "le_bytes (Suc n) x = of_nat (x mod 256) # le_bytes n (x div 256)"

fun le_value :: "bytes \<Rightarrow> nat" where
  "le_value [] = 0"
| "le_value (b # bs) = unat b + 256 * le_value bs"

lemma length_le_bytes [simp]: "length (le_bytes n x) = n"
  by (induction n arbitrary: x) simp_all

lemma le_value_le_bytes: "le_value (le_bytes n x) = x mod 256 ^ n"
proof (induction n arbitrary: x)
  case 0
  then show ?case by simp
next
  case (Suc n)
  have "unat (of_nat (x mod 256) :: u8) = x mod 256" by (simp add: unat_of_nat)
  with Suc show ?case by (simp add: mod_mult2_eq)
qed

definition encode_u32 :: "u32 \<Rightarrow> bytes" where
  "encode_u32 w = le_bytes 4 (unat w)"

definition decode_u32 :: "bytes \<Rightarrow> u32 option" where
  "decode_u32 bs = (if length bs = 4 then Some (of_nat (le_value bs)) else None)"

definition encode_data :: "bytes \<times> u64 \<Rightarrow> bytes" where
  "encode_data d = le_bytes 8 (unat (snd d)) @ fst d"

definition decode_data :: "bytes \<Rightarrow> (bytes \<times> u64) option" where
  "decode_data bs = (if length bs < 8 then None else Some (drop 8 bs, of_nat (le_value (take 8 bs))))"

interpretation u32_codec: scale_codec encode_u32 decode_u32
proof
  fix w :: u32
  have "unat w < 2 ^ LENGTH(32)" by (rule unsigned_less)
  then have "unat w mod 256 ^ 4 = unat w" by simp
  then show "decode_u32 (encode_u32 w) = Some w"
    by (simp add: encode_u32_def decode_u32_def le_value_le_bytes)
qed

interpretation data_codec: scale_codec encode_data decode_data
proof
  fix d :: "bytes \<times> u64"
  have "unat (snd d) < 2 ^ LENGTH(64)" by (rule unsigned_less)
  then have "unat (snd d) mod 256 ^ 8 = unat (snd d)" by simp
  then show "decode_data (encode_data d) = Some d"
    by (simp add: encode_data_def decode_data_def le_value_le_bytes)
qed

end
