(* ===== verification/Edge_Connect.thy ===== *)
theory Edge_Connect
  imports Frame
begin

text \<open>
  The pallet of \<^verbatim>\<open>pallets/edge-connect/src/lib.rs\<close>: its storage, events, errors, the six dispatchable
  functions, \<open>add_response\<close> and the validation of unsigned transactions. The offchain worker of the
  same file is in theory \<^verbatim>\<open>Edge_Offchain\<close>. Definitions first, then the lemmas: behaviour of each
  call, the storage invariant, append-only growth, and the refinement of an abstract connection with
  two bounded logs.
\<close>

section \<open>Configuration, storage, events and errors\<close>

text \<open>The constants of the pallet's \<open>Config\<close> trait.\<close>

record edge_config =
  GracePeriod :: u32
  UnsignedInterval :: u32
  UnsignedPriority :: u64
  MaxCommand :: u32
  MaxResponses :: u32
  MaxStringLength :: u32

datatype 'a edge_event =
    ConnectionCreated u32 'a
  | ConnectionRemoved u32 'a
  | CommandSent bytes 'a
  | NewResponse bytes "'a option"

datatype edge_error =
    ConnectionAlreadyExists
  | ConnectionDoesNotExist
  | ResponseTooLarge
  | InvalidCommand
  | CommandTooLong
  | TooManyCommands

type_synonym 'a entry = "'a option \<times> bytes"

text \<open>
  The four storage values and the events deposited so far. \<open>Connection\<close> is \<open>None\<close> while the value does
  not exist; the other three are only read through \<open>get\<close>, so they are their value, the type's default
  when unset.
\<close>

record 'a edge_storage =
  Connection :: "u32 option"
  Commands :: "'a entry list"
  Responses :: "'a entry list"
  NextUnsignedAt :: u32
  edge_events :: "'a edge_event list"

definition edge_genesis :: "'a edge_storage" where
  "edge_genesis = \<lparr>Connection = None, Commands = [], Responses = [], NextUnsignedAt = 0, edge_events = []\<rparr>"

text \<open>Events of block 0, of which FRAME deposits none, do not arise: no extrinsic runs in that block.\<close>

definition edge_deposit_event :: "'a edge_event \<Rightarrow> 'a edge_storage \<Rightarrow> 'a edge_storage" where
  "edge_deposit_event e st = st\<lparr>edge_events := edge_events st @ [e]\<rparr>"

type_synonym 'a edge_outcome = "('a edge_storage, edge_error dispatch_error) outcome"

section \<open>Dispatchable functions\<close>

definition create_connection ::
  "('o, 'a) frame_system \<Rightarrow> 'o \<Rightarrow> u32 \<Rightarrow> 'a edge_storage \<Rightarrow> 'a edge_outcome" where
  [pallet_defs]: "create_connection sys orig c st =
    (case ensure_signed sys orig of
       None \<Rightarrow> Err BadOrigin st
     | Some who \<Rightarrow>
         if Connection st \<noteq> None then Err (Module ConnectionAlreadyExists) st
         else
           (let st1 = st\<lparr>Connection := Some c\<rparr> in
            Ok (edge_deposit_event (ConnectionCreated c who) st1)))"

definition send_command ::
  "edge_config \<Rightarrow> 'a entry bounded_ops \<Rightarrow> ('o, 'a) frame_system \<Rightarrow> 'o \<Rightarrow> bytes \<Rightarrow> 'a edge_storage \<Rightarrow> 'a edge_outcome" where
  [pallet_defs]: "send_command cfg bv sys orig cmd st =
    (case ensure_signed sys orig of
       None \<Rightarrow> Err BadOrigin st
     | Some who \<Rightarrow>
         if Connection st = None then Err (Module ConnectionDoesNotExist) st
         else if cmd \<noteq> str ''ping'' then Err (Module InvalidCommand) st
         else
           (case try_from_bytes bv (unat (MaxStringLength cfg)) cmd of
              None \<Rightarrow> Err (Module CommandTooLong) st
            | Some command_bounded_vec \<Rightarrow>
                (let command_tuple = (Some who, command_bounded_vec);
                     current_commands = Commands st in
                 (case try_push bv (unat (MaxCommand cfg)) current_commands command_tuple of
                    None \<Rightarrow> Err (Module TooManyCommands) st
                  | Some current_commands' \<Rightarrow>
                      (let st1 = st\<lparr>Commands := current_commands'\<rparr> in
                       Ok (edge_deposit_event (CommandSent cmd who) st1))))))"

text \<open>
  \<open>add_response\<close> returns nothing, so a response that is too long or one too many is dropped in
  silence; its only failure is the panic of \<open>String::from_utf8(..).unwrap()\<close>, the \<open>None\<close> here.
\<close>

definition add_response ::
  "edge_config \<Rightarrow> 'a entry bounded_ops \<Rightarrow> 'a option \<Rightarrow> bytes \<Rightarrow> 'a edge_storage \<Rightarrow> 'a edge_storage option" where
  [pallet_defs]: "add_response cfg bv maybe_who response st =
    (case try_from_bytes bv (unat (MaxStringLength cfg)) response of
       None \<Rightarrow> Some st
     | Some bounded_response \<Rightarrow>
         (let responses = Responses st in
          (case try_push bv (unat (MaxResponses cfg)) responses (maybe_who, bounded_response) of
             Some responses' \<Rightarrow>
               (let st1 = st\<lparr>Responses := responses'\<rparr> in
                if utf8_valid bounded_response
                then Some (edge_deposit_event (NewResponse bounded_response maybe_who) st1)
                else None)
           | None \<Rightarrow> Some st)))"

definition submit_response ::
  "edge_config \<Rightarrow> 'a entry bounded_ops \<Rightarrow> ('o, 'a) frame_system \<Rightarrow> 'o \<Rightarrow> bytes \<Rightarrow> 'a edge_storage \<Rightarrow> 'a edge_outcome" where
  [pallet_defs]: "submit_response cfg bv sys orig response st =
    (case ensure_signed sys orig of
       None \<Rightarrow> Err BadOrigin st
     | Some who \<Rightarrow>
         if Connection st = None then Err (Module ConnectionDoesNotExist) st
         else
           (case add_response cfg bv (Some who) response st of
              None \<Rightarrow> Panic
            | Some st1 \<Rightarrow> Ok st1))"

text \<open>\<open>current_block + T::UnsignedInterval::get()\<close> is a 32-bit addition (wrapping in a release build).\<close>

definition submit_response_unsigned ::
  "edge_config \<Rightarrow> 'a entry bounded_ops \<Rightarrow> ('o, 'a) frame_system \<Rightarrow> 'o \<Rightarrow> u32 \<Rightarrow> bytes \<Rightarrow> 'a edge_storage \<Rightarrow> 'a edge_outcome" where
  [pallet_defs]: "submit_response_unsigned cfg bv sys orig bn response st =
    (if \<not> ensure_none sys orig then Err BadOrigin st
     else
       (case add_response cfg bv None response st of
          None \<Rightarrow> Panic
        | Some st1 \<Rightarrow>
            (let current_block = block_number sys in
             Ok (st1\<lparr>NextUnsignedAt := current_block + UnsignedInterval cfg\<rparr>))))"

record 'p response_payload =
  p_block_number :: u32
  p_response :: bytes
  p_public :: 'p

definition submit_response_unsigned_with_signed_payload ::
  "edge_config \<Rightarrow> 'a entry bounded_ops \<Rightarrow> ('o, 'a) frame_system \<Rightarrow> 'o \<Rightarrow> 'p response_payload \<Rightarrow> 'sig
    \<Rightarrow> 'a edge_storage \<Rightarrow> 'a edge_outcome" where
  [pallet_defs]: "submit_response_unsigned_with_signed_payload cfg bv sys orig response_payload sig st =
    (if \<not> ensure_none sys orig then Err BadOrigin st
     else
       (case add_response cfg bv None (p_response response_payload) st of
          None \<Rightarrow> Panic
        | Some st1 \<Rightarrow>
            (let current_block = block_number sys in
             Ok (st1\<lparr>NextUnsignedAt := current_block + UnsignedInterval cfg\<rparr>))))"

definition remove_connection ::
  "('o, 'a) frame_system \<Rightarrow> 'o \<Rightarrow> u32 \<Rightarrow> 'a edge_storage \<Rightarrow> 'a edge_outcome" where
  [pallet_defs]: "remove_connection sys orig c st =
    (case ensure_signed sys orig of
       None \<Rightarrow> Err BadOrigin st
     | Some who \<Rightarrow>
         if Connection st = None then Err (Module ConnectionDoesNotExist) st
         else
           (let st1 = st\<lparr>Connection := None\<rparr> in
            Ok (edge_deposit_event (ConnectionRemoved c who) st1)))"

section \<open>The call type and its dispatch\<close>

datatype ('p, 'sig) edge_call =
    CreateConnection u32
  | SendCommand bytes
  | SubmitResponse bytes
  | SubmitResponseUnsigned u32 bytes
  | SubmitResponseUnsignedWithSignedPayload "'p response_payload" 'sig
  | RemoveConnection u32

fun edge_dispatch ::
  "edge_config \<Rightarrow> 'a entry bounded_ops \<Rightarrow> ('o, 'a) frame_system \<Rightarrow> 'o \<Rightarrow> ('p, 'sig) edge_call \<Rightarrow> 'a edge_storage
    \<Rightarrow> 'a edge_outcome" where
  "edge_dispatch cfg bv sys orig (CreateConnection c) st = create_connection sys orig c st"
| "edge_dispatch cfg bv sys orig (SendCommand cmd) st = send_command cfg bv sys orig cmd st"
| "edge_dispatch cfg bv sys orig (SubmitResponse r) st = submit_response cfg bv sys orig r st"
| "edge_dispatch cfg bv sys orig (SubmitResponseUnsigned bn r) st =
     submit_response_unsigned cfg bv sys orig bn r st"
| "edge_dispatch cfg bv sys orig (SubmitResponseUnsignedWithSignedPayload p sig) st =
     submit_response_unsigned_with_signed_payload cfg bv sys orig p sig st"
| "edge_dispatch cfg bv sys orig (RemoveConnection c) st = remove_connection sys orig c st"

section \<open>Validation of unsigned transactions\<close>

definition UNSIGNED_TXS_PRIORITY :: u64 where
  "UNSIGNED_TXS_PRIORITY = 100"

text \<open>What the pallet passes to the builder of a valid transaction.\<close>

record valid_transaction =
  tag_prefix :: bytes
  priority :: u64
  provides :: "bytes list"
  longevity :: u64
  propagate :: bool

datatype transaction_validity = Valid valid_transaction | InvalidBadProof | InvalidCall

definition valid_tx :: "bytes \<Rightarrow> transaction_validity" where
  "valid_tx provide =
     Valid \<lparr>tag_prefix = str ''ocw-edge:'', priority = UNSIGNED_TXS_PRIORITY, provides = [provide],
            longevity = 3, propagate = True\<rparr>"

text \<open>\<open>verify p s\<close> stands for \<open>SignedPayload::verify\<close> with the pallet's authority type.\<close>

fun validate_unsigned ::
  "('p response_payload \<Rightarrow> 'sig \<Rightarrow> bool) \<Rightarrow> ('p, 'sig) edge_call \<Rightarrow> transaction_validity" where
  "validate_unsigned verify (SubmitResponseUnsigned bn response) = valid_tx (str ''submit_number_unsigned'')"
| "validate_unsigned verify (SubmitResponseUnsignedWithSignedPayload response_payload sig) =
     (if \<not> verify response_payload sig then InvalidBadProof
      else valid_tx (str ''submit_number_unsigned_with_signed_payload''))"
| "validate_unsigned verify c = InvalidCall"

section \<open>Runs of the pallet\<close>

text \<open>
  Every \<open>String\<close> argument of a call is valid UTF-8: an extrinsic with other bytes does not decode and
  is never dispatched. A label of a run is the system state, the origin and the call.
\<close>

fun edge_call_wf :: "('p, 'sig) edge_call \<Rightarrow> bool" where
  "edge_call_wf (SendCommand cmd) = utf8_valid cmd"
| "edge_call_wf (SubmitResponse r) = utf8_valid r"
| "edge_call_wf (SubmitResponseUnsigned bn r) = utf8_valid r"
| "edge_call_wf (SubmitResponseUnsignedWithSignedPayload p sig) = utf8_valid (p_response p)"
| "edge_call_wf c = True"

type_synonym ('o, 'a, 'p, 'sig) edge_label = "('o, 'a) frame_system \<times> 'o \<times> ('p, 'sig) edge_call"

fun edge_exec ::
  "edge_config \<Rightarrow> 'a entry bounded_ops \<Rightarrow> ('o, 'a, 'p, 'sig) edge_label \<Rightarrow> 'a edge_storage \<Rightarrow> 'a edge_outcome" where
  "edge_exec cfg bv (sys, orig, c) st = (if edge_call_wf c then edge_dispatch cfg bv sys orig c st else Panic)"

section \<open>The step relation of the pallet\<close>

text \<open>
  What a successful call can do to the storage, one rule per kind of change. The rules carry what the
  guards of the code established. Every invariant below is a case analysis over these five rules.
\<close>

inductive edge_step :: "edge_config \<Rightarrow> 'a edge_storage \<Rightarrow> 'a edge_storage \<Rightarrow> bool" for cfg where
  step_create: "Connection st = None \<Longrightarrow>
    edge_step cfg st (edge_deposit_event (ConnectionCreated c who) (st\<lparr>Connection := Some c\<rparr>))"
| step_remove: "Connection st \<noteq> None \<Longrightarrow>
    edge_step cfg st (edge_deposit_event (ConnectionRemoved c who) (st\<lparr>Connection := None\<rparr>))"
| step_command: "Connection st \<noteq> None \<Longrightarrow> 4 \<le> unat (MaxStringLength cfg) \<Longrightarrow>
    length (Commands st) < unat (MaxCommand cfg) \<Longrightarrow>
    edge_step cfg st (edge_deposit_event (CommandSent (str ''ping'') who)
      (st\<lparr>Commands := Commands st @ [(Some who, str ''ping'')]\<rparr>))"
| step_response: "utf8_valid r \<Longrightarrow> length r \<le> unat (MaxStringLength cfg) \<Longrightarrow>
    length (Responses st) < unat (MaxResponses cfg) \<Longrightarrow>
    edge_step cfg st ((edge_deposit_event (NewResponse r who)
      (st\<lparr>Responses := Responses st @ [(who, r)]\<rparr>))\<lparr>NextUnsignedAt := nu\<rparr>)"
| step_dropped: "edge_step cfg st (st\<lparr>NextUnsignedAt := nu\<rparr>)"

inductive_cases edge_stepE: "edge_step cfg st st'"

lemma edge_deposit_event_simps [simp]:
  "Connection (edge_deposit_event e st) = Connection st"
  "Commands (edge_deposit_event e st) = Commands st"
  "Responses (edge_deposit_event e st) = Responses st"
  "NextUnsignedAt (edge_deposit_event e st) = NextUnsignedAt st"
  "edge_events (edge_deposit_event e st) = edge_events st @ [e]"
  by (simp_all add: edge_deposit_event_def)

section \<open>Abstract specification: the storage replayed from the events\<close>

text \<open>
  An observer who sees only the deposited events keeps a connection number and two logs. The pallet
  promises that this view is exact: replaying the events gives the stored connection, commands and
  responses.
\<close>

record 'a edge_view =
  view_connection :: "u32 option"
  view_commands :: "'a entry list"
  view_responses :: "'a entry list"

fun view_event :: "'a edge_event \<Rightarrow> 'a edge_view \<Rightarrow> 'a edge_view" where
  "view_event (ConnectionCreated c who) v = v\<lparr>view_connection := Some c\<rparr>"
| "view_event (ConnectionRemoved c who) v = v\<lparr>view_connection := None\<rparr>"
| "view_event (CommandSent cmd who) v = v\<lparr>view_commands := view_commands v @ [(Some who, cmd)]\<rparr>"
| "view_event (NewResponse r maybe_who) v = v\<lparr>view_responses := view_responses v @ [(maybe_who, r)]\<rparr>"

definition replay :: "'a edge_event list \<Rightarrow> 'a edge_view" where
  "replay es = fold view_event es \<lparr>view_connection = None, view_commands = [], view_responses = []\<rparr>"

definition edge_abs :: "'a edge_storage \<Rightarrow> 'a edge_view" where
  "edge_abs st = \<lparr>view_connection = Connection st, view_commands = Commands st, view_responses = Responses st\<rparr>"

section \<open>Invariant\<close>

text \<open>
  Both logs stay within their bounds, every stored command is a ping attributed to an account, every
  stored response is valid UTF-8 of bounded length, and the events explain the storage.
\<close>

definition edge_inv :: "edge_config \<Rightarrow> 'a edge_storage \<Rightarrow> bool" where
  "edge_inv cfg st \<longleftrightarrow>
     length (Commands st) \<le> unat (MaxCommand cfg) \<and>
     length (Responses st) \<le> unat (MaxResponses cfg) \<and>
     (\<forall>(w, b) \<in> set (Commands st). w \<noteq> None \<and> b = str ''ping'') \<and>
     (\<forall>(w, b) \<in> set (Responses st). utf8_valid b \<and> length b \<le> unat (MaxStringLength cfg)) \<and>
     replay (edge_events st) = edge_abs st"

lemma edge_inv_genesis: "edge_inv cfg edge_genesis"
  by (simp add: edge_inv_def edge_genesis_def edge_abs_def replay_def)

lemma replay_snoc: "replay (es @ [e]) = view_event e (replay es)"
  by (simp add: replay_def)

lemma edge_step_inv: "edge_step cfg st st' \<Longrightarrow> edge_inv cfg st \<Longrightarrow> edge_inv cfg st'"
  by (induction rule: edge_step.induct) (auto simp: edge_inv_def replay_snoc edge_abs_def)

lemma edge_step_prefix:
  "edge_step cfg st st' \<Longrightarrow> prefix (Commands st) (Commands st') \<and> prefix (Responses st) (Responses st')"
  by (induction rule: edge_step.induct) auto

section \<open>The pallet over bounded vectors\<close>

locale edge_pallet = bounded_vec bv for bv :: "'a entry bounded_ops" +
  fixes cfg :: edge_config
begin

lemma send_command_eq:
  "send_command cfg bv sys orig cmd st =
    (case ensure_signed sys orig of
       None \<Rightarrow> Err BadOrigin st
     | Some who \<Rightarrow>
         if Connection st = None then Err (Module ConnectionDoesNotExist) st
         else if cmd \<noteq> str ''ping'' then Err (Module InvalidCommand) st
         else if unat (MaxStringLength cfg) < 4 then Err (Module CommandTooLong) st
         else if unat (MaxCommand cfg) \<le> length (Commands st) then Err (Module TooManyCommands) st
         else Ok (edge_deposit_event (CommandSent cmd who)
                (st\<lparr>Commands := Commands st @ [(Some who, cmd)]\<rparr>)))"
  by (auto simp: send_command_def bounded_simps Let_def split: option.split)

lemma add_response_eq:
  "add_response cfg bv maybe_who r st =
    (if length r \<le> unat (MaxStringLength cfg) \<and> length (Responses st) < unat (MaxResponses cfg)
     then if utf8_valid r
          then Some (edge_deposit_event (NewResponse r maybe_who)
                 (st\<lparr>Responses := Responses st @ [(maybe_who, r)]\<rparr>))
          else None
     else Some st)"
  by (simp add: add_response_def bounded_simps Let_def)

lemmas call_eqs = create_connection_def remove_connection_def submit_response_def
  submit_response_unsigned_def submit_response_unsigned_with_signed_payload_def send_command_eq add_response_eq

lemma exec_ok_step:
  assumes "edge_exec cfg bv l st = Ok st'"
  shows "edge_step cfg st st'"
proof -
  obtain sys orig c where l: "l = (sys, orig, c)" by (cases l) auto
  have resp: "edge_step cfg st st1"
    if "add_response cfg bv w r st = Some st1" "utf8_valid r" for w r st1
  proof (cases "length r \<le> unat (MaxStringLength cfg) \<and> length (Responses st) < unat (MaxResponses cfg)")
    case True
    let ?st1 = "edge_deposit_event (NewResponse r w) (st\<lparr>Responses := Responses st @ [(w, r)]\<rparr>)"
    from True that have "st1 = ?st1\<lparr>NextUnsignedAt := NextUnsignedAt st\<rparr>"
      by (auto simp: add_response_eq edge_deposit_event_def)
    with True that show ?thesis by (auto intro: step_response)
  next
    case False
    with that have "st1 = st" by (auto simp: add_response_eq split: if_splits)
    then show ?thesis using step_dropped [of cfg st "NextUnsignedAt st"] by simp
  qed
  have unsigned: "edge_step cfg st (st1\<lparr>NextUnsignedAt := nu\<rparr>)"
    if "add_response cfg bv w r st = Some st1" "utf8_valid r" for w r st1 nu
    using that by (auto simp: add_response_eq intro: step_response step_dropped split: if_splits)
  show ?thesis
    using assms unfolding l
    by (cases c) (auto simp: create_connection_def remove_connection_def submit_response_def
        submit_response_unsigned_def submit_response_unsigned_with_signed_payload_def send_command_eq Let_def
        intro: step_create step_remove step_command resp unsigned
        split: if_splits option.splits)
qed

lemma exec_err_same: "edge_exec cfg bv l st = Err e st' \<Longrightarrow> st' = st"
  by (cases l; cases "snd (snd l)") (auto simp: call_eqs Let_def split: if_splits option.splits)

lemma exec_no_panic: "edge_call_wf c \<Longrightarrow> edge_exec cfg bv (sys, orig, c) st \<noteq> Panic"
  by (cases c) (auto simp: call_eqs Let_def split: option.split)

end

sublocale edge_pallet \<subseteq> machine: call_machine "edge_exec cfg bv" "\<lambda>n. edge_inv cfg"
  by unfold_locales (auto dest: exec_ok_step exec_err_same edge_step_inv)

sublocale edge_pallet \<subseteq> growth: call_growth "edge_exec cfg bv"
  "\<lambda>st st'. prefix (Commands st) (Commands st') \<and> prefix (Responses st) (Responses st')"
  by unfold_locales (auto dest: exec_ok_step exec_err_same edge_step_prefix intro: prefix_order.trans)

interpretation edge_vec: edge_pallet vec_ops cfg for cfg
  by unfold_locales

lemmas edge_palletI = edge_pallet.intro

text \<open>A configuration with room for one command and one response, for the concrete instances.\<close>

definition tiny_config :: edge_config where
  "tiny_config = \<lparr>GracePeriod = 3, UnsignedInterval = 3, UnsignedPriority = 3, MaxCommand = 1,
                   MaxResponses = 1, MaxStringLength = 4\<rparr>"

lemma tiny_config_simps [simp]:
  "GracePeriod tiny_config = 3" "UnsignedInterval tiny_config = 3" "MaxCommand tiny_config = 1"
  "MaxResponses tiny_config = 1" "MaxStringLength tiny_config = 4"
  by (simp_all add: tiny_config_def)

lemma edge_genesis_simps [simp]:
  "Connection edge_genesis = None" "Commands edge_genesis = []" "Responses edge_genesis = []"
  "NextUnsignedAt edge_genesis = 0" "edge_events edge_genesis = []"
  by (simp_all add: edge_genesis_def)

lemma vec_bounded [simp]: "bounded_vec vec_ops"
  by (rule vec.bounded_vec_axioms)

context edge_pallet
begin

lemma runs_keep_inv: "runs (edge_exec cfg bv) n st st' \<Longrightarrow> edge_inv cfg st \<Longrightarrow> edge_inv cfg st'"
  by (rule machine.runs_inv)

lemma runs_edge_inv: "runs (edge_exec cfg bv) n edge_genesis st \<Longrightarrow> edge_inv cfg st"
  using runs_keep_inv edge_inv_genesis by blast

lemma runs_prefix:
  "runs (edge_exec cfg bv) n st st' \<Longrightarrow>
     prefix (Commands st) (Commands st') \<and> prefix (Responses st) (Responses st')"
  by (rule growth.runs_le)

end

text \<open>A run of two calls that fills the command log of the tiny configuration.\<close>

definition full_state :: "nat edge_storage" where
  "full_state = edge_genesis\<lparr>Connection := Some 5, Commands := [(Some 7, str ''ping'')],
     edge_events := [ConnectionCreated 5 7, CommandSent (str ''ping'') 7]\<rparr>"

lemma full_state_simps [simp]:
  "Connection full_state = Some 5" "Commands full_state = [(Some 7, str ''ping'')]"
  "Responses full_state = []" "NextUnsignedAt full_state = 0"
  by (simp_all add: full_state_def)

abbreviation tiny_exec :: "(nat raw_origin, nat, unit, unit) edge_label \<Rightarrow> nat edge_storage \<Rightarrow> nat edge_outcome" where
  "tiny_exec \<equiv> edge_exec tiny_config vec_ops"

lemma full_run: "runs tiny_exec 2 edge_genesis full_state"
proof -
  let ?s1 = "edge_deposit_event (ConnectionCreated 5 7) (edge_genesis\<lparr>Connection := Some 5\<rparr>)"
  have 1: "tiny_exec (raw_system 1, Signed 7, CreateConnection 5) edge_genesis = Ok ?s1"
    by (simp add: create_connection_def)
  have 2: "tiny_exec (raw_system 1, Signed 7, SendCommand (str ''ping'')) ?s1 = Ok full_state"
    by (simp add: edge_vec.send_command_eq edge_deposit_event_def full_state_def str_simps)
  have "runs tiny_exec (Suc 1) edge_genesis full_state"
    by (rule runs_ok [where exec = tiny_exec, OF runs_one_ok [where exec = tiny_exec]]) (rule 1, rule 2)
  then show ?thesis by (simp add: numeral_2_eq_2)
qed

section \<open>Properties of the pallet\<close>

text \<open>
  C22. Life cycle of the connection. A signed account creates a connection exactly when none exists;
  while it exists every further creation, by anyone, fails and changes nothing; any signed account,
  giving any number, removes it, and the storage is then what it was before but for the two events.
\<close>

theorem edge_connection_lifecycle:
  assumes "ensure_signed sys orig = Some who" and "Connection st = None"
  shows "\<exists>st1. create_connection sys orig c st = Ok st1 \<and> Connection st1 = Some c \<and>
    (\<forall>sys' orig' who' c'. ensure_signed sys' orig' = Some who' \<longrightarrow>
       create_connection sys' orig' c' st1 = Err (Module ConnectionAlreadyExists) st1 \<and>
       (\<exists>st2. remove_connection sys' orig' c' st1 = Ok st2 \<and>
          st2\<lparr>edge_events := edge_events st\<rparr> = st \<and>
          edge_events st2 = edge_events st @ [ConnectionCreated c who, ConnectionRemoved c' who']))"
  using assms
  by (cases st) (auto simp: create_connection_def remove_connection_def edge_deposit_event_def)

theorem edge_connection_lifecycle_witness:
  "ensure_signed (raw_system 1) (Signed (7::nat)) = Some 7 \<and> Connection (edge_genesis :: nat edge_storage) = None \<and>
   (\<exists>st1. create_connection (raw_system 1) (Signed (7::nat)) 5 edge_genesis = Ok st1 \<and> Connection st1 = Some 5)"
  using edge_connection_lifecycle [of "raw_system 1" "Signed (7::nat)" 7 edge_genesis 5] by auto

text \<open>
  C12. Sending a command succeeds exactly when the origin is signed, a connection exists, the command
  is the four bytes of ping, these fit the string bound, and the log has room; it then appends the
  signer's ping to the commands, deposits one event and changes nothing else.
\<close>

theorem send_command_correct:
  assumes "bounded_vec bv"
  shows "send_command cfg bv sys orig cmd st = Ok st' \<longleftrightarrow>
    (\<exists>who. ensure_signed sys orig = Some who \<and> Connection st \<noteq> None \<and> cmd = str ''ping'' \<and>
       4 \<le> unat (MaxStringLength cfg) \<and> length (Commands st) < unat (MaxCommand cfg) \<and>
       st' = st\<lparr>Commands := Commands st @ [(Some who, cmd)],
                edge_events := edge_events st @ [CommandSent cmd who]\<rparr>)"
  by (auto simp: edge_pallet.send_command_eq [OF edge_palletI [OF assms]] edge_deposit_event_def
      split: option.splits if_splits)

theorem send_command_correct_witness:
  "\<exists>st'. send_command tiny_config vec_ops (raw_system 1) (Signed (7::nat)) (str ''ping'')
      (edge_genesis\<lparr>Connection := Some 5\<rparr>) = Ok st' \<and> Commands st' = [(Some 7, str ''ping'')]"
  by (subst send_command_correct [OF vec_bounded]) simp

text \<open>
  C23. Submitting a response as a signed account with a connection in place never fails and never
  panics: a response that fits both bounds is appended under the signer's name and announced by one
  event; any other response is dropped and the call still returns success.
\<close>

theorem submit_response_total:
  assumes "bounded_vec bv" and "ensure_signed sys orig = Some who" and "Connection st \<noteq> None" and "utf8_valid r"
  shows "submit_response cfg bv sys orig r st =
    Ok (if length r \<le> unat (MaxStringLength cfg) \<and> length (Responses st) < unat (MaxResponses cfg)
        then st\<lparr>Responses := Responses st @ [(Some who, r)],
                 edge_events := edge_events st @ [NewResponse r (Some who)]\<rparr>
        else st)"
  using assms(2-)
  by (auto simp: submit_response_def edge_pallet.add_response_eq [OF edge_palletI [OF assms(1)]] edge_deposit_event_def)

theorem submit_response_total_witness:
  "submit_response tiny_config vec_ops (raw_system 1) (Signed (7::nat)) [65, 66]
     (edge_genesis\<lparr>Connection := Some 5\<rparr>)
   = Ok (edge_genesis\<lparr>Connection := Some 5, Responses := [(Some 7, [65, 66])],
            edge_events := [NewResponse [65, 66] (Some 7)]\<rparr>)"
  by (subst submit_response_total [OF vec_bounded, where who = 7]) simp_all

text \<open>
  C7. Storage bounds. After any sequence of calls from genesis the commands and responses are within
  their configured numbers, every command is a ping sent by an account, and every response is valid
  UTF-8 no longer than the string bound.
\<close>

theorem edge_storage_bounds:
  assumes "bounded_vec bv" and "runs (edge_exec cfg bv) n edge_genesis st"
  shows "length (Commands st) \<le> unat (MaxCommand cfg) \<and> length (Responses st) \<le> unat (MaxResponses cfg) \<and>
    (\<forall>(w, b) \<in> set (Commands st). w \<noteq> None \<and> b = str ''ping'') \<and>
    (\<forall>(w, b) \<in> set (Responses st). utf8_valid b \<and> length b \<le> unat (MaxStringLength cfg))"
  using edge_pallet.runs_edge_inv [OF edge_palletI [OF assms(1)] assms(2)] by (simp add: edge_inv_def)

theorem edge_storage_bounds_witness:
  "\<exists>st. runs tiny_exec 2 edge_genesis st \<and> length (Commands st) = 1 \<and>
     length (Commands st) \<le> unat (MaxCommand tiny_config)"
  using edge_storage_bounds [OF vec_bounded full_run] full_run by auto

text \<open>
  C8. The event log tells the whole story: after any sequence of calls from genesis, replaying the
  deposited events (an abstract connection with two logs) gives exactly the stored connection,
  commands and responses.
\<close>

theorem edge_events_replay:
  assumes "bounded_vec bv" and "runs (edge_exec cfg bv) n edge_genesis st"
  shows "replay (edge_events st) = edge_abs st"
  using edge_pallet.runs_edge_inv [OF edge_palletI [OF assms(1)] assms(2)] by (simp add: edge_inv_def)

theorem edge_events_replay_witness:
  "replay (edge_events full_state) = edge_abs full_state"
  using edge_events_replay [OF vec_bounded full_run] .

text \<open>
  Neither log ever shrinks, so a full command log is a dead end: once the bound is reached, no
  sequence of calls, by any accounts and at any block, makes room again, the log stays as it is, and
  sending a command never succeeds again.
\<close>

lemma edge_full_command_log_is_final:
  assumes "bounded_vec bv" and "runs (edge_exec cfg bv) m edge_genesis st"
    and "length (Commands st) = unat (MaxCommand cfg)"
    and "runs (edge_exec cfg bv) n st st'"
  shows "Commands st' = Commands st \<and> \<not> is_ok (send_command cfg bv sys orig cmd st')"
proof -
  note ep = edge_palletI [OF assms(1)]
  have inv: "edge_inv cfg st'"
    using edge_pallet.runs_keep_inv [OF ep assms(4)] edge_pallet.runs_edge_inv [OF ep assms(2)] by blast
  have "prefix (Commands st) (Commands st')"
    using edge_pallet.runs_prefix [OF ep assms(4)] by blast
  with inv assms(3) have "Commands st' = Commands st"
    by (auto simp: edge_inv_def dest: prefix_full_eq)
  with assms(3) show ?thesis
    by (auto simp: edge_pallet.send_command_eq [OF ep] split: option.split)
qed

text \<open>
  C27. The cool-down of unsigned transactions is recorded but not enforced: while \<open>NextUnsignedAt\<close> is
  still in the future, an unsigned response is validated, dispatched with success and stored, and
  the recorded block is moved on.
\<close>

theorem unsigned_cooldown_not_enforced:
  assumes "bounded_vec bv" and "ensure_none sys orig" and "utf8_valid r"
    and "length r \<le> unat (MaxStringLength cfg)" and "length (Responses st) < unat (MaxResponses cfg)"
    and "block_number sys < NextUnsignedAt st"
  shows "(\<exists>t. validate_unsigned verify (SubmitResponseUnsigned bn r) = Valid t) \<and>
    (\<exists>st'. edge_dispatch cfg bv sys orig (SubmitResponseUnsigned bn r) st = Ok st' \<and>
       Responses st' = Responses st @ [(None, r)] \<and>
       NextUnsignedAt st' = block_number sys + UnsignedInterval cfg)"
  using assms(2-)
  by (simp add: valid_tx_def submit_response_unsigned_def edge_pallet.add_response_eq [OF edge_palletI [OF assms(1)]])

theorem unsigned_cooldown_not_enforced_witness:
  "block_number (raw_system 1) < NextUnsignedAt (full_state\<lparr>NextUnsignedAt := 4\<rparr>) \<and>
   (\<exists>st'. edge_dispatch tiny_config vec_ops (raw_system 1) None_origin
       (SubmitResponseUnsigned 1 [65] :: (unit, unit) edge_call) (full_state\<lparr>NextUnsignedAt := 4\<rparr>) = Ok st' \<and>
      Responses st' = [(None, [65])])"
  using unsigned_cooldown_not_enforced [OF vec_bounded, of "raw_system 1" None_origin "[65]" tiny_config
      "full_state\<lparr>NextUnsignedAt := 4\<rparr>"]
  by auto

text \<open>
  C26. Exactly two kinds of calls pass unsigned validation: the raw unsigned response, and the response
  with a signed payload whose signature verifies. A valid transaction always has priority 100, and
  two valid calls have the same tag exactly when they are of the same kind, which is what lets the
  pool keep one of each.
\<close>

theorem validate_unsigned_iff:
  "((\<exists>t. validate_unsigned verify c = Valid t) \<longleftrightarrow>
      (\<exists>bn r. c = SubmitResponseUnsigned bn r) \<or>
      (\<exists>p sig. c = SubmitResponseUnsignedWithSignedPayload p sig \<and> verify p sig)) \<and>
   (validate_unsigned verify c = Valid t \<longrightarrow> validate_unsigned verify d = Valid u \<longrightarrow>
      priority t = 100 \<and> tag_prefix t = tag_prefix u \<and>
      (provides t = provides u \<longleftrightarrow>
        ((\<exists>bn r. c = SubmitResponseUnsigned bn r) \<longleftrightarrow> (\<exists>bn r. d = SubmitResponseUnsigned bn r))))"
  by (cases c; cases d) (auto simp: valid_tx_def UNSIGNED_TXS_PRIORITY_def str_simps split: if_splits)

theorem validate_unsigned_iff_witness:
  "\<exists>t u. validate_unsigned (\<lambda>p (sig::nat). sig = 1) (SubmitResponseUnsigned 1 [65]) = Valid t \<and>
     validate_unsigned (\<lambda>p (sig::nat). sig = 1)
       (SubmitResponseUnsignedWithSignedPayload \<lparr>p_block_number = 1, p_response = [65], p_public = (0::nat)\<rparr> 1)
       = Valid u \<and> provides t \<noteq> provides u"
  using validate_unsigned_iff [of "\<lambda>p (sig::nat). sig = 1" "SubmitResponseUnsigned 1 [65]" _
      "SubmitResponseUnsignedWithSignedPayload \<lparr>p_block_number = 1, p_response = [65], p_public = (0::nat)\<rparr> 1"]
  by (auto simp: valid_tx_def str_simps)

text \<open>
  C28. Failures. A dispatched call never panics; one that returns an error leaves the storage as it
  was, without relying on a rollback; \<open>ResponseTooLarge\<close> is never returned, and \<open>CommandTooLong\<close> only
  when the configured string bound is below four.
\<close>

theorem edge_failures:
  assumes "bounded_vec bv" and "edge_call_wf c"
  shows "edge_dispatch cfg bv sys orig c st \<noteq> Panic \<and>
    (\<forall>e st'. edge_dispatch cfg bv sys orig c st = Err e st' \<longrightarrow>
       st' = st \<and> e \<noteq> Module ResponseTooLarge \<and>
       (e = Module CommandTooLong \<longrightarrow> unat (MaxStringLength cfg) < 4))"
proof -
  note ep = edge_palletI [OF assms(1)]
  have "edge_dispatch cfg bv sys orig c st \<noteq> Panic"
    using edge_pallet.exec_no_panic [OF ep, where cfg = cfg, OF assms(2)] assms(2) by simp
  moreover have "st' = st" if "edge_dispatch cfg bv sys orig c st = Err e st'" for e st'
    using edge_pallet.exec_err_same [OF ep, where l = "(sys, orig, c)"] that assms(2) by simp
  moreover have "e \<noteq> Module ResponseTooLarge \<and> (e = Module CommandTooLong \<longrightarrow> unat (MaxStringLength cfg) < 4)"
    if "edge_dispatch cfg bv sys orig c st = Err e st'" for e st'
    using that
    by (cases c) (auto simp: edge_pallet.call_eqs [OF ep] Let_def split: if_splits option.splits)
  ultimately show ?thesis by blast
qed

theorem edge_failures_witness:
  "edge_dispatch tiny_config vec_ops (raw_system 1) (Signed (7::nat))
     (SendCommand (str ''pong'') :: (unit, unit) edge_call) edge_genesis
   = Err (Module ConnectionDoesNotExist) edge_genesis \<and>
   edge_dispatch tiny_config vec_ops (raw_system 1) (Signed (7::nat))
     (SendCommand (str ''pong'') :: (unit, unit) edge_call) edge_genesis \<noteq> Panic"
  using edge_failures [OF vec_bounded, of "SendCommand (str ''pong'') :: (unit, unit) edge_call" tiny_config
      "raw_system 1" "Signed (7::nat)" edge_genesis]
  by (simp add: send_command_def str_simps)

text \<open>
  Signed and unsigned entry points are kept apart: under an unsigned origin the four signed calls
  fail, under a signed origin the two unsigned calls fail, always with \<open>BadOrigin\<close> and no change.
\<close>

lemma edge_origin_separation:
  assumes "origin_checks sys"
  shows "(ensure_none sys orig \<longrightarrow>
      edge_dispatch cfg bv sys orig (CreateConnection c) st = Err BadOrigin st \<and>
      edge_dispatch cfg bv sys orig (SendCommand cmd) st = Err BadOrigin st \<and>
      edge_dispatch cfg bv sys orig (SubmitResponse r) st = Err BadOrigin st \<and>
      edge_dispatch cfg bv sys orig (RemoveConnection c) st = Err BadOrigin st) \<and>
    (\<forall>who. ensure_signed sys orig = Some who \<longrightarrow>
      edge_dispatch cfg bv sys orig (SubmitResponseUnsigned bn r) st = Err BadOrigin st \<and>
      edge_dispatch cfg bv sys orig (SubmitResponseUnsignedWithSignedPayload p sig) st = Err BadOrigin st)"
  using origin_checks.none_not_signed [OF assms] origin_checks.signed_not_none [OF assms]
  by (auto simp: pallet_defs)

text \<open>
  The block of the next unsigned transaction changes in exactly one way: a successful unsigned
  call sets it to the current block plus the interval (a 32-bit sum), every other successful call
  keeps it.
\<close>

lemma next_unsigned_at_update:
  assumes "bounded_vec bv" and "edge_dispatch cfg bv sys orig c st = Ok st'"
  shows "NextUnsignedAt st' =
    (case c of
       SubmitResponseUnsigned bn r \<Rightarrow> block_number sys + UnsignedInterval cfg
     | SubmitResponseUnsignedWithSignedPayload p sig \<Rightarrow> block_number sys + UnsignedInterval cfg
     | _ \<Rightarrow> NextUnsignedAt st)"
  using assms(2)
  by (cases c) (auto simp: edge_pallet.call_eqs [OF edge_palletI [OF assms(1)]] Let_def split: if_splits option.splits)

end
