(* ===== verification/Offchain.thy ===== *)
theory Offchain
  imports Frame
begin

text \<open>
  The host functions the two offchain workers call, as parameters: HTTP requests, the signer and the
  transaction pool, and the node's local storage with its atomic \<open>mutate\<close>. A worker's effects are the
  requests it makes of the signer and the pool, recorded with their closures; the host's answers are
  the fields of the records. The law of \<open>mutate\<close> is the locale \<open>local_cell\<close>; its instance \<open>cas_mutate\<close> is
  the read followed by compare-and-set that the source describes.
\<close>

section \<open>HTTP\<close>

datatype http_error = DeadlineReached | IoError | Unknown

text \<open>
  \<open>deadline_in h n\<close> is the current timestamp plus \<open>n\<close> milliseconds; \<open>http_send h url d\<close> starts a GET
  request; \<open>http_try_wait h p d\<close> is \<open>Inl\<close> when the deadline passes first, and otherwise an error or a
  status code with the whole body.
\<close>

record ('ts, 'pend) http_host =
  deadline_in :: "u64 \<Rightarrow> 'ts"
  http_send :: "bytes \<Rightarrow> 'ts \<Rightarrow> unit + 'pend"
  http_try_wait :: "'pend \<Rightarrow> 'ts \<Rightarrow> unit + (http_error + u16 \<times> bytes)"

text \<open>A host that answers every request with the given code and body.\<close>

definition answering :: "u16 \<Rightarrow> bytes \<Rightarrow> (unit, bytes) http_host" where
  "answering code body =
     \<lparr>deadline_in = (\<lambda>n. ()), http_send = (\<lambda>url d. Inr url), http_try_wait = (\<lambda>p d. Inr (Inr (code, body)))\<rparr>"

section \<open>Signer and transaction pool\<close>

record ('id, 'p) account =
  acct_id :: 'id
  acct_public :: 'p

text \<open>
  \<open>can_sign_all\<close>, \<open>can_sign_any\<close>: whether the signer over all accounts, or over any one account, has a
  local key. The send functions take the worker's closures and return the results per account: a
  list for all accounts, an option for any account.
\<close>

record ('acc, 'pl, 'sig, 'c) signer_host =
  can_sign_all :: bool
  can_sign_any :: bool
  send_signed_all :: "('acc \<Rightarrow> 'c) \<Rightarrow> ('acc \<times> (unit + unit)) list"
  send_signed_any :: "('acc \<Rightarrow> 'c) \<Rightarrow> ('acc \<times> (unit + unit)) option"
  send_unsigned_all :: "('acc \<Rightarrow> 'pl) \<Rightarrow> ('pl \<Rightarrow> 'sig \<Rightarrow> 'c) \<Rightarrow> ('acc \<times> (unit + unit)) list"
  send_unsigned_any :: "('acc \<Rightarrow> 'pl) \<Rightarrow> ('pl \<Rightarrow> 'sig \<Rightarrow> 'c) \<Rightarrow> ('acc \<times> (unit + unit)) option"
  submit_unsigned :: "'c \<Rightarrow> unit + unit"

datatype ('acc, 'pl, 'sig, 'c) request =
    SendSignedAll "'acc \<Rightarrow> 'c"
  | SendSignedAny "'acc \<Rightarrow> 'c"
  | SendUnsignedAll "'acc \<Rightarrow> 'pl" "'pl \<Rightarrow> 'sig \<Rightarrow> 'c"
  | SendUnsignedAny "'acc \<Rightarrow> 'pl" "'pl \<Rightarrow> 'sig \<Rightarrow> 'c"
  | SubmitRaw 'c

text \<open>The calls a request can put into a transaction.\<close>

fun request_calls :: "('acc, 'pl, 'sig, 'c) request \<Rightarrow> 'c set" where
  "request_calls (SendSignedAll f) = range f"
| "request_calls (SendSignedAny f) = range f"
| "request_calls (SendUnsignedAll f g) = {g (f a) sig | a sig. True}"
| "request_calls (SendUnsignedAny f g) = {g (f a) sig | a sig. True}"
| "request_calls (SubmitRaw c) = {c}"

fun is_signed_request :: "('acc, 'pl, 'sig, 'c) request \<Rightarrow> bool" where
  "is_signed_request (SendSignedAll f) = True"
| "is_signed_request (SendSignedAny f) = True"
| "is_signed_request _ = False"

text \<open>A host with one local account whose submissions all succeed.\<close>

definition one_account :: "'acc \<Rightarrow> 'sig \<Rightarrow> ('acc, 'pl, 'sig, 'c) signer_host" where
  "one_account a sig =
     \<lparr>can_sign_all = True, can_sign_any = True,
      send_signed_all = (\<lambda>f. [(a, Inr ())]), send_signed_any = (\<lambda>f. Some (a, Inr ())),
      send_unsigned_all = (\<lambda>f g. [(a, Inr ())]), send_unsigned_any = (\<lambda>f g. Some (a, Inr ())),
      submit_unsigned = (\<lambda>c. Inr ())\<rparr>"

section \<open>Local storage\<close>

text \<open>
  \<open>mutate f\<close> reads the value (\<open>Inl ()\<close> when it does not decode, \<open>Inr None\<close> when it is absent), applies \<open>f\<close>,
  and writes the result back unless the value was changed in the meantime.
\<close>

datatype ('v, 'e) mutate_error = ValueFunctionFailed 'e | ConcurrentModification 'v

type_synonym ('v, 'e) mutate = "(unit + 'v option \<Rightarrow> 'e + 'v) \<Rightarrow> ('v, 'e) mutate_error + 'v"

locale local_cell =
  fixes mutate :: "('v, 'e) mutate"
  assumes mutate_failed: "mutate f = Inl (ValueFunctionFailed e) \<Longrightarrow> \<exists>r. f r = Inl e"
    and mutate_written: "mutate f = Inr v \<Longrightarrow> \<exists>r. f r = Inr v"
begin

lemma mutate_never: "(\<And>r. f r \<noteq> Inr v) \<Longrightarrow> mutate f \<noteq> Inr v"
  using mutate_written by blast

lemma mutate_total: "(\<And>r. \<exists>v. f r = Inr v) \<Longrightarrow> mutate f \<noteq> Inl (ValueFunctionFailed e)"
  by (metis mutate_failed Inl_Inr_False)

end

text \<open>
  Read and compare-and-set: \<open>r\<close> is the value read, \<open>cur\<close> the value found when the new one is written.
\<close>

definition cas_mutate :: "'v option \<Rightarrow> 'v option \<Rightarrow> ('v, 'e) mutate" where
  "cas_mutate r cur f =
     (case f (Inr r) of
        Inl e \<Rightarrow> Inl (ValueFunctionFailed e)
      | Inr v \<Rightarrow> if cur = r then Inr v else Inl (ConcurrentModification v))"

interpretation cas: local_cell "cas_mutate r cur" for r cur
  by unfold_locales (auto simp: cas_mutate_def split: sum.splits if_splits)

end
