(* ===== verification/Edge_Offchain.thy ===== *)
theory Edge_Offchain
  imports Edge_Connect Offchain
begin

text \<open>
  The offchain worker of \<^verbatim>\<open>pallets/edge-connect/src/lib.rs\<close>: fetching the response over HTTP, choosing
  the kind of transaction under the grace period kept in local storage, and the four ways of sending.
  Then: what a fetched response is, that concurrent workers acquire the lock at blocks at least a
  grace period apart, and that every call the worker builds is accepted by the pallet.
\<close>

section \<open>Definitions\<close>

definition fetch_response :: "('ts, 'pend) http_host \<Rightarrow> http_error + bytes" where
  "fetch_response h =
    (let deadline = deadline_in h 3000 in
     (case http_send h (str ''http://127.0.0.1:8080/block'') deadline of
        Inl _ \<Rightarrow> Inl IoError
      | Inr pending \<Rightarrow>
          (case http_try_wait h pending deadline of
             Inl _ \<Rightarrow> Inl DeadlineReached
           | Inr (Inl e) \<Rightarrow> Inl e
           | Inr (Inr (code, body)) \<Rightarrow>
               if code \<noteq> 200 then Inl Unknown
               else if \<not> utf8_valid body then Inl Unknown
               else if length body = 0 then Inl Unknown
               else Inr body)))"

datatype transaction_type = SignedTx | UnsignedForAny | UnsignedForAll | Raw | NoTx

text \<open>The closure passed to \<open>mutate\<close>; \<open>block + T::GracePeriod::get()\<close> is a 32-bit addition.\<close>

definition last_send_update :: "edge_config \<Rightarrow> u32 \<Rightarrow> unit + u32 option \<Rightarrow> unit + u32" where
  "last_send_update cfg bn last_send =
    (case last_send of
       Inr (Some block) \<Rightarrow> if bn < block + GracePeriod cfg then Inl () else Inr bn
     | _ \<Rightarrow> Inr bn)"

definition choose_transaction_type :: "edge_config \<Rightarrow> (u32, unit) mutate \<Rightarrow> u32 \<Rightarrow> transaction_type" where
  "choose_transaction_type cfg mutate bn =
    (case mutate (last_send_update cfg bn) of
       Inr bn' \<Rightarrow>
         (let transaction_type = bn' mod 4 in
          if transaction_type = 0 then SignedTx
          else if transaction_type = 1 then UnsignedForAny
          else if transaction_type = 2 then UnsignedForAll
          else Raw)
     | Inl (ValueFunctionFailed _) \<Rightarrow> NoTx
     | Inl (ConcurrentModification _) \<Rightarrow> NoTx)"

type_synonym ('id, 'p, 'sig) edge_request =
  "(('id, 'p) account, 'p response_payload, 'sig, ('p, 'sig) edge_call) request"

type_synonym ('id, 'p, 'sig) edge_signer =
  "(('id, 'p) account, 'p response_payload, 'sig, ('p, 'sig) edge_call) signer_host"

text \<open>Each sender returns its result and the requests it made.\<close>

definition fetch_response_and_send_signed ::
  "('id, 'p, 'sig) edge_signer \<Rightarrow> ('ts, 'pend) http_host \<Rightarrow> (string + unit) \<times> ('id, 'p, 'sig) edge_request list" where
  "fetch_response_and_send_signed sg h =
    (if \<not> can_sign_all sg
     then (Inl ''No local accounts available. Consider adding one via `author_insertKey` RPC.'', [])
     else
       (case fetch_response h of
          Inl _ \<Rightarrow> (Inl ''Failed to fetch response'', [])
        | Inr response \<Rightarrow> (Inr (), [SendSignedAll (\<lambda>acc. SubmitResponse response)])))"

definition fetch_response_and_send_raw_unsigned ::
  "('id, 'p, 'sig) edge_signer \<Rightarrow> ('ts, 'pend) http_host \<Rightarrow> 'a edge_storage \<Rightarrow> u32
    \<Rightarrow> (string + unit) \<times> ('id, 'p, 'sig) edge_request list" where
  "fetch_response_and_send_raw_unsigned sg h st bn =
    (let next_unsigned_at = NextUnsignedAt st in
     if next_unsigned_at > bn then (Inl ''Too early to send unsigned transaction'', [])
     else
       (case fetch_response h of
          Inl _ \<Rightarrow> (Inl ''Failed to fetch response'', [])
        | Inr response \<Rightarrow>
            (let c = SubmitResponseUnsigned bn response in
             (case submit_unsigned sg c of
                Inl _ \<Rightarrow> (Inl ''Unable to submit unsigned transaction.'', [SubmitRaw c])
              | Inr _ \<Rightarrow> (Inr (), [SubmitRaw c])))))"

definition payload_for :: "bytes \<Rightarrow> u32 \<Rightarrow> ('id, 'p) account \<Rightarrow> 'p response_payload" where
  "payload_for response bn acc = \<lparr>p_block_number = bn, p_response = response, p_public = acct_public acc\<rparr>"

definition fetch_response_and_send_unsigned_for_any_account ::
  "('id, 'p, 'sig) edge_signer \<Rightarrow> ('ts, 'pend) http_host \<Rightarrow> 'a edge_storage \<Rightarrow> u32
    \<Rightarrow> (string + unit) \<times> ('id, 'p, 'sig) edge_request list" where
  "fetch_response_and_send_unsigned_for_any_account sg h st bn =
    (let next_unsigned_at = NextUnsignedAt st in
     if next_unsigned_at > bn then (Inl ''Too early to send unsigned transaction'', [])
     else
       (case fetch_response h of
          Inl _ \<Rightarrow> (Inl ''Failed to fetch response'', [])
        | Inr response \<Rightarrow>
            (let f = payload_for response bn;
                 g = SubmitResponseUnsignedWithSignedPayload in
             (case send_unsigned_any sg f g of
                None \<Rightarrow> (Inl ''No local accounts accounts available.'', [SendUnsignedAny f g])
              | Some (_, Inl _) \<Rightarrow> (Inl ''Unable to submit transaction'', [SendUnsignedAny f g])
              | Some (_, Inr _) \<Rightarrow> (Inr (), [SendUnsignedAny f g])))))"

text \<open>The loop over the results returns at the first failure.\<close>

fun check_results :: "('acc \<times> (unit + unit)) list \<Rightarrow> string + unit" where
  "check_results [] = Inr ()"
| "check_results ((acc, Inl _) # rs) = Inl ''Unable to submit transaction''"
| "check_results ((acc, Inr _) # rs) = check_results rs"

definition fetch_response_and_send_unsigned_for_all_accounts ::
  "('id, 'p, 'sig) edge_signer \<Rightarrow> ('ts, 'pend) http_host \<Rightarrow> 'a edge_storage \<Rightarrow> u32
    \<Rightarrow> (string + unit) \<times> ('id, 'p, 'sig) edge_request list" where
  "fetch_response_and_send_unsigned_for_all_accounts sg h st bn =
    (let next_unsigned_at = NextUnsignedAt st in
     if next_unsigned_at > bn then (Inl ''Too early to send unsigned transaction'', [])
     else
       (case fetch_response h of
          Inl _ \<Rightarrow> (Inl ''Failed to fetch response'', [])
        | Inr response \<Rightarrow>
            (let f = payload_for response bn;
                 g = SubmitResponseUnsignedWithSignedPayload;
                 transaction_results = send_unsigned_all sg f g in
             (check_results transaction_results, [SendUnsignedAll f g]))))"

text \<open>
  The hook. \<open>h0\<close> answers the first request, whose response is only logged; \<open>h1\<close> the request of the
  sender. The result is \<open>None\<close> when the worker returns early because it has no key, and otherwise the
  sender's result, of which an error is logged.
\<close>

definition edge_offchain_worker ::
  "edge_config \<Rightarrow> ('id, 'p, 'sig) edge_signer \<Rightarrow> (u32, unit) mutate \<Rightarrow> ('ts, 'pend) http_host \<Rightarrow> ('ts, 'pend) http_host
    \<Rightarrow> 'a edge_storage \<Rightarrow> u32 \<Rightarrow> (string + unit) option \<times> ('id, 'p, 'sig) edge_request list" where
  "edge_offchain_worker cfg sg mutate h0 h1 st bn =
    (if \<not> can_sign_all sg then (None, [])
     else
       (let response = (case fetch_response h0 of Inl e \<Rightarrow> str ''Failed'' | Inr r \<Rightarrow> r);
            should_send = choose_transaction_type cfg mutate bn;
            (res, reqs) =
              (case should_send of
                 SignedTx \<Rightarrow> fetch_response_and_send_signed sg h1
               | UnsignedForAny \<Rightarrow> fetch_response_and_send_unsigned_for_any_account sg h1 st bn
               | UnsignedForAll \<Rightarrow> fetch_response_and_send_unsigned_for_all_accounts sg h1 st bn
               | Raw \<Rightarrow> fetch_response_and_send_raw_unsigned sg h1 st bn
               | NoTx \<Rightarrow> (Inr (), [])) in
        (Some res, reqs)))"

section \<open>Fetching\<close>

lemma fetch_response_iff:
  "fetch_response h = Inr r \<longleftrightarrow>
     (\<exists>pending. http_send h (str ''http://127.0.0.1:8080/block'') (deadline_in h 3000) = Inr pending \<and>
        http_try_wait h pending (deadline_in h 3000) = Inr (Inr (200, r))) \<and> utf8_valid r \<and> r \<noteq> []"
  by (auto simp: fetch_response_def Let_def split: sum.splits if_splits)

lemma fetch_response_answering:
  "utf8_valid body \<Longrightarrow> body \<noteq> [] \<Longrightarrow> fetch_response (answering 200 body) = Inr body"
  by (simp add: fetch_response_def answering_def)

section \<open>Requests of one run\<close>

lemmas sender_defs = fetch_response_and_send_signed_def fetch_response_and_send_raw_unsigned_def
  fetch_response_and_send_unsigned_for_any_account_def fetch_response_and_send_unsigned_for_all_accounts_def

text \<open>The shapes of the one request a run can make, with the response it carries.\<close>

inductive edge_sends :: "u32 \<Rightarrow> u32 \<Rightarrow> bytes \<Rightarrow> ('id, 'p, 'sig) edge_request \<Rightarrow> bool" for nxt bn r where
  sends_signed: "edge_sends nxt bn r (SendSignedAll (\<lambda>a. SubmitResponse r))"
| sends_raw: "nxt \<le> bn \<Longrightarrow> edge_sends nxt bn r (SubmitRaw (SubmitResponseUnsigned bn r))"
| sends_any: "nxt \<le> bn \<Longrightarrow>
    edge_sends nxt bn r (SendUnsignedAny (payload_for r bn) SubmitResponseUnsignedWithSignedPayload)"
| sends_all: "nxt \<le> bn \<Longrightarrow>
    edge_sends nxt bn r (SendUnsignedAll (payload_for r bn) SubmitResponseUnsignedWithSignedPayload)"

inductive_cases edge_sendsE: "edge_sends nxt bn r req"

lemma edge_offchain_worker_requests:
  assumes "edge_offchain_worker cfg sg mutate h0 h1 st bn = (res, reqs)"
  shows "reqs = [] \<or>
    (\<exists>r req. reqs = [req] \<and> can_sign_all sg \<and> fetch_response h1 = Inr r \<and>
       choose_transaction_type cfg mutate bn \<noteq> NoTx \<and> edge_sends (NextUnsignedAt st) bn r req)"
  using assms
  by (auto simp: edge_offchain_worker_def sender_defs Let_def not_less
      intro: edge_sends.intros
      split: if_splits transaction_type.splits sum.splits option.splits prod.splits)

text \<open>The request that belongs to each kind of transaction.\<close>

fun request_for :: "transaction_type \<Rightarrow> u32 \<Rightarrow> bytes \<Rightarrow> ('id, 'p, 'sig) edge_request list" where
  "request_for SignedTx bn r = [SendSignedAll (\<lambda>a. SubmitResponse r)]"
| "request_for UnsignedForAny bn r = [SendUnsignedAny (payload_for r bn) SubmitResponseUnsignedWithSignedPayload]"
| "request_for UnsignedForAll bn r = [SendUnsignedAll (payload_for r bn) SubmitResponseUnsignedWithSignedPayload]"
| "request_for Raw bn r = [SubmitRaw (SubmitResponseUnsigned bn r)]"
| "request_for NoTx bn r = []"

lemma worker_requests_eq:
  "snd (edge_offchain_worker cfg sg mutate h0 h1 st bn) =
     (let chosen = choose_transaction_type cfg mutate bn in
      if can_sign_all sg \<and> (chosen = SignedTx \<or> NextUnsignedAt st \<le> bn)
      then (case fetch_response h1 of Inl e \<Rightarrow> [] | Inr r \<Rightarrow> request_for chosen bn r)
      else [])"
  by (cases "choose_transaction_type cfg mutate bn")
    (auto simp: edge_offchain_worker_def sender_defs Let_def not_less
      split: if_splits sum.splits option.splits prod.splits)

lemma worker_result_eq:
  "fst (edge_offchain_worker cfg sg mutate h0 h1 st bn) = None \<longleftrightarrow> \<not> can_sign_all sg"
  by (simp add: edge_offchain_worker_def split: prod.split)

section \<open>Concurrent workers and the grace period\<close>

text \<open>
  Workers of several blocks may run at once. Each reads the stored block number (\<open>lock_read\<close>) and later
  finishes its \<open>mutate\<close> with a compare-and-set against the value then stored (\<open>lock_finish\<close>);
  \<open>acquired\<close> lists, newest first, the block numbers of the workers that went on to send.
\<close>

record 'w lock_state =
  cell :: "u32 option"
  reading :: "'w \<rightharpoonup> u32 \<times> u32 option"
  acquired :: "u32 list"

inductive lock_step :: "edge_config \<Rightarrow> 'w lock_state \<Rightarrow> 'w lock_state \<Rightarrow> bool" for cfg where
  lock_read: "reading s w = None \<Longrightarrow>
    lock_step cfg s (s\<lparr>reading := (reading s)(w \<mapsto> (bn, cell s))\<rparr>)"
| lock_finish: "reading s w = Some (bn, r) \<Longrightarrow>
    lock_step cfg s
      (s\<lparr>cell := (case cas_mutate r (cell s) (last_send_update cfg bn) of Inr v \<Rightarrow> Some v | Inl _ \<Rightarrow> cell s),
         reading := (reading s)(w := None),
         acquired := (if choose_transaction_type cfg (cas_mutate r (cell s)) bn = NoTx then acquired s
                      else bn # acquired s)\<rparr>)"

lemma last_send_update_Inr: "last_send_update cfg bn r = Inr v \<Longrightarrow> v = bn"
  by (cases r) (auto simp: last_send_update_def split: option.splits if_splits)

lemma last_send_update_Inl: "last_send_update cfg bn r = Inl e \<Longrightarrow> \<exists>b. r = Inr (Some b) \<and> bn < b + GracePeriod cfg"
  by (cases r) (auto simp: last_send_update_def split: option.splits if_splits)

lemma choose_type_sends:
  "choose_transaction_type cfg mutate bn \<noteq> NoTx \<longleftrightarrow> (\<exists>v. mutate (last_send_update cfg bn) = Inr v)"
  by (auto simp: choose_transaction_type_def Let_def split: sum.splits mutate_error.splits)

lemma cas_last_send:
  "cas_mutate r cur (last_send_update cfg bn) = Inr v \<longleftrightarrow>
     v = bn \<and> cur = r \<and> (\<forall>b. r = Some b \<longrightarrow> \<not> bn < b + GracePeriod cfg)"
  by (auto simp: cas_mutate_def last_send_update_def split: option.splits)

definition lock_inv :: "edge_config \<Rightarrow> 'w lock_state \<Rightarrow> bool" where
  "lock_inv cfg s \<longleftrightarrow>
     (acquired s \<noteq> [] \<longrightarrow> cell s = Some (hd (acquired s))) \<and>
     successively (\<lambda>b a. \<not> b < a + GracePeriod cfg) (acquired s)"

lemma lock_step_inv: "lock_step cfg s s' \<Longrightarrow> lock_inv cfg s \<Longrightarrow> lock_inv cfg s'"
proof (induction rule: lock_step.induct)
  case (lock_read s w bn)
  then show ?case by (simp add: lock_inv_def)
next
  case (lock_finish s w bn r)
  show ?case
  proof (cases "\<exists>v. cas_mutate r (cell s) (last_send_update cfg bn) = Inr v")
    case True
    then obtain v where v: "cas_mutate r (cell s) (last_send_update cfg bn) = Inr v" ..
    then have bn: "v = bn" "\<And>b. cell s = Some b \<Longrightarrow> \<not> bn < b + GracePeriod cfg"
      by (auto simp: cas_last_send)
    have "choose_transaction_type cfg (cas_mutate r (cell s)) bn \<noteq> NoTx"
      using v choose_type_sends by blast
    with v bn lock_finish.prems show ?thesis
      by (auto simp: lock_inv_def successively_Cons)
  next
    case False
    then have "choose_transaction_type cfg (cas_mutate r (cell s)) bn = NoTx"
      using choose_type_sends by blast
    with False lock_finish.prems show ?thesis
      by (cases "cas_mutate r (cell s) (last_send_update cfg bn)") (auto simp: lock_inv_def)
  qed
qed

lemma lock_reach_inv: "(lock_step cfg)\<^sup>*\<^sup>* s s' \<Longrightarrow> lock_inv cfg s \<Longrightarrow> lock_inv cfg s'"
  by (induction rule: rtranclp_induct) (auto intro: lock_step_inv)

lemma spacing_nat:
  fixes a b g :: u32
  assumes "unat a + unat g < 2 ^ 32" and "\<not> b < a + g"
  shows "unat a + unat g \<le> unat b"
proof -
  have "unat (a + g) = unat a + unat g" using assms(1) by (simp add: unat_word_ariths)
  with assms(2) show ?thesis by (simp add: word_less_nat_alt)
qed

lemma lock_inv_sorted:
  assumes "lock_inv cfg s" and "\<And>b. b \<in> set (acquired s) \<Longrightarrow> unat b + unat (GracePeriod cfg) < 2 ^ 32"
  shows "sorted_wrt (\<lambda>b a. unat a + unat (GracePeriod cfg) \<le> unat b) (acquired s)"
proof -
  let ?P = "\<lambda>b a :: u32. unat a + unat (GracePeriod cfg) \<le> unat b"
  have "successively ?P (acquired s)"
    using assms unfolding lock_inv_def by (auto elim!: successively_mono intro!: spacing_nat)
  moreover have "transp ?P" by (auto intro: transpI)
  ultimately show ?thesis by (simp add: successively_conv_sorted_wrt)
qed

section \<open>Properties of the offchain worker\<close>

text \<open>
  A response is fetched only from an answer with status 200 that arrived before the three-second
  deadline and whose body is non-empty valid UTF-8; it is then that body, unchanged.
\<close>

lemma fetch_response_correct:
  "fetch_response h = Inr r \<longleftrightarrow>
     (\<exists>pending. http_send h (str ''http://127.0.0.1:8080/block'') (deadline_in h 3000) = Inr pending \<and>
        http_try_wait h pending (deadline_in h 3000) = Inr (Inr (200, r))) \<and> utf8_valid r \<and> r \<noteq> []"
  by (rule fetch_response_iff)

text \<open>
  Kind of transaction. If the local storage obeys its contract, the worker of block \<open>bn\<close> either
  sends nothing or sends the kind its block number modulo four selects; and if nothing recent is
  stored, only a concurrent modification can stop it.
\<close>

lemma choose_transaction_type_correct:
  assumes "local_cell mutate"
  shows "choose_transaction_type cfg mutate bn \<in>
      {NoTx, (if bn mod 4 = 0 then SignedTx else if bn mod 4 = 1 then UnsignedForAny
              else if bn mod 4 = 2 then UnsignedForAll else Raw)} \<and>
    (choose_transaction_type cfg mutate bn = NoTx \<longrightarrow>
      (\<exists>v. mutate (last_send_update cfg bn) = Inl (ConcurrentModification v)) \<or>
      (\<exists>b. bn < b + GracePeriod cfg))"
proof -
  have written: "v = bn" if "mutate (last_send_update cfg bn) = Inr v" for v
    using local_cell.mutate_written [OF assms that] last_send_update_Inr by blast
  have failed: "\<exists>b. bn < b + GracePeriod cfg" if "mutate (last_send_update cfg bn) = Inl (ValueFunctionFailed ())"
    using local_cell.mutate_failed [OF assms that] last_send_update_Inl by blast
  show ?thesis
  proof (cases "mutate (last_send_update cfg bn)")
    case (Inl e)
    with failed show ?thesis by (cases e) (auto simp: choose_transaction_type_def)
  next
    case (Inr v)
    with written show ?thesis by (simp add: choose_transaction_type_def Let_def)
  qed
qed

text \<open>
  C9. Grace period under concurrency. However the runs of any number of workers interleave, the blocks
  at which a worker goes on to send are strictly spaced: each is at least the grace period after the
  one before, as long as block numbers stay a grace period below the 32-bit limit.
\<close>

theorem grace_period_respected:
  assumes "(lock_step cfg)\<^sup>*\<^sup>* \<lparr>cell = c0, reading = Map.empty, acquired = []\<rparr> s"
    and "\<forall>b \<in> set (acquired s). unat b + unat (GracePeriod cfg) < 2 ^ 32"
  shows "sorted_wrt (\<lambda>later earlier. unat earlier + unat (GracePeriod cfg) \<le> unat later) (acquired s)"
proof (rule lock_inv_sorted)
  have "lock_inv cfg \<lparr>cell = c0, reading = Map.empty, acquired = []\<rparr>" by (simp add: lock_inv_def)
  with assms(1) show "lock_inv cfg s" by (rule lock_reach_inv)
qed (use assms(2) in blast)

text \<open>
  The concrete run: workers of blocks 5 and 6 read the empty cell; the first one writes, the other
  loses the comparison; the worker of block 8 is outside the grace period and sends.
\<close>

lemma grace_example:
  "\<exists>s. (lock_step tiny_config)\<^sup>*\<^sup>* \<lparr>cell = None, reading = Map.empty, acquired = []\<rparr> (s :: nat lock_state) \<and>
     acquired s = [8, 5]"
proof -
  let ?s0 = "\<lparr>cell = None, reading = Map.empty, acquired = []\<rparr> :: nat lock_state"
  let ?s1 = "?s0\<lparr>reading := [0 \<mapsto> (5, None)]\<rparr>"
  let ?s2 = "?s0\<lparr>reading := [0 \<mapsto> (5, None), 1 \<mapsto> (6, None)]\<rparr>"
  let ?s3 = "\<lparr>cell = Some 5, reading = [1 \<mapsto> (6, None)], acquired = [5]\<rparr> :: nat lock_state"
  let ?s4 = "\<lparr>cell = Some 5, reading = Map.empty, acquired = [5]\<rparr> :: nat lock_state"
  have 1: "lock_step tiny_config ?s0 ?s1" using lock_read [of ?s0 0 tiny_config 5] by simp
  have 2: "lock_step tiny_config ?s1 ?s2" using lock_read [of ?s1 1 tiny_config 6] by simp
  have 3: "lock_step tiny_config ?s2 ?s3"
    using lock_finish [of ?s2 0 5 None tiny_config]
    by (simp add: choose_transaction_type_def cas_mutate_def last_send_update_def fun_upd_twist)
  have 4: "lock_step tiny_config ?s3 ?s4"
    using lock_finish [of ?s3 1 6 None tiny_config]
    by (simp add: choose_transaction_type_def cas_mutate_def last_send_update_def)
  let ?s5 = "?s4\<lparr>reading := [2 \<mapsto> (8, Some 5)]\<rparr>"
  let ?s6 = "\<lparr>cell = Some 8, reading = Map.empty, acquired = [8, 5]\<rparr> :: nat lock_state"
  have 5: "lock_step tiny_config ?s4 ?s5" using lock_read [of ?s4 2 tiny_config 8] by simp
  have 6: "lock_step tiny_config ?s5 ?s6"
    using lock_finish [of ?s5 2 8 "Some 5" tiny_config]
    by (simp add: choose_transaction_type_def cas_mutate_def last_send_update_def)
  have "(lock_step tiny_config)\<^sup>*\<^sup>* ?s0 ?s6"
    using 1 2 3 4 5 6 by (meson rtranclp.rtrancl_into_rtrancl rtranclp.rtrancl_refl)
  then show ?thesis by (intro exI [of _ ?s6]) simp
qed

theorem grace_period_respected_witness:
  "\<exists>s :: nat lock_state. acquired s = [8, 5] \<and>
     sorted_wrt (\<lambda>later earlier. unat earlier + unat (GracePeriod tiny_config) \<le> unat later) (acquired s)"
proof -
  obtain s :: "nat lock_state" where
    s: "(lock_step tiny_config)\<^sup>*\<^sup>* \<lparr>cell = None, reading = Map.empty, acquired = []\<rparr> s" "acquired s = [8, 5]"
    using grace_example by blast
  then show ?thesis using grace_period_respected [OF s(1)] by auto
qed

text \<open>
  C25. The requests of one run, exactly. If the local storage obeys its contract, the worker of block \<open>bn\<close> makes no
  request without a local key, when it does not get the right to send, when fetching fails, or, unless it is the turn
  of a signed transaction, while the chain's next unsigned block is ahead. Otherwise it makes exactly one, of the kind
  that its block number modulo four selects, with the fetched response: signed by all accounts, unsigned with the
  signed payload of any account, unsigned with the payloads of all accounts, or raw. The run ends early, without a
  result, exactly without a key.
\<close>

theorem edge_worker_requests:
  assumes "local_cell mutate" and "edge_offchain_worker cfg sg mutate h0 h1 st bn = (res, reqs)"
  shows "(res = None \<longleftrightarrow> \<not> can_sign_all sg) \<and>
    (reqs = [] \<longleftrightarrow> \<not> can_sign_all sg \<or> choose_transaction_type cfg mutate bn = NoTx \<or>
      (\<forall>r. fetch_response h1 \<noteq> Inr r) \<or> bn mod 4 \<noteq> 0 \<and> bn < NextUnsignedAt st) \<and>
    (reqs \<noteq> [] \<longrightarrow> (\<exists>r. fetch_response h1 = Inr r \<and>
      reqs = [if bn mod 4 = 0 then SendSignedAll (\<lambda>a. SubmitResponse r)
              else if bn mod 4 = 1 then SendUnsignedAny (payload_for r bn) SubmitResponseUnsignedWithSignedPayload
              else if bn mod 4 = 2 then SendUnsignedAll (payload_for r bn) SubmitResponseUnsignedWithSignedPayload
              else SubmitRaw (SubmitResponseUnsigned bn r)]))"
proof -
  have reqs: "reqs = snd (edge_offchain_worker cfg sg mutate h0 h1 st bn)"
    and res: "res = fst (edge_offchain_worker cfg sg mutate h0 h1 st bn)" using assms(2) by simp_all
  have "choose_transaction_type cfg mutate bn = NoTx \<or> choose_transaction_type cfg mutate bn =
      (if bn mod 4 = 0 then SignedTx else if bn mod 4 = 1 then UnsignedForAny
       else if bn mod 4 = 2 then UnsignedForAll else Raw)"
    using choose_transaction_type_correct [OF assms(1), of cfg bn] by blast
  then show ?thesis unfolding res worker_result_eq unfolding reqs worker_requests_eq
    by (cases "fetch_response h1") (auto simp: Let_def not_le split: if_splits)
qed

abbreviation demo_signer :: "(nat, nat, nat) edge_signer" where
  "demo_signer \<equiv> one_account \<lparr>acct_id = 7, acct_public = 70\<rparr> 9"

lemma demo_worker:
  "edge_offchain_worker tiny_config demo_signer (cas_mutate None None) (answering 200 [65]) (answering 200 [66])
     full_state 7 = (Some (Inr ()), [SubmitRaw (SubmitResponseUnsigned 7 [66])])"
  by (simp add: edge_offchain_worker_def choose_transaction_type_def cas_mutate_def last_send_update_def
      fetch_response_and_send_raw_unsigned_def fetch_response_answering one_account_def)

theorem edge_worker_requests_witness:
  "snd (edge_offchain_worker tiny_config demo_signer (cas_mutate None None) (answering 200 [65]) (answering 200 [66])
     full_state 6) = [SendUnsignedAll (payload_for [66] 6) SubmitResponseUnsignedWithSignedPayload]"
proof -
  obtain res reqs where w: "edge_offchain_worker tiny_config demo_signer (cas_mutate None None) (answering 200 [65])
      (answering 200 [66]) full_state 6 = (res, reqs)" by fastforce
  have "fetch_response (answering 200 [66]) = Inr [66]" by (simp add: fetch_response_answering)
  moreover have "choose_transaction_type tiny_config (cas_mutate None None) 6 = UnsignedForAll"
    by (simp add: choose_transaction_type_def cas_mutate_def last_send_update_def)
  ultimately have "reqs = [SendUnsignedAll (payload_for [66] 6) SubmitResponseUnsignedWithSignedPayload]"
    using edge_worker_requests [OF cas.local_cell_axioms w] by (simp add: one_account_def)
  with w show ?thesis by simp
qed

text \<open>
  C24. The worker and the pallet agree: every call a run can submit is well formed; a signed one,
  dispatched while a connection exists, succeeds; an unsigned one passes validation if its signature
  verifies, and dispatched unsigned it succeeds. Either way the response is stored if it fits.
\<close>

theorem edge_worker_calls_accepted:
  assumes "bounded_vec bv"
    and "edge_offchain_worker cfg sg mutate h0 h1 st bn = (res, reqs)" and "req \<in> set reqs" and "c \<in> request_calls req"
    and "is_signed_request req \<longrightarrow> ensure_signed sys orig \<noteq> None \<and> Connection st' \<noteq> None"
    and "\<not> is_signed_request req \<longrightarrow> ensure_none sys orig"
    and "\<forall>p sig. c = SubmitResponseUnsignedWithSignedPayload p sig \<longrightarrow> verify p sig"
  shows "edge_call_wf c \<and> (\<not> is_signed_request req \<longrightarrow> (\<exists>t. validate_unsigned verify c = Valid t)) \<and>
    (\<exists>r w st''. fetch_response h1 = Inr r \<and> edge_dispatch cfg bv sys orig c st' = Ok st'' \<and>
       Responses st'' = (if length r \<le> unat (MaxStringLength cfg) \<and> length (Responses st') < unat (MaxResponses cfg)
                         then Responses st' @ [(w, r)] else Responses st'))"
proof -
  obtain r where r: "fetch_response h1 = Inr r" "edge_sends (NextUnsignedAt st) bn r req"
    using edge_offchain_worker_requests [OF assms(2)] assms(3) by fastforce
  then have valid: "utf8_valid r" by (simp add: fetch_response_iff)
  from r(2) show ?thesis
    by (rule edge_sendsE)
      (use assms(4-) valid r(1) in \<open>auto simp: edge_pallet.call_eqs [OF edge_palletI [OF assms(1)]] Let_def
        payload_for_def valid_tx_def\<close>)
qed

theorem edge_worker_calls_accepted_witness:
  "\<exists>st''. edge_dispatch tiny_config vec_ops (raw_system 8) None_origin
      (SubmitResponseUnsigned 7 [66] :: (nat, nat) edge_call) full_state = Ok st'' \<and> Responses st'' = [(None, [66])]"
proof -
  have "edge_dispatch tiny_config vec_ops (raw_system 8) None_origin
      (SubmitResponseUnsigned 7 [66] :: (nat, nat) edge_call) full_state
    = Ok (full_state\<lparr>Responses := [(None, [66])], NextUnsignedAt := 11,
            edge_events := edge_events full_state @ [NewResponse [66] None]\<rparr>)"
    by (simp add: submit_response_unsigned_def edge_vec.add_response_eq edge_deposit_event_def)
  then show ?thesis
    using edge_worker_calls_accepted [OF vec_bounded demo_worker, where c = "SubmitResponseUnsigned 7 [66]"
        and orig = "None_origin :: nat raw_origin" and sys = "raw_system 8" and st' = full_state
        and verify = "\<lambda>p sig. True"] by simp
qed

end
