(* ===== verification/Worker_Registration.thy ===== *)
theory Worker_Registration
  imports Frame
begin

text \<open>
  The pallet of \<^verbatim>\<open>pallets/worker-registration/src/lib.rs\<close>: worker clusters, tasks, the three
  dispatchable functions, and the off-chain index key they write. The offchain worker of the same
  file is in theory \<^verbatim>\<open>Worker_Offchain\<close>. Record fields carry the prefixes \<open>w_\<close> and \<open>t_\<close>, as the source's
  own names (\<open>id\<close>, \<open>name\<close>, \<open>ip\<close>, \<open>port\<close>) are too common to be constants.
\<close>

section \<open>Data\<close>

datatype worker_status_type = WorkerActive | WorkerPending | WorkerCompleted | WorkerInactive

datatype task_status_type = TaskPending | TaskCompleted | TaskExpired

datatype task_type = Docker

record ip =
  ipv4 :: "u32 list option"
  ipv6 :: "u32 list option"

record 'a worker =
  w_id :: u64
  w_account :: 'a
  w_start_block :: u32
  w_name :: bytes
  w_ip :: ip
  w_port :: u32
  w_status :: bool

record 'a task_info =
  t_task_owner :: 'a
  t_create_block :: u32
  t_metadata :: bytes
  t_assigned_worker :: u64
  t_time_elapsed :: "u32 option"
  t_average_cpu_percentage_use :: "u8 option"
  t_task_type :: task_type

datatype 'a wr_event =
    WorkerRegistered 'a
  | TaskScheduled 'a 'a u64 bytes bytes
  | ConnectionEstablished u64
  | SubmittedCompletedTask u64
  | VerifiedCompletedTask u64

datatype wr_error =
    WorkerRegisterMissingIp
  | WorkerRegisterMissingPort
  | ClusterExists
  | NoWorkersAvailable
  | WorkerClusterNotRegistered
  | UnassignedTaskId
  | InvalidTaskOwner
  | RequirePendingTask

text \<open>
  The storage items, the part of the node's off-chain database that \<open>offchain_index::set\<close> writes, and the
  events deposited so far. The off-chain entries are those of a node that runs with \<open>--enable-offchain-indexing=true\<close>, as
  the README requires of a node with offchain workers; on other nodes the writes have no effect.
\<close>

record 'a wr_storage =
  NextClusterId :: u64
  WorkerAccounts :: "'a \<rightharpoonup> u64"
  TaskStatus :: "u64 \<rightharpoonup> task_status_type"
  TaskAllocations :: "u64 \<rightharpoonup> 'a"
  TaskOwners :: "u64 \<rightharpoonup> 'a"
  NextTaskId :: u64
  Tasks :: "u64 \<rightharpoonup> 'a task_info"
  WorkerClusters :: "u64 \<rightharpoonup> 'a worker"
  offchain_db :: "bytes \<rightharpoonup> bytes"
  wr_events :: "'a wr_event list"

definition DefaultForm1 :: u64 where
  "DefaultForm1 = 0"

definition wr_genesis :: "'a wr_storage" where
  "wr_genesis =
     \<lparr>NextClusterId = DefaultForm1, WorkerAccounts = Map.empty, TaskStatus = Map.empty,
      TaskAllocations = Map.empty, TaskOwners = Map.empty, NextTaskId = 0, Tasks = Map.empty,
      WorkerClusters = Map.empty, offchain_db = Map.empty, wr_events = []\<rparr>"

definition wr_deposit_event :: "'a wr_event \<Rightarrow> 'a wr_storage \<Rightarrow> 'a wr_storage" where
  "wr_deposit_event e st = st\<lparr>wr_events := wr_events st @ [e]\<rparr>"

text \<open>
  Parameters: iteration over \<open>WorkerAccounts\<close>, the hash, and the SCALE encoding of a block number and of
  the indexing data (a label and a cluster id).
\<close>

record 'a wr_host =
  accounts_iter :: "('a \<rightharpoonup> u64) \<Rightarrow> ('a \<times> u64) list"
  blake2_256 :: "bytes \<Rightarrow> bytes"
  encode_block :: "u32 \<Rightarrow> bytes"
  encode_indexing :: "bytes \<times> u64 \<Rightarrow> bytes"
  decode_indexing :: "bytes \<Rightarrow> (bytes \<times> u64) option"

type_synonym 'a wr_outcome = "('a wr_storage, wr_error dispatch_error) outcome"

section \<open>Helpers\<close>

definition ONCHAIN_TX_KEY :: bytes where
  "ONCHAIN_TX_KEY = str ''cluster::storage::tx''"

text \<open>The source comments out the chaining of its argument \<open>extend\<close> (here \<open>ext\<close>), so it is not used.\<close>

definition derived_key :: "'a wr_host \<Rightarrow> u32 \<Rightarrow> bytes \<Rightarrow> bytes" where
  "derived_key host bn ext = ONCHAIN_TX_KEY @ str ''/'' @ encode_block host bn"

text \<open>The textual address, as both \<open>task_scheduler\<close> and \<open>http_call\<close> form it; 46 is a dot, 58 a colon.\<close>

definition string_ip :: "ip \<Rightarrow> bytes" where
  "string_ip addr =
    (case ipv4 addr of
       Some i \<Rightarrow> join 46 (map to_string_u32 i)
     | None \<Rightarrow>
         (case ipv6 addr of
            Some i \<Rightarrow> join 58 (map to_string_u32 i)
          | None \<Rightarrow> str ''localhost''))"

text \<open>The storage updates of a registration and of a scheduled task.\<close>

definition insert_cluster :: "'a \<Rightarrow> u64 \<Rightarrow> 'a worker \<Rightarrow> 'a wr_storage \<Rightarrow> 'a wr_storage" where
  "insert_cluster creator cid cluster st =
     st\<lparr>WorkerAccounts := (WorkerAccounts st)(creator \<mapsto> cid),
        WorkerClusters := (WorkerClusters st)(cid \<mapsto> cluster),
        NextClusterId := NextClusterId st + 1\<rparr>"

definition insert_task :: "u64 \<Rightarrow> 'a \<Rightarrow> 'a \<Rightarrow> 'a task_info \<Rightarrow> 'a wr_storage \<Rightarrow> 'a wr_storage" where
  "insert_task task_id selected_worker who task_info st =
     st\<lparr>TaskAllocations := (TaskAllocations st)(task_id \<mapsto> selected_worker),
        TaskOwners := (TaskOwners st)(task_id \<mapsto> who),
        Tasks := (Tasks st)(task_id \<mapsto> task_info),
        TaskStatus := (TaskStatus st)(task_id \<mapsto> TaskPending)\<rparr>"

section \<open>Dispatchable functions\<close>

definition worker_register ::
  "'a wr_host \<Rightarrow> ('o, 'a) frame_system \<Rightarrow> 'o \<Rightarrow> bytes \<Rightarrow> ip \<Rightarrow> u32 \<Rightarrow> 'a wr_storage \<Rightarrow> 'a wr_outcome" where
  [pallet_defs]: "worker_register host sys orig nm addr prt st =
    (case ensure_signed sys orig of
       None \<Rightarrow> Err BadOrigin st
     | Some creator \<Rightarrow>
         if \<not> (ipv4 addr \<noteq> None \<or> ipv6 addr \<noteq> None) then Err (Module WorkerRegisterMissingIp) st
         else if \<not> prt > 0 then Err (Module WorkerRegisterMissingPort) st
         else if WorkerAccounts st creator \<noteq> None then Err (Module ClusterExists) st
         else
           (let cid = NextClusterId st;
                cluster = \<lparr>w_id = cid, w_account = creator, w_start_block = block_number sys, w_name = nm,
                           w_ip = addr, w_port = prt, w_status = False\<rparr>;
                st1 = insert_cluster creator cid cluster st;
                key = derived_key host (block_number sys) (str ''ping'');
                data = (str ''registered_cluster_ping'', cid);
                st2 = st1\<lparr>offchain_db := (offchain_db st1)(key \<mapsto> encode_indexing host data)\<rparr> in
            Ok (wr_deposit_event (WorkerRegistered creator) st2)))"

definition task_scheduler ::
  "'a wr_host \<Rightarrow> ('o, 'a) frame_system \<Rightarrow> 'o \<Rightarrow> bytes \<Rightarrow> 'a wr_storage \<Rightarrow> 'a wr_outcome" where
  [pallet_defs]: "task_scheduler host sys orig task_data st =
    (case ensure_signed sys orig of
       None \<Rightarrow> Err BadOrigin st
     | Some who \<Rightarrow>
         if accounts_iter host (WorkerAccounts st) = [] then Err (Module NoWorkersAvailable) st
         else
           (let task_id = NextTaskId st;
                st1 = st\<lparr>NextTaskId := task_id + 1\<rparr>;
                workers = accounts_iter host (WorkerAccounts st1) in
            (case index_vec (blake2_256 host task_data) 0 of
               None \<Rightarrow> Panic
             | Some h0 \<Rightarrow>
                 if length workers = 0 then Panic
                 else
                   (let random_index = unat h0 mod length workers in
                    (case index_vec workers random_index of
                       None \<Rightarrow> Panic
                     | Some (selected_worker, _) \<Rightarrow>
                         (case WorkerAccounts st1 selected_worker of
                            None \<Rightarrow> Err (Module WorkerClusterNotRegistered) st1
                          | Some cluster_id \<Rightarrow>
                              (let task_info =
                                     \<lparr>t_task_owner = who, t_create_block = block_number sys,
                                      t_metadata = task_data, t_assigned_worker = cluster_id,
                                      t_time_elapsed = None, t_average_cpu_percentage_use = None,
                                      t_task_type = Docker\<rparr>;
                                   st2 = insert_task task_id selected_worker who task_info st1 in
                               (case WorkerAccounts st2 selected_worker of
                                  None \<Rightarrow> Err (Module WorkerClusterNotRegistered) st2
                                | Some cluster_id' \<Rightarrow>
                                    (case WorkerClusters st2 cluster_id' of
                                       None \<Rightarrow> Err (Module WorkerClusterNotRegistered) st2
                                     | Some cluster \<Rightarrow>
                                         Ok (wr_deposit_event
                                              (TaskScheduled selected_worker who task_id task_data
                                                 (string_ip (w_ip cluster))) st2))))))))))"

text \<open>
  \<open>try_mutate\<close> hands the stored option to the closure; the closure fails without a write when the cluster
  is absent, and otherwise writes the changed cluster, which \<open>try_mutate\<close> then stores once more.
\<close>

definition verify_connection ::
  "('o, 'a) frame_system \<Rightarrow> 'o \<Rightarrow> u64 \<Rightarrow> bool \<Rightarrow> 'a wr_storage \<Rightarrow> 'a wr_outcome" where
  [pallet_defs]: "verify_connection sys orig worker_index deployment_status st =
    (case ensure_signed sys orig of
       None \<Rightarrow> Err BadOrigin st
     | Some who \<Rightarrow>
         (case WorkerClusters st worker_index of
            None \<Rightarrow> Err (Module WorkerClusterNotRegistered) st
          | Some cluster_info \<Rightarrow>
              (let cluster_info' = cluster_info\<lparr>w_status := deployment_status\<rparr>;
                   st1 = st\<lparr>WorkerClusters := (WorkerClusters st)(worker_index \<mapsto> cluster_info')\<rparr>;
                   st2 = wr_deposit_event (ConnectionEstablished worker_index) st1 in
               Ok (st2\<lparr>WorkerClusters := (WorkerClusters st2)(worker_index \<mapsto> cluster_info')\<rparr>))))"

datatype wr_call =
    WorkerRegister bytes ip u32
  | TaskScheduler bytes
  | VerifyConnection u64 bool

fun wr_dispatch ::
  "'a wr_host \<Rightarrow> ('o, 'a) frame_system \<Rightarrow> 'o \<Rightarrow> wr_call \<Rightarrow> 'a wr_storage \<Rightarrow> 'a wr_outcome" where
  "wr_dispatch host sys orig (WorkerRegister nm addr prt) st = worker_register host sys orig nm addr prt st"
| "wr_dispatch host sys orig (TaskScheduler task_data) st = task_scheduler host sys orig task_data st"
| "wr_dispatch host sys orig (VerifyConnection i b) st = verify_connection sys orig i b st"

type_synonym ('o, 'a) wr_label = "('o, 'a) frame_system \<times> 'o \<times> wr_call"

fun wr_exec :: "'a wr_host \<Rightarrow> ('o, 'a) wr_label \<Rightarrow> 'a wr_storage \<Rightarrow> 'a wr_outcome" where
  "wr_exec host (sys, orig, c) st = wr_dispatch host sys orig c st"

section \<open>Identifier tables\<close>

text \<open>
  Clusters and tasks are both kept in a table indexed by a counter: an entry is stored at the
  counter's value and the counter is increased. Until the counter wraps, the occupied indices are
  exactly those below it, so an allocation never overwrites.
\<close>

locale id_table =
  fixes nxt :: "'s \<Rightarrow> u64" and tab :: "'s \<Rightarrow> u64 \<rightharpoonup> 'v" and alloc :: "'x \<Rightarrow> 's \<Rightarrow> 's" and val :: "'x \<Rightarrow> 's \<Rightarrow> 'v"
  assumes nxt_alloc: "nxt (alloc x s) = nxt s + 1"
    and tab_alloc: "tab (alloc x s) = (tab s)(nxt s \<mapsto> val x s)"
begin

definition dense :: "'s \<Rightarrow> bool" where
  "dense s \<longleftrightarrow> dom (tab s) = {i. i < nxt s}"

lemma dense_fresh: "dense s \<Longrightarrow> tab s (nxt s) = None"
  by (auto simp: dense_def)

lemma dense_alloc:
  assumes "dense s" and "Suc (unat (nxt s)) < 2 ^ 64"
  shows "dense (alloc x s)"
proof -
  have "unat (nxt s + 1) = Suc (unat (nxt s))"
    using assms(2) by (simp add: word_plus_one_gt)
  then have "{i. i < nxt s + 1} = insert (nxt s) {i. i < nxt s}"
    by (auto simp: word_less_nat_alt less_Suc_eq word_unat_eq_iff)
  with assms(1) show ?thesis by (simp add: dense_def nxt_alloc tab_alloc)
qed

lemma alloc_keeps: "dense s \<Longrightarrow> tab s \<subseteq>\<^sub>m tab (alloc x s)"
  using dense_fresh by (auto simp: map_le_def tab_alloc)

end

interpretation clusters: id_table NextClusterId WorkerClusters
  "\<lambda>(a, w) s. insert_cluster a (NextClusterId s) w s" "\<lambda>(a, w) s. w"
  by unfold_locales (auto simp: insert_cluster_def)

interpretation tasks: id_table NextTaskId Tasks
  "\<lambda>(a, who, ti) s. insert_task (NextTaskId s) a who ti (s\<lparr>NextTaskId := NextTaskId s + 1\<rparr>)" "\<lambda>(a, who, ti) s. ti"
  by unfold_locales (auto simp: insert_task_def)

section \<open>Invariant\<close>

text \<open>
  Accounts and clusters are in bijection, and each cluster has an address and a port; a task's owner,
  allocation and record agree, its worker is registered, and its status is pending.
\<close>

definition clusters_inv :: "'a wr_storage \<Rightarrow> bool" where
  "clusters_inv st \<longleftrightarrow>
     finite (dom (WorkerAccounts st)) \<and> clusters.dense st \<and>
     (\<forall>a cid. WorkerAccounts st a = Some cid \<longrightarrow> (\<exists>w. WorkerClusters st cid = Some w \<and> w_account w = a)) \<and>
     (\<forall>cid w. WorkerClusters st cid = Some w \<longrightarrow>
        w_id w = cid \<and> WorkerAccounts st (w_account w) = Some cid \<and>
        (ipv4 (w_ip w) \<noteq> None \<or> ipv6 (w_ip w) \<noteq> None) \<and> 0 < w_port w)"

definition tasks_inv :: "'a wr_storage \<Rightarrow> bool" where
  "tasks_inv st \<longleftrightarrow>
     tasks.dense st \<and> dom (TaskStatus st) = dom (Tasks st) \<and> dom (TaskAllocations st) = dom (Tasks st) \<and>
     dom (TaskOwners st) = dom (Tasks st) \<and>
     (\<forall>t ti. Tasks st t = Some ti \<longrightarrow> TaskOwners st t = Some (t_task_owner ti) \<and>
        (\<exists>a. TaskAllocations st t = Some a \<and> WorkerAccounts st a = Some (t_assigned_worker ti))) \<and>
     (\<forall>t s. TaskStatus st t = Some s \<longrightarrow> s = TaskPending)"

definition wr_inv :: "'a wr_storage \<Rightarrow> bool" where
  "wr_inv st \<longleftrightarrow> clusters_inv st \<and> tasks_inv st"

lemma wr_inv_genesis: "wr_inv wr_genesis"
  by (simp add: wr_inv_def clusters_inv_def tasks_inv_def clusters.dense_def tasks.dense_def wr_genesis_def DefaultForm1_def)

section \<open>The step relation of the pallet\<close>

inductive wr_step :: "'a wr_storage \<Rightarrow> 'a wr_storage \<Rightarrow> bool" where
  step_register: "WorkerAccounts st (w_account w) = None \<Longrightarrow> w_id w = NextClusterId st \<Longrightarrow>
    ipv4 (w_ip w) \<noteq> None \<or> ipv6 (w_ip w) \<noteq> None \<Longrightarrow> 0 < w_port w \<Longrightarrow> \<not> w_status w \<Longrightarrow>
    wr_step st (wr_deposit_event (WorkerRegistered (w_account w))
      ((insert_cluster (w_account w) (NextClusterId st) w st)\<lparr>offchain_db := db\<rparr>))"
| step_task: "WorkerAccounts st a = Some (t_assigned_worker ti) \<Longrightarrow>
    wr_step st (wr_deposit_event (TaskScheduled a (t_task_owner ti) (NextTaskId st) (t_metadata ti) ipt)
      (insert_task (NextTaskId st) a (t_task_owner ti) ti (st\<lparr>NextTaskId := NextTaskId st + 1\<rparr>)))"
| step_verify: "WorkerClusters st i = Some w \<Longrightarrow>
    wr_step st (wr_deposit_event (ConnectionEstablished i)
      (st\<lparr>WorkerClusters := (WorkerClusters st)(i \<mapsto> w\<lparr>w_status := b\<rparr>)\<rparr>))"

inductive_cases wr_stepE: "wr_step st st'"

lemma wr_deposit_event_simps [simp]:
  "NextClusterId (wr_deposit_event e st) = NextClusterId st"
  "WorkerAccounts (wr_deposit_event e st) = WorkerAccounts st"
  "TaskStatus (wr_deposit_event e st) = TaskStatus st"
  "TaskAllocations (wr_deposit_event e st) = TaskAllocations st"
  "TaskOwners (wr_deposit_event e st) = TaskOwners st"
  "NextTaskId (wr_deposit_event e st) = NextTaskId st"
  "Tasks (wr_deposit_event e st) = Tasks st"
  "WorkerClusters (wr_deposit_event e st) = WorkerClusters st"
  "offchain_db (wr_deposit_event e st) = offchain_db st"
  "wr_events (wr_deposit_event e st) = wr_events st @ [e]"
  by (simp_all add: wr_deposit_event_def)

lemma clusters_inv_cong:
  "WorkerAccounts st' = WorkerAccounts st \<Longrightarrow> WorkerClusters st' = WorkerClusters st \<Longrightarrow>
   NextClusterId st' = NextClusterId st \<Longrightarrow> clusters_inv st' = clusters_inv st"
  by (simp add: clusters_inv_def clusters.dense_def)

lemma tasks_inv_mono:
  assumes le: "WorkerAccounts st \<subseteq>\<^sub>m WorkerAccounts st'"
    and same: "Tasks st' = Tasks st" "TaskStatus st' = TaskStatus st" "TaskAllocations st' = TaskAllocations st"
      "TaskOwners st' = TaskOwners st" "NextTaskId st' = NextTaskId st"
    and inv: "tasks_inv st"
  shows "tasks_inv st'"
proof -
  have "WorkerAccounts st' a = Some c" if "WorkerAccounts st a = Some c" for a c
    using le that by (force simp: map_le_def)
  with inv show ?thesis unfolding tasks_inv_def tasks.dense_def same by blast
qed

lemma clusters_inv_register:
  assumes inv: "clusters_inv st" and new: "WorkerAccounts st (w_account w) = None" "w_id w = NextClusterId st"
      "ipv4 (w_ip w) \<noteq> None \<or> ipv6 (w_ip w) \<noteq> None" "0 < w_port w"
    and room: "Suc (unat (NextClusterId st)) < 2 ^ 64"
  shows "clusters_inv (insert_cluster (w_account w) (NextClusterId st) w st)"
proof -
  have "clusters.dense (insert_cluster (w_account w) (NextClusterId st) w st)"
    using clusters.dense_alloc [of st "(w_account w, w)"] inv room by (simp add: clusters_inv_def)
  moreover have "WorkerClusters st (NextClusterId st) = None"
    using inv by (auto simp: clusters_inv_def intro: clusters.dense_fresh)
  ultimately show ?thesis
    using inv new unfolding clusters_inv_def insert_cluster_def by (auto; fastforce)
qed

lemma tasks_inv_schedule:
  assumes inv: "tasks_inv st" and a: "WorkerAccounts st a = Some (t_assigned_worker ti)"
    and room: "Suc (unat (NextTaskId st)) < 2 ^ 64"
  shows "tasks_inv (insert_task (NextTaskId st) a (t_task_owner ti) ti (st\<lparr>NextTaskId := NextTaskId st + 1\<rparr>))"
proof -
  have "tasks.dense (insert_task (NextTaskId st) a (t_task_owner ti) ti (st\<lparr>NextTaskId := NextTaskId st + 1\<rparr>))"
    using tasks.dense_alloc [of st "(a, t_task_owner ti, ti)"] inv room by (simp add: tasks_inv_def)
  with inv a show ?thesis
    unfolding tasks_inv_def by (simp add: insert_task_def)
qed

lemma clusters_inv_verify:
  assumes inv: "clusters_inv st" and w: "WorkerClusters st i = Some w"
  shows "clusters_inv (st\<lparr>WorkerClusters := (WorkerClusters st)(i \<mapsto> w\<lparr>w_status := b\<rparr>)\<rparr>)"
proof -
  have "dom ((WorkerClusters st)(i \<mapsto> w\<lparr>w_status := b\<rparr>)) = dom (WorkerClusters st)"
    using w by auto
  moreover have "w_account w = a" if "WorkerAccounts st a = Some i" for a
    using inv w that unfolding clusters_inv_def by fastforce
  ultimately show ?thesis
    using inv w unfolding clusters_inv_def clusters.dense_def by simp
qed

lemma wr_step_inv:
  assumes step: "wr_step st st'" and inv: "wr_inv st"
    and room: "Suc (unat (NextClusterId st)) < 2 ^ 64" "Suc (unat (NextTaskId st)) < 2 ^ 64"
  shows "wr_inv st'"
  using step
proof (cases rule: wr_step.cases)
  case (step_register w db)
  have "clusters_inv (insert_cluster (w_account w) (NextClusterId st) w st)"
    by (rule clusters_inv_register) (use step_register inv room in \<open>auto simp: wr_inv_def\<close>)
  then have "clusters_inv st'"
    by (subst clusters_inv_cong [of _ "insert_cluster (w_account w) (NextClusterId st) w st"])
      (simp_all add: step_register)
  moreover have "tasks_inv st'"
  proof (rule tasks_inv_mono)
    show "WorkerAccounts st \<subseteq>\<^sub>m WorkerAccounts st'"
      using step_register by (auto simp: insert_cluster_def map_le_def)
  qed (use inv in \<open>simp_all add: step_register insert_cluster_def wr_inv_def\<close>)
  ultimately show ?thesis by (simp add: wr_inv_def)
next
  case (step_task a ti ipt)
  let ?u = "insert_task (NextTaskId st) a (t_task_owner ti) ti (st\<lparr>NextTaskId := NextTaskId st + 1\<rparr>)"
  have "tasks_inv ?u"
    by (rule tasks_inv_schedule) (use step_task inv room in \<open>auto simp: wr_inv_def\<close>)
  then have "tasks_inv st'"
    by (intro tasks_inv_mono [of ?u st']) (simp_all add: step_task)
  moreover have "clusters_inv st'"
    using inv by (subst clusters_inv_cong [of _ st]) (simp_all add: step_task insert_task_def wr_inv_def)
  ultimately show ?thesis by (simp add: wr_inv_def)
next
  case (step_verify i w b)
  let ?u = "st\<lparr>WorkerClusters := (WorkerClusters st)(i \<mapsto> w\<lparr>w_status := b\<rparr>)\<rparr>"
  have "clusters_inv ?u"
    by (rule clusters_inv_verify) (use step_verify inv in \<open>auto simp: wr_inv_def\<close>)
  then have "clusters_inv st'"
    by (subst clusters_inv_cong [of _ ?u]) (simp_all add: step_verify)
  moreover have "tasks_inv st'"
    by (rule tasks_inv_mono [of st]) (use inv in \<open>simp_all add: step_verify wr_inv_def\<close>)
  ultimately show ?thesis by (simp add: wr_inv_def)
qed

lemma wr_step_counters:
  "wr_step st st' \<Longrightarrow> NextClusterId st' \<in> {NextClusterId st, NextClusterId st + 1} \<and>
   NextTaskId st' \<in> {NextTaskId st, NextTaskId st + 1}"
  by (erule wr_stepE) (simp_all add: insert_cluster_def insert_task_def)

section \<open>Closed forms of the calls\<close>

text \<open>The entry that a task is assigned to: the first hash byte modulo the number of registered accounts.\<close>

definition selected :: "'a wr_host \<Rightarrow> bytes \<Rightarrow> ('a \<rightharpoonup> u64) \<Rightarrow> 'a" where
  "selected host task_data accounts =
     (let ws = accounts_iter host accounts in fst (ws ! (unat (blake2_256 host task_data ! 0) mod length ws)))"

lemma worker_register_step:
  assumes "worker_register host sys orig nm addr prt st = Ok st'"
  shows "wr_step st st'"
proof -
  obtain creator where c: "ensure_signed sys orig = Some creator" "WorkerAccounts st creator = None"
    "ipv4 addr \<noteq> None \<or> ipv6 addr \<noteq> None" "0 < prt"
    using assms by (auto simp: worker_register_def split: option.splits if_splits)
  define w where "w = \<lparr>w_id = NextClusterId st, w_account = creator, w_start_block = block_number sys,
    w_name = nm, w_ip = addr, w_port = prt, w_status = False\<rparr>"
  have "\<exists>db. st' = wr_deposit_event (WorkerRegistered (w_account w))
    ((insert_cluster (w_account w) (NextClusterId st) w st)\<lparr>offchain_db := db\<rparr>)"
    using assms c by (auto simp: worker_register_def w_def Let_def)
  moreover have "wr_step st (wr_deposit_event (WorkerRegistered (w_account w))
    ((insert_cluster (w_account w) (NextClusterId st) w st)\<lparr>offchain_db := db\<rparr>))" for db
    by (rule step_register) (use c in \<open>simp_all add: w_def\<close>)
  ultimately show ?thesis by auto
qed

lemma verify_connection_eq:
  "verify_connection sys orig i b st =
    (if ensure_signed sys orig = None then Err BadOrigin st
     else case WorkerClusters st i of
            None \<Rightarrow> Err (Module WorkerClusterNotRegistered) st
          | Some w \<Rightarrow> Ok (wr_deposit_event (ConnectionEstablished i)
              (st\<lparr>WorkerClusters := (WorkerClusters st)(i \<mapsto> w\<lparr>w_status := b\<rparr>)\<rparr>)))"
  by (auto simp: verify_connection_def wr_deposit_event_def Let_def split: option.splits)

section \<open>The pallet over its host\<close>

text \<open>
  What the pallet relies on: iteration yields the entries of the map, and a BLAKE2 digest of 256 bits has
  32 bytes.
\<close>

definition scheduled :: "'a wr_host \<Rightarrow> 'a \<Rightarrow> u32 \<Rightarrow> bytes \<Rightarrow> 'a worker \<Rightarrow> 'a wr_storage \<Rightarrow> 'a wr_storage" where
  "scheduled host who now task_data w st =
     (let ti = \<lparr>t_task_owner = who, t_create_block = now, t_metadata = task_data, t_assigned_worker = w_id w,
                t_time_elapsed = None, t_average_cpu_percentage_use = None, t_task_type = Docker\<rparr> in
      wr_deposit_event (TaskScheduled (w_account w) who (NextTaskId st) task_data (string_ip (w_ip w)))
        (insert_task (NextTaskId st) (w_account w) who ti (st\<lparr>NextTaskId := NextTaskId st + 1\<rparr>)))"

locale wr_pallet = storage_iter "accounts_iter host" for host :: "'a wr_host" +
  assumes hash_length: "length (blake2_256 host x) = 32"
begin

lemma hash_byte: "index_vec (blake2_256 host x) 0 = Some (blake2_256 host x ! 0)"
  by (simp add: index_vec_def hash_length)

lemma accounts_empty_iff:
  "clusters_inv st \<Longrightarrow> accounts_iter host (WorkerAccounts st) = [] \<longleftrightarrow> WorkerAccounts st = Map.empty"
  by (rule iter_Nil_iff) (simp add: clusters_inv_def)

lemma selected_entry:
  assumes inv: "clusters_inv st" and ne: "WorkerAccounts st \<noteq> Map.empty"
  shows "\<exists>w. WorkerAccounts st (selected host td (WorkerAccounts st)) = Some (w_id w) \<and>
    WorkerClusters st (w_id w) = Some w \<and> w_account w = selected host td (WorkerAccounts st)"
proof -
  let ?ws = "accounts_iter host (WorkerAccounts st)"
  have "?ws \<noteq> []" using inv ne accounts_empty_iff by blast
  then have "unat (blake2_256 host td ! 0) mod length ?ws < length ?ws" by simp
  then obtain cid where "WorkerAccounts st (selected host td (WorkerAccounts st)) = Some cid"
    using inv iter_nth unfolding selected_def Let_def clusters_inv_def by blast
  with inv show ?thesis unfolding clusters_inv_def by metis
qed

lemma task_scheduler_eq:
  assumes inv: "clusters_inv st" and who: "ensure_signed sys orig = Some who"
    and w: "WorkerClusters st (w_id w) = Some w" "w_account w = selected host td (WorkerAccounts st)"
      "WorkerAccounts st (w_account w) = Some (w_id w)"
  shows "task_scheduler host sys orig td st = Ok (scheduled host who (block_number sys) td w st)"
proof -
  let ?ws = "accounts_iter host (WorkerAccounts st)"
  have "WorkerAccounts st \<noteq> Map.empty" using w(3) by auto
  then have ne: "?ws \<noteq> []" using inv accounts_empty_iff by blast
  then have len: "unat (blake2_256 host td ! 0) mod length ?ws < length ?ws" by simp
  then have "index_vec ?ws (unat (blake2_256 host td ! 0) mod length ?ws) =
    Some (w_account w, snd (?ws ! (unat (blake2_256 host td ! 0) mod length ?ws)))"
    by (simp add: index_vec_def w(2) selected_def Let_def)
  with who ne w show ?thesis
    by (simp add: task_scheduler_def hash_byte insert_task_def scheduled_def Let_def)
qed

lemma task_scheduler_cases:
  assumes "clusters_inv st"
  obtains (unsigned) "ensure_signed sys orig = None" "task_scheduler host sys orig td st = Err BadOrigin st"
  | (empty) "WorkerAccounts st = Map.empty" "task_scheduler host sys orig td st = Err (Module NoWorkersAvailable) st"
  | (scheduled) who w where "ensure_signed sys orig = Some who" "WorkerClusters st (w_id w) = Some w"
      "WorkerAccounts st (w_account w) = Some (w_id w)" "w_account w = selected host td (WorkerAccounts st)"
      "task_scheduler host sys orig td st = Ok (scheduled host who (block_number sys) td w st)"
proof (cases "ensure_signed sys orig")
  case None
  then show ?thesis using unsigned by (simp add: task_scheduler_def)
next
  case (Some who)
  show ?thesis
  proof (cases "WorkerAccounts st = Map.empty")
    case True
    with assms have "accounts_iter host (WorkerAccounts st) = []" using accounts_empty_iff by blast
    with Some have "task_scheduler host sys orig td st = Err (Module NoWorkersAvailable) st"
      by (simp add: task_scheduler_def)
    with True show ?thesis by (rule empty)
  next
    case False
    with assms obtain w where "WorkerAccounts st (selected host td (WorkerAccounts st)) = Some (w_id w)"
      and w: "WorkerClusters st (w_id w) = Some w" "w_account w = selected host td (WorkerAccounts st)"
      using selected_entry [of st td] by blast
    then have a: "WorkerAccounts st (w_account w) = Some (w_id w)" by simp
    show ?thesis
      by (rule scheduled [OF Some w(1) a w(2) task_scheduler_eq [OF assms Some w a]])
  qed
qed

lemma scheduled_step:
  "WorkerAccounts st (w_account w) = Some (w_id w) \<Longrightarrow> wr_step st (scheduled host who now td w st)"
  unfolding scheduled_def Let_def
  using step_task [of st "w_account w" "\<lparr>t_task_owner = who, t_create_block = now, t_metadata = td,
    t_assigned_worker = w_id w, t_time_elapsed = None, t_average_cpu_percentage_use = None, t_task_type = Docker\<rparr>"]
  by simp

lemma exec_ok_step:
  assumes "wr_inv st" and ok: "wr_exec host c st = Ok st'"
  shows "wr_step st st'"
proof -
  obtain sys orig call where c: "c = (sys, orig, call)" by (cases c)
  have inv: "clusters_inv st" using assms(1) by (simp add: wr_inv_def)
  show ?thesis
  proof (cases "call")
    case (WorkerRegister nm addr prt)
    with ok c show ?thesis by (auto intro: worker_register_step)
  next
    case (TaskScheduler td)
    show ?thesis
      by (rule task_scheduler_cases [OF inv, of sys orig td])
        (use ok c TaskScheduler in \<open>auto intro: scheduled_step\<close>)
  next
    case (VerifyConnection i b)
    with ok c show ?thesis
      by (auto simp: verify_connection_eq intro!: step_verify split: if_splits option.splits)
  qed
qed

lemma exec_err_same:
  assumes "wr_inv st" and err: "wr_exec host c st = Err e st'"
  shows "st' = st"
proof -
  obtain sys orig call where c: "c = (sys, orig, call)" by (cases c)
  have inv: "clusters_inv st" using assms(1) by (simp add: wr_inv_def)
  show ?thesis
  proof (cases "call")
    case (WorkerRegister nm addr prt)
    with err c show ?thesis by (auto simp: worker_register_def Let_def split: option.splits if_splits)
  next
    case (TaskScheduler td)
    show ?thesis
      by (rule task_scheduler_cases [OF inv, of sys orig td]) (use err c TaskScheduler in auto)
  next
    case (VerifyConnection i b)
    with err c show ?thesis by (auto simp: verify_connection_eq split: if_splits option.splits)
  qed
qed

lemma exec_no_panic:
  assumes "wr_inv st" shows "wr_exec host c st \<noteq> Panic"
proof -
  obtain sys orig call where c: "c = (sys, orig, call)" by (cases c)
  have inv: "clusters_inv st" using assms(1) by (simp add: wr_inv_def)
  show ?thesis
  proof (cases "call")
    case (TaskScheduler td)
    show ?thesis
      by (rule task_scheduler_cases [OF inv, of sys orig td]) (use c TaskScheduler in auto)
  qed (simp_all add: c worker_register_def verify_connection_def Let_def split: option.splits)
qed

end

section \<open>Runs\<close>

text \<open>
  The invariant along a run is indexed by the number of calls: as long as fewer than \<open>2 ^ 64\<close> calls have
  been made neither identifier counter can have wrapped.
\<close>

definition wr_run_inv :: "nat \<Rightarrow> 'a wr_storage \<Rightarrow> bool" where
  "wr_run_inv n st \<longleftrightarrow> n < 2 ^ 64 \<longrightarrow> wr_inv st \<and> unat (NextClusterId st) \<le> n \<and> unat (NextTaskId st) \<le> n"

lemma wr_run_inv_genesis: "wr_run_inv 0 wr_genesis"
  using wr_inv_genesis by (simp add: wr_run_inv_def wr_genesis_def DefaultForm1_def)

lemma wr_run_inv_step:
  assumes inv: "wr_run_inv n st" and step: "wr_step st st'"
  shows "wr_run_inv (Suc n) st'"
  unfolding wr_run_inv_def
proof
  assume n: "Suc n < 2 ^ 64"
  then have st: "wr_inv st" "unat (NextClusterId st) \<le> n" "unat (NextTaskId st) \<le> n"
    using inv by (simp_all add: wr_run_inv_def)
  have "wr_inv st'"
    by (rule wr_step_inv [OF step st(1)]) (use n st in linarith)+
  moreover have "unat (NextClusterId st') \<le> Suc n" "unat (NextTaskId st') \<le> Suc n"
    using wr_step_counters [OF step] st unat_Suc_word [of "NextClusterId st"] unat_Suc_word [of "NextTaskId st"]
    by auto
  ultimately show "wr_inv st' \<and> unat (NextClusterId st') \<le> Suc n \<and> unat (NextTaskId st') \<le> Suc n" by simp
qed

text \<open>What one storage keeps of an earlier one: entries are added, and a cluster changes in its status only.\<close>

definition wr_keeps :: "'a wr_storage \<Rightarrow> 'a wr_storage \<Rightarrow> bool" where
  "wr_keeps st st' \<longleftrightarrow>
     WorkerAccounts st \<subseteq>\<^sub>m WorkerAccounts st' \<and> Tasks st \<subseteq>\<^sub>m Tasks st' \<and>
     TaskOwners st \<subseteq>\<^sub>m TaskOwners st' \<and> TaskAllocations st \<subseteq>\<^sub>m TaskAllocations st' \<and>
     prefix (wr_events st) (wr_events st') \<and>
     (\<forall>cid w. WorkerClusters st cid = Some w \<longrightarrow> (\<exists>b. WorkerClusters st' cid = Some (w\<lparr>w_status := b\<rparr>)))"

lemma status_same: "\<exists>b. w = w\<lparr>w_status := b\<rparr>"
  by (rule exI [of _ "w_status w"]) simp

lemma wr_keeps_refl: "wr_keeps st st"
  unfolding wr_keeps_def using status_same by auto

lemma wr_keeps_trans:
  assumes a: "wr_keeps s t" and b: "wr_keeps t u"
  shows "wr_keeps s u"
proof -
  have "\<exists>b. WorkerClusters u cid = Some (w\<lparr>w_status := b\<rparr>)" if w: "WorkerClusters s cid = Some w" for cid w
  proof -
    obtain b1 where "WorkerClusters t cid = Some (w\<lparr>w_status := b1\<rparr>)"
      using a w unfolding wr_keeps_def by blast
    then obtain b2 where "WorkerClusters u cid = Some (w\<lparr>w_status := b1, w_status := b2\<rparr>)"
      using b unfolding wr_keeps_def by blast
    then show ?thesis by auto
  qed
  with a b show ?thesis unfolding wr_keeps_def
    by (auto intro: map_le_trans prefix_order.trans)
qed

lemma map_le_upd_fresh: "m k = None \<Longrightarrow> m \<subseteq>\<^sub>m m(k \<mapsto> v)"
  by (auto simp: map_le_def)

lemma wr_keeps_step:
  assumes step: "wr_step st st'" and inv: "wr_inv st"
  shows "wr_keeps st st'"
proof -
  have "clusters.dense st" "tasks.dense st" and doms: "dom (TaskOwners st) = dom (Tasks st)"
    "dom (TaskAllocations st) = dom (Tasks st)"
    using inv by (simp_all add: wr_inv_def clusters_inv_def tasks_inv_def)
  then have fresh: "WorkerClusters st (NextClusterId st) = None" "Tasks st (NextTaskId st) = None"
    by (auto dest: clusters.dense_fresh tasks.dense_fresh)
  with doms have fresh': "TaskOwners st (NextTaskId st) = None" "TaskAllocations st (NextTaskId st) = None"
    by (metis domIff)+
  show ?thesis
    using step
    by (cases rule: wr_step.cases)
      (use fresh fresh' status_same in \<open>auto simp: wr_keeps_def insert_cluster_def insert_task_def intro: map_le_upd_fresh\<close>)
qed

context wr_pallet
begin

lemma exec_run_inv:
  assumes "wr_run_inv n st" and ok: "wr_exec host c st = Ok st' \<or> wr_exec host c st = Err e st'"
  shows "wr_run_inv (Suc n) st'"
proof (cases "Suc n < 2 ^ 64")
  case True
  with assms(1) have inv: "wr_inv st" by (simp add: wr_run_inv_def)
  from ok show ?thesis
  proof
    assume "wr_exec host c st = Ok st'"
    with inv assms(1) show ?thesis by (blast intro: wr_run_inv_step exec_ok_step)
  next
    assume "wr_exec host c st = Err e st'"
    with inv have "st' = st" by (rule exec_err_same)
    with assms(1) True show ?thesis by (auto simp: wr_run_inv_def)
  qed
qed (simp add: wr_run_inv_def)

sublocale machine: call_machine "wr_exec host" wr_run_inv
  by unfold_locales (blast intro: exec_run_inv)+

text \<open>Any property that successful calls keep under the invariant can be carried along with it.\<close>

lemma augmented:
  assumes step: "\<And>s (c :: ('o, 'a) wr_label) t. P s \<Longrightarrow> wr_inv s \<Longrightarrow> wr_exec host c s = Ok t \<Longrightarrow> P t"
  shows "call_machine (wr_exec host :: ('o, 'a) wr_label \<Rightarrow> _) (\<lambda>n st. wr_run_inv n st \<and> (n < 2 ^ 64 \<longrightarrow> P st))"
proof
  fix n s t and c :: "('o, 'a) wr_label"
  assume inv: "wr_run_inv n s \<and> (n < 2 ^ 64 \<longrightarrow> P s)" and ok: "wr_exec host c s = Ok t"
  have "wr_run_inv (Suc n) t" using inv ok by (intro exec_run_inv [of n s c]) auto
  moreover have "P t" if "Suc n < 2 ^ 64"
    by (rule step [OF _ _ ok]) (use inv that in \<open>simp_all add: wr_run_inv_def\<close>)
  ultimately show "wr_run_inv (Suc n) t \<and> (Suc n < 2 ^ 64 \<longrightarrow> P t)" by (intro conjI impI)
next
  fix n s e t and c :: "('o, 'a) wr_label"
  assume inv: "wr_run_inv n s \<and> (n < 2 ^ 64 \<longrightarrow> P s)" and err: "wr_exec host c s = Err e t"
  have "wr_run_inv (Suc n) t" using inv err by (intro exec_run_inv [of n s c]) auto
  moreover have "P t" if "Suc n < 2 ^ 64"
  proof -
    have "wr_inv s" using inv that by (simp add: wr_run_inv_def)
    then have "t = s" using err by (rule exec_err_same)
    with inv that show ?thesis by simp
  qed
  ultimately show "wr_run_inv (Suc n) t \<and> (Suc n < 2 ^ 64 \<longrightarrow> P t)" by (intro conjI impI)
qed

sublocale history: call_machine "wr_exec host" "\<lambda>n st. wr_run_inv n st \<and> (n < 2 ^ 64 \<longrightarrow> wr_keeps st0 st)" for st0
  by (rule augmented) (rule wr_keeps_trans, assumption, rule wr_keeps_step [OF exec_ok_step])

lemma reachable_inv:
  assumes "runs (wr_exec host) n wr_genesis st" "n < 2 ^ 64"
  shows "wr_inv st" "unat (NextClusterId st) \<le> n" "unat (NextTaskId st) \<le> n"
  using machine.runs_inv0 [OF assms(1) wr_run_inv_genesis] assms(2) by (simp_all add: wr_run_inv_def)

lemma reachable_keeps:
  assumes "runs (wr_exec host) m wr_genesis st" "runs (wr_exec host) n st st'" "m + n < 2 ^ 64"
  shows "wr_keeps st st'"
  using history.runs_inv [OF assms(2), of m st] machine.runs_inv0 [OF assms(1) wr_run_inv_genesis] assms(3)
  by (simp add: wr_keeps_refl)

end

section \<open>The invariant read as facts about lookups\<close>

lemma clusters_inv_facts:
  assumes "clusters_inv st"
  shows "dom (WorkerClusters st) = {i. i < NextClusterId st}"
    and "WorkerAccounts st a = Some cid \<longleftrightarrow> (\<exists>w. WorkerClusters st cid = Some w \<and> w_account w = a)"
    and "WorkerClusters st cid = Some w \<Longrightarrow>
           w_id w = cid \<and> (ipv4 (w_ip w) \<noteq> None \<or> ipv6 (w_ip w) \<noteq> None) \<and> w_port w \<noteq> 0"
    and "WorkerClusters st (NextClusterId st) = None"
proof -
  have dense: "clusters.dense st" using assms unfolding clusters_inv_def by (elim conjE)
  then show "dom (WorkerClusters st) = {i. i < NextClusterId st}" by (simp only: clusters.dense_def)
  show "WorkerClusters st (NextClusterId st) = None" using dense by (rule clusters.dense_fresh)
  show "WorkerAccounts st a = Some cid \<longleftrightarrow> (\<exists>w. WorkerClusters st cid = Some w \<and> w_account w = a)"
    using assms unfolding clusters_inv_def by metis
  assume "WorkerClusters st cid = Some w"
  with assms show "w_id w = cid \<and> (ipv4 (w_ip w) \<noteq> None \<or> ipv6 (w_ip w) \<noteq> None) \<and> w_port w \<noteq> 0"
    unfolding clusters_inv_def word_gt_0 by simp
qed

lemma tasks_inv_facts:
  assumes "tasks_inv st"
  shows "dom (Tasks st) = {t. t < NextTaskId st}" and "Tasks st (NextTaskId st) = None"
    and "Tasks st t = Some ti \<Longrightarrow> TaskOwners st t = Some (t_task_owner ti) \<and> TaskStatus st t = Some TaskPending"
    and "Tasks st t = Some ti \<Longrightarrow>
           \<exists>a. TaskAllocations st t = Some a \<and> WorkerAccounts st a = Some (t_assigned_worker ti)"
proof -
  show "dom (Tasks st) = {t. t < NextTaskId st}" "Tasks st (NextTaskId st) = None"
    using assms tasks.dense_fresh unfolding tasks_inv_def tasks.dense_def by blast+
  assume t: "Tasks st t = Some ti"
  then obtain s where "TaskStatus st t = Some s" using assms unfolding tasks_inv_def by blast
  with t assms show "TaskOwners st t = Some (t_task_owner ti) \<and> TaskStatus st t = Some TaskPending"
    "\<exists>a. TaskAllocations st t = Some a \<and> WorkerAccounts st a = Some (t_assigned_worker ti)"
    unfolding tasks_inv_def by blast+
qed

section \<open>A concrete host\<close>

text \<open>Entries in key order, a checksum in the place of the hash, and little-endian encodings.\<close>

definition sum_host :: "'a::linorder wr_host" where
  "sum_host =
     \<lparr>accounts_iter = sorted_iter, blake2_256 = (\<lambda>x. replicate 32 (sum_list x)),
      encode_block = encode_u32, encode_indexing = encode_data, decode_indexing = decode_data\<rparr>"

lemma sum_host_simps [simp]:
  "accounts_iter sum_host = sorted_iter"
  "blake2_256 sum_host x = replicate 32 (sum_list x)"
  "encode_block sum_host = encode_u32"
  "encode_indexing sum_host = encode_data"
  "decode_indexing sum_host = decode_data"
  by (simp_all add: sum_host_def)

interpretation sum_pallet: wr_pallet sum_host
  by (simp add: wr_pallet_def sorted.storage_iter_axioms wr_pallet_axioms_def)

text \<open>One worker, account 7 at 10.0.0.1:80, registered in block 5.\<close>

definition ip_10_0_0_1 :: ip where
  "ip_10_0_0_1 = \<lparr>ipv4 = Some [10, 0, 0, 1], ipv6 = None\<rparr>"

definition worker_7 :: "nat worker" where
  "worker_7 = \<lparr>w_id = 0, w_account = 7, w_start_block = 5, w_name = [], w_ip = ip_10_0_0_1, w_port = 80, w_status = False\<rparr>"

definition one_worker :: "nat wr_storage" where
  "one_worker = wr_deposit_event (WorkerRegistered 7)
     ((insert_cluster 7 0 worker_7 wr_genesis)
        \<lparr>offchain_db := [derived_key (sum_host :: nat wr_host) 5 (str ''ping'') \<mapsto> encode_data (str ''registered_cluster_ping'', 0)]\<rparr>)"

lemma one_worker_exec:
  "wr_exec sum_host (raw_system 5, Signed 7, WorkerRegister [] ip_10_0_0_1 80) wr_genesis = Ok one_worker"
  by (simp add: worker_register_def one_worker_def worker_7_def ip_10_0_0_1_def wr_genesis_def DefaultForm1_def
      insert_cluster_def Let_def)

lemma one_worker_run: "runs (wr_exec sum_host :: (nat raw_origin, nat) wr_label \<Rightarrow> _) 1 wr_genesis one_worker"
  using one_worker_exec by (rule runs_one_ok)

lemma one_worker_simps [simp]:
  "WorkerAccounts one_worker = [7 \<mapsto> 0]" "WorkerClusters one_worker = [0 \<mapsto> worker_7]"
  "NextTaskId one_worker = 0" "Tasks one_worker = Map.empty" "NextClusterId one_worker = 1"
  by (simp_all add: one_worker_def insert_cluster_def wr_genesis_def DefaultForm1_def)

section \<open>Properties\<close>

text \<open>
  C1. In every storage that fewer than 2^64 calls can produce: cluster ids are exactly the numbers below
  the next id; accounts and clusters are in bijection, and each cluster is stored under its own id with an
  address and a non-zero port; every task has an owner, an allocation to an account that is a registered
  worker, whose cluster is the task's assigned worker, and the status \<open>Pending\<close>. This holds whether or
  not a failed call is rolled back.
\<close>
theorem wr_storage_consistent:
  assumes "wr_pallet host" and "runs (wr_exec host) n wr_genesis st" and "n < 2 ^ 64"
  shows "dom (WorkerClusters st) = {i. i < NextClusterId st} \<and>
    (\<forall>a cid. WorkerAccounts st a = Some cid \<longleftrightarrow> (\<exists>w. WorkerClusters st cid = Some w \<and> w_account w = a)) \<and>
    (\<forall>cid w. WorkerClusters st cid = Some w \<longrightarrow>
       w_id w = cid \<and> (ipv4 (w_ip w) \<noteq> None \<or> ipv6 (w_ip w) \<noteq> None) \<and> w_port w \<noteq> 0) \<and>
    dom (Tasks st) = {t. t < NextTaskId st} \<and>
    (\<forall>t ti. Tasks st t = Some ti \<longrightarrow>
       TaskOwners st t = Some (t_task_owner ti) \<and> TaskStatus st t = Some TaskPending \<and>
       (\<exists>a w. TaskAllocations st t = Some a \<and> WorkerClusters st (t_assigned_worker ti) = Some w \<and> w_account w = a))"
proof -
  have inv: "clusters_inv st" "tasks_inv st"
    using wr_pallet.reachable_inv(1) [OF assms] by (simp_all add: wr_inv_def)
  have "\<exists>a w. TaskAllocations st t = Some a \<and> WorkerClusters st (t_assigned_worker ti) = Some w \<and> w_account w = a"
    if "Tasks st t = Some ti" for t ti
    using tasks_inv_facts(4) [OF inv(2) that] clusters_inv_facts(2) [OF inv(1)] by blast
  then show ?thesis
    using clusters_inv_facts(1-3) [OF inv(1)] tasks_inv_facts(1,3) [OF inv(2)] by presburger
qed

theorem wr_storage_consistent_witness:
  "dom (WorkerClusters one_worker) = {i. i < NextClusterId one_worker} \<and> w_id worker_7 = 0 \<and> w_port worker_7 \<noteq> 0"
  using wr_storage_consistent [OF sum_pallet.wr_pallet_axioms one_worker_run] by auto

text \<open>
  C3. \<open>task_scheduler\<close> is total in every reachable storage: it never panics; an unsigned origin is refused;
  with no registered worker it fails with \<open>NoWorkersAvailable\<close>; otherwise it returns \<open>Ok\<close>, stores the task
  under a fresh id with the caller as owner, assigned to a registered worker whose status is not
  consulted, and changes no earlier task, worker or cluster.
\<close>
theorem task_scheduler_total:
  assumes "wr_pallet host" and "runs (wr_exec host) n wr_genesis st" and "n < 2 ^ 64"
  shows "(ensure_signed sys orig = None \<longrightarrow> task_scheduler host sys orig td st = Err BadOrigin st) \<and>
    (\<forall>who. ensure_signed sys orig = Some who \<longrightarrow>
      (if WorkerAccounts st = Map.empty then task_scheduler host sys orig td st = Err (Module NoWorkersAvailable) st
       else \<exists>w st'. task_scheduler host sys orig td st = Ok st' \<and> WorkerClusters st (w_id w) = Some w \<and>
         Tasks st (NextTaskId st) = None \<and>
         Tasks st' = (Tasks st)(NextTaskId st \<mapsto>
           \<lparr>t_task_owner = who, t_create_block = block_number sys, t_metadata = td, t_assigned_worker = w_id w,
            t_time_elapsed = None, t_average_cpu_percentage_use = None, t_task_type = Docker\<rparr>) \<and>
         TaskAllocations st' (NextTaskId st) = Some (w_account w) \<and> TaskOwners st' (NextTaskId st) = Some who \<and>
         WorkerAccounts st' = WorkerAccounts st \<and> WorkerClusters st' = WorkerClusters st \<and>
         NextTaskId st' = NextTaskId st + 1 \<and>
         wr_events st' = wr_events st @ [TaskScheduled (w_account w) who (NextTaskId st) td (string_ip (w_ip w))]))"
proof (cases "ensure_signed sys orig")
  case None
  then show ?thesis by (simp add: task_scheduler_def)
next
  case (Some who)
  have inv: "clusters_inv st" and fresh: "Tasks st (NextTaskId st) = None"
    using wr_pallet.reachable_inv(1) [OF assms] by (simp_all add: wr_inv_def tasks_inv_facts)
  show ?thesis
    by (rule wr_pallet.task_scheduler_cases [OF assms(1) inv, of sys orig td])
      (use Some fresh in \<open>auto simp: scheduled_def insert_task_def Let_def fun_eq_iff\<close>)
qed

theorem task_scheduler_total_witness:
  "\<exists>st'. task_scheduler sum_host (raw_system 6) (Signed 9) [1] one_worker = Ok st' \<and>
     TaskOwners st' 0 = Some 9"
  using task_scheduler_total [OF sum_pallet.wr_pallet_axioms one_worker_run, of "raw_system 6" "Signed 9" "[1]"]
  by auto

text \<open>
  C11. A registration by a signed account succeeds exactly when the account has no cluster yet, an address of
  either kind is given and the port is not zero; the failures are reported in the order address, port,
  account. In a reachable storage it then stores, under an id that was free, a cluster with the given
  data, the current block and status false, makes it the account's cluster, leaves every other account,
  cluster and task alone, and writes the cluster's id under the block's ping key.
\<close>
theorem worker_register_correct:
  assumes "wr_pallet host" and "runs (wr_exec host) n wr_genesis st" and "n < 2 ^ 64"
    and "ensure_signed sys orig = Some creator"
  shows "error_of (worker_register host sys orig nm addr prt st) =
      (if ipv4 addr = None \<and> ipv6 addr = None then Some (Module WorkerRegisterMissingIp)
       else if prt = 0 then Some (Module WorkerRegisterMissingPort)
       else if creator \<in> dom (WorkerAccounts st) then Some (Module ClusterExists) else None) \<and>
    worker_register host sys orig nm addr prt st \<noteq> Panic \<and>
    (\<forall>st'. worker_register host sys orig nm addr prt st = Ok st' \<longrightarrow>
      (\<exists>cid. WorkerClusters st cid = None \<and> WorkerAccounts st creator = None \<and>
        WorkerAccounts st' = (WorkerAccounts st)(creator \<mapsto> cid) \<and>
        WorkerClusters st' = (WorkerClusters st)(cid \<mapsto>
          \<lparr>w_id = cid, w_account = creator, w_start_block = block_number sys, w_name = nm, w_ip = addr,
           w_port = prt, w_status = False\<rparr>) \<and>
        Tasks st' = Tasks st \<and> TaskOwners st' = TaskOwners st \<and> TaskAllocations st' = TaskAllocations st \<and>
        offchain_db st' = (offchain_db st)(derived_key host (block_number sys) (str ''ping'')
          \<mapsto> encode_indexing host (str ''registered_cluster_ping'', cid)) \<and>
        wr_events st' = wr_events st @ [WorkerRegistered creator]))"
proof -
  have "WorkerClusters st (NextClusterId st) = None"
    using wr_pallet.reachable_inv(1) [OF assms(1-3)] by (simp add: wr_inv_def clusters_inv_facts)
  then show ?thesis
    using assms(4) by (auto simp: worker_register_def insert_cluster_def Let_def word_gt_0)
qed

theorem worker_register_correct_witness:
  "error_of (worker_register sum_host (raw_system 6) (Signed 7) [] ip_10_0_0_1 80 one_worker) = Some (Module ClusterExists) \<and>
   error_of (worker_register sum_host (raw_system 6) (Signed 8) [] ip_10_0_0_1 0 one_worker) = Some (Module WorkerRegisterMissingPort) \<and>
   error_of (worker_register sum_host (raw_system 6) (Signed 8) [] ip_10_0_0_1 443 one_worker) = None"
  using worker_register_correct [OF sum_pallet.wr_pallet_axioms one_worker_run _ raw_system_simps(1), of 6 7 "[]" ip_10_0_0_1 80]
    worker_register_correct [OF sum_pallet.wr_pallet_axioms one_worker_run _ raw_system_simps(1), of 6 8 "[]" ip_10_0_0_1 0]
    worker_register_correct [OF sum_pallet.wr_pallet_axioms one_worker_run _ raw_system_simps(1), of 6 8 "[]" ip_10_0_0_1 443]
  by (simp add: ip_10_0_0_1_def)

text \<open>
  C14. Nothing that was recorded is lost: along any continuation of a run, as long as fewer than 2^64 calls
  are made in all, every registered account keeps its cluster id, every cluster keeps all its data
  but the status, every task its record, owner and allocation, and events are only appended.
\<close>
theorem wr_nothing_lost:
  assumes "wr_pallet host" and "runs (wr_exec host) m wr_genesis st" and "runs (wr_exec host) n st st'"
    and "m + n < 2 ^ 64"
  shows "WorkerAccounts st \<subseteq>\<^sub>m WorkerAccounts st' \<and> Tasks st \<subseteq>\<^sub>m Tasks st' \<and>
    TaskOwners st \<subseteq>\<^sub>m TaskOwners st' \<and> TaskAllocations st \<subseteq>\<^sub>m TaskAllocations st' \<and>
    prefix (wr_events st) (wr_events st') \<and>
    (\<forall>cid w. WorkerClusters st cid = Some w \<longrightarrow> (\<exists>b. WorkerClusters st' cid = Some (w\<lparr>w_status := b\<rparr>)))"
  using wr_pallet.reachable_keeps [OF assms] unfolding wr_keeps_def .

theorem wr_nothing_lost_witness:
  "\<exists>st'. wr_exec sum_host (raw_system 6, Signed 9, VerifyConnection 0 True) one_worker = Ok st' \<and>
     WorkerAccounts st' 7 = Some 0 \<and> WorkerClusters st' 0 \<noteq> None"
proof -
  obtain st' where st': "wr_exec sum_host (raw_system 6, Signed 9, VerifyConnection 0 True) one_worker = Ok st'"
    by (simp add: verify_connection_eq)
  have "WorkerAccounts one_worker \<subseteq>\<^sub>m WorkerAccounts st'" "\<exists>b. WorkerClusters st' 0 = Some (worker_7\<lparr>w_status := b\<rparr>)"
    using wr_nothing_lost [OF sum_pallet.wr_pallet_axioms one_worker_run runs_one_ok [of "wr_exec sum_host", OF st']]
    by auto
  with st' show ?thesis by (auto simp: map_le_def)
qed

text \<open>
  C30. \<open>verify_connection\<close> lets any signed account set the status of any existing cluster to any value,
  changes nothing else in storage, emits \<open>ConnectionEstablished\<close> also for a negative status, and the last
  call wins; on an unknown cluster it fails without a write.
\<close>
theorem verify_connection_correct:
  assumes "ensure_signed sys orig = Some who"
  shows "(WorkerClusters st i = None \<longrightarrow>
      verify_connection sys orig i b st = Err (Module WorkerClusterNotRegistered) st) \<and>
    (\<forall>w. WorkerClusters st i = Some w \<longrightarrow>
      (\<exists>st'. verify_connection sys orig i b st = Ok st' \<and> WorkerClusters st' i = Some (w\<lparr>w_status := b\<rparr>) \<and>
        wr_events st' = wr_events st @ [ConnectionEstablished i] \<and>
        st'\<lparr>WorkerClusters := WorkerClusters st, wr_events := wr_events st\<rparr> = st \<and>
        (\<forall>j. j \<noteq> i \<longrightarrow> WorkerClusters st' j = WorkerClusters st j) \<and>
        (\<forall>sys' orig' who' b'. ensure_signed sys' orig' = Some who' \<longrightarrow>
          (\<exists>st''. verify_connection sys' orig' i b' st' = Ok st'' \<and> WorkerClusters st'' i = Some (w\<lparr>w_status := b'\<rparr>)))))"
  using assms by (auto simp: verify_connection_eq wr_deposit_event_def)

theorem verify_connection_correct_witness:
  "\<exists>st'. verify_connection (raw_system 6) (Signed 9) 0 True one_worker = Ok st' \<and>
     WorkerClusters st' 0 = Some (worker_7\<lparr>w_status := True\<rparr>)"
  using verify_connection_correct [of "raw_system 6" "Signed 9" 9 one_worker 0 True] by auto

text \<open>
  C29. A call that fails in a reachable storage has written nothing, no call panics there, and the only
  errors are a bad origin, the three registration errors, \<open>NoWorkersAvailable\<close> from the scheduler and
  \<open>WorkerClusterNotRegistered\<close> from \<open>verify_connection\<close>: the errors on tasks are never returned.
\<close>
theorem wr_failures:
  assumes "wr_pallet host" and "runs (wr_exec host) n wr_genesis st" and "n < 2 ^ 64"
  shows "wr_exec host (sys, orig, c) st \<noteq> Panic \<and>
    (\<forall>e st'. wr_exec host (sys, orig, c) st = Err e st' \<longrightarrow>
      st' = st \<and> e \<in> insert BadOrigin (Module ` (case c of
        WorkerRegister _ _ _ \<Rightarrow> {WorkerRegisterMissingIp, WorkerRegisterMissingPort, ClusterExists}
      | TaskScheduler _ \<Rightarrow> {NoWorkersAvailable}
      | VerifyConnection _ _ \<Rightarrow> {WorkerClusterNotRegistered})))"
proof -
  have inv: "wr_inv st" using wr_pallet.reachable_inv(1) [OF assms] .
  then have cl: "clusters_inv st" by (simp add: wr_inv_def)
  have "e \<in> {BadOrigin, Module NoWorkersAvailable}" if "task_scheduler host sys orig td st = Err e st'" for td e st'
    by (rule wr_pallet.task_scheduler_cases [OF assms(1) cl, of sys orig td]) (use that in auto)
  then have "e \<in> insert BadOrigin (Module ` (case c of
      WorkerRegister _ _ _ \<Rightarrow> {WorkerRegisterMissingIp, WorkerRegisterMissingPort, ClusterExists}
    | TaskScheduler _ \<Rightarrow> {NoWorkersAvailable} | VerifyConnection _ _ \<Rightarrow> {WorkerClusterNotRegistered}))"
    if "wr_exec host (sys, orig, c) st = Err e st'" for e st'
    using that
    by (cases c) (auto simp: worker_register_def verify_connection_eq Let_def split: option.splits if_splits)
  then show ?thesis
    using wr_pallet.exec_no_panic [OF assms(1) inv] wr_pallet.exec_err_same [OF assms(1) inv] by blast
qed

theorem wr_failures_witness:
  "\<exists>e. wr_exec sum_host (raw_system 6, Signed 9, VerifyConnection 4 True) one_worker = Err e one_worker"
proof -
  obtain e st' where "wr_exec sum_host (raw_system 6, Signed 9, VerifyConnection 4 True) one_worker = Err e st'"
    by (simp add: verify_connection_eq)
  with wr_failures [OF sum_pallet.wr_pallet_axioms one_worker_run, of "raw_system 6" "Signed 9" "VerifyConnection 4 True"]
  show ?thesis by auto
qed

end
