(* ===== verification/Cyborg_Runtime.thy ===== *)
theory Cyborg_Runtime
  imports Edge_Connect Worker_Registration
begin

text \<open>
  The runtime of \<^verbatim>\<open>runtime/src/lib.rs\<close>: its constants, the storage deposit for contracts, the
  configuration it gives to the edge-connect pallet, the transactions it builds for the offchain
  workers (and \<^verbatim>\<open>node/src/benchmarking.rs\<close> for benchmarks), and the composition of the pallets. The other
  pallets of the runtime come from Substrate: their joint state and dispatch are parameters.
\<close>

section \<open>Constants\<close>

text \<open>The version, without the list of API versions, which is generated.\<close>

record runtime_version =
  spec_name :: bytes
  impl_name :: bytes
  authoring_version :: u32
  spec_version :: u32
  impl_version :: u32
  transaction_version :: u32
  state_version :: u8

definition VERSION :: runtime_version where
  "VERSION =
     \<lparr>spec_name = str ''cyborg-node'', impl_name = str ''cyborg-node'', authoring_version = 1,
      spec_version = 100, impl_version = 1, transaction_version = 1, state_version = 1\<rparr>"

definition MILLISECS_PER_BLOCK :: u64 where "MILLISECS_PER_BLOCK = 6000"

definition SLOT_DURATION :: u64 where "SLOT_DURATION = MILLISECS_PER_BLOCK"

definition MINUTES :: u32 where "MINUTES = 60000 div ucast MILLISECS_PER_BLOCK"

definition HOURS :: u32 where "HOURS = MINUTES * 60"

definition DAYS :: u32 where "DAYS = HOURS * 24"

definition MinimumPeriod :: u64 where "MinimumPeriod = SLOT_DURATION div 2"

definition UNIT :: u128 where "UNIT = 1000000000000"

definition MILLIUNIT :: u128 where "MILLIUNIT = 1000000000"

definition EXISTENTIAL_DEPOSIT :: u128 where "EXISTENTIAL_DEPOSIT = MILLIUNIT"

definition deposit :: "u32 \<Rightarrow> u32 \<Rightarrow> u128" where
  "deposit items byts = (ucast items * UNIT + ucast byts * (5 * MILLIUNIT div 100)) div 10"

definition DepositPerByte :: u128 where "DepositPerByte = deposit 0 1"

definition DepositPerItem :: u128 where "DepositPerItem = deposit 1 0"

definition DefaultDepositLimit :: u128 where "DefaultDepositLimit = deposit 1024 (1024 * 1024)"

definition BlockHashCount :: u32 where "BlockHashCount = 2400"

definition runtime_edge_config :: edge_config where
  "runtime_edge_config =
     \<lparr>GracePeriod = 3, UnsignedInterval = 3, UnsignedPriority = 3, MaxCommand = 10, MaxResponses = 1000,
      MaxStringLength = 1000\<rparr>"

text \<open>The randomness source of the contracts pallet: the zero hash and block zero, whatever the subject.\<close>

definition dummy_random :: "bytes \<Rightarrow> bytes \<times> u32" where
  "dummy_random subj = (replicate 32 0, 0)"

section \<open>Building transactions\<close>

text \<open>
  The signed extensions that carry data; the other five of the tuple are unit structs. The functions
  on eras, payloads and keys are parameters.
\<close>

record 'era signed_extra =
  check_era :: 'era
  check_nonce :: u32
  charge_tip :: u128

record ('call, 'pub, 'sig, 'pl, 'era) tx_host =
  era_mortal :: "u64 \<Rightarrow> u64 \<Rightarrow> 'era"
  signed_payload_new :: "'call \<Rightarrow> 'era signed_extra \<Rightarrow> unit + 'pl"
  using_encoded :: "'pl \<Rightarrow> bytes"
  crypto_sign :: "bytes \<Rightarrow> 'pub \<Rightarrow> 'sig option"
  deconstruct :: "'pl \<Rightarrow> 'call \<times> 'era signed_extra"

datatype 'a multi_address = Id 'a

text \<open>The longest era used: half of the next power of two of the number of block hashes kept.\<close>

definition mortal_period :: "u32 \<Rightarrow> u64" where
  "mortal_period n = ucast (case checked_next_power_of_two n of Some c \<Rightarrow> c div 2 | None \<Rightarrow> 2)"

definition create_transaction ::
  "('call, 'pub, 'sig, 'pl, 'era) tx_host \<Rightarrow> ('o, 'a) frame_system \<Rightarrow> 'call \<Rightarrow> 'pub \<Rightarrow> 'a \<Rightarrow> u32
    \<Rightarrow> ('call \<times> 'a multi_address \<times> 'sig \<times> 'era signed_extra) option" where
  "create_transaction h sys c public acc nonce =
    (let tip = 0;
         period = mortal_period BlockHashCount;
         current_block = saturating_sub_u64 (ucast (block_number sys)) 1;
         era = era_mortal h period current_block;
         extra = \<lparr>check_era = era, check_nonce = nonce, charge_tip = tip\<rparr> in
     (case signed_payload_new h c extra of
        Inl _ \<Rightarrow> None
      | Inr raw_payload \<Rightarrow>
          (case crypto_sign h (using_encoded h raw_payload) public of
             None \<Rightarrow> None
           | Some signature \<Rightarrow>
               (let address = acc;
                    (c', extra') = deconstruct h raw_payload in
                Some (c', Id address, signature, extra')))))"

text \<open>
  \<open>create_benchmark_extrinsic\<close> of the node: the payload is put together from raw parts, with the
  additional signed data of the extensions (the versions, the genesis hash and the best block's hash).
  \<open>None\<close> is the panic of \<open>expect\<close> when there is no genesis block.
\<close>

record 'hash client_info =
  genesis_block_hash :: "unit + 'hash option"
  best_hash :: 'hash
  best_number :: u32

definition create_benchmark_extrinsic ::
  "(u64 \<Rightarrow> u64 \<Rightarrow> 'era) \<Rightarrow> ('call \<Rightarrow> 'era signed_extra \<Rightarrow> u32 \<times> u32 \<times> 'hash \<times> 'hash \<Rightarrow> bytes) \<Rightarrow> (bytes \<Rightarrow> 'sig) \<Rightarrow> 'a
    \<Rightarrow> 'hash client_info \<Rightarrow> 'call \<Rightarrow> u32 \<Rightarrow> ('call \<times> 'a multi_address \<times> 'sig \<times> 'era signed_extra) option" where
  "create_benchmark_extrinsic mortal encode_raw sender_sign sender_account client c nonce =
    (case genesis_block_hash client of
       Inr (Some genesis_hash) \<Rightarrow>
         (let period = mortal_period BlockHashCount;
              extra = \<lparr>check_era = mortal period (ucast (best_number client)), check_nonce = nonce, charge_tip = 0\<rparr>;
              raw_payload = encode_raw c extra
                (spec_version VERSION, transaction_version VERSION, genesis_hash, best_hash client);
              signature = sender_sign raw_payload in
          Some (c, Id sender_account, signature, extra))
     | _ \<Rightarrow> None)"

section \<open>Composition of the pallets\<close>

text \<open>
  The two pallets of the repository beside the joint state of the others. \<open>other\<close> dispatches a call to one of the
  other pallets. A call that the sudo pallet dispatches to one of the two pallets is a label of its own, with
  the origin sudo gives it; root calls that write raw storage keys or replace the code are not covered.
\<close>

record ('a, 'x) runtime_state =
  rt_edge :: "'a edge_storage"
  rt_workers :: "'a wr_storage"
  rt_other :: 'x

datatype ('p, 'sig, 'oc) runtime_call =
    EdgeConnect "('p, 'sig) edge_call"
  | WorkerRegistration wr_call
  | OtherPallet 'oc

datatype 'oe runtime_error =
    EdgeConnectError "edge_error dispatch_error"
  | WorkerRegistrationError "wr_error dispatch_error"
  | OtherError 'oe

type_synonym ('o, 'a, 'p, 'sig, 'oc) runtime_label = "('o, 'a) frame_system \<times> 'o \<times> ('p, 'sig, 'oc) runtime_call"

record ('o, 'a, 'oc, 'x, 'oe) runtime_host =
  rt_bounded :: "'a entry bounded_ops"
  rt_wr_host :: "'a wr_host"
  rt_dispatch_other :: "('o, 'a) frame_system \<Rightarrow> 'o \<Rightarrow> 'oc \<Rightarrow> 'x \<Rightarrow> ('x, 'oe) outcome"

fun put_outcome :: "('t \<Rightarrow> 's) \<Rightarrow> ('e \<Rightarrow> 'f) \<Rightarrow> ('t, 'e) outcome \<Rightarrow> ('s, 'f) outcome" where
  "put_outcome f g (Ok t) = Ok (f t)"
| "put_outcome f g (Err e t) = Err (g e) (f t)"
| "put_outcome f g Panic = Panic"

fun runtime_exec ::
  "('o, 'a, 'oc, 'x, 'oe) runtime_host \<Rightarrow> ('o, 'a, 'p, 'sig, 'oc) runtime_label \<Rightarrow> ('a, 'x) runtime_state
    \<Rightarrow> (('a, 'x) runtime_state, 'oe runtime_error) outcome" where
  "runtime_exec h (sys, orig, EdgeConnect c) s =
     put_outcome (\<lambda>e. s\<lparr>rt_edge := e\<rparr>) EdgeConnectError
       (edge_exec runtime_edge_config (rt_bounded h) (sys, orig, c) (rt_edge s))"
| "runtime_exec h (sys, orig, WorkerRegistration c) s =
     put_outcome (\<lambda>w. s\<lparr>rt_workers := w\<rparr>) WorkerRegistrationError
       (wr_exec (rt_wr_host h) (sys, orig, c) (rt_workers s))"
| "runtime_exec h (sys, orig, OtherPallet c) s =
     put_outcome (\<lambda>x. s\<lparr>rt_other := x\<rparr>) OtherError (rt_dispatch_other h sys orig c (rt_other s))"

definition runtime_genesis :: "'x \<Rightarrow> ('a, 'x) runtime_state" where
  "runtime_genesis x = \<lparr>rt_edge = edge_genesis, rt_workers = wr_genesis, rt_other = x\<rparr>"

section \<open>The pallets as parts of the runtime\<close>

lemma put_outcome_OkD: "put_outcome f g r = Ok s \<Longrightarrow> \<exists>t. r = Ok t \<and> s = f t"
  by (cases r) auto

lemma put_outcome_ErrD: "put_outcome f g r = Err e s \<Longrightarrow> \<exists>d t. r = Err d t \<and> s = f t"
  by (cases r) auto

interpretation edge_part: machine_part
  "runtime_exec h :: ('o, 'a, 'p, 'sig, 'oc) runtime_label \<Rightarrow> _"
  "edge_exec runtime_edge_config (rt_bounded h) :: ('o, 'a, 'p, 'sig) edge_label \<Rightarrow> _" rt_edge for h
proof
  fix c :: "('o, 'a, 'p, 'sig, 'oc) runtime_label" and s u and e
  obtain sys orig call where c: "c = (sys, orig, call)" by (cases c)
  show "rt_edge u = rt_edge s \<or> (\<exists>d :: ('o, 'a, 'p, 'sig) edge_label.
      edge_exec runtime_edge_config (rt_bounded h) d (rt_edge s) = Ok (rt_edge u))" if "runtime_exec h c s = Ok u"
    using that unfolding c by (cases "call") (auto dest!: put_outcome_OkD simp del: edge_exec.simps wr_exec.simps)
  show "rt_edge u = rt_edge s \<or> (\<exists>(d :: ('o, 'a, 'p, 'sig) edge_label) f.
      edge_exec runtime_edge_config (rt_bounded h) d (rt_edge s) = Err f (rt_edge u))" if "runtime_exec h c s = Err e u"
    using that unfolding c by (cases "call") (auto dest!: put_outcome_ErrD simp del: edge_exec.simps wr_exec.simps)
qed

interpretation worker_part: machine_part
  "runtime_exec h :: ('o, 'a, 'p, 'sig, 'oc) runtime_label \<Rightarrow> _"
  "wr_exec (rt_wr_host h) :: ('o, 'a) wr_label \<Rightarrow> _" rt_workers for h
proof
  fix c :: "('o, 'a, 'p, 'sig, 'oc) runtime_label" and s u and e
  obtain sys orig call where c: "c = (sys, orig, call)" by (cases c)
  show "rt_workers u = rt_workers s \<or> (\<exists>d :: ('o, 'a) wr_label.
      wr_exec (rt_wr_host h) d (rt_workers s) = Ok (rt_workers u))" if "runtime_exec h c s = Ok u"
    using that unfolding c by (cases "call") (auto dest!: put_outcome_OkD simp del: edge_exec.simps wr_exec.simps)
  show "rt_workers u = rt_workers s \<or> (\<exists>(d :: ('o, 'a) wr_label) f.
      wr_exec (rt_wr_host h) d (rt_workers s) = Err f (rt_workers u))" if "runtime_exec h c s = Err e u"
    using that unfolding c by (cases "call") (auto dest!: put_outcome_ErrD simp del: edge_exec.simps wr_exec.simps)
qed

section \<open>Facts on the constants\<close>

lemma next_pow2_least: "n \<le> 2 ^ k \<Longrightarrow> next_pow2 n \<le> 2 ^ k"
proof (induction n arbitrary: k rule: next_pow2.induct)
  case (1 n)
  show ?case
  proof (cases "n \<le> 1")
    case True
    then show ?thesis by (simp add: next_pow2.simps [of n])
  next
    case False
    with 1(2) obtain j where k: "k = Suc j" by (cases k) auto
    with 1(2) have "(n + 1) div 2 \<le> 2 ^ j" by simp
    with 1(1) False k show ?thesis by (simp add: next_pow2.simps [of n])
  qed
qed

lemma next_pow2_half:
  assumes "1 < n"
  shows "\<exists>k. next_pow2 n = 2 ^ Suc k \<and> 2 ^ k < n \<and> n \<le> 2 ^ Suc k"
proof -
  obtain j where j: "next_pow2 n = 2 ^ j" using next_pow2_is_power by blast
  with assms next_pow2_ge [of n] have "1 < (2::nat) ^ j" by linarith
  then obtain k where k: "j = Suc k" by (cases j) auto
  have "2 ^ k < n"
  proof (rule ccontr)
    assume "\<not> 2 ^ k < n"
    then have "next_pow2 n \<le> 2 ^ k" by (simp add: next_pow2_least)
    with j k show False by simp
  qed
  with j k next_pow2_ge [of n] show ?thesis by metis
qed

lemma unat_deposit: "unat (deposit items byts) = unat items * 10 ^ 11 + unat byts * 5000000"
proof -
  have lt: "unat items < 2 ^ LENGTH(32)" "unat byts < 2 ^ LENGTH(32)" by (rule unsigned_less)+
  have "unat (ucast items :: u128) = unat items" "unat (ucast byts :: u128) = unat byts"
    using lt by (simp_all add: unsigned_ucast_eq take_bit_nat_eq_self)
  moreover have "unat items * 1000000000000 + unat byts * 50000000 < 2 ^ 128" using lt by simp
  ultimately have "unat (ucast items * UNIT + ucast byts * (5 * MILLIUNIT div 100)) =
      unat items * 1000000000000 + unat byts * 50000000"
    using lt by (simp add: UNIT_def MILLIUNIT_def unat_word_ariths)
  then show ?thesis by (simp add: deposit_def unat_div)
qed

lemma deposit_add:
  assumes "unat items + unat items' < 2 ^ 32" and "unat byts + unat byts' < 2 ^ 32"
  shows "deposit (items + items') (byts + byts') = deposit items byts + deposit items' byts'"
proof -
  have "unat (items + items') = unat items + unat items'" "unat (byts + byts') = unat byts + unat byts'"
    using assms by (auto intro: unat_plus_fits)
  moreover have "unat (deposit items byts) + unat (deposit items' byts') < 2 ^ LENGTH(128)"
    using assms by (simp add: unat_deposit)
  then have "unat (deposit items byts + deposit items' byts') = unat (deposit items byts) + unat (deposit items' byts')"
    by (rule unat_plus_fits)
  ultimately have "unat (deposit (items + items') (byts + byts')) = unat (deposit items byts + deposit items' byts')"
    by (simp add: unat_deposit)
  then show ?thesis by (simp only: word_unat_eq_iff)
qed

lemma unat_ucast_64 [simp]: "unat (ucast (w :: u32) :: u64) = unat w"
proof -
  have "unat w < 2 ^ LENGTH(32)" by (rule unsigned_less)
  then show ?thesis by (simp add: unsigned_ucast_eq take_bit_nat_eq_self)
qed

lemma mortal_period_fits:
  assumes "next_pow2 (unat n) < 2 ^ 32"
  shows "unat (mortal_period n) = next_pow2 (unat n) div 2"
proof -
  have "unat (of_nat (next_pow2 (unat n)) :: u32) = next_pow2 (unat n)"
    using assms by (simp add: unat_of_nat)
  with assms show ?thesis by (simp add: mortal_period_def checked_next_power_of_two_def unat_div)
qed

lemma mortal_period_runtime: "mortal_period BlockHashCount = 2048"
  by (simp add: mortal_period_def BlockHashCount_def checked_next_power_of_two_def next_pow2.simps)

section \<open>Properties\<close>

text \<open>The units of time measured in blocks are exact, and two minimum periods make one slot.\<close>

lemma block_time_exact:
  "unat MINUTES = 10 \<and> unat MINUTES * unat SLOT_DURATION = 60 * 1000 \<and>
   unat HOURS * unat SLOT_DURATION = 60 * 60 * 1000 \<and> unat DAYS * unat SLOT_DURATION = 24 * 60 * 60 * 1000 \<and>
   2 * unat MinimumPeriod = unat SLOT_DURATION"
  by (simp add: MINUTES_def HOURS_def DAYS_def MinimumPeriod_def SLOT_DURATION_def MILLISECS_PER_BLOCK_def)

text \<open>
  C36. The storage deposit never overflows and loses nothing to its division: \<open>deposit(i, b)\<close> is exactly
  \<open>i\<close> times the price of an item (10^11, a tenth of a unit) plus \<open>b\<close> times the price of a byte (5 * 10^6),
  so deposits of separate parts add up to the deposit of the whole, and the default limit is the
  deposit for 1024 items and one MiB.
\<close>
theorem deposit_linear:
  "unat (deposit items byts) = unat items * unat DepositPerItem + unat byts * unat DepositPerByte \<and>
   unat DepositPerItem = 10 ^ 11 \<and> unat DepositPerByte = 5 * 10 ^ 6 \<and>
   unat DefaultDepositLimit = 1024 * unat DepositPerItem + 1024 * 1024 * unat DepositPerByte \<and>
   (unat items + unat items' < 2 ^ 32 \<and> unat byts + unat byts' < 2 ^ 32 \<longrightarrow>
     deposit (items + items') (byts + byts') = deposit items byts + deposit items' byts')"
proof -
  have prices: "unat DepositPerItem = 10 ^ 11" "unat DepositPerByte = 5 * 10 ^ 6"
    "unat DefaultDepositLimit = 1024 * 10 ^ 11 + 1024 * 1024 * (5 * 10 ^ 6)"
    by (simp_all add: DepositPerItem_def DepositPerByte_def DefaultDepositLimit_def unat_deposit)
  have "deposit (items + items') (byts + byts') = deposit items byts + deposit items' byts'"
    if "unat items + unat items' < 2 ^ 32" "unat byts + unat byts' < 2 ^ 32"
    using that by (rule deposit_add)
  with prices show ?thesis by (simp add: unat_deposit)
qed

theorem deposit_linear_witness:
  "deposit (3 + 4) (100 + 28) = deposit 3 100 + deposit 4 28 \<and> deposit 7 128 = 700640000000"
  using deposit_linear [of 3 100 4 28] by (simp add: deposit_def UNIT_def MILLIUNIT_def)

text \<open>
  C38. The period of a mortal transaction is the largest power of two below the number of block hashes kept,
  as long as the next power of two fits 32 bits, and two beyond that; with the runtime's 2400 block hashes
  it is 2048, so a transaction's birth block is still known when it expires.
\<close>
theorem mortal_period_correct:
  "(1 < unat n \<and> unat n \<le> 2 ^ 31 \<longrightarrow>
      (\<exists>k. unat (mortal_period n) = 2 ^ k \<and> 2 ^ k < unat n \<and> unat n \<le> 2 ^ Suc k)) \<and>
   (2 ^ 31 < unat n \<longrightarrow> mortal_period n = 2) \<and>
   mortal_period BlockHashCount = 2048 \<and> unat (mortal_period BlockHashCount) \<le> unat BlockHashCount"
proof (intro conjI impI)
  assume n: "1 < unat n \<and> unat n \<le> 2 ^ 31"
  then obtain k where k: "next_pow2 (unat n) = 2 ^ Suc k" "2 ^ k < unat n" "unat n \<le> 2 ^ Suc k"
    using next_pow2_half by blast
  have "next_pow2 (unat n) \<le> 2 ^ 31" using n by (intro next_pow2_least) simp
  then have "unat (mortal_period n) = 2 ^ k" using k(1) by (subst mortal_period_fits) simp_all
  with k show "\<exists>k. unat (mortal_period n) = 2 ^ k \<and> 2 ^ k < unat n \<and> unat n \<le> 2 ^ Suc k" by blast
next
  assume n: "2 ^ 31 < unat n"
  obtain k where k: "next_pow2 (unat n) = 2 ^ k" using next_pow2_is_power by blast
  have "(2::nat) ^ 31 < 2 ^ k" using n next_pow2_ge [of "unat n"] k by linarith
  then have "31 < k" by (rule power_less_imp_less_exp [rotated]) simp
  then have "(2::nat) ^ 32 \<le> 2 ^ k" by (intro power_increasing) linarith+
  with k show "mortal_period n = 2" by (simp add: mortal_period_def checked_next_power_of_two_def)
next
  show "mortal_period BlockHashCount = 2048" by (rule mortal_period_runtime)
  show "unat (mortal_period BlockHashCount) \<le> unat BlockHashCount"
    unfolding mortal_period_runtime by (simp add: BlockHashCount_def)
qed

theorem mortal_period_correct_witness:
  "(\<exists>k. unat (mortal_period 2400) = 2 ^ k \<and> 2 ^ k < (2400::nat) \<and> (2400::nat) \<le> 2 ^ Suc k) \<and> mortal_period 4000000000 = 2"
  using mortal_period_correct [of 2400] mortal_period_correct [of 4000000000] by simp

text \<open>Deconstructing a payload gives back what it was made of.\<close>

locale signed_payloads =
  fixes h :: "('call, 'pub, 'sig, 'pl, 'era) tx_host"
  assumes deconstruct_new: "signed_payload_new h c e = Inr p \<Longrightarrow> deconstruct h p = (c, e)"
begin

lemma create_transaction_eq:
  "create_transaction h sys c public acc nonce =
    (let extra = \<lparr>check_era = era_mortal h 2048 (saturating_sub_u64 (ucast (block_number sys)) 1),
                  check_nonce = nonce, charge_tip = 0\<rparr> in
     case signed_payload_new h c extra of
       Inl _ \<Rightarrow> None
     | Inr p \<Rightarrow> map_option (\<lambda>s. (c, Id acc, s, extra)) (crypto_sign h (using_encoded h p) public))"
  by (auto simp: create_transaction_def mortal_period_runtime Let_def deconstruct_new split: sum.split option.split)

end

text \<open>A host with no failures: the payload is the pair of call and extensions, the signature the key.\<close>

definition plain_tx_host :: "(nat, nat, nat, nat \<times> (u64 \<times> u64) signed_extra, u64 \<times> u64) tx_host" where
  "plain_tx_host =
     \<lparr>era_mortal = Pair, signed_payload_new = (\<lambda>c e. Inr (c, e)), using_encoded = (\<lambda>p. [of_nat (fst p)]),
      crypto_sign = (\<lambda>b k. Some k), deconstruct = (\<lambda>p. p)\<rparr>"

interpretation plain_tx: signed_payloads plain_tx_host
  by unfold_locales (simp add: plain_tx_host_def)

lemma unat_current_block: "unat (saturating_sub_u64 (ucast (w :: u32)) 1) = unat w - 1"
proof (cases "w = 0")
  case False
  then have "1 \<le> unat w" by (simp add: unat_gt_0 Suc_le_eq)
  then show ?thesis
    by (simp add: saturating_sub_u64_def word_less_nat_alt unat_sub_if')
qed (simp add: saturating_sub_u64_def)

text \<open>
  C39. A transaction that the runtime builds for an offchain worker carries the worker's own call, account and
  nonce, no tip, an era of 2048 blocks from the last finished block (block zero at genesis), and a
  signature of exactly that payload under the worker's key; none is built exactly when the payload
  cannot be made or the key cannot sign.
\<close>
theorem create_transaction_correct:
  fixes sys :: "('o, 'a) frame_system" and nonce :: u32
  assumes "signed_payloads h"
  defines "extra \<equiv> \<lparr>check_era = era_mortal h 2048 (saturating_sub_u64 (ucast (block_number sys)) 1),
    check_nonce = nonce, charge_tip = 0\<rparr>"
  shows "(create_transaction h sys c public acc nonce = Some tx \<longleftrightarrow>
      (\<exists>p sig. signed_payload_new h c extra = Inr p \<and> crypto_sign h (using_encoded h p) public = Some sig \<and>
         tx = (c, Id acc, sig, extra))) \<and>
    unat (saturating_sub_u64 (ucast (block_number sys)) 1) = unat (block_number sys) - 1"
  using assms(1)
  by (auto simp: signed_payloads.create_transaction_eq extra_def Let_def unat_current_block split: sum.splits)

theorem create_transaction_correct_witness:
  "create_transaction plain_tx_host (raw_system 10) 5 8 (3::nat) 1 =
     Some (5, Id 3, 8, \<lparr>check_era = (2048, 9), check_nonce = 1, charge_tip = 0\<rparr>)"
  using create_transaction_correct [OF plain_tx.signed_payloads_axioms, of "raw_system 10" 5 8 "3::nat" 1]
  by (simp add: plain_tx_host_def saturating_sub_u64_def)

text \<open>
  The extrinsic built for a benchmark carries what the transaction of the runtime carries, when the client's best block is
  the runtime's last finished block.
\<close>
lemma benchmark_matches_runtime:
  fixes sys :: "('o, 'a) frame_system"
  assumes "signed_payloads h" and "genesis_block_hash client = Inr (Some g)"
    and "Suc (unat (best_number client)) = unat (block_number sys)"
    and "create_transaction h sys c public acc nonce = Some (c', addr, sig, extra)"
  shows "c' = c \<and> addr = Id acc \<and>
    create_benchmark_extrinsic (era_mortal h) encode_raw sender_sign acc client c nonce =
      Some (c, addr, sender_sign (encode_raw c extra (100, 1, g, best_hash client)), extra)"
proof -
  have "unat (saturating_sub_u64 (ucast (block_number sys)) 1) = unat (ucast (best_number client) :: u64)"
    using assms(3) by (simp add: unat_current_block)
  then have bn: "saturating_sub_u64 (ucast (block_number sys)) 1 = ucast (best_number client)"
    by (simp only: word_unat_eq_iff)
  show ?thesis
    using assms(2,4)
    by (auto simp: signed_payloads.create_transaction_eq [OF assms(1)] create_benchmark_extrinsic_def
        mortal_period_runtime VERSION_def bn Let_def split: sum.splits)
qed

end
