(* ===== verification/Edge_Schedule.thy ===== *)
theory Edge_Schedule
  imports Edge_Offchain Cyborg_Runtime
begin

text \<open>
  The edge-connect offchain worker and the pallet over many blocks. One node runs the worker after every block, with no
  concurrent run; the next block includes what the node submitted, among any other calls, and nobody else
  submits unsigned responses. Both the node's grace period and the chain's \<open>NextUnsignedAt\<close> then decide what is sent. With
  the runtime's parameters the node settles into a period of twelve blocks with three requests, in which one
  of the four kinds of transactions has no place.
\<close>

section \<open>Blocks that include the requests of a node\<close>







section \<open>One block\<close>

definition kind :: "nat \<Rightarrow> transaction_type" where
  "kind n = (if n mod 4 = 0 then SignedTx else if n mod 4 = 1 then UnsignedForAny
             else if n mod 4 = 2 then UnsignedForAll else Raw)"





lemma kind_not_NoTx [simp]: "kind n \<noteq> NoTx"
  by (simp add: kind_def)




section \<open>A node with a key and a server that answers\<close>











section \<open>Property\<close>



end
