(* ===== verification/Node_Service.thy ===== *)
theory Node_Service
  imports Rust_Std
begin

text \<open>
  The node service of \<^verbatim>\<open>node/src/service.rs\<close> and the RPC module of \<^verbatim>\<open>node/src/rpc.rs\<close>. The functions build a node
  out of Substrate's parts, which are opaque handles of one type; the functions that make them are parameters,
  with their errors. What is modelled is the service's own logic: which parts are made in which order and
  from what, which tasks are spawned under which condition, what is done to the network and the keystore, and
  how an error or panic ends it. The result comes with the list of effects, in order. Handles that the service only
  passes through to Substrate and never acts on (metrics registry, the channels of the system RPC and of the transaction
  handler) and constants of the authoring task are left out of the arguments. The handles for spawning tasks are kept:
  through them Substrate's parts spawn tasks of their own, which are not effects of this model.
\<close>

section \<open>Fallible building with effects\<close>

datatype 'e failure = Failed 'e | Panicked

type_synonym ('e, 'ef, 'x) build = "('e failure + 'x) \<times> 'ef list"

definition ret :: "'x \<Rightarrow> ('e, 'ef, 'x) build" where
  "ret x = (Inr x, [])"

definition emit :: "'ef \<Rightarrow> ('e, 'ef, unit) build" where
  "emit e = (Inr (), [e])"

text \<open>The operator \<open>?\<close> and the method \<open>expect\<close>.\<close>

definition question :: "'e + 'x \<Rightarrow> ('e, 'ef, 'x) build" where
  "question r = (case r of Inl e \<Rightarrow> (Inl (Failed e), []) | Inr x \<Rightarrow> (Inr x, []))"

definition expect :: "'x option \<Rightarrow> ('e, 'ef, 'x) build" where
  "expect r = (case r of None \<Rightarrow> (Inl Panicked, []) | Some x \<Rightarrow> (Inr x, []))"

text \<open>\<open>Result::ok\<close>.\<close>

definition result_ok :: "'e + 'x \<Rightarrow> 'x option" where
  "result_ok r = (case r of Inl _ \<Rightarrow> None | Inr x \<Rightarrow> Some x)"

definition andthen :: "('e, 'ef, 'x) build \<Rightarrow> ('x \<Rightarrow> ('e, 'ef, 'y) build) \<Rightarrow> ('e, 'ef, 'y) build" where
  "andthen m k =
     (case m of
        (Inl f, l) \<Rightarrow> (Inl f, l)
      | (Inr x, l) \<Rightarrow> (case k x of (r, l') \<Rightarrow> (r, l @ l')))"

definition whenever :: "bool \<Rightarrow> ('e, 'ef, unit) build \<Rightarrow> ('e, 'ef, unit) build" where
  "whenever b m = (if b then m else ret ())"

named_theorems build_iff "inversion of a build that ended with a given result"

lemma result_ok_iff [build_iff]:
  "result_ok q = Some x \<longleftrightarrow> q = Inr x" "result_ok q = None \<longleftrightarrow> (\<exists>e. q = Inl e)"
  by (auto simp: result_ok_def split: sum.splits)

lemma bind_iff [build_iff]:
  "Option.bind q f = Some y \<longleftrightarrow> (\<exists>x. q = Some x \<and> f x = Some y)"
  "Option.bind q f = None \<longleftrightarrow> (q = None \<or> (\<exists>x. q = Some x \<and> f x = None))"
  by (cases q; auto)+

lemma ret_iff [build_iff]: "ret x = (r, l) \<longleftrightarrow> r = Inr x \<and> l = []"
  by (auto simp: ret_def)

lemma emit_iff [build_iff]: "emit e = (r, l) \<longleftrightarrow> r = Inr () \<and> l = [e]"
  by (auto simp: emit_def)

lemma question_iff [build_iff]:
  "question q = (Inr x, l) \<longleftrightarrow> q = Inr x \<and> l = []"
  "question q = (Inl f, l) \<longleftrightarrow> (\<exists>e. q = Inl e \<and> f = Failed e \<and> l = [])"
  by (auto simp: question_def split: sum.splits)

lemma expect_iff [build_iff]:
  "expect q = (Inr x, l) \<longleftrightarrow> q = Some x \<and> l = []"
  "expect q = (Inl f, l) \<longleftrightarrow> q = None \<and> f = Panicked \<and> l = []"
  by (auto simp: expect_def split: option.splits)

lemma andthen_Inr_iff [build_iff]:
  "andthen m k = (Inr y, l) \<longleftrightarrow> (\<exists>x l1 l2. m = (Inr x, l1) \<and> k x = (Inr y, l2) \<and> l = l1 @ l2)"
  by (auto simp: andthen_def split: prod.splits sum.splits)

lemma andthen_Inl_iff [build_iff]:
  "andthen m k = (Inl f, l) \<longleftrightarrow> m = (Inl f, l) \<or> (\<exists>x l1 l2. m = (Inr x, l1) \<and> k x = (Inl f, l2) \<and> l = l1 @ l2)"
  by (auto simp: andthen_def split: prod.splits sum.splits)

lemma whenever_iff [build_iff]:
  "whenever b m = (r, l) \<longleftrightarrow> (if b then m = (r, l) else r = Inr () \<and> l = [])"
  by (auto simp: whenever_def ret_def)

section \<open>Configuration and parts\<close>

record node_config =
  telemetry_endpoints :: "bytes list option"
  role_is_authority :: bool
  offchain_worker_enabled :: bool
  force_authoring :: bool
  disable_grandpa :: bool
  node_name :: bytes

record task =
  task_name :: bytes
  task_group :: "bytes option"
  task_essential :: bool
  task_blocking :: bool

datatype 'v effect =
    SpawnTask task 'v
  | AddNotificationProtocol 'v
  | GenerateKey bytes bytes
  | SpawnServiceTasks 'v
  | StartNetwork 'v

record 'v partial_components =
  pc_client :: 'v
  pc_backend :: 'v
  pc_task_manager :: 'v
  pc_import_queue :: 'v
  pc_keystore :: 'v
  pc_select_chain :: 'v
  pc_transaction_pool :: 'v
  pc_block_import :: 'v
  pc_grandpa_link :: 'v
  pc_telemetry :: "'v option"

record 'v offchain_options =
  oo_client :: 'v
  oo_is_validator :: bool
  oo_keystore :: "'v option"
  oo_backend :: 'v
  oo_pool :: "'v option"
  oo_network :: 'v
  oo_enable_http_requests :: bool

record 'v aura_params =
  ap_slot_duration :: 'v
  ap_client :: 'v
  ap_select_chain :: 'v
  ap_block_import :: 'v
  ap_proposer_factory :: 'v
  ap_force_authoring :: bool
  ap_inherents :: "'v \<Rightarrow> 'v \<times> 'v"
  ap_keystore :: 'v
  ap_sync :: 'v
  ap_telemetry :: "'v option"

record 'v grandpa_config =
  gc_gossip_millis :: u64
  gc_justification_period :: u32
  gc_name :: "bytes option"
  gc_observer_enabled :: bool
  gc_keystore :: "'v option"
  gc_is_authority :: bool
  gc_telemetry :: "'v option"
  gc_protocol_name :: 'v

text \<open>The constructors of Substrate that the service calls; a sum where the call can fail.\<close>

record ('e, 'v) service_host =
  telemetry_worker_new :: "nat \<Rightarrow> 'e + 'v"
  new_telemetry :: "'v \<Rightarrow> bytes list \<Rightarrow> 'v"
  telemetry_handle :: "'v \<Rightarrow> 'v"
  telemetry_run :: "'v \<Rightarrow> 'v"
  new_native_or_wasm_executor :: "node_config \<Rightarrow> 'v"
  new_full_parts :: "node_config \<Rightarrow> 'v option \<Rightarrow> 'v \<Rightarrow> 'e + ('v \<times> 'v \<times> 'v \<times> 'v)"
  spawn_handle :: "'v \<Rightarrow> 'v"
  spawn_essential_handle :: "'v \<Rightarrow> 'v"
  longest_chain :: "'v \<Rightarrow> 'v"
  basic_pool :: "bool \<Rightarrow> 'v \<Rightarrow> 'v \<Rightarrow> 'v"
  grandpa_block_import :: "'v \<Rightarrow> 'v \<Rightarrow> 'v option \<Rightarrow> 'e + ('v \<times> 'v)"
  aura_slot_duration :: "'v \<Rightarrow> 'e + 'v"
  slot_from_timestamp :: "'v \<Rightarrow> 'v \<Rightarrow> 'v"
  aura_import_queue :: "'v \<Rightarrow> 'v \<Rightarrow> ('v \<Rightarrow> 'v \<times> 'v) \<Rightarrow> 'v \<Rightarrow> 'v option \<Rightarrow> 'e + 'v"
  client_block_hash_0 :: "'v \<Rightarrow> 'e + 'v option"
  protocol_standard_name :: "'v \<Rightarrow> node_config \<Rightarrow> 'v"
  grandpa_peers_set_config :: "'v \<Rightarrow> 'v"
  warp_provider :: "'v \<Rightarrow> 'v \<Rightarrow> 'v"
  build_network :: "node_config \<Rightarrow> 'v list \<Rightarrow> 'v \<Rightarrow> 'v \<Rightarrow> 'v \<Rightarrow> 'v \<Rightarrow> 'v option \<Rightarrow> 'e + ('v \<times> 'v \<times> 'v)"
  offchain_workers_run :: "'v offchain_options \<Rightarrow> 'v \<Rightarrow> 'v \<Rightarrow> 'v"
  sr25519_generate_new :: "'v \<Rightarrow> bytes \<Rightarrow> bytes \<Rightarrow> 'e + 'v"
  rpc_module_new :: 'v
  rpc_merge :: "'v \<Rightarrow> 'v \<Rightarrow> 'e + 'v"
  system_rpc :: "'v \<Rightarrow> 'v \<Rightarrow> bool \<Rightarrow> 'v"
  transaction_payment_rpc :: "'v \<Rightarrow> 'v"
  spawn_tasks :: "'v partial_components \<Rightarrow> 'v \<Rightarrow> 'v \<Rightarrow> (bool \<Rightarrow> 'e + 'v) \<Rightarrow> node_config \<Rightarrow> 'e + 'v"
  proposer_factory_new :: "'v \<Rightarrow> 'v \<Rightarrow> 'v \<Rightarrow> 'v option \<Rightarrow> 'v"
  start_aura :: "'v aura_params \<Rightarrow> 'e + 'v"
  run_grandpa_voter :: "'v grandpa_config \<Rightarrow> 'v \<Rightarrow> 'v \<Rightarrow> 'v \<Rightarrow> 'v \<Rightarrow> 'e + 'v"

text \<open>The key types of the two pallets.\<close>

definition EDGE_KEY_TYPE :: bytes where "EDGE_KEY_TYPE = str ''edge''"

definition PING_KEY_TYPE :: bytes where "PING_KEY_TYPE = str ''ping''"

section \<open>RPC extensions\<close>

record 'v full_deps =
  fd_client :: 'v
  fd_pool :: 'v
  fd_deny_unsafe :: bool

definition create_full :: "('e, 'v) service_host \<Rightarrow> 'v full_deps \<Rightarrow> 'e + 'v" where
  "create_full h deps =
     (case rpc_merge h (rpc_module_new h) (system_rpc h (fd_client deps) (fd_pool deps) (fd_deny_unsafe deps)) of
        Inl e \<Rightarrow> Inl e
      | Inr module \<Rightarrow>
          (case rpc_merge h module (transaction_payment_rpc h (fd_client deps)) of
             Inl e \<Rightarrow> Inl e
           | Inr module' \<Rightarrow> Inr module'))"

section \<open>Building\<close>

text \<open>The inherent data of a block: the slot of the current timestamp, and the timestamp.\<close>

definition inherent_data_providers :: "('e, 'v) service_host \<Rightarrow> 'v \<Rightarrow> 'v \<Rightarrow> 'v \<times> 'v" where
  "inherent_data_providers h slot_duration timestamp = (slot_from_timestamp h timestamp slot_duration, timestamp)"

definition start_telemetry ::
  "('e, 'v) service_host \<Rightarrow> node_config \<Rightarrow> ('e, 'v effect, ('v \<times> 'v) option) build" where
  "start_telemetry h cfg =
     (case telemetry_endpoints cfg of
        None \<Rightarrow> ret None
      | Some endpoints \<Rightarrow>
          if endpoints = [] then ret None
          else andthen (question (telemetry_worker_new h 16)) (\<lambda>w. ret (Some (w, new_telemetry h w endpoints))))"

definition new_partial ::
  "('e, 'v) service_host \<Rightarrow> node_config \<Rightarrow> ('e, 'v effect, 'v partial_components) build" where
  "new_partial h cfg =
     andthen (start_telemetry h cfg) (\<lambda>worker_telemetry.
     let executor = new_native_or_wasm_executor h cfg in
     andthen (question (new_full_parts h cfg (map_option (telemetry_handle h \<circ> snd) worker_telemetry) executor))
       (\<lambda>(client, backend, keystore_container, task_manager).
     andthen (case worker_telemetry of
         None \<Rightarrow> ret None
       | Some (w, telemetry) \<Rightarrow>
           andthen (emit (SpawnTask \<lparr>task_name = str ''telemetry'', task_group = None, task_essential = False,
                                     task_blocking = False\<rparr> (telemetry_run h w)))
             (\<lambda>_. ret (Some telemetry)))
       (\<lambda>telemetry.
     let select_chain = longest_chain h backend;
         transaction_pool = basic_pool h (role_is_authority cfg) (spawn_essential_handle h task_manager) client in
     andthen (question (grandpa_block_import h client select_chain (map_option (telemetry_handle h) telemetry)))
       (\<lambda>(block_import, grandpa_link).
     andthen (question (aura_slot_duration h client)) (\<lambda>slot_duration.
     andthen (question (aura_import_queue h block_import client (inherent_data_providers h slot_duration)
         (spawn_essential_handle h task_manager) (map_option (telemetry_handle h) telemetry)))
       (\<lambda>import_queue.
     ret \<lparr>pc_client = client, pc_backend = backend, pc_task_manager = task_manager, pc_import_queue = import_queue,
          pc_keystore = keystore_container, pc_select_chain = select_chain, pc_transaction_pool = transaction_pool,
          pc_block_import = block_import, pc_grandpa_link = grandpa_link, pc_telemetry = telemetry\<rparr>))))))"

text \<open>The offchain worker and, with the feature \<open>ocw\<close>, its key.\<close>

definition start_offchain ::
  "('e, 'v) service_host \<Rightarrow> bool \<Rightarrow> node_config \<Rightarrow> 'v partial_components \<Rightarrow> 'v \<Rightarrow> ('e, 'v effect, unit) build" where
  "start_offchain h feature_ocw cfg pc network =
     whenever (offchain_worker_enabled cfg)
       (andthen (emit (SpawnTask \<lparr>task_name = str ''offchain-workers-runner'', task_group = Some (str ''offchain-worker''),
                                  task_essential = False, task_blocking = False\<rparr>
          (offchain_workers_run h
             \<lparr>oo_client = pc_client pc, oo_is_validator = role_is_authority cfg, oo_keystore = Some (pc_keystore pc),
              oo_backend = pc_backend pc, oo_pool = Some (pc_transaction_pool pc), oo_network = network,
              oo_enable_http_requests = True\<rparr>
             (pc_client pc) (spawn_handle h (pc_task_manager pc)))))
        (\<lambda>_. whenever feature_ocw
          (andthen (expect (result_ok (sr25519_generate_new h (pc_keystore pc) PING_KEY_TYPE (str ''//Charlie''))))
             (\<lambda>_. emit (GenerateKey PING_KEY_TYPE (str ''//Charlie''))))))"

definition start_authoring ::
  "('e, 'v) service_host \<Rightarrow> node_config \<Rightarrow> 'v partial_components \<Rightarrow> 'v \<Rightarrow> ('e, 'v effect, unit) build" where
  "start_authoring h cfg pc sync_service =
     whenever (role_is_authority cfg)
       (let telemetry = map_option (telemetry_handle h) (pc_telemetry pc);
            proposer_factory = proposer_factory_new h (spawn_handle h (pc_task_manager pc)) (pc_client pc)
              (pc_transaction_pool pc) telemetry in
        andthen (question (aura_slot_duration h (pc_client pc))) (\<lambda>slot_duration.
        andthen (question (start_aura h
            \<lparr>ap_slot_duration = slot_duration, ap_client = pc_client pc, ap_select_chain = pc_select_chain pc,
             ap_block_import = pc_block_import pc, ap_proposer_factory = proposer_factory,
             ap_force_authoring = force_authoring cfg, ap_inherents = inherent_data_providers h slot_duration, ap_keystore = pc_keystore pc, ap_sync = sync_service,
             ap_telemetry = telemetry\<rparr>)) (\<lambda>aura.
        emit (SpawnTask \<lparr>task_name = str ''aura'', task_group = Some (str ''block-authoring''), task_essential = True,
                         task_blocking = True\<rparr> aura))))"

definition voter_config ::
  "('e, 'v) service_host \<Rightarrow> node_config \<Rightarrow> 'v partial_components \<Rightarrow> 'v \<Rightarrow> 'v grandpa_config" where
  "voter_config h cfg pc protocol_name =
     \<lparr>gc_gossip_millis = 333, gc_justification_period = 512, gc_name = Some (node_name cfg), gc_observer_enabled = False,
      gc_keystore = (if role_is_authority cfg then Some (pc_keystore pc) else None),
      gc_is_authority = role_is_authority cfg, gc_telemetry = map_option (telemetry_handle h) (pc_telemetry pc),
      gc_protocol_name = protocol_name\<rparr>"

definition start_voter ::
  "('e, 'v) service_host \<Rightarrow> node_config \<Rightarrow> 'v partial_components \<Rightarrow> 'v \<Rightarrow> 'v \<Rightarrow> 'v \<Rightarrow> ('e, 'v effect, unit) build" where
  "start_voter h cfg pc protocol_name network sync_service =
     (let enable_grandpa = \<not> disable_grandpa cfg in
      whenever enable_grandpa
        (andthen (question (run_grandpa_voter h (voter_config h cfg pc protocol_name) (pc_grandpa_link pc) network
                              sync_service (pc_transaction_pool pc)))
          (\<lambda>voter. emit (SpawnTask \<lparr>task_name = str ''grandpa-voter'', task_group = None, task_essential = True,
                                    task_blocking = True\<rparr> voter))))"

definition new_full :: "('e, 'v) service_host \<Rightarrow> bool \<Rightarrow> node_config \<Rightarrow> ('e, 'v effect, 'v) build" where
  "new_full h feature_ocw cfg =
     andthen (new_partial h cfg) (\<lambda>pc.
     andthen (expect (Option.bind (result_ok (client_block_hash_0 h (pc_client pc))) (\<lambda>hash. hash))) (\<lambda>genesis_hash.
     let grandpa_protocol_name = protocol_standard_name h genesis_hash cfg;
         protocol = grandpa_peers_set_config h grandpa_protocol_name in
     andthen (emit (AddNotificationProtocol protocol)) (\<lambda>_.
     let warp_sync = warp_provider h (pc_backend pc) (pc_grandpa_link pc) in
     andthen (question (build_network h cfg [protocol] (pc_client pc) (pc_transaction_pool pc)
         (spawn_handle h (pc_task_manager pc)) (pc_import_queue pc) (Some warp_sync)))
       (\<lambda>(network, network_starter, sync_service).
     andthen (start_offchain h feature_ocw cfg pc network) (\<lambda>_.
     let rpc_extensions_builder = (\<lambda>deny_unsafe. create_full h
           \<lparr>fd_client = pc_client pc, fd_pool = pc_transaction_pool pc, fd_deny_unsafe = deny_unsafe\<rparr>) in
     andthen (question (spawn_tasks h pc network sync_service rpc_extensions_builder cfg)) (\<lambda>rpc_handlers.
     andthen (emit (SpawnServiceTasks rpc_handlers)) (\<lambda>_.
     andthen (start_authoring h cfg pc sync_service) (\<lambda>_.
     andthen (start_voter h cfg pc grandpa_protocol_name network sync_service) (\<lambda>_.
     andthen (emit (StartNetwork network_starter)) (\<lambda>_.
     ret (pc_task_manager pc)))))))))))"

section \<open>Effects of the parts\<close>

fun tasks_of :: "'v effect list \<Rightarrow> task list" where
  "tasks_of [] = []"
| "tasks_of (SpawnTask t v # es) = t # tasks_of es"
| "tasks_of (e # es) = tasks_of es"

fun keys_of :: "'v effect list \<Rightarrow> (bytes \<times> bytes) list" where
  "keys_of [] = []"
| "keys_of (GenerateKey k s # es) = (k, s) # keys_of es"
| "keys_of (e # es) = keys_of es"

fun starts_network :: "'v effect \<Rightarrow> bool" where
  "starts_network (StartNetwork v) = True"
| "starts_network e = False"

lemma tasks_of_append [simp]: "tasks_of (xs @ ys) = tasks_of xs @ tasks_of ys"
  by (induction xs rule: tasks_of.induct) simp_all

lemma keys_of_append [simp]: "keys_of (xs @ ys) = keys_of xs @ keys_of ys"
  by (induction xs rule: keys_of.induct) simp_all

definition telemetry_task :: task where
  "telemetry_task = \<lparr>task_name = str ''telemetry'', task_group = None, task_essential = False, task_blocking = False\<rparr>"

definition offchain_task :: task where
  "offchain_task = \<lparr>task_name = str ''offchain-workers-runner'', task_group = Some (str ''offchain-worker''),
     task_essential = False, task_blocking = False\<rparr>"

definition aura_task :: task where
  "aura_task = \<lparr>task_name = str ''aura'', task_group = Some (str ''block-authoring''), task_essential = True,
     task_blocking = True\<rparr>"

definition voter_task :: task where
  "voter_task = \<lparr>task_name = str ''grandpa-voter'', task_group = None, task_essential = True, task_blocking = True\<rparr>"

definition has_telemetry :: "node_config \<Rightarrow> bool" where
  "has_telemetry cfg \<longleftrightarrow> (case telemetry_endpoints cfg of None \<Rightarrow> False | Some es \<Rightarrow> es \<noteq> [])"

lemma start_telemetry_ok:
  "start_telemetry h cfg = (Inr t, l) \<Longrightarrow> l = [] \<and> (t \<noteq> None \<longleftrightarrow> has_telemetry cfg)"
  by (auto simp: start_telemetry_def has_telemetry_def build_iff split: option.splits if_splits sum.splits)

lemma start_telemetry_fail:
  "start_telemetry h cfg = (Inl f, l) \<Longrightarrow> l = [] \<and> f \<noteq> Panicked"
  by (auto simp: start_telemetry_def build_iff split: option.splits if_splits sum.splits)

lemma new_partial_ok:
  assumes "new_partial h cfg = (Inr pc, l)"
  shows "tasks_of l = (if has_telemetry cfg then [telemetry_task] else []) \<and> keys_of l = [] \<and>
    \<not> (\<exists>e \<in> set l. starts_network e) \<and> (pc_telemetry pc \<noteq> None \<longleftrightarrow> has_telemetry cfg)"
  using assms
  by (auto simp: new_partial_def build_iff Let_def telemetry_task_def dest!: start_telemetry_ok
      split: option.splits sum.splits prod.splits)

lemma new_partial_fail:
  assumes "new_partial h cfg = (Inl f, l)"
  shows "f \<noteq> Panicked \<and> keys_of l = [] \<and> \<not> (\<exists>e \<in> set l. starts_network e)"
  using assms
  by (auto simp: new_partial_def build_iff Let_def dest!: start_telemetry_ok start_telemetry_fail
      split: option.splits sum.splits prod.splits)

lemma start_offchain_ok:
  "start_offchain h ocw cfg pc network = (Inr u, l) \<Longrightarrow>
     tasks_of l = (if offchain_worker_enabled cfg then [offchain_task] else []) \<and>
     keys_of l = (if offchain_worker_enabled cfg \<and> ocw then [(PING_KEY_TYPE, str ''//Charlie'')] else []) \<and>
     \<not> (\<exists>e \<in> set l. starts_network e)"
  by (auto simp: start_offchain_def build_iff offchain_task_def split: if_splits)

lemma start_offchain_fail:
  "start_offchain h ocw cfg pc network = (Inl f, l) \<Longrightarrow>
     f = Panicked \<and> ocw \<and> (\<exists>e. sr25519_generate_new h (pc_keystore pc) PING_KEY_TYPE (str ''//Charlie'') = Inl e) \<and>
     \<not> (\<exists>e \<in> set l. starts_network e)"
  by (auto simp: start_offchain_def build_iff split: if_splits sum.splits)

lemma start_authoring_ok:
  "start_authoring h cfg pc sync = (Inr u, l) \<Longrightarrow>
     tasks_of l = (if role_is_authority cfg then [aura_task] else []) \<and> keys_of l = [] \<and>
     \<not> (\<exists>e \<in> set l. starts_network e)"
  by (auto simp: start_authoring_def build_iff aura_task_def Let_def split: if_splits)

lemma start_authoring_fail:
  "start_authoring h cfg pc sync = (Inl f, l) \<Longrightarrow> f \<noteq> Panicked \<and> \<not> (\<exists>e \<in> set l. starts_network e)"
  by (auto simp: start_authoring_def build_iff Let_def split: if_splits)

lemma start_voter_ok:
  "start_voter h cfg pc name network sync = (Inr u, l) \<Longrightarrow>
     tasks_of l = (if disable_grandpa cfg then [] else [voter_task]) \<and> keys_of l = [] \<and>
     \<not> (\<exists>e \<in> set l. starts_network e)"
  by (auto simp: start_voter_def build_iff voter_task_def Let_def split: if_splits)

lemma start_voter_fail:
  "start_voter h cfg pc name network sync = (Inl f, l) \<Longrightarrow> f \<noteq> Panicked \<and> \<not> (\<exists>e \<in> set l. starts_network e)"
  by (auto simp: start_voter_def build_iff Let_def split: if_splits)

lemmas part_ok = new_partial_ok start_offchain_ok start_authoring_ok start_voter_ok
lemmas part_fail = new_partial_fail start_offchain_fail start_authoring_fail start_voter_fail

text \<open>The parts a successful start went through, in order.\<close>

lemma new_full_ok:
  assumes "new_full h ocw cfg = (Inr tm, log)"
  obtains pc hash network starter sync rpc l1 l2 l3 l4 where
    "new_partial h cfg = (Inr pc, l1)" "client_block_hash_0 h (pc_client pc) = Inr (Some hash)"
    "start_offchain h ocw cfg pc network = (Inr (), l2)"
    "start_authoring h cfg pc sync = (Inr (), l3)"
    "start_voter h cfg pc (protocol_standard_name h hash cfg) network sync = (Inr (), l4)"
    "log = l1 @ [AddNotificationProtocol (grandpa_peers_set_config h (protocol_standard_name h hash cfg))] @ l2 @
       [SpawnServiceTasks rpc] @ l3 @ l4 @ [StartNetwork starter]"
    "tm = pc_task_manager pc"
  using assms by (auto simp: new_full_def build_iff Let_def split: prod.splits sum.splits)

lemma new_full_log:
  assumes "new_full h ocw cfg = (Inr tm, log)"
  shows "\<exists>l starter. log = l @ [StartNetwork starter] \<and> filter starts_network l = []"
proof -
  from assms obtain pc hash network starter sync rpc l1 l2 l3 l4 where
    p: "new_partial h cfg = (Inr pc, l1)" and o: "start_offchain h ocw cfg pc network = (Inr (), l2)"
    and a: "start_authoring h cfg pc sync = (Inr (), l3)"
    and v: "start_voter h cfg pc (protocol_standard_name h hash cfg) network sync = (Inr (), l4)"
    and log: "log = l1 @ [AddNotificationProtocol (grandpa_peers_set_config h (protocol_standard_name h hash cfg))] @ l2 @
       [SpawnServiceTasks rpc] @ l3 @ l4 @ [StartNetwork starter]"
    by (rule new_full_ok)
  have "filter starts_network l1 = []" "filter starts_network l2 = []" "filter starts_network l3 = []"
    "filter starts_network l4 = []"
    using new_partial_ok [OF p] start_offchain_ok [OF o] start_authoring_ok [OF a] start_voter_ok [OF v]
    by (simp_all add: filter_empty_conv)
  then have "filter starts_network (l1 @ [AddNotificationProtocol (grandpa_peers_set_config h
      (protocol_standard_name h hash cfg))] @ l2 @ [SpawnServiceTasks rpc] @ l3 @ l4) = []"
    by simp
  then show ?thesis unfolding log append_assoc [symmetric] by blast
qed

lemma new_full_fail:
  assumes "new_full h ocw cfg = (Inl f, log)"
  shows "\<not> (\<exists>e \<in> set log. starts_network e)"
    and "f = Panicked \<Longrightarrow> \<exists>pc l. new_partial h cfg = (Inr pc, l) \<and>
      (client_block_hash_0 h (pc_client pc) \<in> insert (Inr None) (range Inl) \<or>
       ocw \<and> (\<exists>e. sr25519_generate_new h (pc_keystore pc) PING_KEY_TYPE (str ''//Charlie'') = Inl e))"
  using assms
  by (fastforce simp: new_full_def build_iff Let_def dest: part_ok part_fail)+

section \<open>A host without failures\<close>

definition succeeds :: "('e, 'ef, 'x) build \<Rightarrow> bool" where
  "succeeds m \<longleftrightarrow> (case fst m of Inl _ \<Rightarrow> False | Inr _ \<Rightarrow> True)"

lemma succeeds_iff: "succeeds m \<longleftrightarrow> (\<exists>x l. m = (Inr x, l))"
  by (cases m; cases "fst m") (auto simp: succeeds_def)

lemma succeeds_andthen: "succeeds m \<Longrightarrow> (\<And>x. succeeds (k x)) \<Longrightarrow> succeeds (andthen m k)"
  unfolding succeeds_iff andthen_Inr_iff by blast

lemma succeeds_prod: "(\<And>x y. succeeds (k x y)) \<Longrightarrow> succeeds (case p of (x, y) \<Rightarrow> k x y)"
  by (cases p) simp

lemma succeeds_option: "succeeds m \<Longrightarrow> (\<And>x. succeeds (k x)) \<Longrightarrow> succeeds (case p of None \<Rightarrow> m | Some x \<Rightarrow> k x)"
  by (cases p) simp_all

lemma succeeds_basic:
  "succeeds (ret x)" "succeeds (emit e)" "\<exists>x. q = Inr x \<Longrightarrow> succeeds (question q)"
  "\<exists>x. p = Some x \<Longrightarrow> succeeds (expect p)" "succeeds m \<Longrightarrow> succeeds (whenever b m)"
  by (auto simp: succeeds_iff build_iff)

lemma succeeds_if: "succeeds m \<Longrightarrow> succeeds m' \<Longrightarrow> succeeds (if b then m else m')"
  by simp

lemmas succeeds_intros = succeeds_andthen succeeds_prod succeeds_option succeeds_if succeeds_basic

locale sound_host =
  fixes h :: "('e, 'v) service_host"
  assumes worker_ok: "\<exists>v. telemetry_worker_new h buf = Inr v"
    and parts_ok: "\<exists>v. new_full_parts h cfg t x = Inr v"
    and block_import_ok: "\<exists>v. grandpa_block_import h c sc t = Inr v"
    and slot_ok: "\<exists>v. aura_slot_duration h c = Inr v"
    and queue_ok: "\<exists>v. aura_import_queue h bi c ih sp t = Inr v"
    and genesis_ok: "\<exists>v. client_block_hash_0 h c = Inr (Some v)"
    and network_ok: "\<exists>v. build_network h cfg ps c p sp q w = Inr v"
    and key_ok: "\<exists>v. sr25519_generate_new h k kt sd = Inr v"
    and merge_ok: "\<exists>v. rpc_merge h m r = Inr v"
    and spawn_ok: "(\<And>d. \<exists>v. rb d = Inr v) \<Longrightarrow> \<exists>v. spawn_tasks h pc nw sy rb cfg = Inr v"
    and aura_ok: "\<exists>v. start_aura h ap = Inr v"
    and voter_ok: "\<exists>v. run_grandpa_voter h gc l nw sy p = Inr v"
begin

lemmas calls_ok = worker_ok parts_ok block_import_ok slot_ok queue_ok network_ok spawn_ok aura_ok voter_ok

lemma create_full_ok: "\<exists>v. create_full h deps = Inr v"
proof -
  obtain m where m: "rpc_merge h (rpc_module_new h)
      (system_rpc h (fd_client deps) (fd_pool deps) (fd_deny_unsafe deps)) = Inr m"
    using merge_ok by blast
  obtain m' where "rpc_merge h m (transaction_payment_rpc h (fd_client deps)) = Inr m'" using merge_ok by blast
  with m show ?thesis by (simp add: create_full_def)
qed

lemma genesis_found: "\<exists>v. Option.bind (result_ok (client_block_hash_0 h c)) (\<lambda>hash. hash) = Some v"
  using genesis_ok [of c] by (auto simp: result_ok_def)

lemma key_made: "\<exists>v. result_ok (sr25519_generate_new h k kt sd) = Some v"
  using key_ok [of k kt sd] by (auto simp: result_ok_def)

lemma partial_succeeds: "succeeds (new_partial h cfg)"
  unfolding new_partial_def start_telemetry_def Let_def by (intro succeeds_intros calls_ok)

lemma full_succeeds: "succeeds (new_full h ocw cfg)"
  unfolding new_full_def start_offchain_def start_authoring_def start_voter_def Let_def
  by (intro succeeds_intros calls_ok create_full_ok partial_succeeds genesis_found key_made)

end

text \<open>
  A host whose calls all succeed, with numbers for handles.
\<close>

definition plain_service :: "(unit, nat) service_host" where
  "plain_service =
     \<lparr>telemetry_worker_new = (\<lambda>buf. Inr (100 + buf)),
      new_telemetry = (\<lambda>w es. w + length es),
      telemetry_handle = Suc,
      telemetry_run = (\<lambda>w. w),
      new_native_or_wasm_executor = (\<lambda>cfg. 1),
      new_full_parts = (\<lambda>cfg t x. Inr (2, 3, 4, 5)),
      spawn_handle = (\<lambda>tm. 40 + tm),
      spawn_essential_handle = (\<lambda>tm. 50 + tm),
      longest_chain = (\<lambda>b. 6),
      basic_pool = (\<lambda>v sp c. 7 + sp),
      grandpa_block_import = (\<lambda>c sc t. Inr (8, 9)),
      aura_slot_duration = (\<lambda>c. Inr 6000),
      slot_from_timestamp = (\<lambda>t d. t div d),
      aura_import_queue = (\<lambda>bi c ih sp t. Inr 10),
      client_block_hash_0 = (\<lambda>c. Inr (Some 11)),
      protocol_standard_name = (\<lambda>hash cfg. hash),
      grandpa_peers_set_config = (\<lambda>n. 12),
      warp_provider = (\<lambda>b l. 13),
      build_network = (\<lambda>cfg ps c p sp q w. Inr (14, 15, 16)),
      offchain_workers_run = (\<lambda>oo c sp. 17),
      sr25519_generate_new = (\<lambda>k kt sd. Inr 18),
      rpc_module_new = 0,
      rpc_merge = (\<lambda>m r. Inr (m + r)),
      system_rpc = (\<lambda>c p d. 20),
      transaction_payment_rpc = (\<lambda>c. 21),
      spawn_tasks = (\<lambda>pc nw sy rb cfg. rb False),
      proposer_factory_new = (\<lambda>sp c p t. 22),
      start_aura = (\<lambda>ap. Inr 23),
      run_grandpa_voter = (\<lambda>gc l nw sy p. Inr 24)\<rparr>"

interpretation plain_service: sound_host plain_service
  by unfold_locales (auto simp: plain_service_def)

section \<open>Properties\<close>

lemma voter_spawned:
  assumes "start_voter h cfg pc name network sync = (Inr u, l)" and "SpawnTask t v \<in> set l"
  shows "t = voter_task \<and> (\<exists>gc link nw sy pool. run_grandpa_voter h gc link nw sy pool = Inr v \<and>
    (gc_keystore gc \<noteq> None \<longleftrightarrow> role_is_authority cfg) \<and> gc_is_authority gc = role_is_authority cfg)"
  using assms
  by (fastforce simp: start_voter_def build_iff voter_config_def voter_task_def Let_def split: if_splits)

lemma aura_spawned:
  assumes "start_authoring h cfg pc sync = (Inr u, l)" and "SpawnTask t v \<in> set l"
  shows "t = aura_task \<and> (\<exists>ap. start_aura h ap = Inr v \<and> ap_force_authoring ap = force_authoring cfg \<and>
    aura_slot_duration h (ap_client ap) = Inr (ap_slot_duration ap) \<and>
    (\<forall>ts. ap_inherents ap ts = (slot_from_timestamp h ts (ap_slot_duration ap), ts)))"
  using assms
  by (fastforce simp: start_authoring_def build_iff inherent_data_providers_def aura_task_def Let_def
      split: if_splits)

lemma partial_spawned:
  "new_partial h cfg = (Inr pc, l) \<Longrightarrow> SpawnTask t v \<in> set l \<Longrightarrow> t = telemetry_task"
  by (auto simp: new_partial_def build_iff Let_def telemetry_task_def dest!: start_telemetry_ok
      split: option.splits sum.splits prod.splits)

lemma partial_handles:
  assumes "new_partial h cfg = (Inr pc, l)"
  shows "pc_transaction_pool pc =
      basic_pool h (role_is_authority cfg) (spawn_essential_handle h (pc_task_manager pc)) (pc_client pc) \<and>
    (\<exists>sd. aura_slot_duration h (pc_client pc) = Inr sd \<and>
      aura_import_queue h (pc_block_import pc) (pc_client pc) (inherent_data_providers h sd)
      (spawn_essential_handle h (pc_task_manager pc)) (map_option (telemetry_handle h) (pc_telemetry pc)) =
        Inr (pc_import_queue pc))"
  using assms by (auto simp: new_partial_def build_iff Let_def split: option.splits sum.splits prod.splits)

lemma offchain_spawned:
  "start_offchain h ocw cfg pc network = (Inr u, l) \<Longrightarrow> SpawnTask t v \<in> set l \<Longrightarrow> t = offchain_task"
  by (auto simp: start_offchain_def build_iff offchain_task_def split: if_splits)

lemma task_names_distinct [simp]:
  "aura_task \<noteq> voter_task" "aura_task \<noteq> offchain_task" "aura_task \<noteq> telemetry_task"
  "voter_task \<noteq> aura_task" "voter_task \<noteq> offchain_task" "voter_task \<noteq> telemetry_task"
  by (simp_all add: aura_task_def voter_task_def offchain_task_def telemetry_task_def)

text \<open>
  C20. The tasks that the service itself spawns in a start that succeeds are exactly those its configuration asks for, in this order:
  the telemetry worker when there are endpoints, the offchain worker when enabled, authoring for an authority, and the
  finality voter unless it is disabled, the last two as essential tasks and the others not. Besides, the service gives the
  handle for essential tasks to two of Substrate's parts, the transaction pool and the import queue; what these, the network
  and \<open>spawn_tasks\<close> spawn themselves is not counted here. The service puts a key into the keystore only by the feature \<open>ocw\<close> with the offchain worker
  enabled, and then it is the ping key of \<open>//Charlie\<close>: never an edge key, so the edge-connect offchain worker gets no key to
  sign with from it. The voter holds the keystore exactly for an authority, and authoring runs on the slots of the client's own
  slot duration.
\<close>
theorem node_tasks:
  assumes "new_full h ocw cfg = (Inr tm, log)"
  shows "tasks_of log =
      (if has_telemetry cfg then [telemetry_task] else []) @
      (if offchain_worker_enabled cfg then [offchain_task] else []) @
      (if role_is_authority cfg then [aura_task] else []) @
      (if disable_grandpa cfg then [] else [voter_task]) \<and>
    filter task_essential (tasks_of log) =
      (if role_is_authority cfg then [aura_task] else []) @ (if disable_grandpa cfg then [] else [voter_task]) \<and>
    (\<exists>pc l sd. new_partial h cfg = (Inr pc, l) \<and> pc_task_manager pc = tm \<and>
      pc_transaction_pool pc = basic_pool h (role_is_authority cfg) (spawn_essential_handle h tm) (pc_client pc) \<and>
      aura_slot_duration h (pc_client pc) = Inr sd \<and>
      aura_import_queue h (pc_block_import pc) (pc_client pc) (inherent_data_providers h sd) (spawn_essential_handle h tm)
        (map_option (telemetry_handle h) (pc_telemetry pc)) = Inr (pc_import_queue pc)) \<and>
    keys_of log = (if offchain_worker_enabled cfg \<and> ocw then [(PING_KEY_TYPE, str ''//Charlie'')] else []) \<and>
    EDGE_KEY_TYPE \<notin> fst ` set (keys_of log) \<and>
    (\<forall>v. SpawnTask voter_task v \<in> set log \<longrightarrow> (\<exists>gc link nw sy pool. run_grandpa_voter h gc link nw sy pool = Inr v \<and>
      (gc_keystore gc \<noteq> None \<longleftrightarrow> role_is_authority cfg) \<and> gc_is_authority gc = role_is_authority cfg)) \<and>
    (\<forall>v. SpawnTask aura_task v \<in> set log \<longrightarrow> (\<exists>ap. start_aura h ap = Inr v \<and>
      ap_force_authoring ap = force_authoring cfg \<and>
      aura_slot_duration h (ap_client ap) = Inr (ap_slot_duration ap) \<and>
      (\<forall>ts. ap_inherents ap ts = (slot_from_timestamp h ts (ap_slot_duration ap), ts))))"
proof -
  from assms obtain pc hash network starter sync rpc l1 l2 l3 l4 where
    p: "new_partial h cfg = (Inr pc, l1)" and o: "start_offchain h ocw cfg pc network = (Inr (), l2)"
    and a: "start_authoring h cfg pc sync = (Inr (), l3)"
    and v: "start_voter h cfg pc (protocol_standard_name h hash cfg) network sync = (Inr (), l4)"
    and log: "log = l1 @ [AddNotificationProtocol (grandpa_peers_set_config h (protocol_standard_name h hash cfg))] @ l2 @
       [SpawnServiceTasks rpc] @ l3 @ l4 @ [StartNetwork starter]"
    and tm: "tm = pc_task_manager pc"
    by (rule new_full_ok)
  note parts = new_partial_ok [OF p] start_offchain_ok [OF o] start_authoring_ok [OF a] start_voter_ok [OF v]
  note spawned = partial_spawned [OF p] offchain_spawned [OF o] aura_spawned [OF a] voter_spawned [OF v]
  have tasks: "tasks_of log =
      (if has_telemetry cfg then [telemetry_task] else []) @
      (if offchain_worker_enabled cfg then [offchain_task] else []) @
      (if role_is_authority cfg then [aura_task] else []) @
      (if disable_grandpa cfg then [] else [voter_task])"
    and keys: "keys_of log = (if offchain_worker_enabled cfg \<and> ocw then [(PING_KEY_TYPE, str ''//Charlie'')] else [])"
    using parts by (simp_all add: log)
  have handles: "\<exists>pc l sd. new_partial h cfg = (Inr pc, l) \<and> pc_task_manager pc = tm \<and>
      pc_transaction_pool pc = basic_pool h (role_is_authority cfg) (spawn_essential_handle h tm) (pc_client pc) \<and>
      aura_slot_duration h (pc_client pc) = Inr sd \<and>
      aura_import_queue h (pc_block_import pc) (pc_client pc) (inherent_data_providers h sd) (spawn_essential_handle h tm)
        (map_option (telemetry_handle h) (pc_telemetry pc)) = Inr (pc_import_queue pc)"
    using p partial_handles [OF p] tm by blast
  have voter: "SpawnTask voter_task w \<in> set l4" if "SpawnTask voter_task w \<in> set log" for w
    using that spawned by (auto simp: log dest: spawned)
  have aura: "SpawnTask aura_task w \<in> set l3" if "SpawnTask aura_task w \<in> set log" for w
    using that spawned by (auto simp: log dest: spawned)
  have "task_essential aura_task" "task_essential voter_task" "\<not> task_essential telemetry_task"
    "\<not> task_essential offchain_task" and "EDGE_KEY_TYPE \<noteq> PING_KEY_TYPE"
    by (simp_all add: aura_task_def voter_task_def telemetry_task_def offchain_task_def EDGE_KEY_TYPE_def
        PING_KEY_TYPE_def str_def)
  moreover have "EDGE_KEY_TYPE \<notin> fst ` set (keys_of log)"
    using \<open>EDGE_KEY_TYPE \<noteq> PING_KEY_TYPE\<close> by (auto simp: keys split: if_splits)
  ultimately show ?thesis
    using tasks keys handles voter_spawned [OF v voter] aura_spawned [OF a aura] by simp
qed

definition demo_node :: node_config where
  "demo_node = \<lparr>telemetry_endpoints = Some [], role_is_authority = True, offchain_worker_enabled = True,
     force_authoring = False, disable_grandpa = False, node_name = str ''alice''\<rparr>"

lemma demo_node_starts: "\<exists>log. new_full plain_service ocw demo_node = (Inr 5, log)"
  by (simp add: new_full_def new_partial_def start_telemetry_def start_offchain_def start_authoring_def start_voter_def
      andthen_def whenever_def question_def expect_def result_ok_def emit_def ret_def demo_node_def plain_service_def
      create_full_def Let_def)

theorem node_tasks_witness:
  "\<exists>log. new_full plain_service True demo_node = (Inr 5, log) \<and>
     tasks_of log = [offchain_task, aura_task, voter_task] \<and> keys_of log = [(PING_KEY_TYPE, str ''//Charlie'')]"
proof -
  obtain log where log: "new_full plain_service True demo_node = (Inr 5, log)" using demo_node_starts by blast
  from node_tasks [OF log] have "tasks_of log = [offchain_task, aura_task, voter_task]"
    "keys_of log = [(PING_KEY_TYPE, str ''//Charlie'')]"
    by (simp_all add: demo_node_def has_telemetry_def)
  with log show ?thesis by blast
qed

text \<open>
  C18. The network is opened last: a start that succeeds opens it exactly once, as its final action, when every task is already
  running; a start that fails never opens it. A start panics only if the client has no genesis block or, with the feature
  \<open>ocw\<close>, the key cannot be generated; every other failure is returned as an error; and it always succeeds
  when the calls to Substrate do.
\<close>
theorem network_started_last:
  "(case new_full h ocw cfg of
      (Inr tm, log) \<Rightarrow> (\<exists>l starter. log = l @ [StartNetwork starter] \<and> filter starts_network l = [])
    | (Inl f, log) \<Rightarrow> filter starts_network log = [] \<and>
        (f = Panicked \<longrightarrow> (\<exists>pc l. new_partial h cfg = (Inr pc, l) \<and>
          (client_block_hash_0 h (pc_client pc) \<in> insert (Inr None) (range Inl) \<or>
           ocw \<and> (\<exists>e. sr25519_generate_new h (pc_keystore pc) PING_KEY_TYPE (str ''//Charlie'') = Inl e))))) \<and>
   (sound_host h \<longrightarrow> succeeds (new_full h ocw cfg))"
proof (intro conjI impI)
  show "succeeds (new_full h ocw cfg)" if "sound_host h" using that by (rule sound_host.full_succeeds)
  obtain r log where r: "new_full h ocw cfg = (r, log)" by (cases "new_full h ocw cfg")
  show "case new_full h ocw cfg of
      (Inr tm, log) \<Rightarrow> (\<exists>l starter. log = l @ [StartNetwork starter] \<and> filter starts_network l = [])
    | (Inl f, log) \<Rightarrow> filter starts_network log = [] \<and>
        (f = Panicked \<longrightarrow> (\<exists>pc l. new_partial h cfg = (Inr pc, l) \<and>
          (client_block_hash_0 h (pc_client pc) \<in> insert (Inr None) (range Inl) \<or>
           ocw \<and> (\<exists>e. sr25519_generate_new h (pc_keystore pc) PING_KEY_TYPE (str ''//Charlie'') = Inl e))))"
  proof (cases r)
    case (Inl f)
    with r new_full_fail [of h ocw cfg f log] show ?thesis by (auto simp: filter_empty_conv)
  next
    case (Inr tm)
    with r new_full_log [of h ocw cfg tm log] show ?thesis by simp
  qed
qed

theorem network_started_last_witness:
  "\<exists>l starter. snd (new_full plain_service False demo_node) = l @ [StartNetwork starter] \<and> filter starts_network l = [] \<and>
     succeeds (new_full plain_service False demo_node)"
  using network_started_last [where h = plain_service and ocw = False and cfg = demo_node] plain_service.sound_host_axioms demo_node_starts [of False]
  by auto

end
