(* ===== verification/Node_Command.thy ===== *)
theory Node_Command
  imports Node_Service Cyborg_Runtime
begin

text \<open>
  The command line of \<^verbatim>\<open>node/src/cli.rs\<close> and \<^verbatim>\<open>node/src/command.rs\<close> with the benchmark
  extrinsics of \<^verbatim>\<open>node/src/benchmarking.rs\<close>. The parsed options of a command belong to Substrate: they are one
  opaque type, and so are the parts of a node. \<open>run\<close> is a build as in the node service: a job that the
  command line hands to Substrate is an effect, with what it is given, and its result is a parameter. The cargo features
  of the build are an argument.
\<close>

section \<open>Arguments\<close>

text \<open>The benchmark commands of Substrate that \<open>run\<close> tells apart.\<close>

datatype 'c benchmark_cmd =
    Pallet 'c
  | BlockCmd 'c
  | Storage 'c
  | Overhead 'c
  | Extrinsic 'c
  | Machine 'c

text \<open>Without the feature, \<open>TryRuntime\<close> has no options; the model's options are then not read.\<close>

datatype 'c subcommand =
    Key 'c
  | BuildSpec 'c
  | CheckBlock 'c
  | ExportBlocks 'c
  | ExportState 'c
  | ImportBlocks 'c
  | PurgeChain 'c
  | Revert 'c
  | Benchmark "'c benchmark_cmd"
  | TryRuntime 'c
  | ChainInfo 'c

record 'c cli =
  cli_subcommand :: "'c subcommand option"
  cli_run :: 'c

record features =
  runtime_benchmarks :: bool
  try_runtime :: bool
  ocw :: bool

text \<open>What the command line says of itself; three texts come from the environment of the build.\<close>

record cli_info =
  impl_name :: bytes
  cli_impl_version :: bytes
  description :: bytes
  author :: bytes
  support_url :: bytes
  copyright_start_year :: int

definition substrate_cli :: "bytes \<Rightarrow> bytes \<Rightarrow> bytes \<Rightarrow> cli_info" where
  "substrate_cli env_impl_version env_description env_authors =
     \<lparr>impl_name = str ''Substrate Node'', cli_impl_version = env_impl_version, description = env_description,
      author = env_authors, support_url = str ''support.anonymous.an'', copyright_start_year = 2017\<rparr>"

section \<open>Errors, jobs and the host\<close>

text \<open>The errors of the command line that \<open>run\<close> makes itself; a string turned into an error is an \<open>Input\<close>.\<close>

datatype 'e cli_error = Service 'e | Input bytes | Other 'e

record 'v configuration =
  cf_node :: node_config
  cf_chain_spec :: 'v
  cf_network :: 'v
  cf_database :: 'v

text \<open>The two builders behind the trait \<open>ExtrinsicBuilder\<close>.\<close>

datatype ('v, 'a) extrinsic_builder =
    RemarkBuilder 'v
  | TransferKeepAliveBuilder 'v 'a u128

datatype ('c, 'e, 'v, 'a) job =
    KeyJob 'c "'c cli"
  | BuildSpecJob 'c 'v 'v
  | CheckBlockJob 'c 'v 'v
  | ExportBlocksJob 'c 'v 'v
  | ExportStateJob 'c 'v 'v
  | ImportBlocksJob 'c 'v 'v
  | PurgeChainJob 'c 'v
  | RevertJob 'c 'v 'v "('v \<Rightarrow> 'v \<Rightarrow> 'v \<Rightarrow> 'e + unit) option"
  | BenchmarkPalletJob 'c "'v configuration"
  | BenchmarkBlockJob 'c 'v
  | BenchmarkStorageJob 'c "'v configuration" 'v 'v 'v
  | BenchmarkOverheadJob 'c "'v configuration" 'v 'v "bytes list" "('v, 'a) extrinsic_builder"
  | BenchmarkExtrinsicJob 'c 'v 'v "bytes list" "('v, 'a) extrinsic_builder list"
  | BenchmarkMachineJob 'c "'v configuration"
  | TryRuntimeJob 'c "'v option"
  | ChainInfoJob 'c "'v configuration"

datatype ('c, 'e, 'v, 'a) command_effect =
    ServiceEffect "'v effect"
  | Perform "('c, 'e, 'v, 'a) job"

text \<open>
  What Substrate does for the command line: \<open>create_runner\<close> reads the configuration, \<open>perform\<close> is the result
  of a job (for the asynchronous ones, run until it ends), and \<open>run_until_exit\<close> waits for the tasks of a started node.
\<close>

record ('c, 'e, 'v, 'a) command_host =
  ch_service :: "('e, 'v) service_host"
  create_runner :: "'c + 'c benchmark_cmd \<Rightarrow> 'e cli_error + 'v configuration"
  perform :: "('c, 'e, 'v, 'a) job \<Rightarrow> 'e cli_error + unit"
  run_until_exit :: "'v \<Rightarrow> 'e cli_error + unit"
  grandpa_revert :: "'v \<Rightarrow> 'v \<Rightarrow> 'e + unit"
  expose_db :: "'v \<Rightarrow> 'v"
  expose_storage :: "'v \<Rightarrow> 'v"
  task_manager_new :: "'v configuration \<Rightarrow> 'e + 'v"
  timestamp_with_aura_info :: "u64 \<Rightarrow> 'v"
  inherent_data_new :: 'v
  timestamp_provider :: "u64 \<Rightarrow> 'v"
  provide_inherent_data :: "'v \<Rightarrow> 'v \<Rightarrow> 'e + 'v"
  debug_format :: "'e \<Rightarrow> bytes"
  alice_account :: 'a

section \<open>Benchmark extrinsics\<close>

text \<open>The sender of the extrinsics (Bob), the constructors of the calls and what the client knows of the chain.\<close>

record ('v, 'call, 'era, 'hash, 'sig, 'a) builder_host =
  bh_mortal :: "u64 \<Rightarrow> u64 \<Rightarrow> 'era"
  bh_encode_raw :: "'call \<Rightarrow> 'era signed_extra \<Rightarrow> u32 \<times> u32 \<times> 'hash \<times> 'hash \<Rightarrow> bytes"
  bob_sign :: "bytes \<Rightarrow> 'sig"
  bob_account :: 'a
  client_info_of :: "'v \<Rightarrow> 'hash client_info"
  system_remark :: "bytes \<Rightarrow> 'call"
  balances_transfer_keep_alive :: "'a multi_address \<Rightarrow> u128 \<Rightarrow> 'call"

fun builder_pallet :: "('v, 'a) extrinsic_builder \<Rightarrow> bytes" where
  "builder_pallet (RemarkBuilder client) = str ''system''"
| "builder_pallet (TransferKeepAliveBuilder client dest val) = str ''balances''"

fun builder_extrinsic :: "('v, 'a) extrinsic_builder \<Rightarrow> bytes" where
  "builder_extrinsic (RemarkBuilder client) = str ''remark''"
| "builder_extrinsic (TransferKeepAliveBuilder client dest val) = str ''transfer_keep_alive''"

text \<open>The outer \<open>None\<close> is the panic of \<open>create_benchmark_extrinsic\<close>.\<close>

fun builder_build ::
  "('v, 'call, 'era, 'hash, 'sig, 'a) builder_host \<Rightarrow> ('v, 'a) extrinsic_builder \<Rightarrow> u32
    \<Rightarrow> (bytes + 'call \<times> 'a multi_address \<times> 'sig \<times> 'era signed_extra) option" where
  "builder_build b (RemarkBuilder client) nonce =
     map_option Inr
       (create_benchmark_extrinsic (bh_mortal b) (bh_encode_raw b) (bob_sign b) (bob_account b)
          (client_info_of b client) (system_remark b []) nonce)"
| "builder_build b (TransferKeepAliveBuilder client dest val) nonce =
     map_option Inr
       (create_benchmark_extrinsic (bh_mortal b) (bh_encode_raw b) (bob_sign b) (bob_account b)
          (client_info_of b client) (balances_transfer_keep_alive b (Id dest) val) nonce)"

definition inherent_benchmark_data :: "('c, 'e, 'v, 'a) command_host \<Rightarrow> 'e cli_error + 'v" where
  "inherent_benchmark_data h =
     (let inherent_data = inherent_data_new h;
          d = 0;
          timestamp = timestamp_provider h d in
      case provide_inherent_data h timestamp inherent_data of
        Inl e \<Rightarrow> Inl (Input (str ''creating inherent data: '' @ debug_format h e))
      | Inr inherent_data' \<Rightarrow> Inr inherent_data')"

section \<open>Running a command\<close>

text \<open>A build of the node service inside the command line: its error becomes a \<open>Service\<close> error.\<close>

definition service_build ::
  "('e, 'v effect, 'x) build \<Rightarrow> ('e cli_error, ('c, 'e, 'v, 'a) command_effect, 'x) build" where
  "service_build m =
     (case m of
        (Inr x, l) \<Rightarrow> (Inr x, map ServiceEffect l)
      | (Inl Panicked, l) \<Rightarrow> (Inl Panicked, map ServiceEffect l)
      | (Inl (Failed e), l) \<Rightarrow> (Inl (Failed (Service e)), map ServiceEffect l))"

definition perform_job ::
  "('c, 'e, 'v, 'a) command_host \<Rightarrow> ('c, 'e, 'v, 'a) job
    \<Rightarrow> ('e cli_error, ('c, 'e, 'v, 'a) command_effect, unit) build" where
  "perform_job h j = andthen (emit (Perform j)) (\<lambda>_. question (perform h j))"

definition aux_revert :: "('c, 'e, 'v, 'a) command_host \<Rightarrow> 'v \<Rightarrow> 'v \<Rightarrow> 'v \<Rightarrow> 'e + unit" where
  "aux_revert h client backend blocks =
     (case grandpa_revert h client blocks of Inl e \<Rightarrow> Inl e | Inr _ \<Rightarrow> Inr ())"

definition bench_factory ::
  "('c, 'e, 'v, 'a) command_host \<Rightarrow> 'v \<Rightarrow> ('v, 'a) extrinsic_builder list" where
  "bench_factory h client =
     [RemarkBuilder client, TransferKeepAliveBuilder client (alice_account h) EXISTENTIAL_DEPOSIT]"

fun run_benchmark ::
  "('c, 'e, 'v, 'a) command_host \<Rightarrow> features \<Rightarrow> 'v configuration \<Rightarrow> 'c benchmark_cmd
    \<Rightarrow> ('e cli_error, ('c, 'e, 'v, 'a) command_effect, unit) build" where
  "run_benchmark h ft cfg (Pallet c) =
     (if \<not> runtime_benchmarks ft
      then question (Inl (Input (str ''Runtime benchmarking wasn't enabled when building the node. You can enable it with `--features runtime-benchmarks`.'')))
      else perform_job h (BenchmarkPalletJob c cfg))"
| "run_benchmark h ft cfg (BlockCmd c) =
     andthen (service_build (new_partial (ch_service h) (cf_node cfg))) (\<lambda>pc.
     perform_job h (BenchmarkBlockJob c (pc_client pc)))"
| "run_benchmark h ft cfg (Storage c) =
     (if \<not> runtime_benchmarks ft
      then question (Inl (Input (str ''Storage benchmarking can be enabled with `--features runtime-benchmarks`.'')))
      else
        andthen (service_build (new_partial (ch_service h) (cf_node cfg))) (\<lambda>pc.
        perform_job h (BenchmarkStorageJob c cfg (pc_client pc) (expose_db h (pc_backend pc))
          (expose_storage h (pc_backend pc)))))"
| "run_benchmark h ft cfg (Overhead c) =
     andthen (service_build (new_partial (ch_service h) (cf_node cfg))) (\<lambda>pc.
     let ext_builder = RemarkBuilder (pc_client pc) in
     andthen (question (inherent_benchmark_data h)) (\<lambda>inherent_data.
     perform_job h (BenchmarkOverheadJob c cfg (pc_client pc) inherent_data [] ext_builder)))"
| "run_benchmark h ft cfg (Extrinsic c) =
     andthen (service_build (new_partial (ch_service h) (cf_node cfg))) (\<lambda>pc.
     let ext_factory = bench_factory h (pc_client pc) in
     andthen (question (inherent_benchmark_data h)) (\<lambda>inherent_data.
     perform_job h (BenchmarkExtrinsicJob c (pc_client pc) inherent_data [] ext_factory)))"
| "run_benchmark h ft cfg (Machine c) = perform_job h (BenchmarkMachineJob c cfg)"

fun run_subcommand ::
  "('c, 'e, 'v, 'a) command_host \<Rightarrow> features \<Rightarrow> 'c cli \<Rightarrow> 'c subcommand
    \<Rightarrow> ('e cli_error, ('c, 'e, 'v, 'a) command_effect, unit) build" where
  "run_subcommand h ft cli (Key c) = perform_job h (KeyJob c cli)"
| "run_subcommand h ft cli (BuildSpec c) =
     andthen (question (create_runner h (Inl c))) (\<lambda>cfg.
     perform_job h (BuildSpecJob c (cf_chain_spec cfg) (cf_network cfg)))"
| "run_subcommand h ft cli (CheckBlock c) =
     andthen (question (create_runner h (Inl c))) (\<lambda>cfg.
     andthen (service_build (new_partial (ch_service h) (cf_node cfg))) (\<lambda>pc.
     perform_job h (CheckBlockJob c (pc_client pc) (pc_import_queue pc))))"
| "run_subcommand h ft cli (ExportBlocks c) =
     andthen (question (create_runner h (Inl c))) (\<lambda>cfg.
     andthen (service_build (new_partial (ch_service h) (cf_node cfg))) (\<lambda>pc.
     perform_job h (ExportBlocksJob c (pc_client pc) (cf_database cfg))))"
| "run_subcommand h ft cli (ExportState c) =
     andthen (question (create_runner h (Inl c))) (\<lambda>cfg.
     andthen (service_build (new_partial (ch_service h) (cf_node cfg))) (\<lambda>pc.
     perform_job h (ExportStateJob c (pc_client pc) (cf_chain_spec cfg))))"
| "run_subcommand h ft cli (ImportBlocks c) =
     andthen (question (create_runner h (Inl c))) (\<lambda>cfg.
     andthen (service_build (new_partial (ch_service h) (cf_node cfg))) (\<lambda>pc.
     perform_job h (ImportBlocksJob c (pc_client pc) (pc_import_queue pc))))"
| "run_subcommand h ft cli (PurgeChain c) =
     andthen (question (create_runner h (Inl c))) (\<lambda>cfg.
     perform_job h (PurgeChainJob c (cf_database cfg)))"
| "run_subcommand h ft cli (Revert c) =
     andthen (question (create_runner h (Inl c))) (\<lambda>cfg.
     andthen (service_build (new_partial (ch_service h) (cf_node cfg))) (\<lambda>pc.
     perform_job h (RevertJob c (pc_client pc) (pc_backend pc) (Some (aux_revert h)))))"
| "run_subcommand h ft cli (Benchmark b) =
     andthen (question (create_runner h (Inr b))) (\<lambda>cfg. run_benchmark h ft cfg b)"
| "run_subcommand h ft cli (TryRuntime c) =
     (if try_runtime ft then
        andthen (question (create_runner h (Inl c))) (\<lambda>cfg.
        andthen (question (map_sum Service id (task_manager_new h cfg))) (\<lambda>task_manager.
        let info_provider = timestamp_with_aura_info h 6000 in
        perform_job h (TryRuntimeJob c (Some info_provider))))
      else question (Inl (Input (str ''TryRuntime wasn't enabled when building the node. You can enable it with `--features try-runtime`.''))))"
| "run_subcommand h ft cli (ChainInfo c) =
     andthen (question (create_runner h (Inl c))) (\<lambda>cfg.
     perform_job h (ChainInfoJob c cfg))"

definition run ::
  "('c, 'e, 'v, 'a) command_host \<Rightarrow> features \<Rightarrow> 'c cli
    \<Rightarrow> ('e cli_error, ('c, 'e, 'v, 'a) command_effect, unit) build" where
  "run h ft cli =
     (case cli_subcommand cli of
        Some c \<Rightarrow> run_subcommand h ft cli c
      | None \<Rightarrow>
          andthen (question (create_runner h (Inl (cli_run cli)))) (\<lambda>cfg.
          andthen (service_build (new_full (ch_service h) (ocw ft) (cf_node cfg))) (\<lambda>task_manager.
          question (run_until_exit h task_manager))))"

section \<open>What a command does\<close>

fun service_log :: "('c, 'e, 'v, 'a) command_effect list \<Rightarrow> 'v effect list" where
  "service_log [] = []"
| "service_log (ServiceEffect e # es) = e # service_log es"
| "service_log (Perform j # es) = service_log es"

fun performed :: "('c, 'e, 'v, 'a) command_effect list \<Rightarrow> ('c, 'e, 'v, 'a) job list" where
  "performed [] = []"
| "performed (ServiceEffect e # es) = performed es"
| "performed (Perform j # es) = j # performed es"

text \<open>The subcommand a job belongs to.\<close>

fun job_of :: "('c, 'e, 'v, 'a) job \<Rightarrow> 'c subcommand" where
  "job_of (KeyJob c _) = Key c"
| "job_of (BuildSpecJob c _ _) = BuildSpec c"
| "job_of (CheckBlockJob c _ _) = CheckBlock c"
| "job_of (ExportBlocksJob c _ _) = ExportBlocks c"
| "job_of (ExportStateJob c _ _) = ExportState c"
| "job_of (ImportBlocksJob c _ _) = ImportBlocks c"
| "job_of (PurgeChainJob c _) = PurgeChain c"
| "job_of (RevertJob c _ _ _) = Revert c"
| "job_of (BenchmarkPalletJob c _) = Benchmark (Pallet c)"
| "job_of (BenchmarkBlockJob c _) = Benchmark (BlockCmd c)"
| "job_of (BenchmarkStorageJob c _ _ _ _) = Benchmark (Storage c)"
| "job_of (BenchmarkOverheadJob c _ _ _ _ _) = Benchmark (Overhead c)"
| "job_of (BenchmarkExtrinsicJob c _ _ _ _) = Benchmark (Extrinsic c)"
| "job_of (BenchmarkMachineJob c _) = Benchmark (Machine c)"
| "job_of (TryRuntimeJob c _) = TryRuntime c"
| "job_of (ChainInfoJob c _) = ChainInfo c"

lemma service_log_append [simp]: "service_log (xs @ ys) = service_log xs @ service_log ys"
  by (induction xs rule: service_log.induct) simp_all

lemma performed_append [simp]: "performed (xs @ ys) = performed xs @ performed ys"
  by (induction xs rule: performed.induct) simp_all

lemma log_of_service [simp]: "service_log (map ServiceEffect l) = l" "performed (map ServiceEffect l) = []"
  by (induction l) simp_all

lemma service_build_iff [build_iff]:
  "service_build m = (Inr x, l) \<longleftrightarrow> (\<exists>l'. m = (Inr x, l') \<and> l = map ServiceEffect l')"
  "service_build m = (Inl f, l) \<longleftrightarrow> (\<exists>f' l'. m = (Inl f', l') \<and> l = map ServiceEffect l' \<and>
     f = (case f' of Panicked \<Rightarrow> Panicked | Failed e \<Rightarrow> Failed (Service e)))"
  by (auto simp: service_build_def split: prod.splits sum.splits failure.splits)

text \<open>
  A build in which the service opens no network and generates no key, which performs at most one job, one of the given
  command, and succeeds only when that job did.
\<close>

definition isolated ::
  "('c, 'e, 'v, 'a) command_host \<Rightarrow> 'c subcommand \<Rightarrow> ('e cli_error, ('c, 'e, 'v, 'a) command_effect, unit) build \<Rightarrow> bool" where
  "isolated h c m \<longleftrightarrow>
     (case m of (r, log) \<Rightarrow>
        \<not> (\<exists>e \<in> set (service_log log). starts_network e) \<and> keys_of (service_log log) = [] \<and>
        set (tasks_of (service_log log)) \<subseteq> {telemetry_task} \<and>
        (performed log = [] \<and> r \<noteq> Inr () \<or>
         (\<exists>j. performed log = [j] \<and> job_of j = c \<and> r = map_sum Failed id (perform h j))))"

lemma isolated_perform: "job_of j = c \<Longrightarrow> isolated h c (perform_job h j)"
  by (auto simp: isolated_def perform_job_def andthen_def emit_def question_def split: sum.split)

lemma isolated_error: "isolated h c (question (Inl e))"
  by (simp add: isolated_def question_def)

lemma isolated_question: "(\<And>x. isolated h c (k x)) \<Longrightarrow> isolated h c (andthen (question q) k)"
  by (cases q) (auto simp: isolated_def question_def andthen_def split: prod.split)

lemma new_partial_tasks: "new_partial h cfg = (r, l) \<Longrightarrow> set (tasks_of l) \<subseteq> {telemetry_task}"
  by (cases r) (auto simp: new_partial_def build_iff Let_def telemetry_task_def
      dest!: start_telemetry_ok start_telemetry_fail split: option.splits prod.splits)

lemma isolated_partial:
  assumes "\<And>pc. isolated h c (k pc)"
  shows "isolated h c (andthen (service_build (new_partial (ch_service h) cfg)) k)"
proof -
  obtain r l where rl: "new_partial (ch_service h) cfg = (r, l)" by (cases "new_partial (ch_service h) cfg")
  show ?thesis
  proof (cases r)
    case (Inl f)
    then show ?thesis
      using rl new_partial_fail [of "ch_service h" cfg f l] new_partial_tasks [OF rl]
      by (cases f) (auto simp: isolated_def service_build_def andthen_def)
  next
    case (Inr pc)
    then show ?thesis
      using rl assms [of pc] new_partial_ok [of "ch_service h" cfg pc l] new_partial_tasks [OF rl]
      by (auto simp: isolated_def service_build_def andthen_def split: prod.splits if_splits)
  qed
qed

lemmas isolated_intros = isolated_question isolated_partial isolated_perform isolated_error

lemma run_benchmark_isolated: "isolated h (Benchmark b) (run_benchmark h ft cfg b)"
  by (cases b) (auto simp: Let_def intro!: isolated_intros)

lemma run_subcommand_isolated: "isolated h c (run_subcommand h ft cli c)"
  by (cases c) (auto simp: Let_def intro!: isolated_intros run_benchmark_isolated)

section \<open>Properties\<close>

lemma run_node:
  assumes "run h ft cli = (r, log)" and "cli_subcommand cli = None"
  shows "performed log = [] \<and>
    ((\<exists>e \<in> set (service_log log). starts_network e) \<longleftrightarrow>
      (\<exists>cfg tm l. create_runner h (Inl (cli_run cli)) = Inr cfg \<and>
         new_full (ch_service h) (ocw ft) (cf_node cfg) = (Inr tm, l)))"
proof (cases "create_runner h (Inl (cli_run cli))")
  case (Inl e)
  then show ?thesis using assms by (auto simp: run_def andthen_def question_def)
next
  case (Inr cfg)
  obtain q l where q: "new_full (ch_service h) (ocw ft) (cf_node cfg) = (q, l)"
    by (cases "new_full (ch_service h) (ocw ft) (cf_node cfg)")
  have log: "log = map ServiceEffect l"
    using assms Inr q by (auto simp: run_def andthen_def question_def service_build_def
        split: sum.splits failure.splits)
  show ?thesis
  proof (cases q)
    case (Inl f)
    then show ?thesis using new_full_fail(1) [of "ch_service h" "ocw ft" "cf_node cfg" f l] q Inr log by simp
  next
    case (Inr tm)
    with q new_full_log [of "ch_service h" "ocw ft" "cf_node cfg" tm l]
    have "\<exists>e \<in> set l. starts_network e" by auto
    then show ?thesis using Inr q log \<open>create_runner h (Inl (cli_run cli)) = Inr cfg\<close> by simp
  qed
qed

text \<open>The commands that need a feature of the build.\<close>

definition lacks_feature :: "features \<Rightarrow> 'c subcommand \<Rightarrow> bool" where
  "lacks_feature ft c \<longleftrightarrow>
     (case c of
        TryRuntime _ \<Rightarrow> \<not> try_runtime ft
      | Benchmark (Pallet _) \<Rightarrow> \<not> runtime_benchmarks ft
      | Benchmark (Storage _) \<Rightarrow> \<not> runtime_benchmarks ft
      | _ \<Rightarrow> False)"

lemma run_lacking:
  "lacks_feature ft c \<Longrightarrow> run_subcommand h ft cli c = (r, log) \<Longrightarrow> log = [] \<and> (\<exists>e. r = Inl (Failed e))"
  by (cases c; cases r) (auto simp: lacks_feature_def build_iff split: benchmark_cmd.splits)

lemma job_aura_info:
  assumes "run_subcommand h ft cli c = (r, log)" and "TryRuntimeJob c' p \<in> set (performed log)"
  shows "p = Some (timestamp_with_aura_info h SLOT_DURATION)"
proof -
  have "c = TryRuntime c'"
    using run_subcommand_isolated [of h c ft cli] assms by (auto simp: isolated_def)
  with assms show ?thesis
    by (cases r) (auto simp: build_iff perform_job_def Let_def SLOT_DURATION_def MILLISECS_PER_BLOCK_def split: if_splits)
qed

lemma key_job:
  assumes "run_subcommand h ft cli c = (r, log)"
  shows "(\<forall>k. c = Key k \<longrightarrow> log = [Perform (KeyJob k cli)]) \<and>
    (\<forall>k cl. KeyJob k cl \<in> set (performed log) \<longrightarrow> c = Key k \<and> cl = cli)"
proof -
  have key: "log = [Perform (KeyJob k cli)]" if "c = Key k" for k
    using assms that by (auto simp: perform_job_def andthen_def emit_def question_def split: sum.splits)
  moreover have "c = Key k \<and> cl = cli" if "KeyJob k cl \<in> set (performed log)" for k cl
  proof -
    have "c = Key k" using run_subcommand_isolated [of h c ft cli] assms that by (auto simp: isolated_def)
    with key [OF this] that show ?thesis by simp
  qed
  ultimately show ?thesis by blast
qed

text \<open>
  C21. Only a command line without subcommand starts a node: it performs no job, and the network is opened exactly when the
  configuration is read and the service starts. A subcommand never makes the service open the network or generate its
  ping key, makes it spawn at most the telemetry task, and hands at most one job to Substrate, which is its own with
  its own options; it succeeds exactly when that job does. The subcommand \<open>key\<close>, and no other, hands over the job that manages
  keys, always and with the whole command line, and nothing of the service is built for it. What a job then does is
  Substrate's. A subcommand whose feature is not built in does nothing and ends in an error. A try-runtime job is given the
  slot duration of the runtime.
\<close>
theorem run_subcommands:
  assumes "run h ft cli = (r, log)"
  shows "case cli_subcommand cli of
      None \<Rightarrow> performed log = [] \<and>
        ((\<exists>e \<in> set (service_log log). starts_network e) \<longleftrightarrow>
          (\<exists>cfg tm l. create_runner h (Inl (cli_run cli)) = Inr cfg \<and>
             new_full (ch_service h) (ocw ft) (cf_node cfg) = (Inr tm, l)))
    | Some c \<Rightarrow>
        \<not> (\<exists>e \<in> set (service_log log). starts_network e) \<and> keys_of (service_log log) = [] \<and>
        set (tasks_of (service_log log)) \<subseteq> {telemetry_task} \<and>
        (performed log = [] \<and> r \<noteq> Inr () \<or>
         (\<exists>j. performed log = [j] \<and> job_of j = c \<and> r = map_sum Failed id (perform h j))) \<and>
        (\<forall>k. c = Key k \<longrightarrow> log = [Perform (KeyJob k cli)]) \<and>
        (\<forall>k cl. KeyJob k cl \<in> set (performed log) \<longrightarrow> c = Key k \<and> cl = cli) \<and>
        (lacks_feature ft c \<longrightarrow> log = [] \<and> (\<exists>e. r = Inl (Failed e))) \<and>
        (\<forall>c' p. TryRuntimeJob c' p \<in> set (performed log) \<longrightarrow> p = Some (timestamp_with_aura_info h SLOT_DURATION))"
proof (cases "cli_subcommand cli")
  case None
  with run_node [OF assms] show ?thesis by simp
next
  case (Some c)
  with assms have rs: "run_subcommand h ft cli c = (r, log)" by (simp add: run_def)
  with run_subcommand_isolated [of h c ft cli] have iso: "\<not> (\<exists>e \<in> set (service_log log). starts_network e)"
    "keys_of (service_log log) = []" "set (tasks_of (service_log log)) \<subseteq> {telemetry_task}"
    "performed log = [] \<and> r \<noteq> Inr () \<or> (\<exists>j. performed log = [j] \<and> job_of j = c \<and> r = map_sum Failed id (perform h j))"
    by (simp_all add: isolated_def)
  have lacking: "lacks_feature ft c \<longrightarrow> log = [] \<and> (\<exists>e. r = Inl (Failed e))" using run_lacking rs by blast
  have aura: "\<forall>c' p. TryRuntimeJob c' p \<in> set (performed log) \<longrightarrow> p = Some (timestamp_with_aura_info h SLOT_DURATION)"
    using job_aura_info [OF rs] by blast
  show ?thesis unfolding Some option.case
    by (intro conjI iso lacking aura key_job [OF rs, THEN conjunct1] key_job [OF rs, THEN conjunct2])
qed

definition plain_command :: "(nat, unit, nat, nat) command_host" where
  "plain_command =
     \<lparr>ch_service = plain_service,
      create_runner = (\<lambda>c. Inr \<lparr>cf_node = demo_node, cf_chain_spec = 30, cf_network = 31, cf_database = 32\<rparr>),
      perform = (\<lambda>j. Inr ()), run_until_exit = (\<lambda>tm. Inr ()), grandpa_revert = (\<lambda>c n. Inr ()),
      expose_db = (\<lambda>b. 33), expose_storage = (\<lambda>b. 34), task_manager_new = (\<lambda>cfg. Inr 35),
      timestamp_with_aura_info = unat, inherent_data_new = 36, timestamp_provider = unat,
      provide_inherent_data = (\<lambda>t d. Inr (d + t)), debug_format = (\<lambda>e. []), alice_account = 37\<rparr>"

theorem run_subcommands_witness:
  "(\<exists>log. run plain_command \<lparr>runtime_benchmarks = False, try_runtime = False, ocw = True\<rparr>
      \<lparr>cli_subcommand = Some (PurgeChain 1), cli_run = 0\<rparr> = (Inr (), log) \<and> performed log = [PurgeChainJob 1 32]) \<and>
   snd (run plain_command \<lparr>runtime_benchmarks = False, try_runtime = False, ocw = True\<rparr>
      \<lparr>cli_subcommand = Some (TryRuntime 1), cli_run = 0\<rparr>) = []"
proof -
  have "run plain_command \<lparr>runtime_benchmarks = False, try_runtime = False, ocw = True\<rparr>
      \<lparr>cli_subcommand = Some (PurgeChain 1), cli_run = 0\<rparr> = (Inr (), [Perform (PurgeChainJob 1 32)])"
    by (simp add: run_def plain_command_def andthen_def question_def perform_job_def emit_def)
  moreover obtain r log where tr: "run plain_command \<lparr>runtime_benchmarks = False, try_runtime = False, ocw = True\<rparr>
      \<lparr>cli_subcommand = Some (TryRuntime 1), cli_run = 0\<rparr> = (r, log)"
    by fastforce
  moreover have "log = []" using run_subcommands [OF tr] by (simp add: lacks_feature_def)
  ultimately show ?thesis by simp
qed

text \<open>
  C40. Benchmarks measure what the offchain workers send: a builder panics exactly when the client has no genesis block, and
  otherwise, when the client's best block is the runtime's last finished block, the extrinsic it builds carries the
  same call, era, nonce and tip as the transaction the runtime builds for that call and nonce from the same account,
  signed by Bob over exactly these with the versions 100 and 1, the genesis hash and the best hash. The calls are an
  empty remark and a transfer of the builder's amount to its destination.
\<close>
theorem benchmark_builders_correct:
  fixes sys :: "('o, 'a) frame_system" and b :: "('v, 'call, 'era, 'hash, 'sig, 'a) builder_host"
  assumes "signed_payloads h" and "bh_mortal b = era_mortal h"
    and "genesis_block_hash (client_info_of b client) = Inr (Some g)"
    and "Suc (unat (best_number (client_info_of b client))) = unat (block_number sys)"
    and "create_transaction h sys c public (bob_account b) nonce = Some (c', addr, sig, extra)"
  defines "x \<equiv> (c', addr, bob_sign b (bh_encode_raw b c extra (100, 1, g, best_hash (client_info_of b client))), extra)"
  shows "c' = c \<and> addr = Id (bob_account b) \<and> check_nonce extra = nonce \<and> charge_tip extra = 0 \<and>
    (c = system_remark b [] \<longrightarrow> builder_build b (RemarkBuilder client) nonce = Some (Inr x)) \<and>
    (c = balances_transfer_keep_alive b (Id dest) val \<longrightarrow>
      builder_build b (TransferKeepAliveBuilder client dest val) nonce = Some (Inr x)) \<and>
    (builder_build b (RemarkBuilder client') nonce = None \<longleftrightarrow>
      (\<forall>g. genesis_block_hash (client_info_of b client') \<noteq> Inr (Some g))) \<and>
    (builder_build b (TransferKeepAliveBuilder client' dest val) nonce = None \<longleftrightarrow>
      (\<forall>g. genesis_block_hash (client_info_of b client') \<noteq> Inr (Some g)))"
proof -
  note same = benchmark_matches_runtime [OF assms(1,3-5), where encode_raw = "bh_encode_raw b" and
      sender_sign = "bob_sign b"]
  have "check_nonce extra = nonce \<and> charge_tip extra = 0"
    using assms(5) by (auto simp: signed_payloads.create_transaction_eq [OF assms(1)] Let_def split: sum.splits)
  moreover have none: "create_benchmark_extrinsic m e s a (client_info_of b client') d nonce = None \<longleftrightarrow>
      (\<forall>g. genesis_block_hash (client_info_of b client') \<noteq> Inr (Some g))" for m and e :: "'call \<Rightarrow> 'era signed_extra \<Rightarrow> _" and s :: "bytes \<Rightarrow> 'sig" and a :: 'a and d
    by (auto simp: create_benchmark_extrinsic_def Let_def split: sum.splits option.splits)
  ultimately show ?thesis using same by (auto simp: x_def assms(2))
qed

definition plain_builders :: "(nat, nat, u64 \<times> u64, nat, nat, nat) builder_host" where
  "plain_builders =
     \<lparr>bh_mortal = Pair, bh_encode_raw = (\<lambda>c e a. [of_nat c]), bob_sign = length, bob_account = 3,
      client_info_of = (\<lambda>v. \<lparr>genesis_block_hash = Inr (Some 0), best_hash = 1, best_number = 9\<rparr>),
      system_remark = length, balances_transfer_keep_alive = (\<lambda>d v. 1)\<rparr>"

theorem benchmark_builders_correct_witness:
  "builder_build plain_builders (RemarkBuilder 2) 1 =
     Some (Inr (0, Id 3, 1, \<lparr>check_era = (2048, 9), check_nonce = 1, charge_tip = 0\<rparr>))"
proof -
  have "create_transaction plain_tx_host (raw_system 10) 0 8 (bob_account plain_builders) 1 =
      Some (0, Id 3, 8, \<lparr>check_era = (2048, 9), check_nonce = 1, charge_tip = 0\<rparr>)"
    unfolding plain_tx.create_transaction_eq
    by (simp add: plain_tx_host_def plain_builders_def saturating_sub_u64_def Let_def)
  from benchmark_builders_correct [OF plain_tx.signed_payloads_axioms _ _ _ this, where client = 2 and g = 0]
  show ?thesis by (simp add: plain_builders_def plain_tx_host_def)
qed

end
