(* ===== verification/Block_Limits.thy ===== *)
theory Block_Limits
  imports Cyborg_Runtime
begin

text \<open>
  The limits on a block in \<^verbatim>\<open>runtime/src/lib.rs\<close>: the weights of the three classes of extrinsics and the length of
  a block. The source gives ratios and functions on a class's weights to a builder of Substrate. The builder, the
  arithmetic of ratios and weights, and the base weights are parameters; what their documentation promises is the
  locale \<open>weights_builder\<close>.
\<close>

section \<open>Data and parameters\<close>

record weight =
  ref_time :: u64
  proof_size :: u64

datatype dispatch_class = Normal | Operational | Mandatory

definition all_classes :: "dispatch_class list" where
  "all_classes = [Normal, Operational, Mandatory]"

record class_weights =
  base_extrinsic :: weight
  max_total :: "weight option"
  reserved :: "weight option"

record block_weights =
  max_block :: weight
  per_class :: "dispatch_class \<Rightarrow> class_weights"

record ('r, 'b, 'l) weights_host =
  from_percent :: "nat \<Rightarrow> 'r"
  ratio_mul :: "'r \<Rightarrow> weight \<Rightarrow> weight"
  weight_sub :: "weight \<Rightarrow> weight \<Rightarrow> weight"
  weight_ref_time_per_second :: u64
  block_execution_weight :: weight
  extrinsic_base_weight :: weight
  builder :: 'b
  base_block :: "weight \<Rightarrow> 'b \<Rightarrow> 'b"
  for_class :: "dispatch_class list \<Rightarrow> (class_weights \<Rightarrow> class_weights) \<Rightarrow> 'b \<Rightarrow> 'b"
  avg_block_initialization :: "'r \<Rightarrow> 'b \<Rightarrow> 'b"
  build_or_panic :: "'b \<Rightarrow> block_weights option"
  max_with_normal_ratio :: "u32 \<Rightarrow> 'r \<Rightarrow> 'l"

section \<open>The limits\<close>

definition NORMAL_DISPATCH_RATIO :: "('r, 'b, 'l) weights_host \<Rightarrow> 'r" where
  "NORMAL_DISPATCH_RATIO h = from_percent h 75"

definition AVERAGE_ON_INITIALIZE_RATIO :: "('r, 'b, 'l) weights_host \<Rightarrow> 'r" where
  "AVERAGE_ON_INITIALIZE_RATIO h = from_percent h 10"

definition MAXIMUM_BLOCK_WEIGHT :: "('r, 'b, 'l) weights_host \<Rightarrow> weight" where
  "MAXIMUM_BLOCK_WEIGHT h =
     \<lparr>ref_time = saturating_mul_u64 (weight_ref_time_per_second h) 2, proof_size = - 1\<rparr>"

definition RuntimeBlockLength :: "('r, 'b, 'l) weights_host \<Rightarrow> 'l" where
  "RuntimeBlockLength h = max_with_normal_ratio h (5 * 1024 * 1024) (NORMAL_DISPATCH_RATIO h)"

text \<open>The three functions given to \<open>for_class\<close>.\<close>

definition all_weights :: "('r, 'b, 'l) weights_host \<Rightarrow> class_weights \<Rightarrow> class_weights" where
  "all_weights h weights = weights\<lparr>base_extrinsic := extrinsic_base_weight h\<rparr>"

definition normal_weights :: "('r, 'b, 'l) weights_host \<Rightarrow> class_weights \<Rightarrow> class_weights" where
  "normal_weights h weights =
     weights\<lparr>max_total := Some (ratio_mul h (NORMAL_DISPATCH_RATIO h) (MAXIMUM_BLOCK_WEIGHT h))\<rparr>"

definition operational_weights :: "('r, 'b, 'l) weights_host \<Rightarrow> class_weights \<Rightarrow> class_weights" where
  "operational_weights h weights =
     weights\<lparr>max_total := Some (MAXIMUM_BLOCK_WEIGHT h),
       reserved := Some (weight_sub h (MAXIMUM_BLOCK_WEIGHT h)
         (ratio_mul h (NORMAL_DISPATCH_RATIO h) (MAXIMUM_BLOCK_WEIGHT h)))\<rparr>"

definition weights_plan :: "('r, 'b, 'l) weights_host \<Rightarrow> 'b" where
  "weights_plan h =
     avg_block_initialization h (AVERAGE_ON_INITIALIZE_RATIO h)
       (for_class h [Operational] (operational_weights h)
         (for_class h [Normal] (normal_weights h)
           (for_class h all_classes (all_weights h)
             (base_block h (block_execution_weight h) (builder h)))))"

definition RuntimeBlockWeights :: "('r, 'b, 'l) weights_host \<Rightarrow> block_weights option" where
  "RuntimeBlockWeights h = build_or_panic h (weights_plan h)"

section \<open>The builder's promises\<close>

text \<open>\<open>y\<close> is \<open>p\<close> percent of \<open>x\<close>, rounded to the nearest.\<close>

definition percent :: "nat \<Rightarrow> u64 \<Rightarrow> u64 \<Rightarrow> bool" where
  "percent p x y \<longleftrightarrow> 100 * unat y \<le> p * unat x + 50 \<and> p * unat x \<le> 100 * unat y + 50"

definition weight_le :: "weight \<Rightarrow> weight \<Rightarrow> bool" where
  "weight_le v w \<longleftrightarrow> ref_time v \<le> ref_time w \<and> proof_size v \<le> proof_size w"

text \<open>
  \<open>view\<close> is what a builder has recorded for a class. A ratio of at most one, times a weight, is rounded in each
  component; weights are subtracted in each component; the built weights keep what was recorded for each class and
  take the largest total of a class for the block.
\<close>

locale weights_builder =
  fixes h :: "('r, 'b, 'l) weights_host" and view :: "'b \<Rightarrow> dispatch_class \<Rightarrow> class_weights"
  assumes ratio: "p \<le> 100 \<Longrightarrow> percent p (ref_time w) (ref_time (ratio_mul h (from_percent h p) w)) \<and>
      percent p (proof_size w) (proof_size (ratio_mul h (from_percent h p) w))"
    and sub: "weight_le v w \<Longrightarrow> weight_sub h w v =
      \<lparr>ref_time = ref_time w - ref_time v, proof_size = proof_size w - proof_size v\<rparr>"
    and per_second: "weight_ref_time_per_second h = 10 ^ 12"
    and view_builder: "max_total (view (builder h) Mandatory) = None"
    and view_base: "view (base_block h w b) = view b"
    and view_class: "view (for_class h cs f b) c = (if c \<in> set cs then f (view b c) else view b c)"
    and view_avg: "view (avg_block_initialization h r b) = view b"
    and build_class: "build_or_panic h b = Some bw \<Longrightarrow>
      base_extrinsic (per_class bw c) = base_extrinsic (view b c) \<and>
      max_total (per_class bw c) = max_total (view b c) \<and> reserved (per_class bw c) = reserved (view b c)"
    and build_max: "build_or_panic h b = Some bw \<Longrightarrow> max_total (view b c) = Some m \<Longrightarrow>
      (\<And>c' m'. max_total (view b c') = Some m' \<Longrightarrow> weight_le m' m) \<Longrightarrow> max_block bw = m"
begin

lemma maximum: "MAXIMUM_BLOCK_WEIGHT h = \<lparr>ref_time = 2 * 10 ^ 12, proof_size = - 1\<rparr>"
  by (simp add: MAXIMUM_BLOCK_WEIGHT_def per_second saturating_mul_u64_def)

definition normal_total :: weight where
  "normal_total = ratio_mul h (NORMAL_DISPATCH_RATIO h) (MAXIMUM_BLOCK_WEIGHT h)"

lemma normal_ref_time: "ref_time normal_total = 15 * 10 ^ 11"
proof -
  have "percent 75 (2 * 10 ^ 12) (ref_time normal_total)"
    using ratio [of 75 "MAXIMUM_BLOCK_WEIGHT h"] by (simp add: normal_total_def NORMAL_DISPATCH_RATIO_def maximum)
  then have "unat (ref_time normal_total) = 15 * 10 ^ 11" unfolding percent_def by simp
  then show ?thesis by (simp add: word_unat_eq_iff)
qed

lemma normal_le: "weight_le normal_total (MAXIMUM_BLOCK_WEIGHT h)"
  by (simp add: weight_le_def normal_ref_time maximum)

lemma reserved_eq: "weight_sub h (MAXIMUM_BLOCK_WEIGHT h) normal_total =
    \<lparr>ref_time = 5 * 10 ^ 11, proof_size = - 1 - proof_size normal_total\<rparr>"
  using sub [OF normal_le] by (simp add: normal_ref_time maximum)

lemmas view_simps = weights_plan_def view_base view_class view_avg all_classes_def all_weights_def normal_weights_def
  operational_weights_def view_builder

lemma plan_view:
  "base_extrinsic (view (weights_plan h) c) = extrinsic_base_weight h"
  "max_total (view (weights_plan h) Normal) = Some normal_total"
  "max_total (view (weights_plan h) Operational) = Some (MAXIMUM_BLOCK_WEIGHT h)"
  "max_total (view (weights_plan h) Mandatory) = None"
  "reserved (view (weights_plan h) Operational) = Some (weight_sub h (MAXIMUM_BLOCK_WEIGHT h) normal_total)"
  by (cases c) (simp_all add: view_simps normal_total_def)

lemma plan_max: "RuntimeBlockWeights h = Some bw \<Longrightarrow> max_block bw = MAXIMUM_BLOCK_WEIGHT h"
proof (rule build_max [of "weights_plan h" bw Operational])
  fix c m assume "max_total (view (weights_plan h) c) = Some m"
  then show "weight_le m (MAXIMUM_BLOCK_WEIGHT h)"
    using normal_le by (cases c) (auto simp: plan_view weight_le_def)
qed (simp_all add: RuntimeBlockWeights_def plan_view)

lemma partition:
  assumes "RuntimeBlockWeights h = Some bw"
  shows "\<exists>n r. max_total (per_class bw Normal) = Some n \<and> reserved (per_class bw Operational) = Some r \<and>
    max_total (per_class bw Operational) = Some (max_block bw) \<and> max_total (per_class bw Mandatory) = None \<and>
    unat (ref_time n) + unat (ref_time r) = unat (ref_time (max_block bw)) \<and>
    unat (proof_size n) + unat (proof_size r) = unat (proof_size (max_block bw)) \<and>
    unat (ref_time (max_block bw)) = 2 * 10 ^ 12 \<and> unat (ref_time n) = 15 * 10 ^ 11 \<and>
    unat (proof_size (max_block bw)) = 2 ^ 64 - 1 \<and> percent 75 (proof_size (max_block bw)) (proof_size n) \<and>
    (\<forall>c. base_extrinsic (per_class bw c) = extrinsic_base_weight h)"
proof -
  have built: "build_or_panic h (weights_plan h) = Some bw" using assms by (simp add: RuntimeBlockWeights_def)
  have p: "percent 75 (- 1) (proof_size normal_total)"
    using ratio [of 75 "MAXIMUM_BLOCK_WEIGHT h"] by (simp add: normal_total_def NORMAL_DISPATCH_RATIO_def maximum)
  have s: "unat (proof_size normal_total) + unat (- 1 - proof_size normal_total) = unat (- 1 :: u64)"
    by (simp add: unat_sub_if' word_le_nat_alt [symmetric])
  have m: "unat (- 1 :: u64) = 2 ^ 64 - 1" by (simp add: unsigned_minus_1_eq_mask mask_eq_exp_minus_1)
  have r: "weight_sub h \<lparr>ref_time = 2 * 10 ^ 12, proof_size = - 1\<rparr> normal_total =
      \<lparr>ref_time = 5 * 10 ^ 11, proof_size = - 1 - proof_size normal_total\<rparr>"
    using reserved_eq unfolding maximum .
  show ?thesis
    unfolding build_class [OF built, THEN conjunct1] build_class [OF built, THEN conjunct2, THEN conjunct1]
      build_class [OF built, THEN conjunct2, THEN conjunct2] plan_view plan_max [OF assms] maximum r
    using p s m by (simp add: normal_ref_time)
qed

end

section \<open>A concrete builder\<close>

text \<open>The builder is the table of the weights recorded per class, starting empty; ratios are percentages.\<close>

definition rounded :: "nat \<Rightarrow> u64 \<Rightarrow> u64" where
  "rounded p x = of_nat ((p * unat x + 50) div 100)"

definition weight_max :: "weight \<Rightarrow> weight \<Rightarrow> weight" where
  "weight_max v w = \<lparr>ref_time = max (ref_time v) (ref_time w), proof_size = max (proof_size v) (proof_size w)\<rparr>"

definition largest :: "(dispatch_class \<Rightarrow> class_weights) \<Rightarrow> weight" where
  "largest b = foldr weight_max (List.map_filter (\<lambda>c. max_total (b c)) all_classes) \<lparr>ref_time = 0, proof_size = 0\<rparr>"

definition table_builder :: "(nat, dispatch_class \<Rightarrow> class_weights, u32 \<times> nat) weights_host" where
  "table_builder =
     \<lparr>from_percent = (\<lambda>p. p),
      ratio_mul = (\<lambda>p w. \<lparr>ref_time = rounded p (ref_time w), proof_size = rounded p (proof_size w)\<rparr>),
      weight_sub = (\<lambda>w v. \<lparr>ref_time = ref_time w - ref_time v, proof_size = proof_size w - proof_size v\<rparr>),
      weight_ref_time_per_second = 10 ^ 12,
      block_execution_weight = \<lparr>ref_time = 10 ^ 9, proof_size = 0\<rparr>,
      extrinsic_base_weight = \<lparr>ref_time = 10 ^ 8, proof_size = 0\<rparr>,
      builder = (\<lambda>c. \<lparr>base_extrinsic = \<lparr>ref_time = 0, proof_size = 0\<rparr>, max_total = None, reserved = None\<rparr>),
      base_block = (\<lambda>w b. b),
      for_class = (\<lambda>cs f b c. if c \<in> set cs then f (b c) else b c),
      avg_block_initialization = (\<lambda>r b. b),
      build_or_panic = (\<lambda>b. Some \<lparr>max_block = largest b, per_class = b\<rparr>),
      max_with_normal_ratio = Pair\<rparr>"

lemma rounded_percent: "p \<le> 100 \<Longrightarrow> percent p x (rounded p x)"
proof -
  assume p: "p \<le> 100"
  have "(p * unat x + 50) div 100 \<le> unat x"
    using mult_le_mono1 [OF p, of "unat x"] by linarith
  also have "unat x < 2 ^ LENGTH(64)" by (rule unsigned_less)
  finally have "unat (rounded p x) = (p * unat x + 50) div 100"
    by (simp add: rounded_def unat_of_nat)
  then show ?thesis unfolding percent_def by linarith
qed

lemma largest_eq:
  assumes "max_total (b c) = Some m" and "\<And>c' m'. max_total (b c') = Some m' \<Longrightarrow> weight_le m' m"
  shows "largest b = m"
proof -
  have le: "weight_le m' m" if "max_total (b c') = Some m'" for c' m' using assms(2) that .
  show ?thesis
    using assms(1) le [of Normal] le [of Operational] le [of Mandatory]
    by (cases c; cases "max_total (b Normal)"; cases "max_total (b Operational)"; cases "max_total (b Mandatory)")
      (auto simp: largest_def all_classes_def map_filter_simps weight_max_def weight_le_def max_def)
qed

interpretation table: weights_builder table_builder "\<lambda>b. b"
  by unfold_locales (auto simp: table_builder_def rounded_percent largest_eq)

section \<open>Properties\<close>

text \<open>
  C35. The weight of a block is shared out exactly: the limit of the block is that of the operational class, two
  seconds of computation and the largest proof; normal extrinsics take at most three quarters of it (one and a half
  seconds exactly, the proof size to the nearest), and what is reserved for operational ones is the rest: in
  each component the two add up to the whole, without underflow of the subtraction or wrap-around of the sum.
  Mandatory extrinsics have no limit, and every class charges the same base weight.
\<close>
theorem block_weights_partition:
  assumes "weights_builder h view" and "RuntimeBlockWeights h = Some bw"
  shows "\<exists>n r. max_total (per_class bw Normal) = Some n \<and> reserved (per_class bw Operational) = Some r \<and>
    max_total (per_class bw Operational) = Some (max_block bw) \<and> max_total (per_class bw Mandatory) = None \<and>
    unat (ref_time n) + unat (ref_time r) = unat (ref_time (max_block bw)) \<and>
    unat (proof_size n) + unat (proof_size r) = unat (proof_size (max_block bw)) \<and>
    unat (ref_time (max_block bw)) = 2 * 10 ^ 12 \<and> unat (ref_time n) = 15 * 10 ^ 11 \<and>
    unat (proof_size (max_block bw)) = 2 ^ 64 - 1 \<and> percent 75 (proof_size (max_block bw)) (proof_size n) \<and>
    (\<forall>c. base_extrinsic (per_class bw c) = extrinsic_base_weight h)"
  using weights_builder.partition [OF assms] .

theorem block_weights_partition_witness:
  "\<exists>bw n r. RuntimeBlockWeights table_builder = Some bw \<and> max_total (per_class bw Normal) = Some n \<and>
     reserved (per_class bw Operational) = Some r \<and>
     unat (ref_time n) + unat (ref_time r) = unat (ref_time (max_block bw))"
proof -
  obtain bw where bw: "RuntimeBlockWeights table_builder = Some bw"
    by (simp add: RuntimeBlockWeights_def table_builder_def)
  from block_weights_partition [OF table.weights_builder_axioms this] bw show ?thesis by blast
qed

end
