(* ===== verification/Chain_Spec.thy ===== *)
theory Chain_Spec
  imports Cyborg_Runtime
begin

text \<open>
  The chain specifications of \<^verbatim>\<open>node/src/chain_spec.rs\<close> and their selection in \<^verbatim>\<open>node/src/command.rs\<close>. Deriving
  keys from a string, reading an address and the embedded Wasm binary are parameters; \<open>None\<close> in the
  result of a genesis is the panic of the \<open>expect\<close> or \<open>unwrap\<close> involved (the source passes the genesis as a
  closure, so a panic comes only when the genesis is built). Boot nodes, telemetry and protocol ids, all absent
  in the source, are left out. Then: each built-in genesis satisfies
  what the runtime's pallets require of theirs.
\<close>

section \<open>Definitions\<close>

record ('au, 'gr, 'a) key_host =
  aura_from_string :: "bytes \<Rightarrow> 'au option"
  grandpa_from_string :: "bytes \<Rightarrow> 'gr option"
  account_from_string :: "bytes \<Rightarrow> 'a option"
  from_ss58check :: "bytes \<Rightarrow> 'a option"
  WASM_BINARY :: "bytes option"

text \<open>The pair is derived from the path of the seed; \<open>from_string\<close> includes taking its public key.\<close>

definition get_from_seed :: "(bytes \<Rightarrow> 'k option) \<Rightarrow> bytes \<Rightarrow> 'k option" where
  "get_from_seed from_string seed = from_string (str ''//'' @ seed)"

definition get_account_id_from_seed :: "('au, 'gr, 'a) key_host \<Rightarrow> bytes \<Rightarrow> 'a option" where
  "get_account_id_from_seed kh seed = get_from_seed (account_from_string kh) seed"

definition authority_keys_from_seed :: "('au, 'gr, 'a) key_host \<Rightarrow> bytes \<Rightarrow> ('au \<times> 'gr) option" where
  "authority_keys_from_seed kh s =
     (case get_from_seed (aura_from_string kh) s of
        None \<Rightarrow> None
      | Some au \<Rightarrow> map_option (Pair au) (get_from_seed (grandpa_from_string kh) s))"

record ('au, 'gr, 'a) genesis_config =
  g_code :: bytes
  g_balances :: "('a \<times> u128) list"
  g_aura :: "'au list"
  g_grandpa :: "('gr \<times> u64) list"
  g_sudo :: "'a option"

definition wasm_binary_unwrap :: "('au, 'gr, 'a) key_host \<Rightarrow> bytes option" where
  "wasm_binary_unwrap kh = WASM_BINARY kh"

definition testnet_genesis ::
  "('au, 'gr, 'a) key_host \<Rightarrow> ('au \<times> 'gr) list \<Rightarrow> 'a \<Rightarrow> 'a list \<Rightarrow> ('au, 'gr, 'a) genesis_config option" where
  "testnet_genesis kh initial_authorities root_key endowed_accounts =
     (case wasm_binary_unwrap kh of
        None \<Rightarrow> None
      | Some code \<Rightarrow>
          Some \<lparr>g_code = code,
                g_balances = map (\<lambda>k. (k, 1000000000000000000000000000)) endowed_accounts,
                g_aura = map fst initial_authorities,
                g_grandpa = map (\<lambda>x. (snd x, 1)) initial_authorities,
                g_sudo = Some root_key\<rparr>)"

text \<open>The chain types used, of those that the service library has.\<close>

datatype chain_type = Development | Local

record ('au, 'gr, 'a) chain_spec =
  cs_name :: bytes
  cs_id :: bytes
  cs_type :: chain_type
  cs_genesis :: "('au, 'gr, 'a) genesis_config option"
  cs_properties :: "(bytes \<times> (bytes + nat)) list option"

text \<open>A vector literal of fallible elements: it panics when one of them does.\<close>

fun vec_of :: "'k option list \<Rightarrow> 'k list option" where
  "vec_of [] = Some []"
| "vec_of (None # xs) = None"
| "vec_of (Some x # xs) = map_option ((#) x) (vec_of xs)"

definition genesis_from ::
  "('au, 'gr, 'a) key_host \<Rightarrow> ('au \<times> 'gr) option list \<Rightarrow> 'a option \<Rightarrow> 'a option list \<Rightarrow> ('au, 'gr, 'a) genesis_config option" where
  "genesis_from kh auths root accounts =
     (case (vec_of auths, root, vec_of accounts) of
        (Some aus, Some r, Some accs) \<Rightarrow> testnet_genesis kh aus r accs
      | _ \<Rightarrow> None)"

definition development_config :: "('au, 'gr, 'a) key_host \<Rightarrow> string + ('au, 'gr, 'a) chain_spec" where
  "development_config kh = Inr
     \<lparr>cs_name = str ''Cyborg DevNet'', cs_id = str ''dev'', cs_type = Development,
      cs_genesis = genesis_from kh
        [authority_keys_from_seed kh (str ''Alice'')]
        (get_account_id_from_seed kh (str ''Alice''))
        (map (\<lambda>s. get_account_id_from_seed kh (str s))
           [''Alice'', ''Bob'', ''Charlie'', ''Alice//stash'', ''Bob//stash'']),
      cs_properties = None\<rparr>"

definition local_testnet_config :: "('au, 'gr, 'a) key_host \<Rightarrow> string + ('au, 'gr, 'a) chain_spec" where
  "local_testnet_config kh = Inr
     \<lparr>cs_name = str ''Local Testnet'', cs_id = str ''local_testnet'', cs_type = Local,
      cs_genesis = genesis_from kh
        [authority_keys_from_seed kh (str ''Alice''), authority_keys_from_seed kh (str ''Bob'')]
        (get_account_id_from_seed kh (str ''Alice''))
        (map (\<lambda>s. get_account_id_from_seed kh (str s))
           [''Alice'', ''Bob'', ''Charlie'', ''Dave'', ''Eve'', ''Ferdie'', ''Alice//stash'', ''Bob//stash'',
            ''Charlie//stash'', ''Dave//stash'', ''Eve//stash'', ''Ferdie//stash'']),
      cs_properties = None\<rparr>"

definition enthiran_config :: "('au, 'gr, 'a) key_host \<Rightarrow> ('au, 'gr, 'a) chain_spec" where
  "enthiran_config kh =
     \<lparr>cs_name = str ''Enthiran Testnet'', cs_id = str ''enthiran_testnet'', cs_type = Local,
      cs_genesis = genesis_from kh
        [authority_keys_from_seed kh (str ''Alice''), authority_keys_from_seed kh (str ''Bob'')]
        (get_account_id_from_seed kh (str ''Alice''))
        (map (\<lambda>s. get_account_id_from_seed kh (str s)) [''Alice'', ''Bob'', ''Charlie''] @
         [from_ss58check kh (str ''5E4SberoKKe5UtNxS1dk51QdZAcKuryLAAJ6eDA9wgHUuPSA''),
          from_ss58check kh (str ''5C8A6BZSL3M1G7VP7bcDjatrEx8WLYd2Yup4tJy1rR5D4uXx'')]),
      cs_properties = Some [(str ''tokenSymbol'', Inl (str ''ENTT'')), (str ''tokenDecimals'', Inr 18)]\<rparr>"

definition load_spec ::
  "('au, 'gr, 'a) key_host \<Rightarrow> (bytes \<Rightarrow> string + ('au, 'gr, 'a) chain_spec) \<Rightarrow> bytes \<Rightarrow> string + ('au, 'gr, 'a) chain_spec" where
  "load_spec kh from_json_file chain_id =
     (if chain_id = str ''dev'' then development_config kh
      else if chain_id = str ''enthiran'' then Inr (enthiran_config kh)
      else if chain_id = str '''' \<or> chain_id = str ''local'' then local_testnet_config kh
      else from_json_file chain_id)"

section \<open>Genesis requirements\<close>

text \<open>
  What the pallets need to build their genesis: accounts are listed once, each with at least the
  existential deposit, and the sum fits a balance; the authorities are at most 32. Also required here: there is at
  least one authority, the same number for both consensus pallets, and the administrator is an endowed account.
\<close>

definition genesis_ok :: "('au, 'gr, 'a) genesis_config \<Rightarrow> bool" where
  "genesis_ok g \<longleftrightarrow>
     distinct (map fst (g_balances g)) \<and> (\<forall>(a, b) \<in> set (g_balances g). EXISTENTIAL_DEPOSIT \<le> b) \<and>
     sum_list (map (unat \<circ> snd) (g_balances g)) < 2 ^ 128 \<and>
     0 < length (g_aura g) \<and> length (g_aura g) \<le> 32 \<and> length (g_grandpa g) = length (g_aura g) \<and>
     (\<forall>(k, w) \<in> set (g_grandpa g). w = 1) \<and>
     (\<exists>r. g_sudo g = Some r \<and> r \<in> fst ` set (g_balances g))"

text \<open>
  What is assumed of the keys, for the seeds and addresses that the specifications use only: every
  derivation path and both addresses are readable, different paths give different accounts, and neither
  address is one of the derived accounts or equal to the other.
\<close>

definition seeds :: "string list" where
  "seeds = [''Alice'', ''Bob'', ''Charlie'', ''Dave'', ''Eve'', ''Ferdie'', ''Alice//stash'', ''Bob//stash'',
     ''Charlie//stash'', ''Dave//stash'', ''Eve//stash'', ''Ferdie//stash'']"

definition test1 :: bytes where
  "test1 = str ''5E4SberoKKe5UtNxS1dk51QdZAcKuryLAAJ6eDA9wgHUuPSA''"

definition test2 :: bytes where
  "test2 = str ''5C8A6BZSL3M1G7VP7bcDjatrEx8WLYd2Yup4tJy1rR5D4uXx''"

definition path :: "string \<Rightarrow> bytes" where
  "path s = str ''//'' @ str s"

locale key_derivation =
  fixes kh :: "('au, 'gr, 'a) key_host"
  assumes aura_total: "s \<in> set seeds \<Longrightarrow> aura_from_string kh (path s) \<noteq> None"
    and grandpa_total: "s \<in> set seeds \<Longrightarrow> grandpa_from_string kh (path s) \<noteq> None"
    and account_total: "s \<in> set seeds \<Longrightarrow> account_from_string kh (path s) \<noteq> None"
    and account_inject: "s \<in> set seeds \<Longrightarrow> t \<in> set seeds \<Longrightarrow>
      account_from_string kh (path s) = account_from_string kh (path t) \<Longrightarrow> s = t"
    and test_total: "from_ss58check kh test1 \<noteq> None" "from_ss58check kh test2 \<noteq> None"
    and test_distinct: "from_ss58check kh test1 \<noteq> from_ss58check kh test2"
    and test_fresh: "s \<in> set seeds \<Longrightarrow> x \<in> {test1, test2} \<Longrightarrow> from_ss58check kh x \<noteq> account_from_string kh (path s)"
begin

definition acc :: "string \<Rightarrow> 'a" where
  "acc s = the (account_from_string kh (path s))"

definition tst :: "bytes \<Rightarrow> 'a" where
  "tst x = the (from_ss58check kh x)"

lemma get_account: "s \<in> set seeds \<Longrightarrow> get_account_id_from_seed kh (str s) = Some (acc s)"
  using account_total [of s] by (auto simp: acc_def get_account_id_from_seed_def get_from_seed_def path_def)

lemma acc_inject: "s \<in> set seeds \<Longrightarrow> t \<in> set seeds \<Longrightarrow> acc s = acc t \<longleftrightarrow> s = t"
  using account_inject [of s t] account_total [of s] account_total [of t] by (auto simp: acc_def)

lemma get_authority: "s \<in> set seeds \<Longrightarrow> \<exists>k. authority_keys_from_seed kh (str s) = Some k"
  using aura_total [of s] grandpa_total [of s]
  by (auto simp: authority_keys_from_seed_def get_from_seed_def path_def)

lemma get_test: "from_ss58check kh test1 = Some (tst test1)" "from_ss58check kh test2 = Some (tst test2)"
  using test_total by (auto simp: tst_def)

lemma test_neq: "tst test1 \<noteq> tst test2" "s \<in> set seeds \<Longrightarrow> tst test1 \<noteq> acc s" "s \<in> set seeds \<Longrightarrow> tst test2 \<noteq> acc s"
proof -
  show "tst test1 \<noteq> tst test2" using get_test test_distinct by metis
  assume s: "s \<in> set seeds"
  then have "account_from_string kh (path s) = Some (acc s)" using account_total by (auto simp: acc_def)
  with s get_test test_fresh show "tst test1 \<noteq> acc s" "tst test2 \<noteq> acc s" by fastforce+
qed

lemma vec_of_accounts: "set ss \<subseteq> set seeds \<Longrightarrow>
  vec_of (map (\<lambda>s. get_account_id_from_seed kh (str s)) ss) = Some (map acc ss)"
  by (induction ss) (auto simp: get_account)

lemma distinct_accounts: "set ss \<subseteq> set seeds \<Longrightarrow> distinct ss \<Longrightarrow> distinct (map acc ss)"
  by (simp add: distinct_map inj_on_def) (metis acc_inject subsetD)

end

lemma vec_of_append: "vec_of (xs @ ys) =
  (case vec_of xs of None \<Rightarrow> None | Some as \<Rightarrow> map_option ((@) as) (vec_of ys))"
  by (induction xs rule: vec_of.induct; cases "vec_of ys") (auto split: option.splits)

text \<open>A genesis with distinct accounts, few authorities and the administrator among the accounts is in order.\<close>

lemma genesis_ok_testnet:
  assumes "distinct accs" and "r \<in> set accs" and "length accs \<le> 100" and "0 < length aus" and "length aus \<le> 32"
    and "testnet_genesis kh aus r accs = Some g"
  shows "genesis_ok g"
proof -
  have g: "g_balances g = map (\<lambda>k. (k, 1000000000000000000000000000)) accs" "g_aura g = map fst aus"
    "g_grandpa g = map (\<lambda>x. (snd x, 1)) aus" "g_sudo g = Some r"
    using assms(6) by (auto simp: testnet_genesis_def split: option.splits)
  have "sum_list (map (unat \<circ> snd) (g_balances g)) = length accs * 10 ^ 27"
    unfolding g by (induction accs) simp_all
  also have "\<dots> \<le> 100 * 10 ^ 27" using assms(3) by (intro mult_right_mono) simp_all
  also have "\<dots> < 2 ^ 128" by simp
  finally have "sum_list (map (unat \<circ> snd) (g_balances g)) < 2 ^ 128" .
  moreover have "map fst (g_balances g) = accs" by (simp add: g comp_def)
  moreover have "\<forall>(a, b) \<in> set (g_balances g). EXISTENTIAL_DEPOSIT \<le> b"
    by (auto simp: g EXISTENTIAL_DEPOSIT_def MILLIUNIT_def)
  moreover have "r \<in> fst ` set (g_balances g)" using assms(2) by (simp add: g image_image)
  ultimately show ?thesis using assms(1,4,5) by (simp add: genesis_ok_def) (auto simp: g)
qed

lemma genesis_from_ok:
  assumes "vec_of aus = Some as" and "vec_of cs = Some accs" and "root = Some r" and "distinct accs" and "r \<in> set accs"
    and "length accs \<le> 100" and "0 < length as" and "length as \<le> 32" and "WASM_BINARY kh = Some code"
  shows "\<exists>g. genesis_from kh aus root cs = Some g \<and> genesis_ok g \<and> g_code g = code"
proof -
  obtain g where g: "testnet_genesis kh as r accs = Some g" "g_code g = code"
    using assms(9) by (auto simp: testnet_genesis_def wasm_binary_unwrap_def)
  then have "genesis_ok g" using assms(4-8) by (intro genesis_ok_testnet [of accs r as kh])
  with g assms(1-3) show ?thesis by (simp add: genesis_from_def)
qed

context key_derivation
begin

lemma vec_of_authorities: "set au \<subseteq> set seeds \<Longrightarrow>
  \<exists>ks. vec_of (map (\<lambda>s. authority_keys_from_seed kh (str s)) au) = Some ks \<and> length ks = length au"
proof (induction au)
  case (Cons s au)
  then obtain k ks where "authority_keys_from_seed kh (str s) = Some k"
    "vec_of (map (\<lambda>s. authority_keys_from_seed kh (str s)) au) = Some ks" "length ks = length au"
    using get_authority [of s] by auto
  then show ?case by simp
qed simp

lemma seeded_genesis:
  assumes au: "set au \<subseteq> set seeds" "0 < length au" "length au \<le> 32"
    and ss: "set ss \<subseteq> set seeds" "distinct ss" "length ss \<le> 50" "''Alice'' \<in> set ss"
    and xs: "xs = [] \<or> xs = [test1, test2]" and wasm: "WASM_BINARY kh = Some code"
  shows "\<exists>g. genesis_from kh (map (\<lambda>s. authority_keys_from_seed kh (str s)) au)
      (get_account_id_from_seed kh (str ''Alice''))
      (map (\<lambda>s. get_account_id_from_seed kh (str s)) ss @ map (from_ss58check kh) xs) = Some g \<and>
    genesis_ok g \<and> g_code g = code"
proof -
  obtain ks where ks: "vec_of (map (\<lambda>s. authority_keys_from_seed kh (str s)) au) = Some ks" "length ks = length au"
    using vec_of_authorities [OF au(1)] by blast
  have "''Alice'' \<in> set seeds" using ss by blast
  then have alice: "get_account_id_from_seed kh (str ''Alice'') = Some (acc ''Alice'')" by (rule get_account)
  have xs': "vec_of (map (from_ss58check kh) xs) = Some (map tst xs)" using xs by (auto simp: get_test)
  then have accs: "vec_of (map (\<lambda>s. get_account_id_from_seed kh (str s)) ss @ map (from_ss58check kh) xs) =
      Some (map acc ss @ map tst xs)"
    by (simp add: vec_of_append vec_of_accounts [OF ss(1)])
  have "acc ` set ss \<inter> tst ` {test1, test2} = {}" using test_neq(2,3) ss(1) by fastforce
  then have dist: "distinct (map acc ss @ map tst xs)"
    using distinct_accounts [OF ss(1,2)] xs test_neq(1) by (force simp: image_iff)
  have len: "length (map acc ss @ map tst xs) \<le> 100" using ss(3) xs by auto
  have root: "acc ''Alice'' \<in> set (map acc ss @ map tst xs)" using ss(4) by simp
  show ?thesis
    by (rule genesis_from_ok [OF ks(1) accs alice dist root len _ _ wasm]) (use au ks in simp_all)
qed

lemma config_genesis:
  assumes "WASM_BINARY kh = Some code"
  shows "\<exists>cs g. development_config kh = Inr cs \<and> cs_genesis cs = Some g \<and> genesis_ok g \<and> g_code g = code"
    and "\<exists>cs g. local_testnet_config kh = Inr cs \<and> cs_genesis cs = Some g \<and> genesis_ok g \<and> g_code g = code"
    and "\<exists>g. cs_genesis (enthiran_config kh) = Some g \<and> genesis_ok g \<and> g_code g = code"
proof -
  show "\<exists>cs g. development_config kh = Inr cs \<and> cs_genesis cs = Some g \<and> genesis_ok g \<and> g_code g = code"
    using seeded_genesis [where au = "[''Alice'']" and xs = "[]", OF _ _ _ _ _ _ _ _ assms,
        of "[''Alice'', ''Bob'', ''Charlie'', ''Alice//stash'', ''Bob//stash'']"]
    by (simp add: development_config_def seeds_def)
  show "\<exists>cs g. local_testnet_config kh = Inr cs \<and> cs_genesis cs = Some g \<and> genesis_ok g \<and> g_code g = code"
    using seeded_genesis [where au = "[''Alice'', ''Bob'']" and xs = "[]", OF _ _ _ _ _ _ _ _ assms, of seeds]
    by (simp add: local_testnet_config_def seeds_def)
  show "\<exists>g. cs_genesis (enthiran_config kh) = Some g \<and> genesis_ok g \<and> g_code g = code"
    using seeded_genesis [where au = "[''Alice'', ''Bob'']" and xs = "[test1, test2]", OF _ _ _ _ _ _ _ _ assms,
        of "[''Alice'', ''Bob'', ''Charlie'']"]
    by (simp add: enthiran_config_def seeds_def test1_def test2_def)
qed

lemma load_builtin:
  assumes wasm: "WASM_BINARY kh = Some code" and "chain_id \<in> {str ''dev'', str ''local'', [], str ''enthiran''}"
  shows "\<exists>cs g. load_spec kh from_json_file chain_id = Inr cs \<and> cs_genesis cs = Some g \<and> genesis_ok g \<and> g_code g = code"
proof -
  have "load_spec kh from_json_file chain_id \<in> {development_config kh, local_testnet_config kh, Inr (enthiran_config kh)}"
    using assms(2) by (auto simp: load_spec_def str_simps)
  then show ?thesis using config_genesis [OF wasm] by auto
qed

end

lemma load_spec_id:
  assumes "chain_id \<in> {str ''dev'', str ''local'', [], str ''enthiran''}" and "load_spec kh from_json_file chain_id = Inr cs"
  shows "cs_id cs = (if chain_id = str ''dev'' then str ''dev''
    else if chain_id = str ''enthiran'' then str ''enthiran_testnet'' else str ''local_testnet'')"
  using assms by (auto simp: load_spec_def development_config_def local_testnet_config_def enthiran_config_def str_simps
      split: if_splits)

section \<open>A concrete key host\<close>

text \<open>Accounts are the strings they are derived from.\<close>

definition string_keys :: "(bytes, bytes, bytes) key_host" where
  "string_keys =
     \<lparr>aura_from_string = Some, grandpa_from_string = Some, account_from_string = Some, from_ss58check = Some,
      WASM_BINARY = Some [0]\<rparr>"

lemma str_inject: "str s = str t \<longleftrightarrow> s = t"
proof -
  have char: "unat (of_char c :: u8) = of_char c" for c :: char
  proof -
    have "(of_char c :: nat) < 256" using of_char_mod_256 [of c, where 'a = nat] by (metis mod_less_divisor zero_less_numeral)
    then have "unat (of_nat (of_char c) :: u8) = of_char c" by (simp add: unat_of_nat)
    then show ?thesis by (simp only: of_nat_of_char)
  qed
  have "inj (of_char :: char \<Rightarrow> u8)"
    by (rule injI) (metis char of_char_eqI)
  then show ?thesis by (simp add: str_def inj_map_eq_map)
qed

interpretation string_keys: key_derivation string_keys
proof
  fix s x assume s: "s \<in> set seeds" and "x \<in> {test1, test2}"
  then have "length x = 48" by (auto simp: test1_def test2_def)
  moreover have "length (path s) < 48" using s by (auto simp: seeds_def path_def)
  ultimately show "from_ss58check string_keys x \<noteq> account_from_string string_keys (path s)"
    by (auto simp: string_keys_def)
next
  show "from_ss58check string_keys test1 \<noteq> from_ss58check string_keys test2"
    by (simp add: string_keys_def test1_def test2_def str_inject)
qed (simp_all add: string_keys_def path_def str_inject)

section \<open>Properties\<close>

text \<open>
  C34. Every built-in chain starts from a genesis that its pallets accept: for the identifiers \<open>dev\<close>, \<open>local\<close> (or
  none) and \<open>enthiran\<close>, with a Wasm binary built in, the specification of that chain loads, its genesis does not panic and
  holds that binary; the endowed accounts are distinct, each has at least the existential deposit, the total
  issuance fits 128 bits, there are between 1 and 32 authorities, equally many for block production
  and finality, and the administrator is endowed. Any other identifier is read as the path of a file.
\<close>
theorem builtin_chains_start:
  assumes "key_derivation kh" and "WASM_BINARY kh = Some code"
  shows "(chain_id \<in> {str ''dev'', str ''local'', [], str ''enthiran''} \<longrightarrow>
      (\<exists>cs g. load_spec kh from_json_file chain_id = Inr cs \<and>
        cs_id cs = (if chain_id = str ''dev'' then str ''dev''
                    else if chain_id = str ''enthiran'' then str ''enthiran_testnet'' else str ''local_testnet'') \<and>
        cs_genesis cs = Some g \<and> g_code g = code \<and>
        distinct (map fst (g_balances g)) \<and> (\<forall>(a, b) \<in> set (g_balances g). EXISTENTIAL_DEPOSIT \<le> b) \<and>
        sum_list (map (unat \<circ> snd) (g_balances g)) < 2 ^ 128 \<and>
        0 < length (g_aura g) \<and> length (g_aura g) \<le> 32 \<and> length (g_grandpa g) = length (g_aura g) \<and>
        (\<exists>r. g_sudo g = Some r \<and> r \<in> fst ` set (g_balances g)))) \<and>
    (chain_id \<notin> {str ''dev'', str ''local'', [], str ''enthiran''} \<longrightarrow>
      load_spec kh from_json_file chain_id = from_json_file chain_id)"
proof (intro conjI impI)
  assume c: "chain_id \<in> {str ''dev'', str ''local'', [], str ''enthiran''}"
  then obtain cs g where cs: "load_spec kh from_json_file chain_id = Inr cs" "cs_genesis cs = Some g" "g_code g = code"
    "genesis_ok g"
    using key_derivation.load_builtin [OF assms] by blast
  have id: "cs_id cs = (if chain_id = str ''dev'' then str ''dev''
      else if chain_id = str ''enthiran'' then str ''enthiran_testnet'' else str ''local_testnet'')"
    using c cs(1) by (rule load_spec_id)
  from cs id show "\<exists>cs g. load_spec kh from_json_file chain_id = Inr cs \<and>
        cs_id cs = (if chain_id = str ''dev'' then str ''dev''
                    else if chain_id = str ''enthiran'' then str ''enthiran_testnet'' else str ''local_testnet'') \<and>
        cs_genesis cs = Some g \<and> g_code g = code \<and>
        distinct (map fst (g_balances g)) \<and> (\<forall>(a, b) \<in> set (g_balances g). EXISTENTIAL_DEPOSIT \<le> b) \<and>
        sum_list (map (unat \<circ> snd) (g_balances g)) < 2 ^ 128 \<and>
        0 < length (g_aura g) \<and> length (g_aura g) \<le> 32 \<and> length (g_grandpa g) = length (g_aura g) \<and>
        (\<exists>r. g_sudo g = Some r \<and> r \<in> fst ` set (g_balances g))"
    unfolding genesis_ok_def by (intro exI [of _ cs] exI [of _ g] conjI) (elim conjE, assumption)+
qed (simp add: load_spec_def str_simps)

theorem builtin_chains_start_witness:
  "\<exists>cs g. load_spec string_keys (\<lambda>p. Inl ''no file'') (str ''enthiran'') = Inr cs \<and> cs_genesis cs = Some g \<and>
     distinct (map fst (g_balances g))"
  using builtin_chains_start [OF string_keys.key_derivation_axioms, of "[0]" "str ''enthiran''" "\<lambda>p. Inl ''no file''"]
  by (auto simp: string_keys_def)

end
