(* ===== verification/Runtime_Api.thy ===== *)
theory Runtime_Api
  imports Block_Limits Chain_Spec
begin

text \<open>
  The configuration that \<^verbatim>\<open>runtime/src/lib.rs\<close> gives to Substrate's pallets and the functions of its runtime APIs, through
  which the node calls the runtime, with the native version and executor of \<^verbatim>\<open>node/src/service.rs\<close>. The pallets
  and the executive that the functions call are a record of functions on the runtime's state \<open>'s\<close>; blocks, headers, extrinsics, keys and results are opaque values of type \<open>'v\<close>.
\<close>

section \<open>Configuration of Substrate's pallets\<close>

text \<open>The constants of each pallet's configuration; the types that only select an implementation are left out.\<close>

record ('c, 'l) system_config =
  BaseCallFilter :: "'c \<Rightarrow> bool"
  sc_BlockWeights :: "block_weights option"
  sc_BlockLength :: 'l
  sc_BlockHashCount :: u32
  sc_Version :: runtime_version
  SS58Prefix :: u8
  MaxConsumers :: u32

definition runtime_system_config :: "('r, 'b, 'l) weights_host \<Rightarrow> ('c, 'l) system_config" where
  "runtime_system_config wh =
     \<lparr>BaseCallFilter = (\<lambda>c. True), sc_BlockWeights = RuntimeBlockWeights wh, sc_BlockLength = RuntimeBlockLength wh,
      sc_BlockHashCount = BlockHashCount, sc_Version = VERSION, SS58Prefix = 42, MaxConsumers = 16\<rparr>"

record aura_config =
  ac_MaxAuthorities :: u32
  AllowMultipleBlocksPerSlot :: bool

definition runtime_aura_config :: aura_config where
  "runtime_aura_config = \<lparr>ac_MaxAuthorities = 32, AllowMultipleBlocksPerSlot = False\<rparr>"

record grandpa_pallet_config =
  gp_MaxAuthorities :: u32
  MaxSetIdSessionEntries :: u64

definition runtime_grandpa_config :: grandpa_pallet_config where
  "runtime_grandpa_config = \<lparr>gp_MaxAuthorities = 32, MaxSetIdSessionEntries = 0\<rparr>"

text \<open>The unit type as a number in a configuration is zero.\<close>

record balances_config =
  MaxLocks :: u32
  MaxReserves :: u32
  ExistentialDeposit :: u128
  MaxFreezes :: u32
  MaxHolds :: u32

definition runtime_balances_config :: balances_config where
  "runtime_balances_config = \<lparr>MaxLocks = 50, MaxReserves = 0, ExistentialDeposit = EXISTENTIAL_DEPOSIT,
     MaxFreezes = 0, MaxHolds = 0\<rparr>"

record 'm payment_config =
  OperationalFeeMultiplier :: u8
  FeeMultiplier :: 'm

definition runtime_payment_config :: "'m \<Rightarrow> 'm payment_config" where
  "runtime_payment_config multiplier_one = \<lparr>OperationalFeeMultiplier = 5, FeeMultiplier = multiplier_one\<rparr>"

record 'c contracts_config =
  CallFilter :: "'c \<Rightarrow> bool"
  CallStack :: nat
  cc_DepositPerByte :: u128
  cc_DepositPerItem :: u128
  cc_DefaultDepositLimit :: u128
  MaxCodeLen :: u32
  MaxStorageKeyLen :: u32
  UnsafeUnstableInterface :: bool
  MaxDebugBufferLen :: u32

definition runtime_contracts_config :: "'c contracts_config" where
  "runtime_contracts_config =
     \<lparr>CallFilter = (\<lambda>c. False), CallStack = 31, cc_DepositPerByte = DepositPerByte, cc_DepositPerItem = DepositPerItem,
      cc_DefaultDepositLimit = DefaultDepositLimit, MaxCodeLen = 256 * 1024, MaxStorageKeyLen = 128,
      UnsafeUnstableInterface = False, MaxDebugBufferLen = 2 * 1024 * 1024\<rparr>"

section \<open>What the APIs call\<close>

datatype debug_info = UnsafeDebug | SkipDebug
datatype collect_events = UnsafeCollect | SkipCollect
datatype determinism = Enforced | Relaxed

record ('s, 'v, 'r, 'b, 'l) api_host =
  executive_execute_block :: "'v \<Rightarrow> 's \<Rightarrow> 's option"
  executive_initialize_block :: "'v \<Rightarrow> 's \<Rightarrow> 's"
  executive_apply_extrinsic :: "'v \<Rightarrow> 's \<Rightarrow> 'v \<times> 's"
  executive_finalize_block :: "'s \<Rightarrow> 'v \<times> 's"
  executive_validate_transaction :: "'v \<Rightarrow> 'v \<Rightarrow> 'v \<Rightarrow> 's \<Rightarrow> 'v"
  executive_offchain_worker :: "'v \<Rightarrow> 's \<Rightarrow> 's"
  runtime_metadata :: 'v
  runtime_metadata_at_version :: "u32 \<Rightarrow> 'v option"
  runtime_metadata_versions :: "u32 list"
  opaque_metadata_new :: "'v \<Rightarrow> 'v"
  create_extrinsics :: "'v \<Rightarrow> 's \<Rightarrow> 'v list"
  check_extrinsics :: "'v \<Rightarrow> 'v \<Rightarrow> 's \<Rightarrow> 'v"
  aura_pallet_slot_duration :: "'s \<Rightarrow> u64"
  aura_pallet_authorities :: "'s \<Rightarrow> 'v list"
  session_keys_generate :: "bytes option \<Rightarrow> bytes"
  session_keys_decode :: "bytes \<Rightarrow> (bytes \<times> bytes) list option"
  grandpa_pallet_authorities :: "'s \<Rightarrow> 'v list"
  grandpa_pallet_current_set_id :: "'s \<Rightarrow> u64"
  system_account_nonce :: "'v \<Rightarrow> 's \<Rightarrow> u32"
  payment_query_info :: "'v \<Rightarrow> u32 \<Rightarrow> 's \<Rightarrow> 'v"
  payment_query_fee_details :: "'v \<Rightarrow> u32 \<Rightarrow> 's \<Rightarrow> 'v"
  payment_query_call_info :: "'v \<Rightarrow> u32 \<Rightarrow> 's \<Rightarrow> 'v"
  payment_query_call_fee_details :: "'v \<Rightarrow> u32 \<Rightarrow> 's \<Rightarrow> 'v"
  payment_weight_to_fee :: "weight \<Rightarrow> 's \<Rightarrow> u128"
  payment_length_to_fee :: "u32 \<Rightarrow> 's \<Rightarrow> u128"
  bare_call :: "'v \<Rightarrow> 'v \<Rightarrow> u128 \<Rightarrow> weight \<Rightarrow> u128 option \<Rightarrow> bytes \<Rightarrow> debug_info \<Rightarrow> collect_events \<Rightarrow> determinism \<Rightarrow> 's \<Rightarrow> 'v"
  bare_instantiate :: "'v \<Rightarrow> u128 \<Rightarrow> weight \<Rightarrow> u128 option \<Rightarrow> 'v \<Rightarrow> bytes \<Rightarrow> bytes \<Rightarrow> debug_info \<Rightarrow> collect_events \<Rightarrow> 's \<Rightarrow> 'v"
  bare_upload_code :: "'v \<Rightarrow> bytes \<Rightarrow> u128 option \<Rightarrow> determinism \<Rightarrow> 's \<Rightarrow> 'v"
  contracts_get_storage :: "'v \<Rightarrow> bytes \<Rightarrow> 's \<Rightarrow> 'v"
  api_weights :: "('r, 'b, 'l) weights_host"

section \<open>Core, metadata, block building, transactions and offchain workers\<close>

definition api_version :: runtime_version where
  "api_version = VERSION"

definition api_execute_block :: "('s, 'v, 'r, 'b, 'l) api_host \<Rightarrow> 'v \<Rightarrow> 's \<Rightarrow> 's option" where
  "api_execute_block h block s = executive_execute_block h block s"

definition api_initialize_block :: "('s, 'v, 'r, 'b, 'l) api_host \<Rightarrow> 'v \<Rightarrow> 's \<Rightarrow> 's" where
  "api_initialize_block h header s = executive_initialize_block h header s"

definition api_metadata :: "('s, 'v, 'r, 'b, 'l) api_host \<Rightarrow> 'v" where
  "api_metadata h = opaque_metadata_new h (runtime_metadata h)"

definition api_metadata_at_version :: "('s, 'v, 'r, 'b, 'l) api_host \<Rightarrow> u32 \<Rightarrow> 'v option" where
  "api_metadata_at_version h version = runtime_metadata_at_version h version"

definition api_metadata_versions :: "('s, 'v, 'r, 'b, 'l) api_host \<Rightarrow> u32 list" where
  "api_metadata_versions h = runtime_metadata_versions h"

definition api_apply_extrinsic :: "('s, 'v, 'r, 'b, 'l) api_host \<Rightarrow> 'v \<Rightarrow> 's \<Rightarrow> 'v \<times> 's" where
  "api_apply_extrinsic h extrinsic s = executive_apply_extrinsic h extrinsic s"

definition api_finalize_block :: "('s, 'v, 'r, 'b, 'l) api_host \<Rightarrow> 's \<Rightarrow> 'v \<times> 's" where
  "api_finalize_block h s = executive_finalize_block h s"

definition api_inherent_extrinsics :: "('s, 'v, 'r, 'b, 'l) api_host \<Rightarrow> 'v \<Rightarrow> 's \<Rightarrow> 'v list" where
  "api_inherent_extrinsics h data s = create_extrinsics h data s"

definition api_check_inherents :: "('s, 'v, 'r, 'b, 'l) api_host \<Rightarrow> 'v \<Rightarrow> 'v \<Rightarrow> 's \<Rightarrow> 'v" where
  "api_check_inherents h block data s = check_extrinsics h data block s"

definition api_validate_transaction :: "('s, 'v, 'r, 'b, 'l) api_host \<Rightarrow> 'v \<Rightarrow> 'v \<Rightarrow> 'v \<Rightarrow> 's \<Rightarrow> 'v" where
  "api_validate_transaction h source tx block_hash s = executive_validate_transaction h source tx block_hash s"

definition api_offchain_worker :: "('s, 'v, 'r, 'b, 'l) api_host \<Rightarrow> 'v \<Rightarrow> 's \<Rightarrow> 's" where
  "api_offchain_worker h header s = executive_offchain_worker h header s"

section \<open>Consensus and session keys\<close>

text \<open>A slot duration is its number of milliseconds.\<close>

definition api_slot_duration :: "('s, 'v, 'r, 'b, 'l) api_host \<Rightarrow> 's \<Rightarrow> u64" where
  "api_slot_duration h s = aura_pallet_slot_duration h s"

definition api_authorities :: "('s, 'v, 'r, 'b, 'l) api_host \<Rightarrow> 's \<Rightarrow> 'v list" where
  "api_authorities h s = aura_pallet_authorities h s"

definition api_generate_session_keys :: "('s, 'v, 'r, 'b, 'l) api_host \<Rightarrow> bytes option \<Rightarrow> bytes" where
  "api_generate_session_keys h seed = session_keys_generate h seed"

definition api_decode_session_keys :: "('s, 'v, 'r, 'b, 'l) api_host \<Rightarrow> bytes \<Rightarrow> (bytes \<times> bytes) list option" where
  "api_decode_session_keys h encoded = session_keys_decode h encoded"

definition api_grandpa_authorities :: "('s, 'v, 'r, 'b, 'l) api_host \<Rightarrow> 's \<Rightarrow> 'v list" where
  "api_grandpa_authorities h s = grandpa_pallet_authorities h s"

definition api_current_set_id :: "('s, 'v, 'r, 'b, 'l) api_host \<Rightarrow> 's \<Rightarrow> u64" where
  "api_current_set_id h s = grandpa_pallet_current_set_id h s"

definition submit_report_equivocation_unsigned_extrinsic :: "'v \<Rightarrow> 'v \<Rightarrow> unit option" where
  "submit_report_equivocation_unsigned_extrinsic equivocation_proof key_owner_proof = None"

definition generate_key_ownership_proof :: "u64 \<Rightarrow> 'v \<Rightarrow> 'v option" where
  "generate_key_ownership_proof set_id authority_id = None"

section \<open>Accounts and fees\<close>

definition api_account_nonce :: "('s, 'v, 'r, 'b, 'l) api_host \<Rightarrow> 'v \<Rightarrow> 's \<Rightarrow> u32" where
  "api_account_nonce h account s = system_account_nonce h account s"

definition api_query_info :: "('s, 'v, 'r, 'b, 'l) api_host \<Rightarrow> 'v \<Rightarrow> u32 \<Rightarrow> 's \<Rightarrow> 'v" where
  "api_query_info h uxt len s = payment_query_info h uxt len s"

definition api_query_fee_details :: "('s, 'v, 'r, 'b, 'l) api_host \<Rightarrow> 'v \<Rightarrow> u32 \<Rightarrow> 's \<Rightarrow> 'v" where
  "api_query_fee_details h uxt len s = payment_query_fee_details h uxt len s"

definition api_query_weight_to_fee :: "('s, 'v, 'r, 'b, 'l) api_host \<Rightarrow> weight \<Rightarrow> 's \<Rightarrow> u128" where
  "api_query_weight_to_fee h weight s = payment_weight_to_fee h weight s"

definition api_query_length_to_fee :: "('s, 'v, 'r, 'b, 'l) api_host \<Rightarrow> u32 \<Rightarrow> 's \<Rightarrow> u128" where
  "api_query_length_to_fee h len s = payment_length_to_fee h len s"

definition api_query_call_info :: "('s, 'v, 'r, 'b, 'l) api_host \<Rightarrow> 'v \<Rightarrow> u32 \<Rightarrow> 's \<Rightarrow> 'v" where
  "api_query_call_info h c len s = payment_query_call_info h c len s"

definition api_query_call_fee_details :: "('s, 'v, 'r, 'b, 'l) api_host \<Rightarrow> 'v \<Rightarrow> u32 \<Rightarrow> 's \<Rightarrow> 'v" where
  "api_query_call_fee_details h c len s = payment_query_call_fee_details h c len s"

text \<open>The second API for fees has conversions of the same names.\<close>

definition api_call_weight_to_fee :: "('s, 'v, 'r, 'b, 'l) api_host \<Rightarrow> weight \<Rightarrow> 's \<Rightarrow> u128" where
  "api_call_weight_to_fee h weight s = payment_weight_to_fee h weight s"

definition api_call_length_to_fee :: "('s, 'v, 'r, 'b, 'l) api_host \<Rightarrow> u32 \<Rightarrow> 's \<Rightarrow> u128" where
  "api_call_length_to_fee h len s = payment_length_to_fee h len s"

section \<open>Contracts\<close>

text \<open>
  A call without gas limit gets the limit of a block. \<open>None\<close> is the panic of the builder of the block weights; as in
  the source they are computed also when a limit is given.
\<close>

definition api_contracts_call ::
  "('s, 'v, 'r, 'b, 'l) api_host \<Rightarrow> 'v \<Rightarrow> 'v \<Rightarrow> u128 \<Rightarrow> weight option \<Rightarrow> u128 option \<Rightarrow> bytes \<Rightarrow> 's \<Rightarrow> 'v option" where
  "api_contracts_call h orig dest val gas_limit storage_deposit_limit input_data s =
     (case RuntimeBlockWeights (api_weights h) of
        None \<Rightarrow> None
      | Some weights \<Rightarrow>
          (let gas_limit = (case gas_limit of Some w \<Rightarrow> w | None \<Rightarrow> max_block weights) in
           Some (bare_call h orig dest val gas_limit storage_deposit_limit input_data UnsafeDebug UnsafeCollect Enforced s)))"

definition api_contracts_instantiate ::
  "('s, 'v, 'r, 'b, 'l) api_host \<Rightarrow> 'v \<Rightarrow> u128 \<Rightarrow> weight option \<Rightarrow> u128 option \<Rightarrow> 'v \<Rightarrow> bytes \<Rightarrow> bytes \<Rightarrow> 's \<Rightarrow> 'v option" where
  "api_contracts_instantiate h orig val gas_limit storage_deposit_limit code data salt s =
     (case RuntimeBlockWeights (api_weights h) of
        None \<Rightarrow> None
      | Some weights \<Rightarrow>
          (let gas_limit = (case gas_limit of Some w \<Rightarrow> w | None \<Rightarrow> max_block weights) in
           Some (bare_instantiate h orig val gas_limit storage_deposit_limit code data salt UnsafeDebug UnsafeCollect s)))"

definition api_upload_code ::
  "('s, 'v, 'r, 'b, 'l) api_host \<Rightarrow> 'v \<Rightarrow> bytes \<Rightarrow> u128 option \<Rightarrow> determinism \<Rightarrow> 's \<Rightarrow> 'v" where
  "api_upload_code h orig code storage_deposit_limit det s = bare_upload_code h orig code storage_deposit_limit det s"

definition api_get_storage :: "('s, 'v, 'r, 'b, 'l) api_host \<Rightarrow> 'v \<Rightarrow> bytes \<Rightarrow> 's \<Rightarrow> 'v" where
  "api_get_storage h address key s = contracts_get_storage h address key s"

section \<open>Benchmarks, native version and executor\<close>

text \<open>
  The benchmark API exists with the feature \<open>runtime-benchmarks\<close>. Listing and running the benchmarks of one pallet are
  parameters; a run that fails ends the whole.
\<close>

record ('e, 'v) benchmark_host =
  list_benchmark :: "bytes \<Rightarrow> bool \<Rightarrow> 'v"
  add_benchmark :: "bytes \<Rightarrow> 'v \<Rightarrow> 'v list \<Rightarrow> 'v list \<Rightarrow> 'e + 'v list"
  all_storage_info :: "'v list"
  whitelisted_storage_keys :: "'v list"

definition benches :: "bytes list" where
  "benches = [str ''frame_benchmarking'', str ''frame_system'', str ''pallet_balances'', str ''pallet_timestamp'']"

fun add_benchmarks ::
  "('e, 'v) benchmark_host \<Rightarrow> 'v \<Rightarrow> 'v list \<Rightarrow> bytes list \<Rightarrow> 'v list \<Rightarrow> 'e + 'v list" where
  "add_benchmarks bh config whitelist [] batches = Inr batches"
| "add_benchmarks bh config whitelist (p # ps) batches =
     (case add_benchmark bh p config whitelist batches of
        Inl e \<Rightarrow> Inl e
      | Inr batches' \<Rightarrow> add_benchmarks bh config whitelist ps batches')"

definition benchmark_metadata :: "('e, 'v) benchmark_host \<Rightarrow> bool \<Rightarrow> 'v list \<times> 'v list" where
  "benchmark_metadata bh extra =
     (let list = map (\<lambda>p. list_benchmark bh p extra) benches;
          storage_info = all_storage_info bh in
      (list, storage_info))"

definition dispatch_benchmark :: "('e, 'v) benchmark_host \<Rightarrow> 'v \<Rightarrow> 'e + 'v list" where
  "dispatch_benchmark bh config =
     (let whitelist = whitelisted_storage_keys bh in add_benchmarks bh config whitelist benches [])"

text \<open>The native executor answers with the runtime compiled into the node; the set of authoring versions is empty.\<close>

record native_version_info =
  nv_runtime_version :: runtime_version
  nv_can_author_with :: "u32 set"

definition native_version :: native_version_info where
  "native_version = \<lparr>nv_runtime_version = VERSION, nv_can_author_with = {}\<rparr>"

definition executor_dispatch :: "(bytes \<Rightarrow> bytes \<Rightarrow> bytes option) \<Rightarrow> bytes \<Rightarrow> bytes \<Rightarrow> bytes option" where
  "executor_dispatch api_dispatch meth data = api_dispatch meth data"

definition executor_native_version :: native_version_info where
  "executor_native_version = native_version"

text \<open>The keys of a session, in the order of their encoding.\<close>

record ('au, 'gr) session_keys =
  sk_aura :: 'au
  sk_grandpa :: 'gr

section \<open>The pallets behind the APIs\<close>

text \<open>
  The aura pallet doubles the timestamp pallet's minimum period for its slots, and the block weights are built as promised.
  The slots that the node reads are then those of the runtime's constants, and a contract call without gas limit gets a
  whole block of weight.
\<close>

locale runtime_pallets = weights_builder "api_weights h" view
  for h :: "('s, 'v, 'r, 'b, 'l) api_host" and view :: "'b \<Rightarrow> dispatch_class \<Rightarrow> class_weights" +
  assumes aura_slots: "aura_pallet_slot_duration h s = saturating_mul_u64 MinimumPeriod 2"
begin

lemma slot_duration_fixed: "api_slot_duration h s = SLOT_DURATION"
  by (simp add: api_slot_duration_def aura_slots saturating_mul_u64_def MinimumPeriod_def SLOT_DURATION_def
      MILLISECS_PER_BLOCK_def)

lemma gas_default:
  assumes "RuntimeBlockWeights (api_weights h) = Some bw"
  shows "api_contracts_call h orig dest val None sdl input_data s =
      Some (bare_call h orig dest val \<lparr>ref_time = 2 * 10 ^ 12, proof_size = - 1\<rparr> sdl input_data UnsafeDebug UnsafeCollect
        Enforced s)"
    and "api_contracts_instantiate h orig val None sdl code data salt s =
      Some (bare_instantiate h orig val \<lparr>ref_time = 2 * 10 ^ 12, proof_size = - 1\<rparr> sdl code data salt UnsafeDebug
        UnsafeCollect s)"
  using assms plan_max [OF assms] by (simp_all add: api_contracts_call_def api_contracts_instantiate_def maximum)

end

definition plain_api :: "(nat, nat, nat, dispatch_class \<Rightarrow> class_weights, u32 \<times> nat) api_host" where
  "plain_api =
     \<lparr>executive_execute_block = (\<lambda>b s. Some s), executive_initialize_block = (\<lambda>b s. s),
      executive_apply_extrinsic = (\<lambda>e s. (e, s)), executive_finalize_block = (\<lambda>s. (s, s)),
      executive_validate_transaction = (\<lambda>src t b s. t), executive_offchain_worker = (\<lambda>b s. s),
      runtime_metadata = 0, runtime_metadata_at_version = Map.empty, runtime_metadata_versions = [],
      opaque_metadata_new = Suc, create_extrinsics = (\<lambda>d s. [d]), check_extrinsics = (\<lambda>d b s. d),
      aura_pallet_slot_duration = (\<lambda>s. 6000), aura_pallet_authorities = (\<lambda>s. [1, 2]),
      session_keys_generate = (\<lambda>s. []), session_keys_decode = (\<lambda>k. None),
      grandpa_pallet_authorities = (\<lambda>s. [1, 2]), grandpa_pallet_current_set_id = (\<lambda>s. 0),
      system_account_nonce = (\<lambda>a s. 0), payment_query_info = (\<lambda>x n s. x), payment_query_fee_details = (\<lambda>x n s. x),
      payment_query_call_info = (\<lambda>x n s. x), payment_query_call_fee_details = (\<lambda>x n s. x),
      payment_weight_to_fee = (\<lambda>w s. ucast (ref_time w)), payment_length_to_fee = (\<lambda>n s. ucast n),
      bare_call = (\<lambda>a d v g l i db ce dt s. unat (ref_time g)),
      bare_instantiate = (\<lambda>a v g l c i x db ce s. unat (ref_time g)),
      bare_upload_code = (\<lambda>a c l d s. length c), contracts_get_storage = (\<lambda>a k s. a),
      api_weights = table_builder\<rparr>"

lemma plain_api_weights [simp]: "api_weights plain_api = table_builder"
  by (simp add: plain_api_def)

interpretation plain_api: runtime_pallets plain_api "\<lambda>b. b"
proof -
  have "weights_builder (api_weights plain_api) (\<lambda>b. b)" using table.weights_builder_axioms by simp
  then show "runtime_pallets plain_api (\<lambda>b. b)"
    by (rule runtime_pallets.intro) (unfold_locales, simp_all add: plain_api_def saturating_mul_u64_def MinimumPeriod_def
        SLOT_DURATION_def MILLISECS_PER_BLOCK_def)
qed

end
