(* ===== verification/Call_Weights.thy ===== *)
theory Call_Weights
  imports Block_Limits
begin

text \<open>
  The weights that the two pallets declare for their calls, and what the limit on normal extrinsics in a block makes
  of them. Each call has an attribute \<^verbatim>\<open>#[pallet::weight(n)]\<close> with an expression for a 64-bit number \<open>n\<close>. The weight
  of database writes (\<^verbatim>\<open>RocksDbWeight\<close> in the runtime's configuration) and the macro that makes the dispatch
  information of such a number are parameters; the locale \<open>call_weights\<close> has their laws.
\<close>

section \<open>Declared weights\<close>

text \<open>Expressions of the attribute are built in release mode, where the sum wraps around.\<close>

definition one_write_weight :: "(u64 \<Rightarrow> weight) \<Rightarrow> u64" where
  "one_write_weight writes = 10000 + ref_time (writes 1)"

fun edge_call_weight :: "(u64 \<Rightarrow> weight) \<Rightarrow> ('p, 'sig) edge_call \<Rightarrow> u64" where
  "edge_call_weight writes (CreateConnection connection) = one_write_weight writes"
| "edge_call_weight writes (SendCommand cmd) = one_write_weight writes"
| "edge_call_weight writes (SubmitResponse response) = 0"
| "edge_call_weight writes (SubmitResponseUnsigned bn response) = 0"
| "edge_call_weight writes (SubmitResponseUnsignedWithSignedPayload payload sig) = 0"
| "edge_call_weight writes (RemoveConnection connection) = one_write_weight writes"

fun wr_call_weight :: "(u64 \<Rightarrow> weight) \<Rightarrow> wr_call \<Rightarrow> u64" where
  "wr_call_weight writes (WorkerRegister nm addr prt) = one_write_weight writes"
| "wr_call_weight writes (TaskScheduler task_data) = one_write_weight writes"
| "wr_call_weight writes (VerifyConnection worker_index deployment_status) = 0"

record dispatch_info =
  di_weight :: weight
  di_class :: dispatch_class

text \<open>The dispatch information of a call of the runtime; \<open>other\<close> gives that of Substrate's pallets.\<close>

fun get_dispatch_info ::
  "(u64 \<Rightarrow> weight) \<Rightarrow> (u64 \<Rightarrow> dispatch_info) \<Rightarrow> ('oc \<Rightarrow> dispatch_info) \<Rightarrow> ('p, 'sig, 'oc) runtime_call \<Rightarrow> dispatch_info"
where
  "get_dispatch_info writes weigh other (EdgeConnect c) = weigh (edge_call_weight writes c)"
| "get_dispatch_info writes weigh other (WorkerRegistration c) = weigh (wr_call_weight writes c)"
| "get_dispatch_info writes weigh other (OtherPallet c) = other c"

section \<open>The calls of the two pallets in a block\<close>

fun own_call :: "('p, 'sig, 'oc) runtime_call \<Rightarrow> bool" where
  "own_call (OtherPallet c) \<longleftrightarrow> False"
| "own_call c \<longleftrightarrow> True"

text \<open>The calls that report a response or a status.\<close>

fun reports :: "('p, 'sig, 'oc) runtime_call \<Rightarrow> bool" where
  "reports (EdgeConnect (SubmitResponse r)) \<longleftrightarrow> True"
| "reports (EdgeConnect (SubmitResponseUnsigned n r)) \<longleftrightarrow> True"
| "reports (EdgeConnect (SubmitResponseUnsignedWithSignedPayload p g)) \<longleftrightarrow> True"
| "reports (WorkerRegistration (VerifyConnection i b)) \<longleftrightarrow> True"
| "reports c \<longleftrightarrow> False"

text \<open>The computation time that a list of extrinsics takes of a block: the base weight and the declared weight of each.\<close>

definition block_time :: "weight \<Rightarrow> dispatch_info list \<Rightarrow> nat" where
  "block_time base infos = (\<Sum>i\<leftarrow>infos. unat (ref_time base) + unat (ref_time (di_weight i)))"

lemma block_time_simps [simp]:
  "block_time base [] = 0"
  "block_time base (i # infos) = unat (ref_time base) + unat (ref_time (di_weight i)) + block_time base infos"
  by (simp_all add: block_time_def)

locale call_weights = weights_builder h view
  for h :: "('r, 'b, 'l) weights_host" and view :: "'b \<Rightarrow> dispatch_class \<Rightarrow> class_weights" +
  fixes writes :: "u64 \<Rightarrow> weight" and weigh :: "u64 \<Rightarrow> dispatch_info"
  assumes one_write: "ref_time (writes 1) = 10 ^ 8"
    and weigh_number: "weigh n = \<lparr>di_weight = \<lparr>ref_time = n, proof_size = 0\<rparr>, di_class = Normal\<rparr>"
begin

lemma own_info:
  assumes "own_call c"
  shows "get_dispatch_info writes weigh other c =
    \<lparr>di_weight = \<lparr>ref_time = (if reports c then 0 else 100010000), proof_size = 0\<rparr>, di_class = Normal\<rparr>"
  using assms by (cases c rule: reports.cases) (simp_all add: weigh_number one_write one_write_weight_def)

lemma own_time: "list_all own_call cs \<Longrightarrow> block_time base (map (get_dispatch_info writes weigh other) cs) =
    length cs * unat (ref_time base) + 100010000 * length (filter (\<lambda>c. \<not> reports c) cs)"
  by (induction cs) (auto simp: own_info)

lemma own_time_bound:
  assumes "list_all own_call cs"
  shows "block_time base (map (get_dispatch_info writes weigh other) cs) \<le> length cs * (100010000 + unat (ref_time base))"
  unfolding own_time [OF assms] using length_filter_le [of "\<lambda>c. \<not> reports c" cs] by (simp add: algebra_simps)

end

text \<open>Concrete parameters: a write costs 100 microseconds, counted in picoseconds.\<close>

definition rocks_writes :: "u64 \<Rightarrow> weight" where
  "rocks_writes n = \<lparr>ref_time = 10 ^ 8 * n, proof_size = 0\<rparr>"

definition normal_info :: "u64 \<Rightarrow> dispatch_info" where
  "normal_info n = \<lparr>di_weight = \<lparr>ref_time = n, proof_size = 0\<rparr>, di_class = Normal\<rparr>"

interpretation rocks: call_weights table_builder "\<lambda>b. b" rocks_writes normal_info
  by unfold_locales (simp_all add: rocks_writes_def normal_info_def)

section \<open>Property\<close>

text \<open>
  C37. Any list of calls of the two pallets is of the normal class and takes of a block exactly the base weight of each
  extrinsic and 100010000 picoseconds for each call that is not a report: reports of responses and of a cluster's
  status are declared to weigh nothing, so that only the base weight limits their number. No sum wraps around: when the
  calls number at most the normal share of the block divided by 100010000 and the base weight, they fit into that share.
\<close>
theorem call_weights_fit:
  fixes other :: "'oc \<Rightarrow> dispatch_info" and cs :: "('p, 'sig, 'oc) runtime_call list"
  assumes "call_weights h view writes weigh" and "RuntimeBlockWeights h = Some bw" and "list_all own_call cs"
  defines "infos \<equiv> map (get_dispatch_info writes weigh other) cs"
    and "base \<equiv> base_extrinsic (per_class bw Normal)"
  shows "list_all (\<lambda>i. di_class i = Normal) infos \<and>
    block_time base infos = length cs * unat (ref_time base) + 100010000 * length (filter (\<lambda>c. \<not> reports c) cs) \<and>
    (length cs * (100010000 + unat (ref_time base)) \<le> 15 * 10 ^ 11 \<longrightarrow>
      (\<exists>n. max_total (per_class bw Normal) = Some n \<and> block_time base infos \<le> unat (ref_time n)))"
proof -
  have wb: "weights_builder h view" using assms(1) by (rule call_weights.axioms(1))
  have normal: "list_all (\<lambda>i. di_class i = Normal) infos" unfolding infos_def using assms(3)
    by (induction cs) (simp_all add: call_weights.own_info [OF assms(1)])
  have bound: "block_time base infos \<le> length cs * (100010000 + unat (ref_time base))"
    unfolding infos_def by (rule call_weights.own_time_bound [OF assms(1,3)])
  obtain n where "max_total (per_class bw Normal) = Some n" and "unat (ref_time n) = 15 * 10 ^ 11"
    using weights_builder.partition [OF wb assms(2)] by blast
  then show ?thesis
    using normal bound call_weights.own_time [OF assms(1,3), of base other] by (auto simp: infos_def)
qed

text \<open>With the concrete parameters, seven thousand tasks fit into a block, and a report takes the base weight.\<close>

definition table_weights :: block_weights where
  "table_weights = \<lparr>max_block = largest (weights_plan table_builder), per_class = weights_plan table_builder\<rparr>"

lemma table_weights: "RuntimeBlockWeights table_builder = Some table_weights"
  by (simp add: RuntimeBlockWeights_def table_weights_def table_builder_def)

theorem call_weights_fit_witness:
  "(\<exists>n. max_total (per_class table_weights Normal) = Some n \<and>
     block_time (base_extrinsic (per_class table_weights Normal))
       (map (get_dispatch_info rocks_writes normal_info normal_info)
         (replicate 7000 (WorkerRegistration (TaskScheduler (str ''job''))) :: (nat, unit, u64) runtime_call list))
     \<le> unat (ref_time n)) \<and>
   block_time (base_extrinsic (per_class table_weights Normal))
     (map (get_dispatch_info rocks_writes normal_info normal_info)
       [WorkerRegistration (VerifyConnection 0 True), EdgeConnect (CreateConnection 5) :: (nat, unit, u64) runtime_call])
   = 300010000"
proof -
  let ?base = "base_extrinsic (per_class table_weights Normal)"
  have b: "unat (ref_time ?base) = 10 ^ 8"
    by (simp add: table_weights_def table.plan_view) (simp add: table_builder_def)
  have s: "list_all own_call (replicate 7000 (WorkerRegistration (TaskScheduler (str ''job'')))
      :: (nat, unit, u64) runtime_call list)" by (simp only: list_all_iff set_replicate_conv_if) simp
  have r: "list_all own_call [WorkerRegistration (VerifyConnection 0 True),
      EdgeConnect (CreateConnection 5) :: (nat, unit, u64) runtime_call]" by simp
  show ?thesis
    using call_weights_fit [OF rocks.call_weights_axioms table_weights s, where other = normal_info]
      call_weights_fit [OF rocks.call_weights_axioms table_weights r, where other = normal_info] b
    by (simp only: length_replicate) auto
qed

end
