(* ===== verification/Runtime_Blocks.thy ===== *)
theory Runtime_Blocks
  imports Cyborg_Runtime
begin

text \<open>
  Extrinsics and blocks of the composed runtime of \<^verbatim>\<open>runtime/src/lib.rs\<close>. The source fixes the checks of a signed
  extrinsic and their order (\<open>SignedExtra\<close>) and, by \<open>construct_runtime!\<close>, how an unsigned one is validated. The checks
  themselves and the executive that applies extrinsics are Substrate's: parameters, with what the executive promises as
  the locale \<open>executive\<close>. Origins are those of the runtime, so a block is given by its number. Shown: blocks refine runs
  of calls to each pallet, and every entry in storage is the doing of an extrinsic with the right author.
\<close>

section \<open>Signed extrinsics\<close>

type_synonym ('a, 'era, 'c, 'x, 'err) extension = "'a \<Rightarrow> 'era signed_extra \<Rightarrow> 'c \<Rightarrow> 'x \<Rightarrow> 'err + 'x"

text \<open>
  The check of each extension before the dispatch, on the state of Substrate's pallets: an error, or the state
  with what the extension does (a nonce used up, a fee withdrawn).
\<close>

record ('a, 'era, 'c, 'x, 'err) extension_host =
  CheckNonZeroSender :: "('a, 'era, 'c, 'x, 'err) extension"
  CheckSpecVersion :: "('a, 'era, 'c, 'x, 'err) extension"
  CheckTxVersion :: "('a, 'era, 'c, 'x, 'err) extension"
  CheckGenesis :: "('a, 'era, 'c, 'x, 'err) extension"
  CheckEra :: "('a, 'era, 'c, 'x, 'err) extension"
  CheckNonce :: "('a, 'era, 'c, 'x, 'err) extension"
  CheckWeight :: "('a, 'era, 'c, 'x, 'err) extension"
  ChargeTransactionPayment :: "('a, 'era, 'c, 'x, 'err) extension"

definition SignedExtra ::
  "('a, 'era, 'c, 'x, 'err) extension_host \<Rightarrow> ('a, 'era, 'c, 'x, 'err) extension list" where
  "SignedExtra eh =
     [CheckNonZeroSender eh, CheckSpecVersion eh, CheckTxVersion eh, CheckGenesis eh, CheckEra eh, CheckNonce eh,
      CheckWeight eh, ChargeTransactionPayment eh]"

text \<open>A tuple of extensions is checked from left to right up to the first error.\<close>

fun pre_dispatch ::
  "('a, 'era, 'c, 'x, 'err) extension list \<Rightarrow> 'a \<Rightarrow> 'era signed_extra \<Rightarrow> 'c \<Rightarrow> 'x \<Rightarrow> 'err + 'x" where
  "pre_dispatch [] who extra c x = Inr x"
| "pre_dispatch (e # es) who extra c x =
     (case e who extra c x of Inl err \<Rightarrow> Inl err | Inr x' \<Rightarrow> pre_dispatch es who extra c x')"

section \<open>Unsigned extrinsics\<close>

text \<open>
  For the transaction pool, a call to a pallet without validator of unsigned transactions is refused. In a block, such a
  call is let through, as inherent extrinsics are such calls; what it can do is then up to its origin checks. Edge-connect
  has a validator, which decides in both cases; worker-registration has none; for Substrate's pallets both
  decisions are parameters.
\<close>

datatype runtime_validity = EdgeValidity transaction_validity | NoUnsignedValidator | OtherValidity bool

fun runtime_validate_unsigned ::
  "('p response_payload \<Rightarrow> 'sig \<Rightarrow> bool) \<Rightarrow> ('oc \<Rightarrow> bool) \<Rightarrow> ('p, 'sig, 'oc) runtime_call \<Rightarrow> runtime_validity" where
  "runtime_validate_unsigned verify other (EdgeConnect c) = EdgeValidity (validate_unsigned verify c)"
| "runtime_validate_unsigned verify other (WorkerRegistration c) = NoUnsignedValidator"
| "runtime_validate_unsigned verify other (OtherPallet c) = OtherValidity (other c)"

fun accepted :: "runtime_validity \<Rightarrow> bool" where
  "accepted (EdgeValidity (Valid t)) = True"
| "accepted (EdgeValidity v) = False"
| "accepted NoUnsignedValidator = False"
| "accepted (OtherValidity b) = b"

fun runtime_pre_dispatch ::
  "('p response_payload \<Rightarrow> 'sig \<Rightarrow> bool) \<Rightarrow> ('oc \<Rightarrow> bool) \<Rightarrow> ('p, 'sig, 'oc) runtime_call \<Rightarrow> bool" where
  "runtime_pre_dispatch verify other (EdgeConnect c) \<longleftrightarrow> accepted (EdgeValidity (validate_unsigned verify c))"
| "runtime_pre_dispatch verify other (WorkerRegistration c) \<longleftrightarrow> True"
| "runtime_pre_dispatch verify other (OtherPallet c) \<longleftrightarrow> other c"

section \<open>Extrinsics, blocks and the executive\<close>

text \<open>
  A signed extrinsic carries its signer, the extensions' data and the call. An extrinsic of the sudo pallet also carries
  the call it dispatches in the end, and the account it dispatches it as, \<open>None\<close> for root. (Contracts cannot call
  into the runtime: their call filter admits nothing.) Root calls of the system pallet that write or kill raw storage or
  set the code can change everything; they are not among the calls \<open>'oc\<close> considered in blocks.
\<close>

datatype ('a, 'era, 'p, 'sig, 'oc) extrinsic =
    SignedXt 'a "'era signed_extra" "('p, 'sig, 'oc) runtime_call"
  | SudoXt 'a "'era signed_extra" 'oc "'a option" "('p, 'sig, 'oc) runtime_call"
  | UnsignedXt "('p, 'sig, 'oc) runtime_call"

text \<open>The call that is dispatched and the account on whose authority.\<close>

fun xt_call :: "('a, 'era, 'p, 'sig, 'oc) extrinsic \<Rightarrow> ('p, 'sig, 'oc) runtime_call" where
  "xt_call (SignedXt who extra c) = c"
| "xt_call (SudoXt who extra oc target c) = c"
| "xt_call (UnsignedXt c) = c"

fun xt_actor :: "('a, 'era, 'p, 'sig, 'oc) extrinsic \<Rightarrow> 'a option" where
  "xt_actor (SignedXt who extra c) = Some who"
| "xt_actor (SudoXt who extra oc target c) = target"
| "xt_actor (UnsignedXt c) = None"

fun as_origin :: "'a option \<Rightarrow> 'a raw_origin" where
  "as_origin (Some a) = Signed a"
| "as_origin None = Root"

text \<open>Initialization and finalization of block \<open>n\<close> only run hooks of Substrate's pallets: the two pallets have none.\<close>

record ('a, 'era, 'p, 'sig, 'oc, 'x) executive_host =
  ex_initialize :: "u32 \<Rightarrow> 'x \<Rightarrow> 'x"
  ex_apply :: "u32 \<Rightarrow> ('a, 'era, 'p, 'sig, 'oc) extrinsic \<Rightarrow> ('a, 'x) runtime_state \<Rightarrow> ('a, 'x) runtime_state"
  ex_finalize :: "u32 \<Rightarrow> 'x \<Rightarrow> 'x"

type_synonym ('a, 'era, 'p, 'sig, 'oc) block = "u32 \<times> ('a, 'era, 'p, 'sig, 'oc) extrinsic list"

definition execute_block ::
  "('a, 'era, 'p, 'sig, 'oc, 'x) executive_host \<Rightarrow> ('a, 'era, 'p, 'sig, 'oc) block
    \<Rightarrow> ('a, 'x) runtime_state \<Rightarrow> ('a, 'x) runtime_state" where
  "execute_block ex b s =
     (case b of (n, xts) \<Rightarrow>
        (let s1 = s\<lparr>rt_other := ex_initialize ex n (rt_other s)\<rparr>;
             s2 = fold (ex_apply ex n) xts s1 in
         s2\<lparr>rt_other := ex_finalize ex n (rt_other s2)\<rparr>))"

definition execute_blocks ::
  "('a, 'era, 'p, 'sig, 'oc, 'x) executive_host \<Rightarrow> ('a, 'era, 'p, 'sig, 'oc) block list
    \<Rightarrow> ('a, 'x) runtime_state \<Rightarrow> ('a, 'x) runtime_state" where
  "execute_blocks ex bs = fold (execute_block ex) bs"

text \<open>The storage after dispatching a call, with the state of Substrate's pallets as it is in the end.\<close>

definition dispatched ::
  "('a raw_origin, 'a, 'oc, 'x, 'oe) runtime_host \<Rightarrow> u32 \<Rightarrow> 'a raw_origin \<Rightarrow> ('p, 'sig, 'oc) runtime_call \<Rightarrow> 'x
    \<Rightarrow> ('a, 'x) runtime_state \<Rightarrow> ('a, 'x) runtime_state" where
  "dispatched h n orig c x s = (committed s (runtime_exec h (raw_system n, orig, c) s))\<lparr>rt_other := x\<rparr>"

text \<open>
  The promises of the executive. A signed extrinsic whose extensions refuse it leaves no trace; otherwise its call is
  dispatched with the signer's origin on the state the extensions left, a failed dispatch is rolled back, and
  the extensions may adjust their own state afterwards. An extrinsic of the sudo pallet is the same, with the
  inner call dispatched under the given account or root if the signer holds the sudo key, and not at all
  otherwise. An unsigned extrinsic is dispatched without origin if its validator lets it through.
\<close>

locale executive =
  fixes h :: "('a raw_origin, 'a, 'oc, 'x, 'oe) runtime_host"
    and eh :: "('a, 'era, ('p, 'sig, 'oc) runtime_call, 'x, 'err) extension_host"
    and verify :: "'p response_payload \<Rightarrow> 'sig \<Rightarrow> bool" and other :: "'oc \<Rightarrow> bool"
    and ex :: "('a, 'era, 'p, 'sig, 'oc, 'x) executive_host"
  assumes signed_refused:
      "pre_dispatch (SignedExtra eh) who extra c (rt_other s) = Inl err \<Longrightarrow> ex_apply ex n (SignedXt who extra c) s = s"
    and signed_applied:
      "pre_dispatch (SignedExtra eh) who extra c (rt_other s) = Inr x \<Longrightarrow>
        \<exists>y. ex_apply ex n (SignedXt who extra c) s = dispatched h n (Signed who) c y (s\<lparr>rt_other := x\<rparr>)"
    and sudo_refused:
      "pre_dispatch (SignedExtra eh) who extra (OtherPallet oc) (rt_other s) = Inl err \<Longrightarrow>
        ex_apply ex n (SudoXt who extra oc target c) s = s"
    and sudo_applied:
      "pre_dispatch (SignedExtra eh) who extra (OtherPallet oc) (rt_other s) = Inr x \<Longrightarrow>
        \<exists>y. ex_apply ex n (SudoXt who extra oc target c) s \<in>
          {s\<lparr>rt_other := y\<rparr>, dispatched h n (as_origin target) c y (s\<lparr>rt_other := x\<rparr>)}"
    and unsigned_refused:
      "\<not> runtime_pre_dispatch verify other c \<Longrightarrow> ex_apply ex n (UnsignedXt c) s = s"
    and unsigned_applied:
      "runtime_pre_dispatch verify other c \<Longrightarrow>
        \<exists>y. ex_apply ex n (UnsignedXt c) s \<in> {s, dispatched h n None_origin c y s}"

text \<open>
  An extrinsic without an account behind its dispatch: unsigned, or a root call of the sudo pallet to one of the two pallets.
  What the executive promises for these alone is the locale \<open>accountless_executive\<close>, which leaves open what
  signed extrinsics and root calls to other pallets do.
\<close>

fun accountless :: "('a, 'era, 'p, 'sig, 'oc) extrinsic \<Rightarrow> bool" where
  "accountless (UnsignedXt c) \<longleftrightarrow> True"
| "accountless (SudoXt who extra oc None (EdgeConnect c)) \<longleftrightarrow> True"
| "accountless (SudoXt who extra oc None (WorkerRegistration c)) \<longleftrightarrow> True"
| "accountless xt \<longleftrightarrow> False"

locale accountless_executive =
  fixes h :: "('a raw_origin, 'a, 'oc, 'x, 'oe) runtime_host"
    and verify :: "'p response_payload \<Rightarrow> 'sig \<Rightarrow> bool" and other :: "'oc \<Rightarrow> bool"
    and ex :: "('a, 'era, 'p, 'sig, 'oc, 'x) executive_host"
  assumes unsigned_kept_out:
      "\<not> runtime_pre_dispatch verify other c \<Longrightarrow> ex_apply ex n (UnsignedXt c) s = s"
    and unsigned_dispatched:
      "runtime_pre_dispatch verify other c \<Longrightarrow>
        \<exists>y. ex_apply ex n (UnsignedXt c) s \<in> {s, dispatched h n None_origin c y s}"
    and root_dispatched:
      "accountless (SudoXt who extra oc None c) \<Longrightarrow>
        \<exists>x y. ex_apply ex n (SudoXt who extra oc None c) s \<in>
          {s, s\<lparr>rt_other := y\<rparr>, dispatched h n Root c y (s\<lparr>rt_other := x\<rparr>)}"

sublocale executive \<subseteq> accountless_executive h verify other ex
proof
  fix who extra oc c n s
  show "\<exists>x y. ex_apply ex n (SudoXt who extra oc None c) s \<in>
      {s, s\<lparr>rt_other := y\<rparr>, dispatched h n Root c y (s\<lparr>rt_other := x\<rparr>)}"
  proof (cases "pre_dispatch (SignedExtra eh) who extra (OtherPallet oc) (rt_other s)")
    case (Inl err)
    then show ?thesis using sudo_refused by blast
  next
    case (Inr x)
    from sudo_applied [OF this, of n None c] show ?thesis by auto
  qed
qed (use unsigned_refused unsigned_applied in blast)+

section \<open>What one extrinsic does to the pallets\<close>

fun origin_of :: "('a, 'era, 'p, 'sig, 'oc) extrinsic \<Rightarrow> 'a raw_origin" where
  "origin_of (SignedXt who extra c) = Signed who"
| "origin_of (SudoXt who extra oc target c) = as_origin target"
| "origin_of (UnsignedXt c) = None_origin"

lemma origin_of_signed [simp]: "ensure_signed (raw_system n) (origin_of xt) = xt_actor xt"
  by (cases xt; cases "xt_actor xt") (auto simp: raw_system_def)

text \<open>An unsigned call that gets through to edge-connect.\<close>

fun let_through :: "('p response_payload \<Rightarrow> 'sig \<Rightarrow> bool) \<Rightarrow> ('a, 'era, 'p, 'sig, 'oc) extrinsic \<Rightarrow> bool" where
  "let_through verify (UnsignedXt (EdgeConnect c)) \<longleftrightarrow> accepted (EdgeValidity (validate_unsigned verify c))"
| "let_through verify xt \<longleftrightarrow> True"

lemma dispatched_parts:
  "rt_edge (dispatched h n orig c y s) = rt_edge (committed s (runtime_exec h (raw_system n, orig, c) s))"
  "rt_workers (dispatched h n orig c y s) = rt_workers (committed s (runtime_exec h (raw_system n, orig, c) s))"
  by (simp_all add: dispatched_def)

lemma committed_put:
  "committed s (put_outcome (\<lambda>e. s\<lparr>rt_edge := e\<rparr>) f r) = s\<lparr>rt_edge := committed (rt_edge s) r\<rparr>"
  "committed s (put_outcome (\<lambda>w. s\<lparr>rt_workers := w\<rparr>) g q) = s\<lparr>rt_workers := committed (rt_workers s) q\<rparr>"
  "rt_edge (committed s (put_outcome (\<lambda>x. s\<lparr>rt_other := x\<rparr>) i p)) = rt_edge s"
  "rt_workers (committed s (put_outcome (\<lambda>x. s\<lparr>rt_other := x\<rparr>) i p)) = rt_workers s"
  by (cases r; cases q; cases p; simp)+

text \<open>
  The pallets after a dispatch: each one's storage is what its own dispatch function made of it, or unchanged.
\<close>

fun edge_after ::
  "('a raw_origin, 'a, 'oc, 'x, 'oe) runtime_host \<Rightarrow> u32 \<Rightarrow> 'a raw_origin \<Rightarrow> ('p, 'sig, 'oc) runtime_call
    \<Rightarrow> 'a edge_storage \<Rightarrow> 'a edge_storage" where
  "edge_after h n orig (EdgeConnect c) e =
     committed e (edge_exec runtime_edge_config (rt_bounded h) (raw_system n, orig, c) e)"
| "edge_after h n orig c e = e"

fun workers_after ::
  "('a raw_origin, 'a, 'oc, 'x, 'oe) runtime_host \<Rightarrow> u32 \<Rightarrow> 'a raw_origin \<Rightarrow> ('p, 'sig, 'oc) runtime_call
    \<Rightarrow> 'a wr_storage \<Rightarrow> 'a wr_storage" where
  "workers_after h n orig (WorkerRegistration c) w =
     committed w (wr_exec (rt_wr_host h) (raw_system n, orig, c) w)"
| "workers_after h n orig c w = w"

lemma dispatched_after:
  "rt_edge (dispatched h n orig c y s) = edge_after h n orig c (rt_edge s)"
  "rt_workers (dispatched h n orig c y s) = workers_after h n orig c (rt_workers s)"
  by (cases c; simp add: dispatched_parts committed_put del: edge_exec.simps wr_exec.simps)+

text \<open>An extrinsic that either leaves the pallets alone or is one dispatch to them.\<close>

definition one_dispatch ::
  "('a raw_origin, 'a, 'oc, 'x, 'oe) runtime_host \<Rightarrow> ('p response_payload \<Rightarrow> 'sig \<Rightarrow> bool)
    \<Rightarrow> ('a, 'era, 'p, 'sig, 'oc, 'x) executive_host \<Rightarrow> ('a, 'era, 'p, 'sig, 'oc) extrinsic \<Rightarrow> bool" where
  "one_dispatch h verify ex xt \<longleftrightarrow> (\<forall>n s.
     rt_edge (ex_apply ex n xt s) = rt_edge s \<and> rt_workers (ex_apply ex n xt s) = rt_workers s \<or>
     let_through verify xt \<and> rt_edge (ex_apply ex n xt s) = edge_after h n (origin_of xt) (xt_call xt) (rt_edge s) \<and>
     rt_workers (ex_apply ex n xt s) = workers_after h n (origin_of xt) (xt_call xt) (rt_workers s))"

lemma one_dispatchI:
  assumes "\<And>n s. \<exists>x y. ex_apply ex n xt s \<in> {s, s\<lparr>rt_other := y\<rparr>} \<or>
      let_through verify xt \<and> ex_apply ex n xt s = dispatched h n (origin_of xt) (xt_call xt) y (s\<lparr>rt_other := x\<rparr>)"
  shows "one_dispatch h verify ex xt"
  unfolding one_dispatch_def
proof (intro allI)
  fix n s
  obtain x y where "ex_apply ex n xt s \<in> {s, s\<lparr>rt_other := y\<rparr>} \<or>
      let_through verify xt \<and> ex_apply ex n xt s = dispatched h n (origin_of xt) (xt_call xt) y (s\<lparr>rt_other := x\<rparr>)"
    using assms by blast
  then show "rt_edge (ex_apply ex n xt s) = rt_edge s \<and> rt_workers (ex_apply ex n xt s) = rt_workers s \<or>
     let_through verify xt \<and> rt_edge (ex_apply ex n xt s) = edge_after h n (origin_of xt) (xt_call xt) (rt_edge s) \<and>
     rt_workers (ex_apply ex n xt s) = workers_after h n (origin_of xt) (xt_call xt) (rt_workers s)"
    by (auto simp: dispatched_after)
qed

context accountless_executive
begin

lemma unsigned_parts: "one_dispatch h verify ex (UnsignedXt c)"
proof (rule one_dispatchI)
  fix n s
  let ?t = "ex_apply ex n (UnsignedXt c) s"
  show "\<exists>x y. ?t \<in> {s, s\<lparr>rt_other := y\<rparr>} \<or> let_through verify (UnsignedXt c :: ('a, 'era, 'p, 'sig, 'oc) extrinsic) \<and>
      ?t = dispatched h n (origin_of (UnsignedXt c)) (xt_call (UnsignedXt c)) y (s\<lparr>rt_other := x\<rparr>)"
  proof (cases "runtime_pre_dispatch verify other c")
    case False
    then show ?thesis by (simp add: unsigned_kept_out)
  next
    case True
    then have "let_through verify (UnsignedXt c :: ('a, 'era, 'p, 'sig, 'oc) extrinsic)" by (cases c) simp_all
    moreover obtain y where "?t \<in> {s, dispatched h n None_origin c y s}"
      using unsigned_dispatched [OF True, of n s] by blast
    ultimately show ?thesis by (intro exI [of _ "rt_other s"] exI [of _ y]) auto
  qed
qed

lemma root_parts:
  assumes "accountless (SudoXt who extra oc None c)"
  shows "one_dispatch h verify ex (SudoXt who extra oc None c)"
proof (rule one_dispatchI)
  fix n s
  obtain x y where "ex_apply ex n (SudoXt who extra oc None c) s \<in>
      {s, s\<lparr>rt_other := y\<rparr>, dispatched h n Root c y (s\<lparr>rt_other := x\<rparr>)}"
    using root_dispatched [OF assms] by blast
  then show "\<exists>x y. ex_apply ex n (SudoXt who extra oc None c) s \<in> {s, s\<lparr>rt_other := y\<rparr>} \<or>
      let_through verify (SudoXt who extra oc None c) \<and> ex_apply ex n (SudoXt who extra oc None c) s =
        dispatched h n (origin_of (SudoXt who extra oc None c)) (xt_call (SudoXt who extra oc None c)) y (s\<lparr>rt_other := x\<rparr>)"
    by auto
qed

lemma accountless_parts: "accountless xt \<Longrightarrow> one_dispatch h verify ex xt"
  by (cases xt rule: accountless.cases) (simp_all add: unsigned_parts root_parts)

end

context executive
begin

lemma signed_parts: "one_dispatch h verify ex (SignedXt who extra c)"
proof (rule one_dispatchI)
  fix n s
  show "\<exists>x y. ex_apply ex n (SignedXt who extra c) s \<in> {s, s\<lparr>rt_other := y\<rparr>} \<or>
      let_through verify (SignedXt who extra c) \<and> ex_apply ex n (SignedXt who extra c) s =
        dispatched h n (origin_of (SignedXt who extra c)) (xt_call (SignedXt who extra c)) y (s\<lparr>rt_other := x\<rparr>)"
  proof (cases "pre_dispatch (SignedExtra eh) who extra c (rt_other s)")
    case (Inl err)
    then show ?thesis by (simp add: signed_refused)
  next
    case (Inr x)
    from signed_applied [OF this, of n] show ?thesis by auto
  qed
qed

lemma sudo_parts: "one_dispatch h verify ex (SudoXt who extra oc target c)"
proof (rule one_dispatchI)
  fix n s
  show "\<exists>x y. ex_apply ex n (SudoXt who extra oc target c) s \<in> {s, s\<lparr>rt_other := y\<rparr>} \<or>
      let_through verify (SudoXt who extra oc target c) \<and> ex_apply ex n (SudoXt who extra oc target c) s =
        dispatched h n (origin_of (SudoXt who extra oc target c)) (xt_call (SudoXt who extra oc target c)) y
          (s\<lparr>rt_other := x\<rparr>)"
  proof (cases "pre_dispatch (SignedExtra eh) who extra (OtherPallet oc) (rt_other s)")
    case (Inl err)
    then show ?thesis by (simp add: sudo_refused)
  next
    case (Inr x)
    from sudo_applied [OF this, of n target c] show ?thesis by auto
  qed
qed

lemma promises_accountless: "accountless_executive h verify other ex"
  by unfold_locales

lemma apply_parts: "one_dispatch h verify ex xt"
  by (cases xt) (simp_all add: signed_parts sudo_parts unsigned_parts)

end

section \<open>Traces of the pallets\<close>

text \<open>
  What happened to the two pallets, as a list of attempted actions (block, actor, call), each of which took effect or
  not. The rule \<open>trace_act\<close> is one dispatch: its origin is signed by the actor exactly if there is one, and a call
  to edge-connect without any origin has passed the validator.
\<close>

type_synonym ('a, 'p, 'sig, 'oc) action = "u32 \<times> 'a option \<times> ('p, 'sig, 'oc) runtime_call"

inductive pallet_trace ::
  "('a raw_origin, 'a, 'oc, 'x, 'oe) runtime_host \<Rightarrow> ('p response_payload \<Rightarrow> 'sig \<Rightarrow> bool) \<Rightarrow> 'a edge_storage \<Rightarrow> 'a wr_storage
    \<Rightarrow> ('a, 'p, 'sig, 'oc) action list \<Rightarrow> 'a edge_storage \<Rightarrow> 'a wr_storage \<Rightarrow> bool" for h verify e0 w0 where
  trace_start: "pallet_trace h verify e0 w0 [] e0 w0"
| trace_skip: "pallet_trace h verify e0 w0 as e w \<Longrightarrow> pallet_trace h verify e0 w0 (as @ [a]) e w"
| trace_act: "pallet_trace h verify e0 w0 as e w \<Longrightarrow> ensure_signed (raw_system n) orig = who \<Longrightarrow>
    (\<And>ec. orig = None_origin \<Longrightarrow> c = EdgeConnect ec \<Longrightarrow> accepted (EdgeValidity (validate_unsigned verify ec))) \<Longrightarrow>
    pallet_trace h verify e0 w0 (as @ [(n, who, c)]) (edge_after h n orig c e) (workers_after h n orig c w)"

definition actions :: "('a, 'era, 'p, 'sig, 'oc) block list \<Rightarrow> ('a, 'p, 'sig, 'oc) action list" where
  "actions bs = concat (map (\<lambda>(n, xts). map (\<lambda>xt. (n, xt_actor xt, xt_call xt)) xts) bs)"

lemma let_through_unsigned:
  "let_through verify xt \<Longrightarrow> origin_of xt = None_origin \<Longrightarrow> xt_call xt = EdgeConnect ec \<Longrightarrow>
   accepted (EdgeValidity (validate_unsigned verify ec))"
  by (cases xt; cases "xt_actor xt") auto

lemma apply_trace:
  assumes "one_dispatch h verify ex xt" and "pallet_trace h verify e0 w0 as (rt_edge s) (rt_workers s)"
  shows "pallet_trace h verify e0 w0 (as @ [(n, xt_actor xt, xt_call xt)]) (rt_edge (ex_apply ex n xt s))
    (rt_workers (ex_apply ex n xt s))"
  using assms(1) [unfolded one_dispatch_def, rule_format, of n s]
proof
  assume "rt_edge (ex_apply ex n xt s) = rt_edge s \<and> rt_workers (ex_apply ex n xt s) = rt_workers s"
  with trace_skip [OF assms(2)] show ?thesis by simp
next
  assume a: "let_through verify xt \<and> rt_edge (ex_apply ex n xt s) = edge_after h n (origin_of xt) (xt_call xt) (rt_edge s) \<and>
    rt_workers (ex_apply ex n xt s) = workers_after h n (origin_of xt) (xt_call xt) (rt_workers s)"
  have "pallet_trace h verify e0 w0 (as @ [(n, xt_actor xt, xt_call xt)])
      (edge_after h n (origin_of xt) (xt_call xt) (rt_edge s)) (workers_after h n (origin_of xt) (xt_call xt) (rt_workers s))"
    by (rule trace_act [OF assms(2) origin_of_signed]) (use a let_through_unsigned in blast)
  with a show ?thesis by simp
qed

lemma block_trace:
  assumes "\<And>xt. xt \<in> set (snd b) \<Longrightarrow> one_dispatch h verify ex xt"
    and "pallet_trace h verify e0 w0 as (rt_edge s) (rt_workers s)"
  shows "pallet_trace h verify e0 w0 (as @ actions [b]) (rt_edge (execute_block ex b s)) (rt_workers (execute_block ex b s))"
proof -
  obtain n xts where b: "b = (n, xts)" by (cases b)
  have xts: "\<And>xt. xt \<in> set xts \<Longrightarrow> one_dispatch h verify ex xt" using assms(1) by (simp add: b)
  have "pallet_trace h verify e0 w0 (as @ map (\<lambda>xt. (n, xt_actor xt, xt_call xt)) xts) (rt_edge (fold (ex_apply ex n) xts u))
      (rt_workers (fold (ex_apply ex n) xts u))"
    if "pallet_trace h verify e0 w0 as (rt_edge u) (rt_workers u)" for u as
    using xts that
  proof (induction xts arbitrary: u as)
    case (Cons xt xts)
    have "pallet_trace h verify e0 w0 (as @ [(n, xt_actor xt, xt_call xt)]) (rt_edge (ex_apply ex n xt u))
        (rt_workers (ex_apply ex n xt u))"
      by (rule apply_trace) (use Cons.prems in simp_all)
    from Cons.IH [OF _ this] Cons.prems(1) show ?case by simp
  qed simp
  from this [of as "s\<lparr>rt_other := ex_initialize ex n (rt_other s)\<rparr>"] assms(2) show ?thesis
    by (simp add: b execute_block_def actions_def Let_def)
qed

lemma blocks_trace_from:
  "(\<And>b xt. b \<in> set bs \<Longrightarrow> xt \<in> set (snd b) \<Longrightarrow> one_dispatch h verify ex xt) \<Longrightarrow>
   pallet_trace h verify e0 w0 as (rt_edge s) (rt_workers s) \<Longrightarrow>
   pallet_trace h verify e0 w0 (as @ actions bs) (rt_edge (execute_blocks ex bs s)) (rt_workers (execute_blocks ex bs s))"
proof (induction bs arbitrary: as s)
  case Nil
  then show ?case by (simp add: execute_blocks_def actions_def)
next
  case (Cons b bs)
  have "pallet_trace h verify e0 w0 (as @ actions [b]) (rt_edge (execute_block ex b s)) (rt_workers (execute_block ex b s))"
    by (rule block_trace [OF Cons.prems(1) Cons.prems(2)]) simp_all
  then have "pallet_trace h verify e0 w0 ((as @ actions [b]) @ actions bs) (rt_edge (execute_blocks ex bs (execute_block ex b s)))
      (rt_workers (execute_blocks ex bs (execute_block ex b s)))"
    by (rule Cons.IH [rotated]) (rule Cons.prems(1), simp_all)
  then show ?case by (simp add: execute_blocks_def actions_def)
qed

context accountless_executive
begin

lemma accountless_trace:
  "(\<And>b xt. b \<in> set bs \<Longrightarrow> xt \<in> set (snd b) \<Longrightarrow> accountless xt) \<Longrightarrow>
   pallet_trace h verify (rt_edge s) (rt_workers s) (actions bs) (rt_edge (execute_blocks ex bs s))
     (rt_workers (execute_blocks ex bs s))"
  using blocks_trace_from [where as = "[]" and bs = bs, OF accountless_parts trace_start, of s] by simp

end

context executive
begin

lemma blocks_trace:
  "pallet_trace h verify (rt_edge s) (rt_workers s) (actions bs) (rt_edge (execute_blocks ex bs s))
     (rt_workers (execute_blocks ex bs s))"
  using blocks_trace_from [where as = "[]" and bs = bs, OF apply_parts trace_start, of s] by simp

end

section \<open>Traces are runs of the pallets\<close>

lemma runs_committed:
  "runs exec k s t \<Longrightarrow> k \<le> m \<Longrightarrow> \<exists>k' \<le> Suc m. runs exec k' s (committed t (exec c t))"
  by (cases "exec c t") (auto intro: runs_ok le_SucI)

lemma trace_runs_edge:
  "pallet_trace h (verify :: 'p response_payload \<Rightarrow> 'sig \<Rightarrow> bool) e0 w0 as e w \<Longrightarrow> \<exists>k \<le> length as.
     runs (edge_exec runtime_edge_config (rt_bounded h) :: ('a raw_origin, 'a, 'p, 'sig) edge_label \<Rightarrow> _) k e0 e"
proof (induction rule: pallet_trace.induct)
  case trace_start
  then show ?case by (auto intro: runs_refl)
next
  case (trace_skip as e w a)
  then show ?case by (auto intro: le_SucI)
next
  case (trace_act as e w n orig who c)
  then obtain k where k: "k \<le> length as"
    "runs (edge_exec runtime_edge_config (rt_bounded h) :: ('a raw_origin, 'a, 'p, 'sig) edge_label \<Rightarrow> _) k e0 e"
    by blast
  show ?case
  proof (cases c)
    case (EdgeConnect ec)
    from runs_committed [OF k(2,1), of "(raw_system n, orig, ec)"] show ?thesis
      by (simp add: EdgeConnect del: edge_exec.simps)
  qed (use k in \<open>auto intro: le_SucI\<close>)
qed

lemma trace_runs_workers:
  "pallet_trace h verify e0 w0 as e w \<Longrightarrow> \<exists>k \<le> length as.
     runs (wr_exec (rt_wr_host h) :: ('a raw_origin, 'a) wr_label \<Rightarrow> _) k w0 w"
proof (induction rule: pallet_trace.induct)
  case trace_start
  then show ?case by (auto intro: runs_refl)
next
  case (trace_skip as e w a)
  then show ?case by (auto intro: le_SucI)
next
  case (trace_act as e w n orig who c)
  then obtain k where k: "k \<le> length as"
    "runs (wr_exec (rt_wr_host h) :: ('a raw_origin, 'a) wr_label \<Rightarrow> _) k w0 w"
    by blast
  show ?case
  proof (cases c)
    case (WorkerRegistration wc)
    from runs_committed [OF k(2,1), of "(raw_system n, orig, wc)"] show ?thesis
      by (simp add: WorkerRegistration del: wr_exec.simps)
  qed (use k in \<open>auto intro: le_SucI\<close>)
qed

end
