(* ===== verification/Accountability.thy ===== *)
theory Accountability
  imports Runtime_Blocks
begin

text \<open>
  Who did what. Every entry in the storage of the two pallets after any blocks is traced back to an extrinsic of these
  blocks, with the author, the arguments and the block that the entry records. The entries are justified along the
  traces of theory \<^verbatim>\<open>Runtime_Blocks\<close>, one dispatch at a time.
\<close>

section \<open>Edge-connect\<close>

text \<open>The log entry that an action can add to the commands, and to the responses.\<close>

fun command_of :: "('a, 'p, 'sig, 'oc) action \<Rightarrow> 'a entry option" where
  "command_of (n, Some who, EdgeConnect (SendCommand cmd)) = Some (Some who, cmd)"
| "command_of _ = None"

fun response_of :: "('p response_payload \<Rightarrow> 'sig \<Rightarrow> bool) \<Rightarrow> ('a, 'p, 'sig, 'oc) action \<Rightarrow> 'a entry option" where
  "response_of verify (n, Some who, EdgeConnect (SubmitResponse r)) = Some (Some who, r)"
| "response_of verify (n, None, EdgeConnect (SubmitResponseUnsigned bn r)) = Some (None, r)"
| "response_of verify (n, None, EdgeConnect (SubmitResponseUnsignedWithSignedPayload p sig)) =
     (if verify p sig then Some (None, p_response p) else None)"
| "response_of verify _ = None"

text \<open>A log grows by at most the entry that the action stands for.\<close>

definition grows :: "'e list \<Rightarrow> 'e option \<Rightarrow> 'e list \<Rightarrow> bool" where
  "grows xs y zs \<longleftrightarrow> zs = xs \<or> (\<exists>e. y = Some e \<and> zs = xs @ [e])"

lemma grows_refl [simp]: "grows xs y xs"
  by (simp add: grows_def)

lemma grows_subseq:
  "grows xs (f a) zs \<Longrightarrow> subseq xs (List.map_filter f as) \<Longrightarrow> subseq zs (List.map_filter f (as @ [a]))"
  by (auto simp: grows_def map_filter_def split: option.splits intro: list_emb_append2 list_emb_append_mono)

lemma add_response_grows:
  "bounded_vec bv \<Longrightarrow> add_response cfg bv who r e = Some e' \<Longrightarrow>
   Commands e' = Commands e \<and> grows (Responses e) (Some (who, r)) (Responses e')"
  by (auto simp: edge_pallet.add_response_eq [OF edge_palletI] grows_def split: if_splits)

lemma edge_call_grows:
  assumes bv: "bounded_vec bv"
    and ok: "edge_exec cfg bv (raw_system n, orig, c) e = Ok e'"
    and let_in: "orig = None_origin \<Longrightarrow> accepted (EdgeValidity (validate_unsigned verify c))"
  shows "grows (Commands e) (command_of (n, ensure_signed (raw_system n) orig, EdgeConnect c)) (Commands e') \<and>
    grows (Responses e) (response_of verify (n, ensure_signed (raw_system n) orig, EdgeConnect c)) (Responses e')"
proof (cases orig)
  case Root
  with ok show ?thesis
    by (cases c) (auto simp: pallet_defs split: if_splits)
next
  case (Signed who)
  with ok show ?thesis
    by (cases c) (auto simp: create_connection_def remove_connection_def submit_response_def submit_response_unsigned_def
        submit_response_unsigned_with_signed_payload_def edge_pallet.send_command_eq [OF edge_palletI [OF bv]] grows_def
        dest!: add_response_grows [OF bv] split: if_splits option.splits)
next
  case None_origin
  with ok let_in show ?thesis
    by (cases c) (auto simp: create_connection_def remove_connection_def submit_response_def submit_response_unsigned_def
        submit_response_unsigned_with_signed_payload_def send_command_def grows_def
        dest!: add_response_grows [OF bv] split: if_splits option.splits)
qed

lemma edge_after_grows:
  assumes "bounded_vec (rt_bounded h)"
    and "\<And>ec. orig = None_origin \<Longrightarrow> c = EdgeConnect ec \<Longrightarrow> accepted (EdgeValidity (validate_unsigned verify ec))"
  shows "grows (Commands e) (command_of (n, ensure_signed (raw_system n) orig, c)) (Commands (edge_after h n orig c e)) \<and>
    grows (Responses e) (response_of verify (n, ensure_signed (raw_system n) orig, c)) (Responses (edge_after h n orig c e))"
proof (cases c)
  case (EdgeConnect ec)
  show ?thesis
  proof (cases "edge_exec runtime_edge_config (rt_bounded h) (raw_system n, orig, ec) e")
    case (Ok e')
    from edge_call_grows [OF assms(1) Ok, of verify] assms(2) EdgeConnect Ok show ?thesis
      by (simp del: edge_exec.simps)
  qed (simp_all add: EdgeConnect del: edge_exec.simps)
qed simp_all

section \<open>Worker registration\<close>

text \<open>
  Each cluster was registered by its account with its name, address and port in its start block; a status that is
  set was set by someone; each task was scheduled by its owner with its text in its block.
\<close>

definition workers_justified :: "('a, 'p, 'sig, 'oc) action list \<Rightarrow> 'a wr_storage \<Rightarrow> bool" where
  "workers_justified as st \<longleftrightarrow>
     (\<forall>cid w. WorkerClusters st cid = Some w \<longrightarrow>
        (w_start_block w, Some (w_account w), WorkerRegistration (WorkerRegister (w_name w) (w_ip w) (w_port w))) \<in> set as \<and>
        (w_status w \<longrightarrow> (\<exists>n who. (n, Some who, WorkerRegistration (VerifyConnection cid True)) \<in> set as))) \<and>
     (\<forall>t ti. Tasks st t = Some ti \<longrightarrow>
        (t_create_block ti, Some (t_task_owner ti), WorkerRegistration (TaskScheduler (t_metadata ti))) \<in> set as)"

lemma workers_justified_more: "workers_justified as st \<Longrightarrow> workers_justified (as @ [a]) st"
  unfolding workers_justified_def set_append by blast

lemma register_justified:
  assumes "workers_justified as st" and "worker_register host (raw_system n) orig nm addr prt st = Ok st'"
  shows "workers_justified (as @ [(n, ensure_signed (raw_system n) orig, WorkerRegistration (WorkerRegister nm addr prt))]) st'"
  using assms
  by (auto simp: worker_register_def workers_justified_def insert_cluster_def Let_def split: if_splits option.splits)

lemma scheduler_justified:
  assumes "workers_justified as st" and "task_scheduler host (raw_system n) orig td st = Ok st'"
  shows "workers_justified (as @ [(n, ensure_signed (raw_system n) orig, WorkerRegistration (TaskScheduler td))]) st'"
  using assms
  by (auto simp: task_scheduler_def workers_justified_def insert_task_def Let_def split: if_splits option.splits)

lemma verify_justified:
  assumes "workers_justified as st" and "verify_connection (raw_system n) orig i b st = Ok st'"
  shows "workers_justified (as @ [(n, ensure_signed (raw_system n) orig, WorkerRegistration (VerifyConnection i b))]) st'"
  using assms
  by (auto simp: verify_connection_def workers_justified_def Let_def split: if_splits option.splits; blast)

lemma workers_after_justified:
  assumes "workers_justified as w"
  shows "workers_justified (as @ [(n, ensure_signed (raw_system n) orig, c)]) (workers_after h n orig c w)"
proof (cases c)
  case (WorkerRegistration wc)
  show ?thesis
  proof (cases "wr_exec (rt_wr_host h) (raw_system n, orig, wc) w")
    case (Ok w')
    then have "workers_justified (as @ [(n, ensure_signed (raw_system n) orig, WorkerRegistration wc)]) w'"
      using assms by (cases wc) (auto intro: register_justified scheduler_justified verify_justified)
    with Ok show ?thesis by (simp add: WorkerRegistration del: wr_exec.simps)
  qed (use assms in \<open>simp_all add: WorkerRegistration workers_justified_more del: wr_exec.simps\<close>)
qed (use assms in \<open>simp_all add: workers_justified_more\<close>)

section \<open>Along traces\<close>

lemma trace_justified:
  assumes "pallet_trace h verify edge_genesis wr_genesis as e w" and "bounded_vec (rt_bounded h)"
  shows "subseq (Commands e) (List.map_filter command_of as) \<and>
    subseq (Responses e) (List.map_filter (response_of verify) as) \<and> workers_justified as w"
  using assms(1)
proof (induction rule: pallet_trace.induct)
  case trace_start
  then show ?case by (simp add: workers_justified_def wr_genesis_def)
next
  case (trace_skip as e w a)
  then show ?case
    using grows_subseq [OF grows_refl, of "Commands e" command_of as a]
      grows_subseq [OF grows_refl, of "Responses e" "response_of verify" as a] workers_justified_more [of as w a]
    by (simp only: simp_thms)
next
  case (trace_act as e w n orig who c)
  have "grows (Commands e) (command_of (n, who, c)) (Commands (edge_after h n orig c e)) \<and>
    grows (Responses e) (response_of verify (n, who, c)) (Responses (edge_after h n orig c e))"
    unfolding trace_act.hyps(2) [symmetric] by (rule edge_after_grows [OF assms(2)]) (rule trace_act.hyps(3))
  then have "subseq (Commands (edge_after h n orig c e)) (List.map_filter command_of (as @ [(n, who, c)]))"
    "subseq (Responses (edge_after h n orig c e)) (List.map_filter (response_of verify) (as @ [(n, who, c)]))"
    using trace_act.IH
    by (blast intro: grows_subseq [where f = command_of], blast intro: grows_subseq [where f = "response_of verify"])
  moreover have "workers_justified (as @ [(n, who, c)]) (workers_after h n orig c w)"
    unfolding trace_act.hyps(2) [symmetric] by (rule workers_after_justified) (simp only: trace_act.IH)
  ultimately show ?case by (simp only: simp_thms)
qed

section \<open>Actions without an account\<close>

text \<open>
  Unsigned extrinsics and root calls. \<open>responded e rs e'\<close>: \<open>e'\<close> is \<open>e\<close> with the responses \<open>rs\<close> added anonymously, each with
  its event; only the recorded block for unsigned transactions may differ besides.
\<close>

definition responded :: "'a edge_storage \<Rightarrow> bytes list \<Rightarrow> 'a edge_storage \<Rightarrow> bool" where
  "responded e rs e' \<longleftrightarrow>
     Connection e' = Connection e \<and> Commands e' = Commands e \<and> Responses e' = Responses e @ map (Pair None) rs \<and>
     edge_events e' = edge_events e @ map (\<lambda>r. NewResponse r None) rs"

text \<open>The response of an unsigned call: a raw one, or one whose signed payload verifies.\<close>

fun unsigned_response ::
  "('p response_payload \<Rightarrow> 'sig \<Rightarrow> bool) \<Rightarrow> ('p, 'sig, 'oc) runtime_call \<Rightarrow> bytes option" where
  "unsigned_response verify (EdgeConnect (SubmitResponseUnsigned bn r)) = Some r"
| "unsigned_response verify (EdgeConnect (SubmitResponseUnsignedWithSignedPayload p sig)) =
     (if verify p sig then Some (p_response p) else None)"
| "unsigned_response verify c = None"

definition action_response ::
  "('p response_payload \<Rightarrow> 'sig \<Rightarrow> bool) \<Rightarrow> ('a, 'p, 'sig, 'oc) action \<Rightarrow> bytes option" where
  "action_response verify a = unsigned_response verify (snd (snd a))"

text \<open>At most one response is added, that of the call.\<close>

definition responds :: "'a edge_storage \<Rightarrow> bytes option \<Rightarrow> 'a edge_storage \<Rightarrow> bool" where
  "responds e y e' \<longleftrightarrow> responded e [] e' \<or> (\<exists>r. y = Some r \<and> responded e [r] e')"

lemma responded_refl [simp]: "responded e [] e"
  by (simp add: responded_def)

lemma responded_step:
  "responded e0 rs e \<Longrightarrow> subseq rs (List.map_filter f as) \<Longrightarrow> responds e (f a) e' \<Longrightarrow>
   \<exists>rs'. responded e0 rs' e' \<and> subseq rs' (List.map_filter f (as @ [a]))"
proof -
  assume r: "responded e0 rs e" "subseq rs (List.map_filter f as)" "responds e (f a) e'"
  from r(3) consider "responded e [] e'" | q where "f a = Some q" "responded e [q] e'"
    by (auto simp: responds_def)
  then show ?thesis
  proof cases
    case 1
    with r have "responded e0 rs e'" by (simp add: responded_def)
    with r(2) show ?thesis by (auto simp: map_filter_def intro: list_emb_append2)
  next
    case 2
    with r have "responded e0 (rs @ [q]) e'" by (simp add: responded_def)
    moreover have "subseq (rs @ [q]) (List.map_filter f (as @ [a]))"
      using 2 r(2) by (simp add: map_filter_def list_emb_append_mono)
    ultimately show ?thesis by blast
  qed
qed

lemma add_response_responds:
  "bounded_vec bv \<Longrightarrow> add_response cfg bv None r e = Some e' \<Longrightarrow> responds e (Some r) (e'\<lparr>NextUnsignedAt := nu\<rparr>)"
  by (auto simp: edge_pallet.add_response_eq [OF edge_palletI] responds_def responded_def split: if_splits)

lemma edge_call_responds:
  assumes "bounded_vec bv" and "ensure_signed (raw_system n) orig = None"
    and "orig = None_origin \<Longrightarrow> accepted (EdgeValidity (validate_unsigned verify c))"
  shows "responds e (unsigned_response verify (EdgeConnect c)) (committed e (edge_exec cfg bv (raw_system n, orig, c) e))"
proof (cases orig)
  case Root
  then show ?thesis by (cases c) (simp_all add: pallet_defs responds_def)
next
  case (Signed who)
  with assms(2) show ?thesis by simp
next
  case None_origin
  with assms(3) show ?thesis
    by (cases c) (auto simp: create_connection_def remove_connection_def submit_response_def send_command_def
        submit_response_unsigned_def submit_response_unsigned_with_signed_payload_def responds_def [of _ None]
        responds_def [of e "Some _" e] intro!: add_response_responds [OF assms(1)] split: option.split)
qed

lemma edge_after_responds:
  assumes "bounded_vec (rt_bounded h)" and "ensure_signed (raw_system n) orig = None"
    and "\<And>ec. orig = None_origin \<Longrightarrow> c = EdgeConnect ec \<Longrightarrow> accepted (EdgeValidity (validate_unsigned verify ec))"
  shows "responds e (action_response verify (n, None, c)) (edge_after h n orig c e)"
proof (cases c)
  case (EdgeConnect ec)
  have "responds e (unsigned_response verify (EdgeConnect ec))
      (committed e (edge_exec runtime_edge_config (rt_bounded h) (raw_system n, orig, ec) e))"
    by (rule edge_call_responds [OF assms(1,2)]) (use assms(3) EdgeConnect in blast)
  then show ?thesis by (simp add: EdgeConnect action_response_def del: edge_exec.simps)
qed (simp_all add: action_response_def responds_def)

lemma workers_after_none: "ensure_signed (raw_system n) orig = None \<Longrightarrow> workers_after h n orig c w = w"
proof (cases c)
  case (WorkerRegistration wc)
  assume "ensure_signed (raw_system n) orig = None"
  then show ?thesis by (cases wc) (simp_all add: WorkerRegistration pallet_defs)
qed simp_all

lemma trace_without_account:
  assumes "pallet_trace h verify e0 w0 as e w" and "bounded_vec (rt_bounded h)" and "\<forall>a \<in> set as. fst (snd a) = None"
  shows "w = w0 \<and> (\<exists>rs. responded e0 rs e \<and> subseq rs (List.map_filter (action_response verify) as))"
  using assms(1,3)
proof (induction rule: pallet_trace.induct)
  case trace_start
  show ?case by (intro conjI exI [of _ "[]"]) simp_all
next
  case (trace_skip as e w a)
  then obtain rs where "w = w0" "responded e0 rs e" "subseq rs (List.map_filter (action_response verify) as)" by auto
  then show ?case using responded_step [of e0 rs e "action_response verify" as a e] by (simp add: responds_def)
next
  case (trace_act as e w n orig who c)
  then obtain rs where rs: "w = w0" "responded e0 rs e" "subseq rs (List.map_filter (action_response verify) as)" by auto
  have none: "ensure_signed (raw_system n) orig = None" "who = None" using trace_act.hyps(2) trace_act.prems by auto
  have "responds e (action_response verify (n, who, c)) (edge_after h n orig c e)"
    unfolding none(2) by (rule edge_after_responds [OF assms(2) none(1)]) (rule trace_act.hyps(3))
  from responded_step [OF rs(2,3) this] show ?case using workers_after_none [OF none(1), of h c w] rs(1) by simp
qed

section \<open>A concrete executive\<close>

text \<open>It applies extrinsics exactly as promised, with the extensions' state left as the dispatch left it.\<close>

definition plain_executive ::
  "('a raw_origin, 'a, 'oc, 'x, 'oe) runtime_host \<Rightarrow> ('a, 'era, ('p, 'sig, 'oc) runtime_call, 'x, 'err) extension_host
    \<Rightarrow> ('p response_payload \<Rightarrow> 'sig \<Rightarrow> bool) \<Rightarrow> ('oc \<Rightarrow> bool) \<Rightarrow> ('a \<Rightarrow> bool) \<Rightarrow> ('a, 'era, 'p, 'sig, 'oc, 'x) executive_host" where
  "plain_executive h eh verify other sudo_key =
     \<lparr>ex_initialize = (\<lambda>n x. x),
      ex_apply = (\<lambda>n xt s.
        let run = (\<lambda>orig c s. committed s (runtime_exec h (raw_system n, orig, c) s)) in
        case xt of
          SignedXt who extra c \<Rightarrow>
            (case pre_dispatch (SignedExtra eh) who extra c (rt_other s) of
               Inl _ \<Rightarrow> s | Inr x \<Rightarrow> run (Signed who) c (s\<lparr>rt_other := x\<rparr>))
        | SudoXt who extra oc target c \<Rightarrow>
            (case pre_dispatch (SignedExtra eh) who extra (OtherPallet oc) (rt_other s) of
               Inl _ \<Rightarrow> s
             | Inr x \<Rightarrow> if sudo_key who then run (as_origin target) c (s\<lparr>rt_other := x\<rparr>) else s\<lparr>rt_other := x\<rparr>)
        | UnsignedXt c \<Rightarrow> if runtime_pre_dispatch verify other c then run None_origin c s else s),
      ex_finalize = (\<lambda>n x. x)\<rparr>"

lemma dispatched_self:
  "dispatched h n orig c (rt_other (committed s (runtime_exec h (raw_system n, orig, c) s))) s =
   committed s (runtime_exec h (raw_system n, orig, c) s)"
  by (simp add: dispatched_def)

interpretation plain: executive h eh verify other "plain_executive h eh verify other sudo_key" for h eh verify other sudo_key
  by unfold_locales (auto simp: plain_executive_def Let_def intro: dispatched_self [symmetric] split: if_splits)

text \<open>Extensions that accept everything and count the extrinsics they have seen.\<close>

definition counting_extensions :: "('a, 'era, 'c, nat, unit) extension_host" where
  "counting_extensions =
     (let pass = (\<lambda>who extra c x. Inr x) in
      \<lparr>CheckNonZeroSender = pass, CheckSpecVersion = pass, CheckTxVersion = pass, CheckGenesis = pass, CheckEra = pass,
       CheckNonce = (\<lambda>who extra c x. Inr (Suc x)), CheckWeight = pass, ChargeTransactionPayment = pass\<rparr>)"

end
