(* ===== verification/Worker_Ledger.thy ===== *)
theory Worker_Ledger
  imports Worker_Registration
begin

text \<open>
  What the worker-registration pallet shows to the outside. The abstract specification is a ledger: who
  is registered under which id, and for every task its worker, owner and text. The ledger can be
  computed from the events alone, and the storage refines it. Also here: how tasks are spread over the
  workers, and what the printed addresses identify.
\<close>

section \<open>Abstract ledger\<close>

record 'a ledger =
  members :: "'a \<rightharpoonup> u64"
  next_member :: u64
  jobs :: "u64 \<rightharpoonup> 'a \<times> 'a \<times> bytes"
  next_job :: u64

definition empty_ledger :: "'a ledger" where
  "empty_ledger = \<lparr>members = Map.empty, next_member = 0, jobs = Map.empty, next_job = 0\<rparr>"

fun ledger_event :: "'a wr_event \<Rightarrow> 'a ledger \<Rightarrow> 'a ledger" where
  "ledger_event (WorkerRegistered a) l =
     l\<lparr>members := (members l)(a \<mapsto> next_member l), next_member := next_member l + 1\<rparr>"
| "ledger_event (TaskScheduled a who t td ipt) l =
     l\<lparr>jobs := (jobs l)(t \<mapsto> (a, who, td)), next_job := next_job l + 1\<rparr>"
| "ledger_event (ConnectionEstablished i) l = l"
| "ledger_event (SubmittedCompletedTask t) l = l"
| "ledger_event (VerifiedCompletedTask t) l = l"

definition ledger_of :: "'a wr_event list \<Rightarrow> 'a ledger" where
  "ledger_of es = fold ledger_event es empty_ledger"

lemma ledger_of_snoc [simp]: "ledger_of (es @ [e]) = ledger_event e (ledger_of es)"
  by (simp add: ledger_of_def)

text \<open>The ledger that a storage holds.\<close>

definition wr_abs :: "'a wr_storage \<Rightarrow> 'a ledger" where
  "wr_abs st =
     \<lparr>members = WorkerAccounts st, next_member = NextClusterId st,
      jobs = (\<lambda>t. case (TaskAllocations st t, TaskOwners st t, Tasks st t) of
                     (Some a, Some who, Some ti) \<Rightarrow> Some (a, who, t_metadata ti) | _ \<Rightarrow> None),
      next_job = NextTaskId st\<rparr>"

definition ledger_inv :: "'a wr_storage \<Rightarrow> bool" where
  "ledger_inv st \<longleftrightarrow> ledger_of (wr_events st) = wr_abs st"

lemma ledger_inv_genesis: "ledger_inv wr_genesis"
  by (simp add: ledger_inv_def wr_abs_def ledger_of_def empty_ledger_def wr_genesis_def DefaultForm1_def)

lemma ledger_inv_step: "wr_step st st' \<Longrightarrow> ledger_inv st \<Longrightarrow> ledger_inv st'"
  by (erule wr_stepE)
    (auto simp: ledger_inv_def wr_abs_def insert_cluster_def insert_task_def fun_eq_iff)

context wr_pallet
begin

sublocale ledger: call_machine "wr_exec host" "\<lambda>n st. wr_run_inv n st \<and> (n < 2 ^ 64 \<longrightarrow> ledger_inv st)"
  by (rule augmented) (rule ledger_inv_step [OF exec_ok_step])

lemma task_scheduler_alloc:
  assumes "clusters_inv st" and "task_scheduler host sys orig td st = Ok u"
  shows "TaskAllocations u (NextTaskId st) = Some (selected host td (WorkerAccounts st)) \<and>
    WorkerAccounts st \<noteq> Map.empty"
  by (rule task_scheduler_cases [OF assms(1), of sys orig td])
    (use assms(2) in \<open>auto simp: scheduled_def insert_task_def Let_def\<close>)

lemma selected_window:
  assumes "clusters_inv st" and "WorkerAccounts st \<noteq> Map.empty"
  shows "selected host td (WorkerAccounts st) \<in> set (take 256 (map fst (accounts_iter host (WorkerAccounts st))))"
proof -
  let ?ws = "accounts_iter host (WorkerAccounts st)" and ?h = "unat (blake2_256 host td ! 0)"
  have ws: "?ws \<noteq> []" using accounts_empty_iff assms by blast
  have "?h < 2 ^ LENGTH(8)" by (rule unsigned_less)
  then have "?h < 256" by simp
  then have "?h mod length ?ws < 256" using mod_less_eq_dividend [of ?h "length ?ws"] by linarith
  with ws have "take 256 (map fst ?ws) ! (?h mod length ?ws) = selected host td (WorkerAccounts st)"
    and "?h mod length ?ws < length (take 256 (map fst ?ws))"
    by (simp_all add: selected_def Let_def)
  then show ?thesis by (metis nth_mem)
qed

lemma reachable_ledger:
  assumes "runs (wr_exec host) n wr_genesis st" and "n < 2 ^ 64"
  shows "ledger_inv st"
  using ledger.runs_inv0 [OF assms(1)] assms(2) wr_run_inv_genesis ledger_inv_genesis by blast

end

lemma one_worker_schedules:
  "\<exists>u. task_scheduler sum_host (raw_system now) (Signed who) td one_worker = Ok u"
proof -
  have inv: "clusters_inv one_worker"
    using sum_pallet.reachable_inv(1) [OF one_worker_run] by (simp add: wr_inv_def)
  show ?thesis
    by (rule sum_pallet.task_scheduler_cases [OF inv, of "raw_system now" "Signed who" td]) simp_all
qed

section \<open>Refinement\<close>

text \<open>
  C10. The events tell the whole story: replaying the events of any run of fewer than 2^64 calls yields
  exactly the registered accounts with their ids, the tasks with their worker, owner and text,
  and both counters, as they are in storage.
\<close>
theorem wr_events_replay:
  assumes "wr_pallet host" and "runs (wr_exec host) n wr_genesis st" and "n < 2 ^ 64"
  shows "ledger_of (wr_events st) = wr_abs st"
  using wr_pallet.reachable_ledger [OF assms] by (simp add: ledger_inv_def)

theorem wr_events_replay_witness:
  "ledger_of (wr_events one_worker) = wr_abs one_worker \<and> members (wr_abs one_worker) = [7 \<mapsto> 0]"
  using wr_events_replay [OF sum_pallet.wr_pallet_axioms one_worker_run] by (simp add: wr_abs_def)

section \<open>Spreading of tasks\<close>

text \<open>
  C32. The choice of a worker depends on the task's text and the set of registered accounts only: the same
  text goes to the same worker whoever sends it, in whatever block, and whatever happened to the clusters
  and tasks in between; and as one byte of the hash is used, only the first 256 accounts
  in iteration order are ever given a task, however many are registered.
\<close>
theorem task_selection:
  assumes "wr_pallet host" and "runs (wr_exec host) n wr_genesis st" and "runs (wr_exec host) n' wr_genesis st'"
    and "n < 2 ^ 64" and "n' < 2 ^ 64" and same: "WorkerAccounts st' = WorkerAccounts st"
    and ok: "task_scheduler host sys orig td st = Ok u" and ok': "task_scheduler host sys' orig' td st' = Ok u'"
  shows "\<exists>a. TaskAllocations u (NextTaskId st) = Some a \<and> TaskAllocations u' (NextTaskId st') = Some a \<and>
    a \<in> set (take 256 (map fst (accounts_iter host (WorkerAccounts st))))"
proof -
  have inv: "clusters_inv st" "clusters_inv st'"
    using wr_pallet.reachable_inv(1) assms(1-5) unfolding wr_inv_def by blast+
  show ?thesis
    using wr_pallet.task_scheduler_alloc [OF assms(1) inv(1) ok] wr_pallet.task_scheduler_alloc [OF assms(1) inv(2) ok']
      wr_pallet.selected_window [OF assms(1) inv(1)] same by auto
qed

theorem task_selection_witness:
  "\<exists>u u'. task_scheduler sum_host (raw_system 6) (Signed 9) [1] one_worker = Ok u \<and>
     task_scheduler sum_host (raw_system 8) (Signed 3) [1] one_worker = Ok u' \<and>
     TaskAllocations u 0 = TaskAllocations u' 0"
proof -
  obtain u where u: "task_scheduler sum_host (raw_system 6) (Signed 9) [1] one_worker = Ok u"
    using one_worker_schedules by blast
  obtain u' where u': "task_scheduler sum_host (raw_system 8) (Signed 3) [1] one_worker = Ok u'"
    using one_worker_schedules by blast
  have "\<exists>a. TaskAllocations u (NextTaskId one_worker) = Some a \<and> TaskAllocations u' (NextTaskId one_worker) = Some a \<and>
    a \<in> set (take 256 (map fst (accounts_iter sum_host (WorkerAccounts one_worker))))"
    by (rule task_selection [OF sum_pallet.wr_pallet_axioms one_worker_run one_worker_run _ _ refl u u']) simp_all
  with u u' show ?thesis by auto
qed

section \<open>Printed addresses\<close>

text \<open>
  C33. The address shown in \<open>TaskScheduled\<close> identifies the numbers that were registered: the IPv4 form when
  there is one, whatever the IPv6 field holds, and otherwise the IPv6 form; each is read back by cutting
  at its separator; a registered address is never shown as \<open>localhost\<close>; and an IPv4 and an IPv6 list of
  at least two numbers are never shown alike.
\<close>
theorem string_ip_identifies:
  shows "(string_ip \<lparr>ipv4 = Some v, ipv6 = x\<rparr> = string_ip \<lparr>ipv4 = Some w, ipv6 = y\<rparr> \<longleftrightarrow> v = w) \<and>
    (string_ip \<lparr>ipv4 = None, ipv6 = Some v\<rparr> = string_ip \<lparr>ipv4 = None, ipv6 = Some w\<rparr> \<longleftrightarrow> v = w) \<and>
    (v \<noteq> [] \<longrightarrow> map undec (cut 46 (string_ip \<lparr>ipv4 = Some v, ipv6 = x\<rparr>)) = map unat v) \<and>
    (v \<noteq> [] \<longrightarrow> map undec (cut 58 (string_ip \<lparr>ipv4 = None, ipv6 = Some v\<rparr>)) = map unat v) \<and>
    (ipv4 addr \<noteq> None \<or> ipv6 addr \<noteq> None \<longrightarrow> string_ip addr \<noteq> str ''localhost'') \<and>
    (2 \<le> length v \<and> 2 \<le> length w \<longrightarrow>
      string_ip \<lparr>ipv4 = Some v, ipv6 = x\<rparr> \<noteq> string_ip \<lparr>ipv4 = None, ipv6 = Some w\<rparr>)"
proof (intro conjI impI)
  show "string_ip \<lparr>ipv4 = Some v, ipv6 = x\<rparr> = string_ip \<lparr>ipv4 = Some w, ipv6 = y\<rparr> \<longleftrightarrow> v = w"
    by (auto simp: string_ip_def dest: dotted.join_inject)
  show "string_ip \<lparr>ipv4 = None, ipv6 = Some v\<rparr> = string_ip \<lparr>ipv4 = None, ipv6 = Some w\<rparr> \<longleftrightarrow> v = w"
    by (auto simp: string_ip_def dest: colon.join_inject)
  show "map undec (cut 46 (string_ip \<lparr>ipv4 = Some v, ipv6 = x\<rparr>)) = map unat v" if "v \<noteq> []"
    using dotted.cut_join [OF that] by (simp add: string_ip_def to_string_u32_def)
  show "map undec (cut 58 (string_ip \<lparr>ipv4 = None, ipv6 = Some v\<rparr>)) = map unat v" if "v \<noteq> []"
    using colon.cut_join [OF that] by (simp add: string_ip_def to_string_u32_def)
  show "string_ip addr \<noteq> str ''localhost''" if addr: "ipv4 addr \<noteq> None \<or> ipv6 addr \<noteq> None"
  proof
    assume eq: "string_ip addr = str ''localhost''"
    then have "108 \<in> set (string_ip addr)" by (simp add: str_simps)
    with addr show False
      using dotted.join_bytes [of 108] colon.join_bytes [of 108]
      by (auto simp: string_ip_def digit_def split: option.splits)
  qed
  show "string_ip \<lparr>ipv4 = Some v, ipv6 = x\<rparr> \<noteq> string_ip \<lparr>ipv4 = None, ipv6 = Some w\<rparr>"
    if l: "2 \<le> length v \<and> 2 \<le> length w"
  proof
    assume eq: "string_ip \<lparr>ipv4 = Some v, ipv6 = x\<rparr> = string_ip \<lparr>ipv4 = None, ipv6 = Some w\<rparr>"
    obtain a b vs where v: "v = a # b # vs" using l by (cases v; cases "tl v") auto
    have "46 \<in> set (string_ip \<lparr>ipv4 = Some v, ipv6 = x\<rparr>)" by (simp add: v string_ip_def)
    with eq show False using colon.join_bytes [of 46 w] by (simp add: string_ip_def digit_def)
  qed
qed

theorem string_ip_identifies_witness:
  "map undec (cut 46 (string_ip ip_10_0_0_1)) = [10, 0, 0, 1] \<and> string_ip ip_10_0_0_1 \<noteq> str ''localhost''"
  using string_ip_identifies [of "[10, 0, 0, 1]" None "[]" None ip_10_0_0_1] by (simp add: ip_10_0_0_1_def)

end
