(* ===== verification/Worker_Offchain.thy ===== *)
theory Worker_Offchain
  imports Worker_Ledger Offchain
begin

text \<open>
  The offchain worker of \<^verbatim>\<open>pallets/worker-registration/src/lib.rs\<close>: it reads the ping key of the block,
  asks the cluster it finds there for its status over HTTP, and submits \<open>verify_connection\<close>. Then: what
  the ping keys hold in every reachable storage, hence which clusters are pinged, and the whole round
  from registration to the status on chain.
\<close>

section \<open>Definitions\<close>

record verify_cluster_json_response =
  deployment_status :: bool

definition http_call ::
  "('ts, 'pend) http_host \<Rightarrow> ip \<Rightarrow> u32 \<Rightarrow> bytes \<Rightarrow> http_error + bytes" where
  "http_call h addr prt route =
    (let deadline = deadline_in h 3000;
         url = str ''http://'' @ string_ip addr @ str '':'' @ to_string_u32 prt @ str ''/'' @ route in
     (case http_send h url deadline of
        Inl _ \<Rightarrow> Inl IoError
      | Inr pending \<Rightarrow>
          (case http_try_wait h pending deadline of
             Inl _ \<Rightarrow> Inl DeadlineReached
           | Inr (Inl e) \<Rightarrow> Inl e
           | Inr (Inr (code, body)) \<Rightarrow>
               if code \<noteq> 200 then Inl Unknown
               else if \<not> utf8_valid body then Inl Unknown
               else if length body = 0 then Inl Unknown
               else Inr body)))"

text \<open>\<open>from_slice\<close> is the JSON deserializer, \<open>Inl\<close> for its error.\<close>

definition fetch_cluster_status ::
  "(bytes \<Rightarrow> unit + verify_cluster_json_response) \<Rightarrow> ('ts, 'pend) http_host \<Rightarrow> ip \<Rightarrow> u32
    \<Rightarrow> http_error + verify_cluster_json_response" where
  "fetch_cluster_status from_slice h addr prt =
    (case http_call h addr prt (str ''cluster-status'') of
       Inl e \<Rightarrow> Inl e
     | Inr body \<Rightarrow>
         (case from_slice body of
            Inr response \<Rightarrow> Inr response
          | Inl _ \<Rightarrow> Inl Unknown))"

type_synonym ('acc, 'sig) wr_request = "('acc, unit, 'sig, wr_call) request"
type_synonym ('acc, 'sig) wr_signer = "('acc, unit, 'sig, wr_call) signer_host"

text \<open>
  The hook at the end of block \<open>bn\<close> with storage \<open>st\<close>; the requests it makes. The local storage it reads is
  the one that off-chain indexing writes; a value that does not decode counts as absent. The hash of the parent
  block, which the source looks up under the block number less one, is only logged; at block 0 that subtraction
  wraps in a release build.
\<close>

definition wr_offchain_worker ::
  "'a wr_host \<Rightarrow> ('acc, 'sig) wr_signer \<Rightarrow> (bytes \<Rightarrow> unit + verify_cluster_json_response) \<Rightarrow> ('ts, 'pend) http_host
    \<Rightarrow> 'a wr_storage \<Rightarrow> u32 \<Rightarrow> ('acc, 'sig) wr_request list" where
  "wr_offchain_worker host sg from_slice h st bn =
    (if \<not> can_sign_any sg then []
     else
       (let ping_key = derived_key host bn (str ''ping'') in
        (case Option.bind (offchain_db st ping_key) (decode_indexing host) of
           None \<Rightarrow> []
         | Some data \<Rightarrow>
             (case WorkerClusters st (snd data) of
                None \<Rightarrow> []
              | Some cluster \<Rightarrow>
                  (let response =
                         (case fetch_cluster_status from_slice h (w_ip cluster) (w_port cluster) of
                            Inr response \<Rightarrow> response
                          | Inl e \<Rightarrow> \<lparr>deployment_status = False\<rparr>) in
                   [SendSignedAny (\<lambda>acc. VerifyConnection (snd data) (deployment_status response))])))))"

section \<open>Ping keys\<close>

lemma derived_key_ext: "derived_key host bn ext = derived_key host bn ext'"
  by (simp add: derived_key_def)

text \<open>
  \<open>started st cid bn\<close>: \<open>cid\<close> is a cluster registered in block \<open>bn\<close>; \<open>newest st cid bn\<close>: the one with the highest
  id of them.
\<close>

definition started :: "'a wr_storage \<Rightarrow> u64 \<Rightarrow> u32 \<Rightarrow> bool" where
  "started st cid bn \<longleftrightarrow> (case WorkerClusters st cid of None \<Rightarrow> False | Some w \<Rightarrow> w_start_block w = bn)"

definition newest :: "'a wr_storage \<Rightarrow> u64 \<Rightarrow> u32 \<Rightarrow> bool" where
  "newest st cid bn \<longleftrightarrow> started st cid bn \<and> (\<forall>cid'. started st cid' bn \<longrightarrow> cid' \<le> cid)"

definition ping_ok :: "'a wr_host \<Rightarrow> 'a wr_storage \<Rightarrow> u32 \<Rightarrow> bool" where
  "ping_ok host st bn \<longleftrightarrow>
     (case offchain_db st (derived_key host bn (str ''ping'')) of
        None \<Rightarrow> \<forall>cid. \<not> started st cid bn
      | Some d \<Rightarrow> \<exists>cid. d = encode_indexing host (str ''registered_cluster_ping'', cid) \<and> newest st cid bn)"

definition ping_inv :: "'a wr_host \<Rightarrow> 'a wr_storage \<Rightarrow> bool" where
  "ping_inv host st \<longleftrightarrow> (\<forall>bn. ping_ok host st bn)"

lemma ping_inv_genesis: "ping_inv host wr_genesis"
  by (simp add: ping_inv_def ping_ok_def wr_genesis_def started_def)

lemma ping_ok_cong:
  assumes "\<And>c. started st' c bn = started st c bn"
    and "offchain_db st' (derived_key host bn (str ''ping'')) = offchain_db st (derived_key host bn (str ''ping''))"
  shows "ping_ok host st' bn = ping_ok host st bn"
  unfolding ping_ok_def newest_def assms ..

lemma ping_inv_cong:
  "(\<And>c bn. started st' c bn = started st c bn) \<Longrightarrow> offchain_db st' = offchain_db st \<Longrightarrow>
   ping_inv host st' = ping_inv host st"
  unfolding ping_inv_def by (intro all_cong1 ping_ok_cong) simp_all

lemma started_status: "WorkerClusters st i = Some w \<Longrightarrow>
  WorkerClusters st' = (WorkerClusters st)(i \<mapsto> w\<lparr>w_status := b\<rparr>) \<Longrightarrow> started st' c bn = started st c bn"
  by (simp add: started_def)

locale wr_node = wr_pallet host + idx: scale_codec "encode_indexing host" "decode_indexing host" +
    blk: scale_codec "encode_block host" decode_block
  for host :: "'a wr_host" and decode_block :: "bytes \<Rightarrow> u32 option"
begin

lemma derived_key_inject: "derived_key host b x = derived_key host b' x' \<longleftrightarrow> b = b'"
  using blk.encode_inject by (auto simp: derived_key_def)

lemma ping_inv_register:
  assumes inv: "ping_inv host st" and dense: "clusters.dense st"
    and ok: "worker_register host sys orig nm addr prt st = Ok st'"
  shows "ping_inv host st'"
proof -
  let ?bn = "block_number sys" and ?cid = "NextClusterId st"
  have st': "started st' c bn = (if c = ?cid then bn = ?bn else started st c bn)" for c bn
    using ok by (auto simp: worker_register_def insert_cluster_def started_def Let_def split: option.splits if_splits)
  have db: "offchain_db st' = (offchain_db st)(derived_key host ?bn (str ''ping'')
      \<mapsto> encode_indexing host (str ''registered_cluster_ping'', ?cid))"
    using ok by (auto simp: worker_register_def insert_cluster_def Let_def split: option.splits if_splits)
  have fresh: "\<not> started st ?cid bn" for bn
    using clusters.dense_fresh [OF dense] by (simp add: started_def)
  have below: "c \<le> ?cid" if "started st c bn" for c bn
    using dense that by (auto simp: clusters.dense_def started_def split: option.splits intro: less_imp_le)
  have "ping_ok host st' bn" for bn
  proof (cases "bn = ?bn")
    case True
    then show ?thesis using below by (auto simp: ping_ok_def newest_def db st')
  next
    case False
    have "ping_ok host st' bn = ping_ok host st bn"
      by (rule ping_ok_cong) (use False fresh in \<open>simp_all add: db st' derived_key_inject\<close>)
    with inv show ?thesis by (simp add: ping_inv_def)
  qed
  then show ?thesis by (simp add: ping_inv_def)
qed

lemma exec_ping_inv:
  assumes "ping_inv host st" and "wr_inv st" and ok: "wr_exec host c st = Ok st'"
  shows "ping_inv host st'"
proof -
  obtain sys orig call where c: "c = (sys, orig, call)" by (cases c)
  have inv: "clusters_inv st" using assms(2) by (simp add: wr_inv_def)
  show ?thesis
  proof (cases "call")
    case (WorkerRegister nm addr prt)
    with ok c inv assms(1) show ?thesis by (auto simp: clusters_inv_def intro: ping_inv_register)
  next
    case (TaskScheduler td)
    obtain who w where "st' = scheduled host who (block_number sys) td w st"
      by (rule task_scheduler_cases [OF inv, of sys orig td]) (use ok c TaskScheduler in auto)
    then have "ping_inv host st' = ping_inv host st"
      by (intro ping_inv_cong) (simp_all add: scheduled_def insert_task_def started_def Let_def)
    with assms(1) show ?thesis by simp
  next
    case (VerifyConnection i b)
    then obtain w where w: "WorkerClusters st i = Some w" and st': "st' = wr_deposit_event (ConnectionEstablished i)
        (st\<lparr>WorkerClusters := (WorkerClusters st)(i \<mapsto> w\<lparr>w_status := b\<rparr>)\<rparr>)"
      using ok c by (auto simp: verify_connection_eq split: if_splits option.splits)
    have "ping_inv host st' = ping_inv host st"
      by (intro ping_inv_cong started_status [OF w]) (simp_all add: st')
    with assms(1) show ?thesis by simp
  qed
qed

sublocale pings: call_machine "wr_exec host" "\<lambda>n st. wr_run_inv n st \<and> (n < 2 ^ 64 \<longrightarrow> ping_inv host st)"
  by (rule augmented) (rule exec_ping_inv)

lemma reachable_pings:
  assumes "runs (wr_exec host) n wr_genesis st" and "n < 2 ^ 64"
  shows "ping_inv host st"
  using pings.runs_inv0 [OF assms(1)] assms(2) wr_run_inv_genesis ping_inv_genesis by blast

end

interpretation sum_node: wr_node sum_host decode_u32
  by (simp add: wr_node_def sum_pallet.wr_pallet_axioms data_codec.scale_codec_axioms u32_codec.scale_codec_axioms)

section \<open>Which clusters are pinged\<close>

lemma newest_unique: "newest st cid bn \<Longrightarrow> newest st cid' bn \<Longrightarrow> cid = cid'"
  by (simp add: newest_def order_antisym)

text \<open>The status that the worker reports for a cluster.\<close>

definition reported :: "(bytes \<Rightarrow> unit + verify_cluster_json_response) \<Rightarrow> ('ts, 'pend) http_host \<Rightarrow> 'a worker \<Rightarrow> bool" where
  "reported from_slice h w =
     (case fetch_cluster_status from_slice h (w_ip w) (w_port w) of Inr r \<Rightarrow> deployment_status r | Inl _ \<Rightarrow> False)"

context wr_node
begin

lemma worker_pings:
  assumes "ping_inv host st" and "can_sign_any sg"
  shows "newest st cid bn \<Longrightarrow> WorkerClusters st cid = Some w \<Longrightarrow>
      wr_offchain_worker host sg from_slice h st bn = [SendSignedAny (\<lambda>acc. VerifyConnection cid (reported from_slice h w))]"
    and "(\<And>cid. \<not> started st cid bn) \<Longrightarrow> wr_offchain_worker host sg from_slice h st bn = []"
proof -
  have ping: "ping_ok host st bn" using assms(1) by (simp add: ping_inv_def)
  show "wr_offchain_worker host sg from_slice h st bn = []" if "\<And>cid. \<not> started st cid bn"
    using ping that assms(2)
    by (auto simp: ping_ok_def newest_def wr_offchain_worker_def Let_def split: option.splits)
  assume n: "newest st cid bn" and w: "WorkerClusters st cid = Some w"
  then have "started st cid bn" by (simp add: newest_def)
  with ping n have "offchain_db st (derived_key host bn (str ''ping'')) =
      Some (encode_indexing host (str ''registered_cluster_ping'', cid))"
    by (auto simp: ping_ok_def split: option.splits dest: newest_unique)
  with w assms(2) show "wr_offchain_worker host sg from_slice h st bn =
      [SendSignedAny (\<lambda>acc. VerifyConnection cid (reported from_slice h w))]"
    by (simp add: wr_offchain_worker_def idx.decode_encode reported_def split: sum.split)
qed

end

section \<open>Properties\<close>

text \<open>
  \<open>http_call\<close> succeeds exactly when a GET to \<open>http://ADDRESS:PORT/ROUTE\<close> is sent and answered within the
  three-second deadline with code 200 and a body that is non-empty valid UTF-8, which it returns unchanged; a
  refused request is \<open>IoError\<close>, a missed deadline \<open>DeadlineReached\<close>, and every other failure is what
  the host reported or \<open>Unknown\<close>. \<open>fetch_cluster_status\<close> returns the parsed body of the route
  \<open>cluster-status\<close>, and \<open>Unknown\<close> when it does not parse.
\<close>
lemma http_call_correct:
  defines "url addr prt route \<equiv> str ''http://'' @ string_ip addr @ str '':'' @ to_string_u32 prt @ str ''/'' @ route"
  shows "(http_call h addr prt route = Inr body \<longleftrightarrow>
      (\<exists>pending. http_send h (url addr prt route) (deadline_in h 3000) = Inr pending \<and>
         http_try_wait h pending (deadline_in h 3000) = Inr (Inr (200, body))) \<and> utf8_valid body \<and> body \<noteq> []) \<and>
    (http_call h addr prt route = Inl IoError \<longleftrightarrow>
      (case http_send h (url addr prt route) (deadline_in h 3000) of Inl _ \<Rightarrow> True
       | Inr pending \<Rightarrow> http_try_wait h pending (deadline_in h 3000) = Inr (Inl IoError))) \<and>
    (fetch_cluster_status from_slice h addr prt = Inr r \<longleftrightarrow>
      (\<exists>b. http_call h addr prt (str ''cluster-status'') = Inr b \<and> from_slice b = Inr r))"
  unfolding url_def
  by (intro conjI)
    (auto simp: http_call_def fetch_cluster_status_def Let_def split: sum.splits if_splits)

text \<open>
  C13. In every storage reachable by fewer than 2^64 calls, on a node with off-chain indexing, the offchain worker of block
  \<open>bn\<close> makes exactly one request when its node has a key and a cluster was registered in that block: it submits
  \<open>verify_connection\<close> for the newest such cluster, with the status it fetched from that cluster's
  address, false on any failure. Otherwise it makes no request.
\<close>
theorem wr_worker_pings:
  assumes "wr_node host decode_block" and "runs (wr_exec host) n wr_genesis st" and "n < 2 ^ 64"
  shows "(\<forall>cid w. can_sign_any sg \<and> newest st cid bn \<and> WorkerClusters st cid = Some w \<longrightarrow>
      wr_offchain_worker host sg from_slice h st bn = [SendSignedAny (\<lambda>acc. VerifyConnection cid (reported from_slice h w))]) \<and>
    (\<not> can_sign_any sg \<or> (\<forall>cid. \<not> started st cid bn) \<longrightarrow> wr_offchain_worker host sg from_slice h st bn = [])"
proof -
  have inv: "ping_inv host st" using assms by (rule wr_node.reachable_pings)
  have "wr_offchain_worker host sg from_slice h st bn = []" if "\<not> can_sign_any sg"
    using that by (simp add: wr_offchain_worker_def)
  then show ?thesis using wr_node.worker_pings [OF assms(1) inv] by blast
qed

lemma one_worker_newest: "newest one_worker 0 5"
  by (auto simp: newest_def started_def worker_7_def split: if_splits)

theorem wr_worker_pings_witness:
  "wr_offchain_worker sum_host (one_account () ()) (\<lambda>b. Inr \<lparr>deployment_status = True\<rparr>) (answering 200 [65]) one_worker 5 =
     [SendSignedAny (\<lambda>acc. VerifyConnection 0 True)]"
proof -
  have "reported (\<lambda>b. Inr \<lparr>deployment_status = True\<rparr>) (answering 200 [65]) worker_7"
    by (simp add: reported_def fetch_cluster_status_def http_call_def answering_def)
  moreover have "wr_offchain_worker sum_host (one_account () ()) (\<lambda>b. Inr \<lparr>deployment_status = True\<rparr>) (answering 200 [65]) one_worker 5 =
     [SendSignedAny (\<lambda>acc. VerifyConnection 0 (reported (\<lambda>b. Inr \<lparr>deployment_status = True\<rparr>) (answering 200 [65]) worker_7))]"
    by (rule conjunct1 [OF wr_worker_pings [OF sum_node.wr_node_axioms one_worker_run], rule_format])
      (use one_worker_newest in \<open>simp_all add: one_account_def\<close>)
  ultimately show ?thesis by simp
qed

text \<open>
  C31. When two clusters are registered in the same block, the earlier one is never pinged: no run of the
  offchain worker, at any block and in any reachable storage that holds both, submits a call for
  it, because both registrations wrote the same key.
\<close>
theorem same_block_registration_never_pinged:
  assumes "wr_node host decode_block" and "runs (wr_exec host) n wr_genesis st" and "n < 2 ^ 64"
    and "WorkerClusters st cid = Some w" and "WorkerClusters st cid' = Some w'"
    and "w_start_block w' = w_start_block w" and "cid < cid'"
  shows "\<forall>req \<in> set (wr_offchain_worker host sg from_slice h st bn). VerifyConnection cid b \<notin> request_calls req"
proof
  fix req assume req: "req \<in> set (wr_offchain_worker host sg from_slice h st bn)"
  have inv: "ping_inv host st" using assms(1-3) by (rule wr_node.reachable_pings)
  have sign: "can_sign_any sg" using req by (auto simp: wr_offchain_worker_def split: if_splits)
  obtain c where c: "started st c bn"
    using wr_node.worker_pings(2) [OF assms(1) inv sign, of bn from_slice h] req by fastforce
  then have "ping_ok host st bn" "\<exists>c. started st c bn" using inv by (auto simp: ping_inv_def)
  then obtain n where n: "newest st n bn" by (auto simp: ping_ok_def split: option.splits)
  then obtain v where v: "WorkerClusters st n = Some v" "w_start_block v = bn"
    by (auto simp: newest_def started_def split: option.splits)
  have "n \<noteq> cid"
  proof
    assume "n = cid"
    with v assms have "started st cid' bn" by (simp add: started_def)
    with n \<open>n = cid\<close> assms(7) show False by (auto simp: newest_def)
  qed
  with req wr_node.worker_pings(1) [OF assms(1) inv sign n v(1), of from_slice h]
  show "VerifyConnection cid b \<notin> request_calls req" by auto
qed

text \<open>Account 8 registers in the same block as account 7.\<close>

definition two_workers :: "nat wr_storage" where
  "two_workers = committed one_worker
     (wr_exec sum_host (raw_system 5, Signed 8, WorkerRegister [] ip_10_0_0_1 81) one_worker)"

lemma two_workers_exec:
  "wr_exec sum_host (raw_system 5, Signed 8, WorkerRegister [] ip_10_0_0_1 81) one_worker = Ok two_workers"
  by (simp add: two_workers_def worker_register_def ip_10_0_0_1_def Let_def)

lemma two_workers_run: "runs (wr_exec sum_host :: (nat raw_origin, nat) wr_label \<Rightarrow> _) 2 wr_genesis two_workers"
  using runs_ok [OF one_worker_run two_workers_exec] by (simp add: numeral_2_eq_2)

lemma two_workers_clusters:
  "WorkerClusters two_workers = [0 \<mapsto> worker_7, 1 \<mapsto> worker_7\<lparr>w_id := 1, w_account := 8, w_port := 81\<rparr>]"
  by (simp add: two_workers_def worker_register_def ip_10_0_0_1_def insert_cluster_def Let_def worker_7_def)

theorem same_block_registration_never_pinged_witness:
  "VerifyConnection 0 True \<notin> \<Union> (request_calls ` set (wr_offchain_worker sum_host (one_account () ())
      (\<lambda>b. Inr \<lparr>deployment_status = True\<rparr>) (answering 200 [65]) two_workers 5))"
  using same_block_registration_never_pinged [OF sum_node.wr_node_axioms two_workers_run, of 0 worker_7 1
      "worker_7\<lparr>w_id := 1, w_account := 8, w_port := 81\<rparr>" "one_account () ()"
      "\<lambda>b. Inr \<lparr>deployment_status = True\<rparr>" "answering 200 [65]" 5 True]
  by (simp add: two_workers_clusters)

text \<open>
  From registration to the status on chain. An account registers in block \<open>bn\<close>; more calls follow in the
  block, and the cluster is the newest of the block when its offchain worker runs. Then the worker
  submits exactly one call, for this cluster; and that call, executed after any further calls and under
  any signed origin, succeeds and leaves the cluster with all its registered data and the
  status that the worker fetched from the registered address and port.
\<close>
lemma registration_to_status:
  fixes sys :: "('o, 'a) frame_system"
  assumes "wr_node host decode_block" and "runs (wr_exec host :: ('o, 'a) wr_label \<Rightarrow> _) m wr_genesis st"
    and reg: "worker_register host sys orig nm addr prt st = Ok st1"
    and "ensure_signed sys orig = Some creator" and "WorkerAccounts st1 creator = Some cid"
    and "runs (wr_exec host :: ('o, 'a) wr_label \<Rightarrow> _) k st1 st2" and "newest st2 cid (block_number sys)" and "can_sign_any sg"
    and "runs (wr_exec host :: ('o, 'a) wr_label \<Rightarrow> _) l st2 st3" and "ensure_signed sys' orig' = Some who" and "Suc m + k + l < 2 ^ 64"
  shows "\<exists>w st4. w = \<lparr>w_id = cid, w_account = creator, w_start_block = block_number sys, w_name = nm, w_ip = addr,
      w_port = prt, w_status = reported from_slice h w\<rparr> \<and>
    wr_offchain_worker host sg from_slice h st2 (block_number sys) =
      [SendSignedAny (\<lambda>acc. VerifyConnection cid (w_status w))] \<and>
    wr_exec host (sys', orig', VerifyConnection cid (w_status w)) st3 = Ok st4 \<and> WorkerClusters st4 cid = Some w"
proof -
  let ?w = "\<lambda>b. \<lparr>w_id = cid, w_account = creator, w_start_block = block_number sys, w_name = nm, w_ip = addr,
    w_port = prt, w_status = b\<rparr>"
  have pallet: "wr_pallet host" using assms(1) by (simp add: wr_node_def)
  have exec: "wr_exec host (sys, orig, WorkerRegister nm addr prt) st = Ok st1" using reg by simp
  have run1: "runs (wr_exec host :: ('o, 'a) wr_label \<Rightarrow> _) (Suc m) wr_genesis st1" using assms(2) exec by (rule runs_ok)
  have w1: "WorkerClusters st1 cid = Some (?w False)"
    using reg assms(4,5) by (auto simp: worker_register_def insert_cluster_def Let_def split: if_splits)
  have run2: "runs (wr_exec host :: ('o, 'a) wr_label \<Rightarrow> _) (Suc m + k) wr_genesis st2" using assms(6) run1 by (rule runs_trans)
  obtain b where w2: "WorkerClusters st2 cid = Some (?w b)"
    using wr_pallet.reachable_keeps [OF pallet run1 assms(6)] w1 assms(11) unfolding wr_keeps_def by fastforce
  obtain b' where w3: "WorkerClusters st3 cid = Some (?w b')"
    using wr_pallet.reachable_keeps [OF pallet run2 assms(9)] w2 assms(11) unfolding wr_keeps_def by fastforce
  have "reported from_slice h (?w b) = reported from_slice h (?w c)" for c by (simp add: reported_def)
  moreover have "wr_offchain_worker host sg from_slice h st2 (block_number sys) =
      [SendSignedAny (\<lambda>acc. VerifyConnection cid (reported from_slice h (?w b)))]"
    using wr_node.reachable_pings [OF assms(1) run2] assms(11) wr_node.worker_pings(1) [OF assms(1) _ assms(8,7) w2]
    by auto
  ultimately show ?thesis
    using w3 assms(10) by (intro exI [of _ "?w (reported from_slice h (?w b))"]) (auto simp: verify_connection_eq)
qed

end
