(* ===== verification/Chain_Execution.thy ===== *)
theory Chain_Execution
  imports Accountability Worker_Offchain
begin

text \<open>
  Properties of the chain as blocks execute it: the pallets and their offchain worker behind the signed extensions,
  the unsigned validators and the executive.
\<close>

section \<open>A concrete chain\<close>

text \<open>Substrate's pallets only count the signed extrinsics; account 1 holds the sudo key.\<close>

definition chain_host :: "(nat raw_origin, nat, unit, nat, unit) runtime_host" where
  "chain_host = \<lparr>rt_bounded = vec_ops, rt_wr_host = sum_host, rt_dispatch_other = (\<lambda>sys orig c x. Ok x)\<rparr>"

lemma chain_host_simps [simp]: "rt_bounded chain_host = vec_ops" "rt_wr_host chain_host = sum_host"
  by (simp_all add: chain_host_def)

definition chain_executive :: "(nat, u64 \<times> u64, unit, unit, unit, nat) executive_host" where
  "chain_executive = plain_executive chain_host counting_extensions (\<lambda>p s. False) (\<lambda>c. False) (\<lambda>a. a = 1)"

lemma chain_node: "wr_node (rt_wr_host chain_host) decode_u32"
  using sum_node.wr_node_axioms by simp

lemma chain_executive_ok: "executive chain_host counting_extensions (\<lambda>p s. False) (\<lambda>c. False) chain_executive"
  unfolding chain_executive_def by (rule plain.executive_axioms)

lemma counting_pass [simp]: "pre_dispatch (SignedExtra counting_extensions) who extra c x = Inr (Suc x)"
  by (simp add: SignedExtra_def counting_extensions_def Let_def)

definition no_extra :: "(u64 \<times> u64) signed_extra" where
  "no_extra = \<lparr>check_era = (2048, 0), check_nonce = 0, charge_tip = 0\<rparr>"

text \<open>Block 5: account 7 registers a cluster, and someone submits an unsigned response.\<close>

definition block_5 :: "(nat, u64 \<times> u64, unit, unit, unit) block" where
  "block_5 = (5, [SignedXt 7 no_extra (WorkerRegistration (WorkerRegister [] ip_10_0_0_1 80)),
                  UnsignedXt (EdgeConnect (SubmitResponseUnsigned 4 [65]))])"

definition after_5 :: "(nat, nat) runtime_state" where
  "after_5 = execute_blocks chain_executive [block_5] (runtime_genesis 0)"

lemma after_5_parts:
  "rt_workers after_5 = one_worker" "Responses (rt_edge after_5) = [(None, [65])]"
proof -
  have reg: "wr_dispatch sum_host (raw_system 5) (Signed 7) (WorkerRegister [] ip_10_0_0_1 80) wr_genesis = Ok one_worker"
    using one_worker_exec by simp
  show "rt_workers after_5 = one_worker" "Responses (rt_edge after_5) = [(None, [65])]"
    unfolding after_5_def block_5_def execute_blocks_def execute_block_def chain_executive_def plain_executive_def
      runtime_genesis_def
    by (simp_all add: reg Let_def valid_tx_def submit_response_unsigned_def edge_vec.add_response_eq runtime_edge_config_def
        del: wr_dispatch.simps)
qed

section \<open>Runs and storage after blocks\<close>

lemma blocks_runs:
  fixes h :: "('a raw_origin, 'a, 'oc, 'x, 'oe) runtime_host" and verify :: "'p response_payload \<Rightarrow> 'sig \<Rightarrow> bool"
  assumes "executive h eh verify other ex"
  shows "(\<exists>k \<le> length (actions bs). runs (edge_exec runtime_edge_config (rt_bounded h) :: ('a raw_origin, 'a, 'p, 'sig) edge_label \<Rightarrow> _)
      k (rt_edge s) (rt_edge (execute_blocks ex bs s))) \<and>
    (\<exists>k \<le> length (actions bs). runs (wr_exec (rt_wr_host h) :: ('a raw_origin, 'a) wr_label \<Rightarrow> _)
      k (rt_workers s) (rt_workers (execute_blocks ex bs s)))"
  using trace_runs_edge [OF executive.blocks_trace [OF assms]] trace_runs_workers [OF executive.blocks_trace [OF assms]]
  by blast

lemma actions_append [simp]: "actions (bs @ bs') = actions bs @ actions bs'"
  by (simp add: actions_def)

lemma length_actions: "length (actions bs) = sum_list (map (length \<circ> snd) bs)"
  by (induction bs) (auto simp: actions_def)

section \<open>Properties\<close>

text \<open>
  C6. Executing blocks refines calling the pallets: whatever signed, unsigned and sudo extrinsics the blocks hold, and
  whatever the signed extensions and Substrate's pallets do meanwhile, the storage of each of the two pallets
  afterwards is the result of a run of its own calls, at most one per extrinsic. From genesis and below 2^64
  extrinsics, the logs are therefore within their limits and explained by the events, the worker tables
  consistent, and the ping keys exact. (Root calls that write raw storage are not among the extrinsics considered.)
\<close>
theorem blocks_refine_runs:
  fixes h :: "('a raw_origin, 'a, 'oc, 'x, 'oe) runtime_host" and verify :: "'p response_payload \<Rightarrow> 'sig \<Rightarrow> bool"
  assumes "executive h eh verify other ex"
  shows "(\<exists>k \<le> sum_list (map (length \<circ> snd) bs).
      runs (edge_exec runtime_edge_config (rt_bounded h) :: ('a raw_origin, 'a, 'p, 'sig) edge_label \<Rightarrow> _)
        k (rt_edge s) (rt_edge (execute_blocks ex bs s))) \<and>
    (\<exists>k \<le> sum_list (map (length \<circ> snd) bs).
      runs (wr_exec (rt_wr_host h) :: ('a raw_origin, 'a) wr_label \<Rightarrow> _)
        k (rt_workers s) (rt_workers (execute_blocks ex bs s))) \<and>
    (bounded_vec (rt_bounded h) \<and> wr_node (rt_wr_host h) decode_block \<and> sum_list (map (length \<circ> snd) bs) < 2 ^ 64 \<longrightarrow>
      edge_inv runtime_edge_config (rt_edge (execute_blocks ex bs (runtime_genesis x))) \<and>
      wr_inv (rt_workers (execute_blocks ex bs (runtime_genesis x))) \<and>
      ping_inv (rt_wr_host h) (rt_workers (execute_blocks ex bs (runtime_genesis x))))"
proof (intro conjI impI)
  note runs = blocks_runs [OF assms, unfolded length_actions]
  show "\<exists>k \<le> sum_list (map (length \<circ> snd) bs).
      runs (edge_exec runtime_edge_config (rt_bounded h) :: ('a raw_origin, 'a, 'p, 'sig) edge_label \<Rightarrow> _)
        k (rt_edge s) (rt_edge (execute_blocks ex bs s))"
    "\<exists>k \<le> sum_list (map (length \<circ> snd) bs).
      runs (wr_exec (rt_wr_host h) :: ('a raw_origin, 'a) wr_label \<Rightarrow> _)
        k (rt_workers s) (rt_workers (execute_blocks ex bs s))"
    using runs by blast+
  assume a: "bounded_vec (rt_bounded h) \<and> wr_node (rt_wr_host h) decode_block \<and> sum_list (map (length \<circ> snd) bs) < 2 ^ 64"
  have gen: "rt_edge (runtime_genesis x) = edge_genesis" "rt_workers (runtime_genesis x) = wr_genesis"
    by (simp_all add: runtime_genesis_def)
  obtain k where "runs (edge_exec runtime_edge_config (rt_bounded h) :: ('a raw_origin, 'a, 'p, 'sig) edge_label \<Rightarrow> _)
      k edge_genesis (rt_edge (execute_blocks ex bs (runtime_genesis x)))"
    using runs [of bs "runtime_genesis x"] unfolding gen by blast
  then show "edge_inv runtime_edge_config (rt_edge (execute_blocks ex bs (runtime_genesis x)))"
    using edge_pallet.runs_edge_inv [OF edge_palletI] a by blast
  obtain l where l: "l \<le> sum_list (map (length \<circ> snd) bs)"
    "runs (wr_exec (rt_wr_host h) :: ('a raw_origin, 'a) wr_label \<Rightarrow> _)
      l wr_genesis (rt_workers (execute_blocks ex bs (runtime_genesis x)))"
    using runs [of bs "runtime_genesis x"] unfolding gen by blast
  with a have small: "l < 2 ^ 64" by linarith
  have "wr_pallet (rt_wr_host h)" using a by (simp add: wr_node_def)
  then show "wr_inv (rt_workers (execute_blocks ex bs (runtime_genesis x)))"
    using wr_pallet.reachable_inv(1) l(2) small by blast
  show "ping_inv (rt_wr_host h) (rt_workers (execute_blocks ex bs (runtime_genesis x)))"
    using wr_node.reachable_pings l(2) small a by blast
qed

theorem blocks_refine_runs_witness:
  "edge_inv runtime_edge_config (rt_edge after_5) \<and> wr_inv (rt_workers after_5) \<and> ping_inv sum_host (rt_workers after_5)"
  unfolding after_5_def
  using blocks_refine_runs [OF chain_executive_ok, where bs = "[block_5]" and x = 0 and decode_block = decode_u32,
      THEN conjunct2, THEN conjunct2] chain_node
  by (simp add: block_5_def)

text \<open>
  C4. Everything in storage has an author. After any blocks from genesis: the commands are, in order, among the commands sent
  by extrinsics, each under the account of its extrinsic; the responses likewise, the anonymous ones being raw or
  having a payload whose signature verifies; every cluster was registered by its account with its name,
  address and port in its start block; a status that is set was set by an extrinsic; and every task was
  scheduled by its owner with its text in its block. The account of an extrinsic is its signer, or the
  account as which the sudo pallet dispatches its call; root calls that write raw storage are not considered.
\<close>
theorem storage_accountable:
  fixes bs :: "('a, 'era, 'p, 'sig, 'oc) block list" and x :: 'x
  assumes "executive h eh verify other ex" and "bounded_vec (rt_bounded h)"
  defines "t \<equiv> execute_blocks ex bs (runtime_genesis x)"
  shows "subseq (Commands (rt_edge t)) (List.map_filter command_of (actions bs)) \<and>
    subseq (Responses (rt_edge t)) (List.map_filter (response_of verify) (actions bs)) \<and>
    (\<forall>cid w. WorkerClusters (rt_workers t) cid = Some w \<longrightarrow>
      (w_start_block w, Some (w_account w), WorkerRegistration (WorkerRegister (w_name w) (w_ip w) (w_port w)))
        \<in> set (actions bs) \<and>
      (w_status w \<longrightarrow> (\<exists>n who. (n, Some who, WorkerRegistration (VerifyConnection cid True)) \<in> set (actions bs)))) \<and>
    (\<forall>i ti. Tasks (rt_workers t) i = Some ti \<longrightarrow>
      (t_create_block ti, Some (t_task_owner ti), WorkerRegistration (TaskScheduler (t_metadata ti))) \<in> set (actions bs))"
proof -
  have "pallet_trace h verify edge_genesis wr_genesis (actions bs) (rt_edge t) (rt_workers t)"
    using executive.blocks_trace [OF assms(1), of "runtime_genesis x" bs]
    unfolding t_def by (simp add: runtime_genesis_def)
  from trace_justified [OF this assms(2)] show ?thesis unfolding workers_justified_def .
qed

theorem storage_accountable_witness:
  "(5, Some 7, WorkerRegistration (WorkerRegister [] ip_10_0_0_1 80)) \<in> set (actions [block_5]) \<and>
   subseq [(None, [65])] (List.map_filter (response_of (\<lambda>p s. False)) (actions [block_5]))"
  using storage_accountable [OF chain_executive_ok, where bs = "[block_5]" and x = 0]
  by (auto simp: after_5_def [symmetric] after_5_parts worker_7_def split: if_splits)

text \<open>
  C17. Without an account one can only respond: blocks whose extrinsics are all unsigned, or root calls of the sudo
  pallet to one of the two pallets, leave the worker registry, the connection and the commands as they are; responses
  are only appended, all anonymous and each with its event, and they are, in order, among the responses of the extrinsics
  that are raw or whose signed payload verifies. The transaction pool does not even take an unsigned call to
  worker-registration. Nothing is assumed of signed extrinsics or of root calls to other pallets.
\<close>
theorem unsigned_extrinsics_only_respond:
  fixes bs :: "('a, 'era, 'p, 'sig, 'oc) block list" and s :: "('a, 'x) runtime_state"
  assumes "accountless_executive h verify other ex" and "bounded_vec (rt_bounded h)"
    and "\<forall>b \<in> set bs. \<forall>xt \<in> set (snd b). accountless xt"
  defines "t \<equiv> execute_blocks ex bs s"
  shows "rt_workers t = rt_workers s \<and> Connection (rt_edge t) = Connection (rt_edge s) \<and>
    Commands (rt_edge t) = Commands (rt_edge s) \<and>
    (\<exists>rs. Responses (rt_edge t) = Responses (rt_edge s) @ map (Pair None) rs \<and>
       edge_events (rt_edge t) = edge_events (rt_edge s) @ map (\<lambda>r. NewResponse r None) rs \<and>
       subseq rs (List.map_filter (action_response verify) (actions bs))) \<and>
    \<not> accepted (runtime_validate_unsigned verify other (WorkerRegistration wc))"
proof -
  have "xt_actor xt = None" if "accountless xt" for xt :: "('a, 'era, 'p, 'sig, 'oc) extrinsic"
    using that by (cases xt rule: accountless.cases) simp_all
  then have none: "\<forall>a \<in> set (actions bs). fst (snd a) = None" using assms(3) by (auto simp: actions_def)
  have "pallet_trace h verify (rt_edge s) (rt_workers s) (actions bs) (rt_edge t) (rt_workers t)"
    unfolding t_def by (rule accountless_executive.accountless_trace [OF assms(1)]) (use assms(3) in blast)
  from trace_without_account [OF this assms(2) none] show ?thesis unfolding responded_def by auto
qed

theorem unsigned_extrinsics_only_respond_witness:
  "rt_workers (execute_blocks chain_executive [(6, [UnsignedXt (WorkerRegistration (VerifyConnection 0 True)),
      SudoXt 1 no_extra () None (WorkerRegistration (VerifyConnection 0 True))])] after_5) = one_worker"
proof -
  note ok = executive.promises_accountless [OF chain_executive_ok]
  have "rt_workers (execute_blocks chain_executive [(6, [UnsignedXt (WorkerRegistration (VerifyConnection 0 True)),
      SudoXt 1 no_extra () None (WorkerRegistration (VerifyConnection 0 True))])] after_5) = rt_workers after_5"
    by (rule conjunct1 [OF unsigned_extrinsics_only_respond [OF ok]]) simp_all
  then show ?thesis by (simp add: after_5_parts)
qed

text \<open>
  C5. The whole round of a worker. Blocks from genesis leave a cluster that is the newest registered in block \<open>bn\<close>. The offchain
  worker of that block, on a node with a key and off-chain indexing, makes exactly one request, a signed call for this cluster with the status
  that it fetched from the registered address. The transaction that the runtime builds for that call, for any account
  and nonce, names that account; and once any further blocks later an extrinsic with it passes the signed
  extensions, the cluster has on chain exactly its registered data and that status.
\<close>
theorem offchain_round:
  fixes bs bs' :: "('a, 'era, 'p, 'sig, 'oc) block list" and x :: 'x
    and h :: "('a raw_origin, 'a, 'oc, 'x, 'oe) runtime_host"
    and th :: "(('p, 'sig, 'oc) runtime_call, 'pub, 'txsig, 'pl, 'era) tx_host"
  assumes "executive h eh verify other ex" and "wr_node (rt_wr_host h) decode_block" and "signed_payloads th"
    and "length (actions (bs @ bs')) < 2 ^ 64" and "can_sign_any sg"
    and "newest (rt_workers (execute_blocks ex bs (runtime_genesis x))) cid bn"
    and "WorkerClusters (rt_workers (execute_blocks ex bs (runtime_genesis x))) cid = Some w"
    and "create_transaction th (raw_system bn) (WorkerRegistration (VerifyConnection cid (reported from_slice http w)))
      public acc nonce = Some (c, addr, sig, extra)"
    and "pre_dispatch (SignedExtra eh) acc extra c (rt_other (execute_blocks ex (bs @ bs') (runtime_genesis x))) = Inr y"
  shows "wr_offchain_worker (rt_wr_host h) sg from_slice http (rt_workers (execute_blocks ex bs (runtime_genesis x))) bn =
      [SendSignedAny (\<lambda>a. VerifyConnection cid (reported from_slice http w))] \<and>
    addr = Id acc \<and>
    WorkerClusters (rt_workers (ex_apply ex n (SignedXt acc extra c) (execute_blocks ex (bs @ bs') (runtime_genesis x)))) cid =
      Some (w\<lparr>w_status := reported from_slice http w\<rparr>)"
proof -
  let ?t1 = "execute_blocks ex bs (runtime_genesis x)" and ?t2 = "execute_blocks ex (bs @ bs') (runtime_genesis x)"
  have t2: "?t2 = execute_blocks ex bs' ?t1" by (simp add: execute_blocks_def)
  have pallet: "wr_pallet (rt_wr_host h)" using assms(2) by (simp add: wr_node_def)
  obtain k l where k: "k \<le> length (actions bs)"
      "runs (wr_exec (rt_wr_host h) :: ('a raw_origin, 'a) wr_label \<Rightarrow> _) k wr_genesis (rt_workers ?t1)"
    and l: "l \<le> length (actions bs')"
      "runs (wr_exec (rt_wr_host h) :: ('a raw_origin, 'a) wr_label \<Rightarrow> _) l (rt_workers ?t1) (rt_workers ?t2)"
    using blocks_runs [OF assms(1), of bs "runtime_genesis x"] blocks_runs [OF assms(1), of bs' ?t1] t2
    by (auto simp: runtime_genesis_def)
  have small: "k + l < 2 ^ 64" "k < 2 ^ 64" using k(1) l(1) assms(4) by simp_all
  obtain b where w2: "WorkerClusters (rt_workers ?t2) cid = Some (w\<lparr>w_status := b\<rparr>)"
    using wr_pallet.reachable_keeps [OF pallet k(2) l(2) small(1)] assms(7) by (auto simp: wr_keeps_def)
  have c: "c = WorkerRegistration (VerifyConnection cid (reported from_slice http w))" "addr = Id acc"
    using assms(8) by (auto simp: signed_payloads.create_transaction_eq [OF assms(3)] Let_def split: sum.splits)
  obtain z where "ex_apply ex n (SignedXt acc extra c) ?t2 = dispatched h n (Signed acc) c z (?t2\<lparr>rt_other := y\<rparr>)"
    using executive.signed_applied [OF assms(1,9)] by blast
  then have "rt_workers (ex_apply ex n (SignedXt acc extra c) ?t2) =
      workers_after h n (Signed acc) c (rt_workers ?t2)"
    by (simp add: dispatched_after)
  then have "WorkerClusters (rt_workers (ex_apply ex n (SignedXt acc extra c) ?t2)) cid =
      Some (w\<lparr>w_status := reported from_slice http w\<rparr>)"
    using w2 by (simp add: c verify_connection_eq)
  moreover have "wr_offchain_worker (rt_wr_host h) sg from_slice http (rt_workers ?t1) bn =
      [SendSignedAny (\<lambda>a. VerifyConnection cid (reported from_slice http w))]"
    using wr_node.worker_pings(1) [OF assms(2) wr_node.reachable_pings [OF assms(2) k(2) small(2)] assms(5-7)] .
  ultimately show ?thesis using c(2) by blast
qed

text \<open>A host that builds transactions for calls of the runtime.\<close>

definition call_tx_host ::
  "((unit, unit, unit) runtime_call, nat, nat, (unit, unit, unit) runtime_call \<times> (u64 \<times> u64) signed_extra, u64 \<times> u64) tx_host" where
  "call_tx_host =
     \<lparr>era_mortal = Pair, signed_payload_new = (\<lambda>c e. Inr (c, e)), using_encoded = (\<lambda>p. []),
      crypto_sign = (\<lambda>b k. Some k), deconstruct = (\<lambda>p. p)\<rparr>"

interpretation call_tx: signed_payloads call_tx_host
  by unfold_locales (simp add: call_tx_host_def)

theorem offchain_round_witness:
  "WorkerClusters (rt_workers (ex_apply chain_executive 6
     (SignedXt 3 \<lparr>check_era = (2048, 4), check_nonce = 0, charge_tip = 0\<rparr> (WorkerRegistration (VerifyConnection 0 True)))
     after_5)) 0 = Some (worker_7\<lparr>w_status := True\<rparr>)"
proof -
  let ?json = "\<lambda>b. Inr \<lparr>deployment_status = True\<rparr>" and ?e = "\<lparr>check_era = (2048, 4), check_nonce = 0, charge_tip = 0\<rparr>"
  have rep: "reported ?json (answering 200 [65]) worker_7"
    by (simp add: reported_def fetch_cluster_status_def http_call_def answering_def)
  have tx: "create_transaction call_tx_host (raw_system 5) (WorkerRegistration (VerifyConnection 0 True)) 8 (3::nat) 0 =
      Some (WorkerRegistration (VerifyConnection 0 True), Id 3, 8, ?e)"
    unfolding call_tx.create_transaction_eq by (simp add: call_tx_host_def saturating_sub_u64_def Let_def)
  have new: "newest (rt_workers (execute_blocks chain_executive [block_5] (runtime_genesis 0))) 0 5"
    "WorkerClusters (rt_workers (execute_blocks chain_executive [block_5] (runtime_genesis 0))) 0 = Some worker_7"
    using one_worker_newest by (simp_all add: after_5_def [symmetric] after_5_parts)
  have "length (actions ([block_5] @ [])) < 2 ^ 64" by (simp add: actions_def block_5_def)
  from offchain_round [OF chain_executive_ok chain_node call_tx.signed_payloads_axioms this _ new, of
      "one_account () ()" ?json "answering 200 [65]" 8 3 0 "WorkerRegistration (VerifyConnection 0 True)" "Id 3" 8 ?e
      "Suc (rt_other after_5)" 6]
  show ?thesis using tx rep by (simp add: one_account_def after_5_def)
qed

end
