(* ===== verification/Spec2Isabelle.thy ===== *)
theory Spec2Isabelle
  imports Edge_Schedule Node_Command Runtime_Api Call_Weights Chain_Execution
begin

text \<open>
  \<^bold>\<open>Cyborg chain: a verification development\<close>

  \<^bold>\<open>The program.\<close> A Substrate node with two pallets of its own. \<open>pallets/edge-connect\<close> keeps one connection to an edge
  server, a bounded log of commands and a bounded log of responses, which its offchain worker fetches over HTTP
  and submits in four kinds of transactions. \<open>pallets/worker-registration\<close> keeps a registry of worker clusters and
  of tasks; a registration leaves a note in the node's off-chain database, from which its offchain worker finds the
  cluster, asks it for its status, and submits \<open>verify_connection\<close>. \<open>runtime/\<close> configures the pallets and composes
  them with Substrate's; \<open>node/\<close> holds the chain specifications, the command line and the service.

  \<^bold>\<open>How it is modelled.\<close> A pallet's storage is a record with one field per storage item, and a list of the events
  deposited so far. A dispatchable function is a HOL function from its arguments and the storage to an \<open>outcome\<close>:
  \<open>Ok\<close> with the storage, \<open>Err\<close> with the error and the storage as the function left it, or \<open>Panic\<close>; every guard, early
  return and panic of the source is a branch, in the source's order. Integers are words of their Rust width and
  wrap, as in a release build. Strings are byte lists, with UTF-8 validity as a predicate. Substrate, the HTTP
  client, the hash and the encodings are not part of the repository: they are records of functions that the
  definitions take as arguments, and what the code relies on is the locale of that interface, a hypothesis of
  the properties that need it; each locale is interpreted on a concrete instance, which the witnesses use.

  \<^bold>\<open>Theories.\<close>

  \<^item> \<open>Prelude\<close>: integer widths, outcomes, runs of calls, and the locales \<open>call_machine\<close> (an invariant indexed by the
    number of calls), \<open>call_growth\<close> (a preorder along runs) and \<open>machine_part\<close> (runs of a composed machine project
    to runs of a component). A run keeps the storage of a failed call, so no property relies on a rollback.
  \<^item> \<open>Rust_Std\<close>: strings, UTF-8, decimal printing and joining, powers of two, saturating subtraction.
  \<^item> \<open>Frame\<close>, \<open>Offchain\<close>: the interfaces of Substrate on chain (origins, bounded vectors, map iteration, encoding)
    and off chain (HTTP, signer and pool, atomic local storage).
  \<^item> \<open>Edge_Connect\<close> (\<open>pallets/edge-connect/src/lib.rs\<close>, on chain): the six calls, \<open>add_response\<close>, \<open>validate_unsigned\<close>.
    Shown: behaviour of each call on every branch; the storage bounds in all runs; that the events determine the
    storage (an abstract connection with two logs, refined by the pallet); that failures change nothing; that a
    full command log stays full; that the cool-down of unsigned transactions is not enforced.
  \<^item> \<open>Edge_Offchain\<close> (the same file, off chain): \<open>fetch_response\<close>, \<open>choose_transaction_type\<close>, the four senders and the
    hook. Shown: what is fetched; exactly which request each run makes; that concurrent workers, as a step relation of reads
    and compare-and-set writes, send at blocks a grace period apart; and that the pallet accepts every call built.
  \<^item> \<open>Worker_Registration\<close> (\<open>pallets/worker-registration/src/lib.rs\<close>, on chain): \<open>worker_register\<close>, \<open>task_scheduler\<close>,
    \<open>verify_connection\<close>. Shown: the consistency of the tables in all runs, totality of the scheduler, exact
    behaviour of each call, that nothing recorded is lost, and which errors can occur. Both identifier tables
    are instances of the locale \<open>id_table\<close>.
  \<^item> \<open>Worker_Ledger\<close>: the abstract ledger that the events determine and the storage refines; how tasks are spread;
    what a printed address identifies.
  \<^item> \<open>Worker_Offchain\<close> (the same file, off chain): \<open>http_call\<close>, \<open>fetch_cluster_status\<close> and the hook. Shown: what each ping
    key holds in all runs, hence exactly which clusters are pinged, and the round from registration to status.
  \<^item> \<open>Edge_Schedule\<close>: the edge-connect offchain worker of one node and the pallet over consecutive blocks that include what it
    submits. Shown: the node falls into a period of twelve blocks with three requests; one of the four kinds of
    transactions is never sent, as the chain's next unsigned block is always ahead at its turn.
  \<^item> \<open>Cyborg_Runtime\<close> (\<open>runtime/src/lib.rs\<close>, and \<open>create_benchmark_extrinsic\<close> of \<open>node/src/benchmarking.rs\<close>): constants,
    \<open>deposit\<close>, the period of mortal transactions, \<open>create_transaction\<close>, and the composed runtime.
  \<^item> \<open>Block_Limits\<close> (the same file): the weights of the classes of extrinsics, over a builder with documented promises.
    Shown: the classes share a block exactly.
  \<^item> \<open>Call_Weights\<close>: the weights that both pallets declare for their calls. Shown: what a list of calls takes of a block,
    that reports weigh nothing, and how many calls fit into the normal share.
  \<^item> \<open>Runtime_Api\<close> (the same file): the configuration of Substrate's pallets, the runtime APIs with the one for
    benchmarks, and the native executor of \<open>node/src/service.rs\<close>. Shown: the
    slots and the default gas that the node gets through them.
  \<^item> \<open>Runtime_Blocks\<close> (the same file): \<open>SignedExtra\<close>, the unsigned validators put together, extrinsics and blocks, over an
    executive with its promises as a locale, and a weaker locale for extrinsics without an account. A block is a trace of actions on the two pallets, and traces are runs.
  \<^item> \<open>Accountability\<close>: along a trace, every entry in storage is justified by an action, and actions without an account
    can only respond. Also an executive that satisfies the promises.
  \<^item> \<open>Chain_Execution\<close>: the properties of blocks: they refine runs of the pallets, everything stored has an author,
    unsigned extrinsics can only respond, and the round of the worker-registration offchain worker from the
    registration to the status on chain, through the transaction that the runtime builds.
  \<^item> \<open>Chain_Spec\<close> (\<open>node/src/chain_spec.rs\<close>, \<open>load_spec\<close> of \<open>node/src/command.rs\<close>): the built-in chains and their genesis.
  \<^item> \<open>Node_Service\<close> (\<open>node/src/service.rs\<close>, \<open>node/src/rpc.rs\<close>): \<open>new_partial\<close>, \<open>new_full\<close> and \<open>create_full\<close> as fallible
    builds that list their effects, over the constructors of Substrate as parameters. Shown: the tasks that the service spawns and the
    keys it generates in each configuration, that the network is opened last and never by a failed start, when a start panics, and that it
    succeeds if Substrate does.
  \<^item> \<open>Node_Command\<close> (\<open>node/src/cli.rs\<close>, \<open>run\<close> of \<open>node/src/command.rs\<close>, the builders of \<open>node/src/benchmarking.rs\<close>): the
    command line as a build on top of the service. Shown: what each subcommand does and does not do, and that
    benchmark extrinsics carry what the runtime's own transactions carry.
  \<^item> This theory: the properties of the composed runtime under calls in any order, inherited from the pallets by
    projection of runs.

  \<^bold>\<open>Bounds.\<close> There is no fuel: every loop of the source is structural recursion or a function of the library. The
  properties of worker registration assume runs of fewer than \<open>2 ^ 64\<close> calls: each call increases each 64-bit
  identifier counter by at most one, so no counter wraps within that bound. The schedule of the edge-connect worker is
  stated for block numbers whose sums with the grace period do not wrap.

  \<^bold>\<open>Not modelled.\<close> Log lines; imports, type aliases and the types of a configuration that select an implementation,
  among them the \<open>AppCrypto\<close> modules of the pallets; the try-runtime API, which exists only with a cargo feature
  with which it does not build (it names a type without the function it calls); \<open>weights.rs\<close>, a trait without methods; the
  handles that the service only passes on; entry points and build scripts; commented-out code; the tests of a pallet
  template that no longer match, and the runtime's test of Substrate's storage keys. Root calls that write raw
  storage or set the code can change anything and are not covered by the runs of the composed runtime, nor by blocks. Tasks
  that Substrate's parts spawn on their own and what a job of the command line does are Substrate's. The offchain worker of
  worker registration is modelled on a node with off-chain indexing enabled.

  \<^bold>\<open>Plan.\<close> Left to do: the protection against replayed transactions that \<open>CheckNonce\<close> and \<open>CheckEra\<close> give the transactions of
  the offchain workers, and the schedule of several nodes.
\<close>

section \<open>A concrete runtime\<close>

definition demo_host :: "(nat raw_origin, nat, unit, unit, unit) runtime_host" where
  "demo_host = \<lparr>rt_bounded = vec_ops, rt_wr_host = sum_host, rt_dispatch_other = (\<lambda>sys orig c x. Ok x)\<rparr>"

lemma demo_host_simps [simp]: "rt_bounded demo_host = vec_ops" "rt_wr_host demo_host = sum_host"
  by (simp_all add: demo_host_def)

abbreviation demo_exec :: "(nat raw_origin, nat, unit, unit, unit) runtime_label \<Rightarrow> (nat, unit) runtime_state
    \<Rightarrow> ((nat, unit) runtime_state, unit runtime_error) outcome" where
  "demo_exec \<equiv> runtime_exec demo_host"

text \<open>The runtime after a connection was made and \<open>k\<close> commands were sent by account 7.\<close>

definition sent :: "nat \<Rightarrow> (nat, unit) runtime_state" where
  "sent k = (runtime_genesis ())\<lparr>rt_edge :=
     \<lparr>Connection = Some 5, Commands = replicate k (Some 7, str ''ping''), Responses = [], NextUnsignedAt = 0,
      edge_events = ConnectionCreated 5 7 # replicate k (CommandSent (str ''ping'') 7)\<rparr>\<rparr>"

lemma runtime_edge_config_simps [simp]:
  "MaxCommand runtime_edge_config = 10" "MaxResponses runtime_edge_config = 1000"
  "MaxStringLength runtime_edge_config = 1000" "GracePeriod runtime_edge_config = 3"
  "UnsignedInterval runtime_edge_config = 3"
  by (simp_all add: runtime_edge_config_def)

lemma runtime_genesis_simps [simp]:
  "rt_edge (runtime_genesis x) = edge_genesis" "rt_workers (runtime_genesis x) = wr_genesis"
  by (simp_all add: runtime_genesis_def)

lemma sent_0: "demo_exec (raw_system 1, Signed 7, EdgeConnect (CreateConnection 5)) (runtime_genesis ()) = Ok (sent 0)"
  by (simp add: create_connection_def sent_def runtime_genesis_def edge_genesis_def edge_deposit_event_def)

lemma sent_Suc:
  "k < 10 \<Longrightarrow> demo_exec (raw_system 1, Signed 7, EdgeConnect (SendCommand (str ''ping''))) (sent k) = Ok (sent (Suc k))"
  by (simp add: edge_vec.send_command_eq sent_def edge_deposit_event_def str_simps replicate_append_same
      del: replicate.simps) (simp add: replicate_append_same)

lemma sent_run: "k \<le> 10 \<Longrightarrow> runs demo_exec (Suc k) (runtime_genesis ()) (sent k)"
proof (induction k)
  case 0
  show ?case using runs_ok [where exec = demo_exec, OF runs_refl sent_0] .
next
  case (Suc k)
  then show ?case using runs_ok [where exec = demo_exec, OF _ sent_Suc [of k]] by simp
qed

section \<open>Facts that runs of the runtime inherit from the pallets\<close>

lemma runtime_edge_inv:
  assumes "bounded_vec (rt_bounded h)"
    and "runs (runtime_exec h :: ('o, 'a, 'p, 'sig, 'oc) runtime_label \<Rightarrow> _) n (runtime_genesis x) s"
  shows "edge_inv runtime_edge_config (rt_edge s)"
proof -
  obtain k where k: "runs (edge_exec runtime_edge_config (rt_bounded h) :: ('o, 'a, 'p, 'sig) edge_label \<Rightarrow> _) k
      edge_genesis (rt_edge s)"
    using edge_part.runs_part [OF assms(2)] by auto
  show ?thesis by (rule edge_pallet.runs_edge_inv [OF edge_palletI [OF assms(1)] k])
qed

lemma runtime_wr_inv:
  assumes "wr_pallet (rt_wr_host h)" and "n < 2 ^ 64"
    and "runs (runtime_exec h :: ('o, 'a, 'p, 'sig, 'oc) runtime_label \<Rightarrow> _) n (runtime_genesis x) s"
  shows "wr_inv (rt_workers s)"
proof -
  obtain k where k: "k \<le> n" "runs (wr_exec (rt_wr_host h) :: ('o, 'a) wr_label \<Rightarrow> _) k wr_genesis (rt_workers s)"
    using worker_part.runs_part [OF assms(3)] by auto
  show ?thesis by (rule wr_pallet.reachable_inv(1) [OF assms(1) k(2)]) (use k assms(2) in linarith)
qed

section \<open>Properties of the whole runtime\<close>

text \<open>
  C2. In every state that fewer than 2^64 calls to any pallets, interleaved in any way, can produce from genesis:
  there are at most 10 commands, all pings sent by an account, and at most 1000 responses, each valid
  UTF-8 of at most 1000 bytes; accounts and worker clusters are in bijection; and every task has an owner and is
  allocated to the account of an existing cluster.
\<close>
theorem runtime_state_consistent:
  assumes "bounded_vec (rt_bounded h)" and "wr_pallet (rt_wr_host h)" and "n < 2 ^ 64"
    and "runs (runtime_exec h) n (runtime_genesis x) s"
  shows "length (Commands (rt_edge s)) \<le> 10 \<and> length (Responses (rt_edge s)) \<le> 1000 \<and>
    (\<forall>(w, b) \<in> set (Commands (rt_edge s)). w \<noteq> None \<and> b = str ''ping'') \<and>
    (\<forall>(w, b) \<in> set (Responses (rt_edge s)). utf8_valid b \<and> length b \<le> 1000) \<and>
    (\<forall>a cid. WorkerAccounts (rt_workers s) a = Some cid \<longleftrightarrow>
       (\<exists>w. WorkerClusters (rt_workers s) cid = Some w \<and> w_account w = a)) \<and>
    (\<forall>t ti. Tasks (rt_workers s) t = Some ti \<longrightarrow> TaskOwners (rt_workers s) t = Some (t_task_owner ti) \<and>
       (\<exists>a. TaskAllocations (rt_workers s) t = Some a \<and> WorkerAccounts (rt_workers s) a = Some (t_assigned_worker ti)))"
proof -
  have edge: "edge_inv runtime_edge_config (rt_edge s)" using assms(1,4) by (rule runtime_edge_inv)
  have wr: "wr_inv (rt_workers s)" using assms(2-4) by (rule runtime_wr_inv)
  then have cl: "clusters_inv (rt_workers s)" and tk: "tasks_inv (rt_workers s)" by (simp_all add: wr_inv_def)
  have "TaskOwners (rt_workers s) t = Some (t_task_owner ti)"
    "\<exists>a. TaskAllocations (rt_workers s) t = Some a \<and> WorkerAccounts (rt_workers s) a = Some (t_assigned_worker ti)"
    if "Tasks (rt_workers s) t = Some ti" for t ti
    using tasks_inv_facts(3,4) [OF tk that] by blast+
  then show ?thesis
    using edge clusters_inv_facts(2) [OF cl] unfolding edge_inv_def by simp
qed

theorem runtime_state_consistent_witness:
  "length (Commands (rt_edge (sent 10))) \<le> 10 \<and> Commands (rt_edge (sent 10)) \<noteq> []"
  using runtime_state_consistent [OF _ _ _ sent_run [of 10]] sum_pallet.wr_pallet_axioms
  by (simp add: sent_def)

text \<open>
  C15. The runtime takes ten commands in its life: once ten are stored, whatever calls to whatever pallets
  follow, the log stays as it is and \<open>send_command\<close> fails for everyone.
\<close>
theorem runtime_commands_exhausted:
  fixes h :: "('o, 'a, 'oc, 'x, 'oe) runtime_host"
  assumes "bounded_vec (rt_bounded h)"
    and "runs (runtime_exec h :: ('o, 'a, 'p, 'sig, 'oc) runtime_label \<Rightarrow> _) m (runtime_genesis x) s"
    and "length (Commands (rt_edge s)) = 10"
    and "runs (runtime_exec h :: ('o, 'a, 'p, 'sig, 'oc) runtime_label \<Rightarrow> _) n s t"
  shows "Commands (rt_edge t) = Commands (rt_edge s) \<and>
    \<not> is_ok (runtime_exec h (sys, orig, EdgeConnect (SendCommand cmd) :: ('p, 'sig, 'oc) runtime_call) t)"
proof -
  note ep = edge_palletI [OF assms(1)]
  have inv: "edge_inv runtime_edge_config (rt_edge t)"
    using assms(1) runs_trans [OF assms(4,2)] by (rule runtime_edge_inv)
  obtain k where "runs (edge_exec runtime_edge_config (rt_bounded h) :: ('o, 'a, 'p, 'sig) edge_label \<Rightarrow> _) k (rt_edge s) (rt_edge t)"
    using edge_part.runs_part [OF assms(4)] by blast
  then have "prefix (Commands (rt_edge s)) (Commands (rt_edge t))"
    using edge_pallet.runs_prefix [OF ep] by blast
  with inv assms(3) have eq: "Commands (rt_edge t) = Commands (rt_edge s)"
    by (auto simp: edge_inv_def dest: prefix_full_eq)
  with assms(3) show ?thesis
    by (simp add: edge_pallet.send_command_eq [OF ep] split: option.split)
qed

theorem runtime_commands_exhausted_witness:
  "\<not> is_ok (demo_exec (raw_system 99, Signed 3, EdgeConnect (SendCommand (str ''ping''))) (sent 10))"
  using runtime_commands_exhausted [OF _ sent_run [of 10] _ runs_refl, of "raw_system 99" "Signed 3" "str ''ping''"]
  by (simp add: sent_def)

text \<open>
  C16. The runtime keeps a thousand responses in its life: once they are stored, whatever calls to whatever pallets follow, the log
  stays as it is, while all three calls that submit a response still return success to a caller with the right origin (and, for
  the signed one, with a connection): the response is dropped without a sign.
\<close>
theorem runtime_responses_exhausted:
  fixes h :: "('o, 'a, 'oc, 'x, 'oe) runtime_host" and sys :: "('o, 'a) frame_system" and p :: "'p response_payload" and sig :: 'sig
  assumes "bounded_vec (rt_bounded h)"
    and "runs (runtime_exec h :: ('o, 'a, 'p, 'sig, 'oc) runtime_label \<Rightarrow> _) m (runtime_genesis x) s"
    and "length (Responses (rt_edge s)) = 1000"
    and "runs (runtime_exec h :: ('o, 'a, 'p, 'sig, 'oc) runtime_label \<Rightarrow> _) n s t"
    and "utf8_valid r" and "utf8_valid (p_response p)"
  defines "keeps orig c \<equiv> \<exists>u. runtime_exec h (sys, orig, EdgeConnect c :: ('p, 'sig, 'oc) runtime_call) t = Ok u \<and>
    Responses (rt_edge u) = Responses (rt_edge s)"
  shows "Responses (rt_edge t) = Responses (rt_edge s) \<and>
    (ensure_none sys orig \<longrightarrow> keeps orig (SubmitResponseUnsigned bn r) \<and>
      keeps orig (SubmitResponseUnsignedWithSignedPayload p sig)) \<and>
    (ensure_signed sys orig \<noteq> None \<and> Connection (rt_edge t) \<noteq> None \<longrightarrow> keeps orig (SubmitResponse r))"
proof -
  note ep = edge_palletI [OF assms(1)]
  have inv: "edge_inv runtime_edge_config (rt_edge t)"
    using assms(1) runs_trans [OF assms(4,2)] by (rule runtime_edge_inv)
  obtain k where "runs (edge_exec runtime_edge_config (rt_bounded h) :: ('o, 'a, 'p, 'sig) edge_label \<Rightarrow> _) k (rt_edge s) (rt_edge t)"
    using edge_part.runs_part [OF assms(4)] by blast
  then have "prefix (Responses (rt_edge s)) (Responses (rt_edge t))"
    using edge_pallet.runs_prefix [OF ep] by blast
  with inv assms(3) have eq: "Responses (rt_edge t) = Responses (rt_edge s)"
    by (auto simp: edge_inv_def dest: prefix_full_eq)
  with assms(3,5,6) show ?thesis unfolding keeps_def
    by (auto simp: edge_pallet.call_eqs [OF ep] Let_def split: option.split)
qed

text \<open>The runtime after \<open>k\<close> unsigned responses in block 1.\<close>

definition answered_by :: "nat \<Rightarrow> (nat, unit) runtime_state" where
  "answered_by k = (runtime_genesis ())\<lparr>rt_edge :=
     \<lparr>Connection = None, Commands = [], Responses = replicate k (None, [65]), NextUnsignedAt = (if k = 0 then 0 else 4),
      edge_events = replicate k (NewResponse [65] None)\<rparr>\<rparr>"

lemma answered_run: "k \<le> 1000 \<Longrightarrow> runs demo_exec k (runtime_genesis ()) (answered_by k)"
proof (induction k)
  case 0
  show ?case using runs_refl by (simp add: answered_by_def runtime_genesis_def edge_genesis_def)
next
  case (Suc k)
  then have step: "demo_exec (raw_system 1, None_origin, EdgeConnect (SubmitResponseUnsigned 1 [65])) (answered_by k) =
      Ok (answered_by (Suc k))"
    by (simp add: answered_by_def submit_response_unsigned_def edge_vec.add_response_eq edge_deposit_event_def
        replicate_append_same del: replicate.simps) (simp add: replicate_append_same)
  show ?case by (rule runs_ok [where exec = demo_exec, OF _ step]) (use Suc in simp)
qed

theorem runtime_responses_exhausted_witness:
  "\<exists>u. demo_exec (raw_system 99, None_origin, EdgeConnect (SubmitResponseUnsigned 98 [66])) (answered_by 1000) = Ok u \<and>
     Responses (rt_edge u) = replicate 1000 (None, [65])"
  using runtime_responses_exhausted [OF _ answered_run [of 1000] _ runs_refl, of "[66]"
      "\<lparr>p_block_number = 0, p_response = [], p_public = ()\<rparr>" "raw_system 99" None_origin 98]
  by (simp add: answered_by_def del: replicate.simps)

end
